theory Spec2Isabelle
  imports Main "HOL-Library.Word"
begin

unbundle bit_operations_syntax

section \<open>Configuration and machine types\<close>

text \<open>
  The development embeds \<^verbatim>\<open>jq255.c\<close> and \<^verbatim>\<open>blake2s.c\<close> in their default curve
  configuration \<^verbatim>\<open>JQ == JQ255E\<close>, with the portable 32-bit backend (\<^verbatim>\<open>W64 == 0\<close>) and
  the portable BLAKE2s compression function. Arrays are lists, \<^verbatim>\<open>uint32_t\<close> is
  \<open>32 word\<close>, \<^verbatim>\<open>uint64_t\<close> is \<open>64 word\<close>, \<^verbatim>\<open>uint8_t\<close> and \<^verbatim>\<open>int8_t\<close> are \<open>8 word\<close>
  (an \<^verbatim>\<open>int8_t\<close> is read with \<open>sint\<close>).
\<close>

type_synonym u8 = "8 word"
type_synonym u32 = "32 word"
type_synonym u64 = "64 word"

definition MQ :: u32 where
  "MQ = 18651"

definition dec32le :: "u8 list \<Rightarrow> u32" where
  "dec32le buf = ucast (buf ! 0) OR push_bit 8 (ucast (buf ! 1))
                 OR push_bit 16 (ucast (buf ! 2)) OR push_bit 24 (ucast (buf ! 3))"

definition enc32le :: "u32 \<Rightarrow> u8 list" where
  "enc32le x = [ucast x, ucast (drop_bit 8 x), ucast (drop_bit 16 x), ucast (drop_bit 24 x)]"

text \<open>Decoding and encoding of arrays of limbs, four bytes per limb.\<close>

fun dec32le_limbs :: "nat \<Rightarrow> u8 list \<Rightarrow> u32 list" where
  "dec32le_limbs 0 buf = []"
| "dec32le_limbs (Suc n) buf = dec32le buf # dec32le_limbs n (drop 4 buf)"

definition enc32le_limbs :: "u32 list \<Rightarrow> u8 list" where
  "enc32le_limbs v = concat (map enc32le v)"

section \<open>Loops over limbs\<close>

text \<open>
  The carry loops of the source all have one of the following shapes; each is a
  recursion over the limbs, returning the limbs written and the final carry \<^verbatim>\<open>cc\<close>.
\<close>

text \<open>\<^verbatim>\<open>w = (uint64_t)a[i] + (uint64_t)b[i] + (uint64_t)cc; d[i] = (uint32_t)w; cc = (uint32_t)(w >> 32);\<close>\<close>

fun adc_loop :: "u32 list \<Rightarrow> u32 list \<Rightarrow> u32 \<Rightarrow> u32 list \<times> u32" where
  "adc_loop (a # as) (b # bs) cc =
     (let w = (ucast a :: u64) + ucast b + ucast cc;
          r = adc_loop as bs (ucast (drop_bit 32 w))
      in (ucast w # fst r, snd r))"
| "adc_loop _ _ cc = ([], cc)"

text \<open>\<^verbatim>\<open>w = (uint64_t)d[i] + (uint64_t)cc; d[i] = (uint32_t)w; cc = (uint32_t)(w >> 32);\<close>\<close>

fun carry_loop :: "u32 list \<Rightarrow> u32 \<Rightarrow> u32 list \<times> u32" where
  "carry_loop (a # as) cc =
     (let w = (ucast a :: u64) + ucast cc;
          r = carry_loop as (ucast (drop_bit 32 w))
      in (ucast w # fst r, snd r))"
| "carry_loop [] cc = ([], cc)"

text \<open>\<^verbatim>\<open>w = (uint64_t)a[i] - (uint64_t)b[i] - (uint64_t)cc; d[i] = (uint32_t)w; cc = -(uint32_t)(w >> 32);\<close>\<close>

fun sbb_loop :: "u32 list \<Rightarrow> u32 list \<Rightarrow> u32 \<Rightarrow> u32 list \<times> u32" where
  "sbb_loop (a # as) (b # bs) cc =
     (let w = (ucast a :: u64) - ucast b - ucast cc;
          r = sbb_loop as bs (- ucast (drop_bit 32 w))
      in (ucast w # fst r, snd r))"
| "sbb_loop _ _ cc = ([], cc)"

text \<open>
  The inner loop of a schoolbook product, over \<open>j\<close>:
  \<^verbatim>\<open>w = (uint64_t)x * (uint64_t)b[j] + (uint64_t)t[i + j] + (uint64_t)cc; t[i + j] = (uint32_t)w; cc = (uint32_t)(w >> 32);\<close>
  The second list is the slice \<open>t[i..]\<close>.
\<close>

fun mul_row :: "u32 \<Rightarrow> u32 list \<Rightarrow> u32 list \<Rightarrow> u32 \<Rightarrow> u32 list \<times> u32" where
  "mul_row x (b # bs) (t # ts) cc =
     (let w = (ucast x :: u64) * ucast b + ucast t + ucast cc;
          r = mul_row x bs ts (ucast (drop_bit 32 w))
      in (ucast w # fst r, snd r))"
| "mul_row x _ _ cc = ([], cc)"

text \<open>
  The outer loop of the product of \<open>a\<close> by \<open>b\<close> into the zeroed array \<open>t\<close>: row \<open>i\<close>
  rewrites \<open>t[i .. i + n - 1]\<close> and stores the carry in \<open>t[i + n]\<close>, for \<open>n\<close> the
  length of \<open>b\<close>.
\<close>

definition mul_step :: "u32 list \<Rightarrow> u32 list \<Rightarrow> u32 list \<Rightarrow> nat \<Rightarrow> u32 list" where
  "mul_step a b t i =
     (let n = length b;
          r = mul_row (a ! i) b (take n (drop i t)) 0
      in take i t @ fst r @ [snd r] @ drop (i + n + 1) t)"

definition mul_limbs :: "u32 list \<Rightarrow> u32 list \<Rightarrow> u32 list" where
  "mul_limbs a b = foldl (mul_step a b) (replicate (length a + length b) 0) [0..<length a]"

section \<open>Field elements (32-bit backend)\<close>

type_synonym gf = "u32 list"

definition gf_zero :: gf where
  "gf_zero = [0, 0, 0, 0, 0, 0, 0, 0]"

definition gf_one :: gf where
  "gf_one = [1, 0, 0, 0, 0, 0, 0, 0]"

definition gf_minus_one :: gf where
  "gf_minus_one = [- MQ - 1, 0xFFFFFFFF, 0xFFFFFFFF, 0xFFFFFFFF,
                   0xFFFFFFFF, 0xFFFFFFFF, 0xFFFFFFFF, 0x7FFFFFFF]"

text \<open>The array \<^verbatim>\<open>q[8]\<close> local to \<^verbatim>\<open>gf_finish_reduce\<close> and \<^verbatim>\<open>gf_decode\<close>.\<close>

definition gf_q :: "u32 list" where
  "gf_q = [- MQ, 0xFFFFFFFF, 0xFFFFFFFF, 0xFFFFFFFF,
           0xFFFFFFFF, 0xFFFFFFFF, 0xFFFFFFFF, 0x7FFFFFFF]"

text \<open>The array \<^verbatim>\<open>hq[8]\<close> local to \<^verbatim>\<open>gf_half\<close>: \<open>(q + 1) / 2\<close>.\<close>

definition gf_hq :: "u32 list" where
  "gf_hq = [- (drop_bit 1 MQ), 0xFFFFFFFF, 0xFFFFFFFF, 0xFFFFFFFF,
            0xFFFFFFFF, 0xFFFFFFFF, 0xFFFFFFFF, 0x3FFFFFFF]"

definition gf_partial_reduce :: "gf \<Rightarrow> u32 \<Rightarrow> gf" where
  "gf_partial_reduce d extra =
     (let cc = (push_bit 1 extra + drop_bit 31 (d ! 7)) * MQ;
          d1 = d[7 := d ! 7 AND 0x7FFFFFFF]
      in fst (carry_loop d1 cc))"

definition gf_finish_reduce :: "gf \<Rightarrow> gf" where
  "gf_finish_reduce d =
     (let r = sbb_loop d gf_q 0;
          z = - snd r
      in fst (adc_loop (fst r) (map (\<lambda>qi. z AND qi) gf_q) 0))"

definition gf_add :: "gf \<Rightarrow> gf \<Rightarrow> gf" where
  "gf_add a b = (let r = adc_loop a b 0 in gf_partial_reduce (fst r) (snd r))"

definition gf_sub :: "gf \<Rightarrow> gf \<Rightarrow> gf" where
  "gf_sub a b = (let r = sbb_loop a b (4 * MQ) in gf_partial_reduce (fst r) (2 - snd r))"

definition gf_neg :: "gf \<Rightarrow> gf" where
  "gf_neg a = gf_sub gf_zero a"

text \<open>\<^verbatim>\<open>d->v[i] = t0 ^ (ctl & (t0 ^ t1))\<close>, used by every constant-time selection.\<close>

definition gf_select :: "gf \<Rightarrow> gf \<Rightarrow> u32 \<Rightarrow> gf" where
  "gf_select a0 a1 ctl = map2 (\<lambda>t0 t1. t0 XOR (ctl AND (t0 XOR t1))) a0 a1"

definition gf_condneg :: "gf \<Rightarrow> u32 \<Rightarrow> gf" where
  "gf_condneg a ctl = gf_select a (gf_neg a) ctl"

text \<open>\<^verbatim>\<open>t = a[i]; d[i] = (t << n) | cc; cc = t >> (32 - n);\<close>\<close>

fun lsh_loop :: "nat \<Rightarrow> u32 list \<Rightarrow> u32 \<Rightarrow> u32 list \<times> u32" where
  "lsh_loop n (t # ts) cc =
     (let r = lsh_loop n ts (drop_bit (32 - n) t)
      in ((push_bit n t OR cc) # fst r, snd r))"
| "lsh_loop n [] cc = ([], cc)"

definition gf_lsh :: "gf \<Rightarrow> nat \<Rightarrow> gf" where
  "gf_lsh a n = (let r = lsh_loop n a 0 in gf_partial_reduce (fst r) (snd r))"

definition gf_mul2 :: "gf \<Rightarrow> gf" where
  "gf_mul2 a = gf_lsh a 1"

definition gf_half :: "gf \<Rightarrow> gf" where
  "gf_half a =
     (let z = - (a ! 0 AND 1);
          ts = map (\<lambda>i. drop_bit 1 (a ! i) OR push_bit 31 (a ! (i + 1))) [0..<7];
          r = adc_loop ts (map (\<lambda>h. z AND h) (take 7 gf_hq)) 0
      in fst r @ [drop_bit 1 (a ! 7) + (z AND gf_hq ! 7) + snd r])"

text \<open>\<^verbatim>\<open>w = (uint64_t)t[i] + (uint64_t)t[i + 8] * (2 * MQ) + (uint64_t)cc;\<close>\<close>

fun fold_loop :: "u32 list \<Rightarrow> u32 list \<Rightarrow> u32 \<Rightarrow> u32 list \<times> u32" where
  "fold_loop (l # ls) (h # hs) cc =
     (let w = (ucast l :: u64) + ucast h * ucast (2 * MQ) + ucast cc;
          r = fold_loop ls hs (ucast (drop_bit 32 w))
      in (ucast w # fst r, snd r))"
| "fold_loop _ _ cc = ([], cc)"

definition gf_fold :: "u32 list \<Rightarrow> gf" where
  "gf_fold t = (let r = fold_loop (take 8 t) (drop 8 t) 0 in gf_partial_reduce (fst r) (snd r))"

definition gf_mul :: "gf \<Rightarrow> gf \<Rightarrow> gf" where
  "gf_mul a b = gf_fold (mul_limbs a b)"

text \<open>
  \<^verbatim>\<open>gf_square\<close>, step 1: the products \<open>a[i] * a[j]\<close> for \<open>j > i\<close>; row \<open>i\<close> rewrites
  \<open>t[2 i + 1 .. i + 7]\<close> and stores its carry in \<open>t[i + 8]\<close>.
\<close>

definition sqr_step :: "u32 list \<Rightarrow> u32 list \<Rightarrow> nat \<Rightarrow> u32 list" where
  "sqr_step a t i =
     (let r = mul_row (a ! i) (drop (i + 1) a) (take (7 - i) (drop (2 * i + 1) t)) 0
      in take (2 * i + 1) t @ fst r @ [snd r] @ drop (i + 9) t)"

text \<open>Step 2: \<^verbatim>\<open>t[15] = t[14] >> 31; t[i] = (t[i] << 1) | (t[i - 1] >> 31)\<close> for \<open>i\<close> from 14 down to 1.\<close>

definition sqr_double :: "u32 list \<Rightarrow> u32 list" where
  "sqr_double t =
     t ! 0 # map (\<lambda>i. push_bit 1 (t ! i) OR drop_bit 31 (t ! (i - 1))) [1..<15] @ [drop_bit 31 (t ! 14)]"

text \<open>
  Step 3, over \<open>i\<close>, on the pairs \<open>t[2 i], t[2 i + 1]\<close>:
  \<^verbatim>\<open>w = (uint64_t)a[i] * (uint64_t)a[i] + (uint64_t)t[2 * i] + (uint64_t)cc; t[2 * i] = (uint32_t)w;
  w = (uint64_t)t[2 * i + 1] + (w >> 32); t[2 * i + 1] = (uint32_t)w; cc = (uint32_t)(w >> 32);\<close>
\<close>

fun sqr_diag :: "u32 list \<Rightarrow> u32 list \<Rightarrow> u32 \<Rightarrow> u32 list \<times> u32" where
  "sqr_diag (x # xs) (t0 # t1 # ts) cc =
     (let w = (ucast x :: u64) * ucast x + ucast t0 + ucast cc;
          w2 = (ucast t1 :: u64) + drop_bit 32 w;
          r = sqr_diag xs ts (ucast (drop_bit 32 w2))
      in (ucast w # ucast w2 # fst r, snd r))"
| "sqr_diag _ _ cc = ([], cc)"

definition gf_square :: "gf \<Rightarrow> gf" where
  "gf_square a =
     (let t1 = foldl (sqr_step a) (replicate 16 0) [0..<7];
          t2 = sqr_double t1;
          t3 = fst (sqr_diag a t2 0)
      in gf_fold t3)"

text \<open>\<^verbatim>\<open>gf_xsquare(d, a, n)\<close>: \<open>n\<close> squarings.\<close>

fun gf_xsquare :: "gf \<Rightarrow> nat \<Rightarrow> gf" where
  "gf_xsquare a 0 = a"
| "gf_xsquare a (Suc n) = gf_xsquare (gf_square a) n"

definition gf_is_zero :: "gf \<Rightarrow> u32" where
  "gf_is_zero a =
     (let r0 = foldl (OR) (a ! 0) (map (\<lambda>i. a ! i) [1..<7]) OR a ! 7;
          r1 = foldl (OR) (a ! 0 XOR (- MQ)) (map (\<lambda>i. NOT (a ! i)) [1..<7])
               OR (a ! 7 XOR 0x7FFFFFFF)
      in drop_bit 31 ((r0 OR - r0) AND (r1 OR - r1)) - 1)"

definition gf_equals :: "gf \<Rightarrow> gf \<Rightarrow> u32" where
  "gf_equals a b = gf_is_zero (gf_sub a b)"

definition gf_is_negative :: "gf \<Rightarrow> u32" where
  "gf_is_negative x = - (gf_finish_reduce x ! 0 AND 1)"

text \<open>\<^verbatim>\<open>gf_decode\<close> returns the mask and the decoded element.\<close>

definition gf_decode :: "u8 list \<Rightarrow> u32 \<times> gf" where
  "gf_decode src =
     (let x = dec32le_limbs 8 src;
          cc = - snd (sbb_loop x gf_q 0)
      in (cc, gf_select gf_zero x cc))"

definition gf_encode :: "gf \<Rightarrow> u8 list" where
  "gf_encode a = enc32le_limbs (gf_finish_reduce a)"

text \<open>\<^verbatim>\<open>gf_prep240\<close> returns \<open>a240\<close> and the window \<open>win[0..2]\<close>.\<close>

definition gf_prep240 :: "gf \<Rightarrow> gf \<times> gf list" where
  "gf_prep240 a =
     (let w0 = a;
          w1 = gf_square w0;
          w2 = gf_mul w0 w1;
          x = gf_xsquare w2 2;
          y = gf_mul x w2;
          x = gf_square y;
          y = gf_mul x w0;
          x = gf_xsquare y 5;
          x = gf_mul x y;
          x = gf_xsquare x 5;
          y = gf_mul y x;
          x = gf_xsquare y 15;
          y = gf_mul y x;
          x = gf_xsquare y 30;
          y = gf_mul y x;
          x = gf_xsquare y 60;
          y = gf_mul y x;
          x = gf_xsquare y 120
      in (gf_mul y x, [w0, w1, w2]))"

text \<open>
  The exponent loops of \<^verbatim>\<open>gf_inv\<close> and \<^verbatim>\<open>gf_sqrt\<close>, for the bit index \<open>i\<close>:
  \<^verbatim>\<open>k = (e >> i) & 3; gf_xsquare(&x, &x, 2); if (k != 0) gf_mul(&x, &x, &win[k - 1]);\<close>
\<close>

definition gf_exp_step :: "u32 \<Rightarrow> gf list \<Rightarrow> gf \<Rightarrow> nat \<Rightarrow> gf" where
  "gf_exp_step e win x i =
     (let k = drop_bit i e AND 3;
          x1 = gf_xsquare x 2
      in if k \<noteq> 0 then gf_mul x1 (win ! (unat k - 1)) else x1)"

definition gf_inv :: "gf \<Rightarrow> gf" where
  "gf_inv a =
     (let r = gf_prep240 a;
          win = snd r;
          e = - MQ - 2;
          x = foldl (gf_exp_step e win) (fst r) [13, 11, 9, 7, 5, 3, 1];
          x = gf_square x
      in gf_mul x (win ! 0))"

text \<open>\<^verbatim>\<open>gf_sqrt\<close> for \<open>q = 5 mod 8\<close> (\<^verbatim>\<open>(MQ & 7) == 3\<close>): returns the mask and the root.\<close>

definition gf_sqrt :: "gf \<Rightarrow> u32 \<times> gf" where
  "gf_sqrt a =
     (let x = gf_mul2 a;
          r = gf_prep240 x;
          win = snd r;
          e = drop_bit 3 (- MQ - 5);
          x = foldl (gf_exp_step e win) (fst r) [10, 8, 6, 4, 2, 0];
          y = gf_mul x a;
          x = gf_mul y x;
          x = gf_mul2 x;
          x = gf_sub x gf_one;
          x = gf_mul y x;
          x = gf_condneg x (gf_is_negative x);
          y = gf_square x;
          r = gf_equals y a
      in (r, gf_select gf_zero x r))"

section \<open>Scalars\<close>

type_synonym scalar = "u32 list"

text \<open>The group order \<open>r = 2^254 - r0\<close>, the constant \<open>r0\<close> and \<open>(r - 1) / 2\<close>.\<close>

definition R :: "u32 list" where
  "R = [0x74D84525, 0x1F52C8AE, 0x54078C53, 0x9D0C930F,
        0xFFFFFFFF, 0xFFFFFFFF, 0xFFFFFFFF, 0x3FFFFFFF]"

definition R0 :: "u32 list" where
  "R0 = [0x8B27BADB, 0xE0AD3751, 0xABF873AC, 0x62F36CF0]"

definition HR :: "u32 list" where
  "HR = [0x3A6C2292, 0x8FA96457, 0xAA03C629, 0xCE864987,
         0xFFFFFFFF, 0xFFFFFFFF, 0xFFFFFFFF, 0x1FFFFFFF]"

definition modr_is_reduced :: "u32 list \<Rightarrow> u32" where
  "modr_is_reduced a = - snd (sbb_loop a R 0)"

definition modr_inner_reduce :: "u32 list \<Rightarrow> u32 list" where
  "modr_inner_reduce a =
     (let z = NOT (modr_is_reduced a)
      in fst (sbb_loop a (map (\<lambda>ri. z AND ri) R) 0))"

definition mul128x128 :: "u32 list \<Rightarrow> u32 list \<Rightarrow> u32 list" where
  "mul128x128 a b = mul_limbs (take 4 a) (take 4 b)"

definition modr_reduce256_partial :: "u32 list \<Rightarrow> u32 \<Rightarrow> u32 list" where
  "modr_reduce256_partial a ah =
     (let ah1 = push_bit 2 ah OR drop_bit 30 (a ! 7);
          r1 = mul_row ah1 R0 (take 4 a) 0;
          r2 = carry_loop (take 3 (drop 4 a)) (snd r1)
      in fst r1 @ fst r2 @ [(a ! 7 AND 0x3FFFFFFF) + snd r2])"

definition modr_reduce256_finish :: "u32 list \<Rightarrow> u32 list" where
  "modr_reduce256_finish d = modr_inner_reduce d"

text \<open>\<^verbatim>\<open>w = ((uint64_t)t[i] << 2) + (uint64_t)a[i] + (uint64_t)cc;\<close>\<close>

fun shl2_add_loop :: "u32 list \<Rightarrow> u32 list \<Rightarrow> u32 \<Rightarrow> u32 list \<times> u32" where
  "shl2_add_loop (t # ts) (a # as) cc =
     (let w = push_bit 2 (ucast t :: u64) + ucast a + ucast cc;
          r = shl2_add_loop ts as (ucast (drop_bit 32 w))
      in (ucast w # fst r, snd r))"
| "shl2_add_loop _ _ cc = ([], cc)"

text \<open>The input has 12 limbs.\<close>

definition modr_reduce384_partial :: "u32 list \<Rightarrow> u32 list" where
  "modr_reduce384_partial a =
     (let t = mul128x128 (drop 8 a) R0;
          r = shl2_add_loop t (take 8 a) 0
      in modr_reduce256_partial (fst r) (snd r))"

text \<open>\<^verbatim>\<open>mul128x128trunc\<close>: row \<open>i\<close> rewrites \<open>d[i .. 3]\<close> and drops its carry.\<close>

definition mul_trunc_step :: "u32 list \<Rightarrow> u32 list \<Rightarrow> u32 list \<Rightarrow> nat \<Rightarrow> u32 list" where
  "mul_trunc_step a b d i = take i d @ fst (mul_row (a ! i) (take (4 - i) b) (drop i d) 0)"

definition mul128x128trunc :: "u32 list \<Rightarrow> u32 list \<Rightarrow> u32 list" where
  "mul128x128trunc a b = foldl (mul_trunc_step a b) (replicate 4 0) [0..<4]"

definition scalar_zero :: scalar where
  "scalar_zero = [0, 0, 0, 0, 0, 0, 0, 0]"

definition scalar_one :: scalar where
  "scalar_one = [1, 0, 0, 0, 0, 0, 0, 0]"

definition scalar_is_zero :: "scalar \<Rightarrow> u32" where
  "scalar_is_zero d =
     (let r = foldl (OR) (d ! 0) (map (\<lambda>i. d ! i) [1..<8])
      in drop_bit 31 (r OR - r) - 1)"

definition scalar_encode :: "scalar \<Rightarrow> u8 list" where
  "scalar_encode a = enc32le_limbs a"

text \<open>\<^verbatim>\<open>scalar_decode\<close> returns the mask and the scalar.\<close>

definition scalar_decode :: "u8 list \<Rightarrow> u32 \<times> scalar" where
  "scalar_decode src =
     (let d = dec32le_limbs 8 src;
          r = modr_is_reduced d
      in (r, map (\<lambda>x. x AND r) d))"

text \<open>
  The loop of \<^verbatim>\<open>scalar_decode_reduce\<close> over the remaining chunks of 16 bytes; the
  first argument is \<open>len / 16\<close>.
\<close>

fun sdr_loop :: "nat \<Rightarrow> u8 list \<Rightarrow> u32 list \<Rightarrow> u32 list" where
  "sdr_loop 0 buf d = d"
| "sdr_loop (Suc n) buf d =
     sdr_loop n buf (modr_reduce384_partial (dec32le_limbs 4 (drop (16 * n) buf) @ d))"

definition scalar_decode_reduce :: "u8 list \<Rightarrow> scalar" where
  "scalar_decode_reduce buf =
     (let len = length buf in
      if len < 32 then dec32le_limbs 8 (buf @ replicate (32 - len) 0)
      else
        let clen = 17 + ((len - 1) mod 16);
            len1 = len - clen;
            d = (if clen < 32
                 then dec32le_limbs 8 (take clen (drop len1 buf) @ replicate (32 - clen) 0)
                 else modr_reduce256_partial (dec32le_limbs 8 (drop len1 buf)) 0)
        in modr_reduce256_finish (sdr_loop (len1 div 16) buf d))"

definition scalar_select :: "scalar \<Rightarrow> scalar \<Rightarrow> u32 \<Rightarrow> scalar" where
  "scalar_select a0 a1 ctl = map2 (\<lambda>x0 x1. x0 XOR (ctl AND (x0 XOR x1))) a0 a1"

definition scalar_add :: "scalar \<Rightarrow> scalar \<Rightarrow> scalar" where
  "scalar_add a b = modr_inner_reduce (fst (adc_loop a b 0))"

definition scalar_mul :: "scalar \<Rightarrow> scalar \<Rightarrow> scalar" where
  "scalar_mul a b =
     (let t = mul_limbs a b;
          t1 = take 4 t @ modr_reduce384_partial (drop 4 t) @ drop 12 t
      in modr_reduce256_finish (modr_reduce384_partial (take 12 t1)))"

text \<open>
  \<^verbatim>\<open>uint_recode\<close>: the loop body. The state is \<open>acc\<close>, \<open>acc_len\<close>, the index \<open>j\<close>
  of the next limb, the carry \<open>cc\<close> and the digits written so far.
\<close>

definition recode_step ::
  "u32 list \<Rightarrow> u32 \<times> nat \<times> nat \<times> u32 \<times> u8 list \<Rightarrow> nat \<Rightarrow> u32 \<times> nat \<times> nat \<times> u32 \<times> u8 list" where
  "recode_step s st i = (case st of (acc, acc_len, j, cc, sd) \<Rightarrow>
     let (v, acc1, acc_len1, j1) =
           (if acc_len < 5 then
              (let nw = s ! j
               in ((acc OR push_bit acc_len nw) AND 0x1F, drop_bit (5 - acc_len) nw,
                   acc_len + 27, j + 1))
            else (acc AND 0x1F, drop_bit 5 acc, acc_len - 5, j));
         v1 = v + cc;
         cc1 = drop_bit 31 (16 - v1)
     in (acc1, acc_len1, j1, cc1, sd @ [ucast v1 - push_bit 5 (ucast cc1)]))"

definition uint_recode :: "nat \<Rightarrow> u32 list \<Rightarrow> u8 list" where
  "uint_recode sd_len s =
     (case foldl (recode_step s) (s ! 0, 32, 1, 0, []) [0..<sd_len]
      of (acc, acc_len, j, cc, sd) \<Rightarrow> sd)"

definition scalar_recode :: "scalar \<Rightarrow> u8 list" where
  "scalar_recode s = uint_recode 51 s"

text \<open>
  \<^verbatim>\<open>uint_recode_wNAF(sd, sd_len, u, u_len)\<close>: the loop body for index \<open>j\<close>. The state is
  the window \<open>x\<close>, the index \<open>p\<close> of the limb the pointer \<open>u\<close> has reached, and the
  digits \<open>sd[0..j-1]\<close> written so far.
\<close>

definition wNAF_step :: "nat \<Rightarrow> u32 list \<Rightarrow> u32 \<times> nat \<times> u8 list \<Rightarrow> nat \<Rightarrow> u32 \<times> nat \<times> u8 list" where
  "wNAF_step lim u st j = (case st of (x, p, sd) \<Rightarrow>
     let (x1, p1) =
           (if j mod 32 = 12 then
              (if j < lim then (x + drop_bit 12 (u ! p AND 0xFFFF0000), p + 1) else (x, p))
            else if j mod 32 = 28 then
              (if j < lim then (x + push_bit 4 (u ! p AND 0x0000FFFF), p) else (x, p))
            else (x, p));
         m = - (x1 AND 1);
         v = x1 AND m AND 0x1F;
         c = push_bit 1 (v AND 0x10);
         d = v - c;
         x2 = drop_bit 1 (x1 - d)
     in (x2, p1, sd @ [ucast d]))"

text \<open>
  The limit is \<open>lim = (u_len << 5) - 4\<close>, for \<open>u_len\<close> the length of \<open>u\<close>; the caller
  guarantees \<open>u_len > 0\<close>.
\<close>

definition uint_recode_wNAF :: "nat \<Rightarrow> u32 list \<Rightarrow> u8 list" where
  "uint_recode_wNAF sd_len u =
     (case foldl (wNAF_step (32 * length u - 4) u) (u ! 0 AND 0x0000FFFF, 0, []) [0..<sd_len]
      of (x, p, sd) \<Rightarrow> sd)"

definition scalar_recode_wNAF :: "scalar \<Rightarrow> u8 list" where
  "scalar_recode_wNAF s = uint_recode_wNAF 256 s"

definition sub128 :: "u32 list \<Rightarrow> u32 list \<Rightarrow> u32 list" where
  "sub128 a b = fst (sbb_loop (take 4 a) (take 4 b) 0)"

text \<open>\<^verbatim>\<open>w = (uint64_t)y[i] - (uint64_t)cc; d[i] = (uint32_t)w; cc = -(uint32_t)(w >> 32);\<close>\<close>

fun borrow_loop :: "u32 list \<Rightarrow> u32 \<Rightarrow> u32 list \<times> u32" where
  "borrow_loop (y # ys) cc =
     (let w = (ucast y :: u64) - ucast cc;
          r = borrow_loop ys (- ucast (drop_bit 32 w))
      in (ucast w # fst r, snd r))"
| "borrow_loop [] cc = ([], cc)"

definition mul_divr_rounded :: "u32 list \<Rightarrow> u32 list \<Rightarrow> u32 list" where
  "mul_divr_rounded k e =
     (let z = mul_limbs e k;
          r1 = adc_loop (take 8 z) HR 0;
          r2 = carry_loop (drop 8 z) (snd r1);
          z1 = fst r1 @ fst r2;
          y = fst (carry_loop
                 (map (\<lambda>i. drop_bit 30 (z1 ! (i + 7)) OR push_bit 2 (z1 ! (i + 8))) [0..<4]) 1);
          t = mul128x128 y R0;
          z2 = z1[7 := z1 ! 7 AND 0x3FFFFFFF];
          hi = last (fst (adc_loop (take 8 z2) t 0));
          cc = 1 - drop_bit 30 hi
      in fst (borrow_loop y cc))"

text \<open>\<^verbatim>\<open>abs128\<close> returns the sign and the absolute value.\<close>

definition abs128 :: "u32 list \<Rightarrow> u32 \<times> u32 list" where
  "abs128 d =
     (let s = drop_bit 31 (d ! 3);
          m = - s
      in (s, fst (carry_loop (map (\<lambda>x. x XOR m) (take 4 d)) s)))"

definition eU :: "u32 list" where
  "eU = [0xC93F6111, 0x2ACCF9DE, 0x53C2C6E6, 0x1A509F7A]"

definition eV :: "u32 list" where
  "eV = [0x5466F77E, 0x0B7A3130, 0xFFBB3A93, 0x7D440C6A]"

text \<open>\<^verbatim>\<open>scalar_split\<close> returns the signs, \<open>|k0|\<close> and \<open>|k1|\<close>.\<close>

definition scalar_split :: "scalar \<Rightarrow> u32 \<times> u32 list \<times> u32 list" where
  "scalar_split k =
     (let c = mul_divr_rounded k eV;
          d = mul_divr_rounded k eU;
          t = mul128x128trunc d eU;
          k0 = sub128 k t;
          t = mul128x128trunc c eV;
          k0 = sub128 k0 t;
          a0 = abs128 k0;
          k1 = mul128x128trunc d eV;
          t = mul128x128trunc c eU;
          k1 = sub128 k1 t;
          a1 = abs128 k1
      in (fst a0 OR push_bit 1 (fst a1), snd a0, snd a1))"

section \<open>Curve\<close>

text \<open>A point in extended \<open>(E:Z:U:T)\<close> coordinates, and in extended affine coordinates.\<close>

record point =
  E :: gf
  Z :: gf
  U :: gf
  T :: gf

record point_affine =
  aE :: gf
  aU :: gf
  aT :: gf

definition point_neutral :: point where
  "point_neutral = \<lparr>E = gf_one, Z = gf_one, U = gf_zero, T = gf_zero\<rparr>"

definition point_affine_neutral :: point_affine where
  "point_affine_neutral = \<lparr>aE = gf_one, aU = gf_zero, aT = gf_zero\<rparr>"

text \<open>\<^verbatim>\<open>point_decode\<close> returns the mask and the point.\<close>

definition point_decode :: "u8 list \<Rightarrow> u32 \<times> point" where
  "point_decode src =
     (let du = gf_decode src;
          u = snd du;
          uu = gf_square u;
          ee = gf_square uu;
          ee = gf_lsh ee 3;
          ee = gf_add ee gf_one;
          se = gf_sqrt ee;
          r = fst du AND fst se
      in (r, \<lparr>E = gf_select gf_minus_one (snd se) r, Z = gf_one,
               U = gf_select gf_zero u r, T = gf_select gf_zero uu r\<rparr>))"

definition point_encode :: "point \<Rightarrow> u8 list" where
  "point_encode p =
     (let iZ = gf_inv (Z p);
          e = gf_mul (E p) iZ;
          u = gf_mul (U p) iZ;
          u = gf_condneg u (gf_is_negative e)
      in gf_encode u)"

definition point_add :: "point \<Rightarrow> point \<Rightarrow> point" where
  "point_add p1 p2 =
     (let e1e2 = gf_mul (E p1) (E p2);
          u1u2 = gf_mul (U p1) (U p2);
          z1z2 = gf_mul (Z p1) (Z p2);
          t1t2 = gf_mul (T p1) (T p2);
          g1 = gf_add (E p1) (U p1);
          g2 = gf_add (E p2) (U p2);
          eu = gf_mul g1 g2;
          g3 = gf_add e1e2 u1u2;
          eu = gf_sub eu g3;
          g1 = gf_add (Z p1) (T p1);
          g2 = gf_add (Z p2) (T p2);
          zt = gf_mul g1 g2;
          g3 = gf_add z1z2 t1t2;
          zt = gf_sub zt g3;
          g1 = gf_lsh t1t2 3;
          hd = gf_sub z1z2 g1;
          g1 = gf_add z1z2 g1;
          g1 = gf_mul g1 e1e2;
          g2 = gf_lsh u1u2 4;
          g2 = gf_mul g2 zt;
          E3 = gf_add g1 g2;
          Z3 = gf_square hd;
          T3 = gf_square eu;
          g1 = gf_add hd eu;
          g1 = gf_square g1;
          g2 = gf_add Z3 T3;
          g1 = gf_sub g1 g2
      in \<lparr>E = E3, Z = Z3, U = gf_half g1, T = T3\<rparr>)"

definition point_add_affine :: "point \<Rightarrow> point_affine \<Rightarrow> point" where
  "point_add_affine p1 p2 =
     (let e1e2 = gf_mul (E p1) (aE p2);
          u1u2 = gf_mul (U p1) (aU p2);
          t1t2 = gf_mul (T p1) (aT p2);
          g1 = gf_add (E p1) (U p1);
          g2 = gf_add (aE p2) (aU p2);
          eu = gf_mul g1 g2;
          g3 = gf_add e1e2 u1u2;
          eu = gf_sub eu g3;
          g1 = gf_mul (Z p1) (aT p2);
          zt = gf_add g1 (T p1);
          g1 = gf_lsh t1t2 3;
          hd = gf_sub (Z p1) g1;
          g1 = gf_add (Z p1) g1;
          g1 = gf_mul g1 e1e2;
          g2 = gf_lsh u1u2 4;
          g2 = gf_mul g2 zt;
          E3 = gf_add g1 g2;
          Z3 = gf_square hd;
          T3 = gf_square eu;
          g1 = gf_add hd eu;
          g1 = gf_square g1;
          g2 = gf_add Z3 T3;
          g1 = gf_sub g1 g2
      in \<lparr>E = E3, Z = Z3, U = gf_half g1, T = T3\<rparr>)"

definition point_neg :: "point \<Rightarrow> point" where
  "point_neg p1 = \<lparr>E = E p1, Z = Z p1, U = gf_neg (U p1), T = T p1\<rparr>"

definition point_sub :: "point \<Rightarrow> point \<Rightarrow> point" where
  "point_sub p1 p2 = point_add p1 (point_neg p2)"

definition point_sub_affine :: "point \<Rightarrow> point_affine \<Rightarrow> point" where
  "point_sub_affine p1 p2 = point_add_affine p1 \<lparr>aE = aE p2, aU = gf_neg (aU p2), aT = aT p2\<rparr>"

text \<open>
  \<^verbatim>\<open>point_xdouble\<close>: one more doubling in \<open>(X, W, J)\<close> coordinates, the body of the
  loop \<^verbatim>\<open>while (n -- > 1)\<close>.
\<close>

definition xwj_double :: "gf \<times> gf \<times> gf \<Rightarrow> gf \<times> gf \<times> gf" where
  "xwj_double s = (case s of (X, W, J) \<Rightarrow>
     let ww = gf_square W;
         g1 = gf_mul2 X;
         g1 = gf_sub ww g1;
         g2 = gf_square g1;
         g1 = gf_mul g1 W;
         g1 = gf_mul2 g1;
         J1 = gf_mul J g1;
         ww = gf_square ww;
         ww = gf_mul2 ww;
         W1 = gf_sub g2 ww;
         X1 = gf_square g2
     in (X1, W1, J1))"

definition point_xdouble :: "point \<Rightarrow> nat \<Rightarrow> point" where
  "point_xdouble p n =
     (if n = 0 then p
      else
        let g1 = gf_square (E p);
            J = gf_mul (E p) (U p);
            X = gf_square g1;
            W = gf_square (Z p);
            J = gf_mul2 J;
            W = gf_mul2 W;
            W = gf_sub W g1;
            s = (xwj_double ^^ (n - 1)) (X, W, J);
            X = fst s;
            W = fst (snd s);
            J = snd (snd s);
            Zd = gf_square W;
            Td = gf_square J;
            Ud = gf_mul W J;
            g1 = gf_mul2 X
        in \<lparr>E = gf_sub g1 Zd, Z = Zd, U = Ud, T = Td\<rparr>)"

definition point_double :: "point \<Rightarrow> point" where
  "point_double p = point_xdouble p 1"

definition point_is_neutral :: "point \<Rightarrow> u32" where
  "point_is_neutral p = gf_is_zero (U p)"

definition point_select :: "point \<Rightarrow> point \<Rightarrow> u32 \<Rightarrow> point" where
  "point_select p0 p1 ctl =
     \<lparr>E = gf_select (E p0) (E p1) ctl, Z = gf_select (Z p0) (Z p1) ctl,
      U = gf_select (U p0) (U p1) ctl, T = gf_select (T p0) (T p1) ctl\<rparr>"

text \<open>
  The first lines of both lookups: the absolute value \<open>m\<close> of the digit \<open>k\<close> and
  the mask \<open>sk\<close> of its sign.
\<close>

definition lookup_abs :: "u8 \<Rightarrow> u32 \<times> u32" where
  "lookup_abs k =
     (let m = (ucast k :: u32);
          sk = - (drop_bit 7 m)
      in (((m XOR sk) - sk) AND 0xFF, sk))"

text \<open>The mask \<^verbatim>\<open>c = m - j - 1; c = ((c | -c) >> 31) - 1;\<close>\<close>

definition lookup_mask :: "u32 \<Rightarrow> nat \<Rightarrow> u32" where
  "lookup_mask m j = (let c = m - of_nat j - 1 in drop_bit 31 (c OR - c) - 1)"

definition point_lookup :: "point list \<Rightarrow> u8 \<Rightarrow> point" where
  "point_lookup win k =
     (let ms = lookup_abs k;
          p2 = foldl (\<lambda>p j. point_select p (win ! j) (lookup_mask (fst ms) j)) point_neutral [0..<16]
      in p2\<lparr>U := gf_condneg (U p2) (snd ms)\<rparr>)"

definition point_affine_lookup :: "point_affine list \<Rightarrow> u8 \<Rightarrow> point_affine" where
  "point_affine_lookup win k =
     (let ms = lookup_abs k;
          p2 = foldl (\<lambda>p j. let c = lookup_mask (fst ms) j in
                        \<lparr>aE = gf_select (aE p) (aE (win ! j)) c,
                         aU = gf_select (aU p) (aU (win ! j)) c,
                         aT = gf_select (aT p) (aT (win ! j)) c\<rparr>)
                 point_affine_neutral [0..<16]
      in p2\<lparr>aU := gf_condneg (aU p2) (snd ms)\<rparr>)"

text \<open>Square root of \<open>-1\<close> in the field.\<close>

definition ETA :: gf where
  "ETA = [0xAA938AEE, 0xD99E0F1B, 0xB30E6336, 0xA60D864F,
          0xE53688E3, 0xE414983F, 0x3C69B85F, 0x10ED2DB3]"

text \<open>
  The window of \<^verbatim>\<open>point_mul\<close> and the body of its loop
  \<^verbatim>\<open>for (i = 1; i < 15; i += 2)\<close>; the window holds the entries written so far.
\<close>

definition win_step :: "point list \<Rightarrow> nat \<Rightarrow> point list" where
  "win_step win i =
     (let wi = point_double (win ! (i div 2));
          wi1 = point_add wi (win ! 0)
      in win @ [wi, wi1])"

definition point_mul_window :: "point \<Rightarrow> point list" where
  "point_mul_window w0 =
     (let win = foldl win_step [w0] [1, 3, 5, 7, 9, 11, 13]
      in win @ [point_double (win ! 7)])"

text \<open>The endomorphism applied to a looked-up point: \<open>U\<close> times \<open>eta\<close>, \<open>T\<close> negated.\<close>

definition point_zeta :: "gf \<Rightarrow> point \<Rightarrow> point" where
  "point_zeta eta p = p\<lparr>U := gf_mul (U p) eta, T := gf_neg (T p)\<rparr>"

definition point_mul_step :: "point list \<Rightarrow> gf \<Rightarrow> u8 list \<Rightarrow> u8 list \<Rightarrow> point \<Rightarrow> nat \<Rightarrow> point" where
  "point_mul_step win eta sd0 sd1 p2 i =
     (let p2 = point_xdouble p2 5;
          p2 = point_add p2 (point_lookup win (sd0 ! i))
      in point_add p2 (point_zeta eta (point_lookup win (sd1 ! i))))"

definition point_mul :: "point \<Rightarrow> scalar \<Rightarrow> point" where
  "point_mul p1 s =
     (let sp = scalar_split s;
          sk = fst sp;
          k0 = fst (snd sp) @ [0];
          k1 = snd (snd sp) @ [0];
          win = point_mul_window (p1\<lparr>U := gf_condneg (U p1) (- (sk AND 1))\<rparr>);
          eta = gf_condneg ETA (- ((sk XOR drop_bit 1 sk) AND 1));
          sd0 = uint_recode 26 k0;
          sd1 = uint_recode 26 k1;
          p2 = point_lookup win (sd0 ! 25);
          p2 = point_add p2 (point_zeta eta (point_lookup win (sd1 ! 25)))
      in foldl (point_mul_step win eta sd0 sd1) p2 (rev [0..<25]))"
text \<open>Points \<open>i * G\<close> for \<open>i\<close> from 1 to 16, affine extended format.\<close>

definition point_win_base :: "point_affine list" where
  "point_win_base = [
   \<lparr>aE = [0x00000003, 0x00000000, 0x00000000, 0x00000000, 0x00000000, 0x00000000, 0x00000000, 0x00000000],
     aU = [0x00000001, 0x00000000, 0x00000000, 0x00000000, 0x00000000, 0x00000000, 0x00000000, 0x00000000],
     aT = [0x00000001, 0x00000000, 0x00000000, 0x00000000, 0x00000000, 0x00000000, 0x00000000, 0x00000000]\<rparr>,
   \<lparr>aE = [0xD6342FD1, 0xD0FAC687, 0xEB1A1F58, 0x687D6343, 0xF58D0FAC, 0x343EB1A1, 0xFAC687D6, 0x1A1F58D0],
     aU = [0xDB6D97A3, 0xB6DB6DB6, 0x6DB6DB6D, 0xDB6DB6DB, 0xB6DB6DB6, 0x6DB6DB6D, 0xDB6DB6DB, 0x36DB6DB6],
     aT = [0x97827791, 0x0A72F053, 0xCBC14E5E, 0x05397829, 0xE5E0A72F, 0x829CBC14, 0x72F05397, 0x414E5E0A]\<rparr>,
   \<lparr>aE = [0xD61A9E2F, 0x26AFA803, 0x7F0E7D48, 0xAD827302, 0xBA270925, 0x4D5065C0, 0xDB3919FD, 0x6E6BA44D],
     aU = [0xC4043E79, 0xC2F21347, 0x066D4156, 0x6B1CEBA6, 0xA3E20224, 0xAB617909, 0xD30336A0, 0x12358E75],
     aT = [0x2BDDB3C7, 0xC4FAF544, 0xF0485A50, 0xC58EF652, 0x71E284EF, 0x0509961D, 0xDC59141C, 0x7287BBB2]\<rparr>,
   \<lparr>aE = [0xF8390C16, 0xBCE7BEB9, 0xE825BA04, 0xCBFF478E, 0x95BDA924, 0x96E4BB9C, 0x9561D944, 0x0F137176],
     aU = [0x130DB4AD, 0x65A29F71, 0xFA47C8BB, 0x9F71130D, 0xC8BB65A2, 0x130DFA47, 0x65A29F71, 0x7A47C8BB],
     aT = [0x4402088D, 0x4D0A213B, 0xF44E59F2, 0x853223D7, 0x2101F311, 0x03ADCBE2, 0x9918E929, 0x2375E811]\<rparr>,
   \<lparr>aE = [0xE875C86A, 0xD23D2C8B, 0x73C41197, 0x1BD81557, 0xBCDB09C0, 0x74304444, 0x980D6493, 0x3A3E1251],
     aU = [0xDA5B43EE, 0x1F2B6B08, 0xC44A0C63, 0xE40F8B8B, 0xB35FB70C, 0x5866F1F8, 0x50F768D7, 0x185034D2],
     aT = [0x3D361051, 0xC9192749, 0xC1C66FF4, 0xE00C1E20, 0x724B43CC, 0x8982206A, 0xBB5DF4DA, 0x3E3560E7]\<rparr>,
   \<lparr>aE = [0x229AD5F2, 0x643AD390, 0x07471E77, 0xC7120748, 0x6A6D2E2A, 0x1673C5B9, 0x5844C804, 0x124FA9DF],
     aU = [0xF91D6B18, 0x0BD0C5F1, 0x263610A7, 0xBB4A410D, 0x98F35F00, 0xA1AB0B9D, 0xAFDDC92B, 0x4FA6D8B6],
     aT = [0xAEB11ACD, 0x355D1614, 0xAEE9D26F, 0x76ED99CC, 0xE94A460E, 0xD7991971, 0xDA88753E, 0x34F3562F]\<rparr>,
   \<lparr>aE = [0x678229FB, 0xE8D6CBC7, 0x232C88D0, 0xD86308C5, 0x4BFC77E7, 0xC36F6969, 0x82AAF7AC, 0x4C5C3FA3],
     aU = [0x159EF4EA, 0x7EB52414, 0xEB4CC9E1, 0xB885C9D1, 0xEE64BF7F, 0x350914B3, 0x520AED5A, 0x6DD8CDFA],
     aT = [0x34C75544, 0x59DAD0E6, 0x0C2A0899, 0x818C7393, 0x60AC1520, 0x0957AB7A, 0x0A217C1C, 0x56861F4D]\<rparr>,
   \<lparr>aE = [0x53187B28, 0x4E11C113, 0x515E9113, 0xAD881FFB, 0x2FD5BA49, 0x86AD97E4, 0xB2A6146C, 0x2C922B2C],
     aU = [0xEB513A8B, 0x99DA8C93, 0x5DEDFC87, 0x0706B8B9, 0x1F778CE9, 0xC54D8F47, 0xFA2E63E5, 0x4766315B],
     aT = [0x39729F9A, 0x4D9B8F56, 0x8B0077A8, 0x89B68A9C, 0xFCA311FD, 0xF3C520B8, 0xB811270A, 0x532698BC]\<rparr>,
   \<lparr>aE = [0xB52FBCC4, 0x6FB66DF6, 0x38AA1784, 0x675E5BCC, 0x852C1B0B, 0x55B6D3E8, 0xFA293050, 0x2289F3AB],
     aU = [0xD0A08E61, 0xA84A27A9, 0x132CCAC1, 0x27E9084D, 0x01F68C40, 0x498C7D8B, 0x940E4159, 0x6957FDFF],
     aT = [0x815F2EFF, 0x8D2F2DE6, 0x88C812F9, 0x76CA668F, 0x32B42796, 0x56244B8A, 0x72CB2D3C, 0x431DA1A6]\<rparr>,
   \<lparr>aE = [0xACC048BE, 0x8EB44683, 0xAAD5CD46, 0x803FC1C6, 0x0762C505, 0xAF553973, 0x61B06E3A, 0x30290CF9],
     aU = [0xB889903E, 0x3AA366BB, 0xCC140A37, 0x55838146, 0xA9B6AD5E, 0x4AA37581, 0x916F803C, 0x7B37113C],
     aT = [0xE1C6283E, 0xD912EBC4, 0x8AE5C163, 0xC70EAC51, 0xE828C438, 0x9EDDA370, 0x189ECFD9, 0x252DC97C]\<rparr>,
   \<lparr>aE = [0x99D93A3B, 0x38A7E995, 0xA3919A65, 0x09DF0EB0, 0xF643AF23, 0x6F385F29, 0x2424A548, 0x467C84CA],
     aU = [0x864E7F82, 0xA9A8911D, 0xAB741725, 0x65CF6B9C, 0xE772B327, 0x8C133221, 0x8CD1F209, 0x15852107],
     aT = [0x8F92D685, 0x41583C9A, 0x53E938EB, 0xFAE4DC55, 0x6C5406EA, 0xC3FC1F02, 0xBC1F036B, 0x5D4A07E9]\<rparr>,
   \<lparr>aE = [0x83BF7B93, 0xA49A13F8, 0x8DC7807E, 0x06E6D0CF, 0x238DA4B1, 0x4B3B87C8, 0x5A9F7719, 0x66FF84AF],
     aU = [0x087640AA, 0xE4C1C725, 0x3EF5D5E0, 0xFB902D6A, 0x2E1297EB, 0x53EF3593, 0xE1787343, 0x67E65CF7],
     aT = [0xFF9309B4, 0x4203ACE2, 0x8E506208, 0xAE5BB531, 0x3DEB52CB, 0x4742F3CB, 0x3959DA85, 0x2213A3D9]\<rparr>,
   \<lparr>aE = [0x2ED04723, 0xA9962278, 0xB5D2A716, 0x22587604, 0xFFB6AD2D, 0x3E7BB13D, 0x9D4C885B, 0x6E7036BE],
     aU = [0x81061965, 0x90F88398, 0xF2BFCB98, 0x67D0394F, 0xCD1396D8, 0x913200FC, 0x306A3580, 0x17F96D76],
     aT = [0x4099DC93, 0xF1F0EC98, 0xE43361F5, 0xE02396E9, 0xAB0AE384, 0x028EBB02, 0x2DB22F61, 0x0E236467]\<rparr>,
   \<lparr>aE = [0x0F2521F0, 0xC6C60BB3, 0x5CB6D116, 0xA59973DD, 0x706DD30D, 0x069708CC, 0xF8A08989, 0x74C367AB],
     aU = [0xD2AC4172, 0x05B49673, 0x0D77E4E6, 0xA016A689, 0x0635E1C0, 0x7C6DAA97, 0x47A6A04A, 0x42C80345],
     aT = [0x75DEF4DC, 0x0266FAA8, 0x05C5A659, 0x41B211E5, 0x39E5E234, 0xE13C4A76, 0xE6AF9B7D, 0x0C4AC28D]\<rparr>,
   \<lparr>aE = [0xE86224A7, 0x543AA085, 0x9EA21055, 0x626226C0, 0xEE7E01D9, 0x257B5FE5, 0x82C497CD, 0x1110D927],
     aU = [0x19120727, 0x7FFA4AF7, 0x1BF74984, 0x705D1257, 0x9FAE1F07, 0x4AD1FA64, 0x265D7456, 0x2F4CA2B6],
     aT = [0xF7C6525E, 0xB111F1B5, 0xC1B29AC7, 0x54BD0CFF, 0x7009957D, 0xCC7CCE32, 0x0D563132, 0x0CCF7FF0]\<rparr>,
   \<lparr>aE = [0x24F31B2E, 0x97DA44A0, 0xDB5120DD, 0xF8FAE043, 0xD7F5F415, 0x03D9F770, 0xA296F053, 0x676824C9],
     aU = [0xE1227049, 0x2D808316, 0x32683177, 0x15064C91, 0x41E90ED8, 0x706D8A1F, 0x1A6DB76E, 0x251A1931],
     aT = [0x9E05F91A, 0x95191DCA, 0x0C6EE0A8, 0x0DB49CC1, 0x7BF95128, 0x7C16D8FF, 0xB15D04AE, 0x2C8D5EC4]\<rparr>]"

text \<open>Points \<open>i * 2^65 * G\<close> for \<open>i\<close> from 1 to 16.\<close>

definition point_win_base65 :: "point_affine list" where
  "point_win_base65 = [
   \<lparr>aE = [0x8E08211F, 0x886FF627, 0xF94734AB, 0x4629856E, 0xB41DD08C, 0xAB3BAC1A, 0x634A53B5, 0x6CE0B77B],
     aU = [0xC596FA71, 0xAD5F8FBF, 0x9DE223FF, 0x41589354, 0xE50A4384, 0x395D2181, 0xA8A7626E, 0x1B313D36],
     aT = [0xEB9D832B, 0x17E71DD1, 0xD599D9CB, 0x222B7C0C, 0xFF13EC0E, 0x48E8393C, 0x21A5AAD2, 0x6E78594A]\<rparr>,
   \<lparr>aE = [0x2716A209, 0x111922C7, 0x3417B3E6, 0xE4584C1E, 0xCE6C2582, 0x8AA629F4, 0x8DD93292, 0x7521310F],
     aU = [0x889E3F33, 0x2B7C2F71, 0xA5E65CF4, 0x4CA4C049, 0x9976BFE7, 0x5CD27D90, 0x9985D602, 0x0BE56F35],
     aT = [0x1BE2027B, 0xC699D8CD, 0x19ECC70E, 0xC9233D82, 0xABAECD17, 0x6C805A5D, 0x6985620E, 0x40534B30]\<rparr>,
   \<lparr>aE = [0xD6A45A0E, 0x33F6746E, 0xCDA92791, 0x5A40972F, 0x6C9CC38D, 0x7B11CD4B, 0x8D0885BF, 0x390940AD],
     aU = [0xED61CB7F, 0x4A504A5D, 0x42D7801D, 0xAF415083, 0xAB4295EB, 0x0519A68A, 0x0B09C2B4, 0x098D3AB9],
     aT = [0x59A456C6, 0xA06F9DAD, 0x3FFE78C9, 0x92D53426, 0x45C181DE, 0x0696A395, 0x7B5F6FD7, 0x41A59092]\<rparr>,
   \<lparr>aE = [0x32A76153, 0x6C4E581C, 0xD6E7A570, 0xEADD9BBE, 0xC0DF4A3B, 0xBD9A0206, 0xFA934AC1, 0x10D60536],
     aU = [0x81B4D89F, 0xD98BB32E, 0xE1067F08, 0x5A0FCD3A, 0xAFAD3191, 0x3B845EF3, 0xAA6E2C23, 0x3540EB32],
     aT = [0xA76336E1, 0x1D5909B1, 0x47CE6A39, 0x4563C7AD, 0xA3CB3C98, 0x893FFC0C, 0x11381CFF, 0x6470D110]\<rparr>,
   \<lparr>aE = [0x8591C275, 0x648443E4, 0x18227B9E, 0x74427A88, 0x6E87C51E, 0x9AE9B073, 0xB9985165, 0x742236A2],
     aU = [0xD80EB7AB, 0xDB2EB15D, 0x633AC0BB, 0x695C5863, 0x5FB45810, 0x9DD36D92, 0x374E74CB, 0x4B36B3BE],
     aT = [0x97F19A1B, 0x3B020304, 0xCBC99BC3, 0xBCF6E190, 0x3280BAD3, 0x52217A6F, 0x685E3293, 0x7563AAD0]\<rparr>,
   \<lparr>aE = [0x0C14DC83, 0xD8AD585D, 0xD6669E2A, 0x748A8C77, 0x6BC1A5D5, 0x9318569D, 0x42C4587D, 0x637BA56A],
     aU = [0x1425C001, 0x2473D6DB, 0x6E58108F, 0x76306718, 0xF6ED32DE, 0x0C0776C9, 0x90ACB085, 0x143CF8A0],
     aT = [0x05579C38, 0x73CDF9E5, 0x9040AF87, 0xDE3B04BA, 0x8418DD26, 0x3A3345F9, 0xCC1F09C1, 0x2C301B6B]\<rparr>,
   \<lparr>aE = [0x9D051B56, 0xE14526AA, 0x8273B21D, 0x0E16666D, 0x6F56FA43, 0x1094A46B, 0x96A1BB91, 0x5C780EAA],
     aU = [0x27D26209, 0xE95E2181, 0xE8FB612B, 0x33088969, 0xF2BF788C, 0xBAC06821, 0xD61C83DD, 0x7EE7B8C1],
     aT = [0x1F3502A9, 0x0474E697, 0x5FA59240, 0x624FFDB3, 0xA1A25303, 0x617E1C89, 0x16C33383, 0x72AB912B]\<rparr>,
   \<lparr>aE = [0xD67CC3ED, 0xE800A094, 0xF26076D9, 0xD6C684ED, 0x17DD5343, 0xE95C514D, 0x473732FF, 0x6B3865BE],
     aU = [0x01944CB8, 0x4C033B23, 0xA5D337CB, 0x3260DA08, 0xA6C39FFC, 0x34DFEFB2, 0x9B5B142E, 0x23587229],
     aT = [0xD04090FB, 0x439324FC, 0x6FC23C15, 0x08AA0426, 0xBBFAA0EE, 0x7B1EF0DE, 0xE34C35A1, 0x2961CB37]\<rparr>,
   \<lparr>aE = [0xA19EF549, 0xE7847250, 0x94B8F6C1, 0xDD56EA48, 0x9C0105B4, 0xF8815AEC, 0x916B15C7, 0x32138C48],
     aU = [0x6086DF92, 0x6742B67C, 0x8D75331F, 0x53193A71, 0xCA14E352, 0xADD356D1, 0xD7C9E88D, 0x07DF0CC5],
     aT = [0xB8594D9B, 0x5C9C41C3, 0xE6FADF0D, 0x643500CD, 0x03003B68, 0x0D31937E, 0x3766078D, 0x713B783B]\<rparr>,
   \<lparr>aE = [0xB299A5D0, 0x25F90BCE, 0x24E25FBE, 0x4FD5981D, 0xBEFEC84E, 0x83A3CE92, 0x6A90B198, 0x5C932978],
     aU = [0x51C4DF08, 0x7982C540, 0xEBBFE2BB, 0x476A1D01, 0x7E287D25, 0x3F6064CC, 0x0C17C457, 0x79E82E42],
     aT = [0xE8B54114, 0x8CE01EA2, 0xE2EF99F8, 0x73165189, 0x7B6F0AD1, 0x27984BF8, 0x70DAFA38, 0x1813C6ED]\<rparr>,
   \<lparr>aE = [0x0884167D, 0x7CAD3302, 0xCDDA791E, 0x383BFB84, 0x16879C64, 0x8D0D667D, 0xAEAFD937, 0x4515BBA1],
     aU = [0x13403E58, 0x00FF1286, 0x2D02F041, 0x854CBABF, 0x65593890, 0xB97069DD, 0x68B5A376, 0x3CC8BC31],
     aT = [0xF65D98BA, 0xC303EBB8, 0x5BEF4381, 0xF8F2F98E, 0x9FE2783E, 0x206DA25D, 0xD462C39D, 0x058DA5FE]\<rparr>,
   \<lparr>aE = [0x7FDDE52D, 0x7118E357, 0x6D616E5E, 0x4F20F40E, 0x4D7E5167, 0x68592F91, 0xD95C2805, 0x3E658213],
     aU = [0x6588D284, 0x3688782C, 0x163B51DB, 0xA50B5985, 0xF7311FA5, 0x23447D42, 0x5B751D79, 0x51CBB2B6],
     aT = [0xEB5BEC17, 0x877FB541, 0xD77A0305, 0xDC1EF290, 0x43025B6A, 0x15EB451E, 0x0CB85A8A, 0x60570F44]\<rparr>,
   \<lparr>aE = [0x45295FBE, 0xBF9758CD, 0xBE8D1017, 0x0DAC5E2E, 0x89E728B3, 0x3CA545A9, 0x1F644B88, 0x40255DC8],
     aU = [0x7A9FAA68, 0x6AF277E6, 0x9009703F, 0xFDEE555C, 0x8D5B502A, 0xAA36C89F, 0xAFC87131, 0x052051ED],
     aT = [0x86AAB04C, 0xDED77C44, 0x9AA3A8E1, 0x9B85D45C, 0xC4F2C4BA, 0x0F6D233D, 0x319D2237, 0x50C64067]\<rparr>,
   \<lparr>aE = [0x4910DE30, 0x13D6BB10, 0x76848E4E, 0x52126D43, 0x0130A4FF, 0x8E7CF5FB, 0xF7F8E0F4, 0x631EFE8E],
     aU = [0x08EB56DD, 0x86A494FC, 0xD62219A0, 0xF694DF6E, 0x22098B86, 0x214282B0, 0xA95620EB, 0x7182E92F],
     aT = [0xF4D51B6A, 0x8A96C7C2, 0xFBF79614, 0x6E06A2EF, 0x36FFDEC3, 0x2F8383D0, 0x275A04FE, 0x136A3753]\<rparr>,
   \<lparr>aE = [0x2F78D8DC, 0x71477471, 0x2A4254F0, 0x533027C6, 0x8C3DB802, 0xBF13A51C, 0xA671868A, 0x09C0518D],
     aU = [0xE71417FD, 0xD25E4076, 0xD617E037, 0xAE53B9A6, 0xBB08D620, 0xEDF6131A, 0x7206C6C4, 0x406E8857],
     aT = [0xE5261DBE, 0xA7B19AB7, 0x93780470, 0x5FD69501, 0xD3DDA8C2, 0x69CB583F, 0x106BD4A6, 0x7A35DA9A]\<rparr>,
   \<lparr>aE = [0x3E152D96, 0xB7E60EBD, 0x3CBC9CE8, 0x16B77AD0, 0xA8F300F7, 0xA8D3D5EB, 0x6203938C, 0x0DA857B8],
     aU = [0xD0781C73, 0x7D37BBB6, 0x82DAF6AB, 0x1ADF4CFE, 0xDFBA601C, 0x6CB90D1D, 0x3C090D35, 0x7B916A82],
     aT = [0x1875E47C, 0xFE1CAB3D, 0xE298321B, 0x75D85076, 0x623721E5, 0xAA62937A, 0xE382EC23, 0x78BE6830]\<rparr>]"

text \<open>Points \<open>i * 2^130 * G\<close> for \<open>i\<close> from 1 to 16.\<close>

definition point_win_base130 :: "point_affine list" where
  "point_win_base130 = [
   \<lparr>aE = [0xDE63606E, 0x869B548F, 0x9BE27159, 0x04DA93AE, 0xBC2E0657, 0x9FBB8D6B, 0x0E47A525, 0x06CB9DE7],
     aU = [0xCAF58BCB, 0x6A6F8767, 0xCD520CD9, 0xEF9A2E5A, 0xEE40437C, 0x2B998E19, 0xF3E02AB1, 0x1E3A7692],
     aT = [0xC50BD952, 0x12DCF83E, 0x82CB44C6, 0xC1FEC4C7, 0x2158E8D4, 0x2FCDD9E7, 0x46FAC0AE, 0x6383719F]\<rparr>,
   \<lparr>aE = [0x3D54F276, 0xB08E5A16, 0xADF1CAD3, 0x137941C5, 0x1B6AA715, 0xE12975DE, 0xE1492E65, 0x69E07759],
     aU = [0xC28259E8, 0x97643EA7, 0xA0416456, 0x64C33BBE, 0xAFFFBCEB, 0xAC5EBA85, 0x8936CEEA, 0x1DE0359F],
     aT = [0x1879EA59, 0xF32ACE06, 0xAB9427B0, 0xC8A5F632, 0xE081587F, 0xF83CBCAC, 0x87D69006, 0x3A18C765]\<rparr>,
   \<lparr>aE = [0x8C9DC498, 0xA6954493, 0x73152188, 0x9225D9C9, 0x85C3FC53, 0x7A630559, 0xA431B60A, 0x7F9D9B87],
     aU = [0x185A63C2, 0x4A8F6858, 0x105E6338, 0xC29D0227, 0x57313D72, 0x4FA122A3, 0x3C842009, 0x62BAF3EF],
     aT = [0x7B30E0BC, 0x18390845, 0x76EF453F, 0x799295C3, 0xAF33DE83, 0xC5FE42DE, 0x628B654A, 0x54C34BDF]\<rparr>,
   \<lparr>aE = [0xEC32F903, 0x607C64DA, 0xA9BA461C, 0x8777F23B, 0x92C3BE8D, 0x6E7804AC, 0x5F951D11, 0x180B366A],
     aU = [0xFFC35397, 0x17625F88, 0xDA783099, 0xEF697901, 0xEF458EDC, 0xDCCCD3E1, 0xCFBBEDE2, 0x37EDC360],
     aT = [0xA0B94FB0, 0x5F7FC0E7, 0x38D69625, 0x3E9CC116, 0x720B072F, 0x62C64632, 0x5D836913, 0x51589183]\<rparr>,
   \<lparr>aE = [0xCEA3BDDC, 0xB5DA3AAF, 0xAE7AD735, 0x75DE8E82, 0x5446291A, 0xA458CD16, 0x5A7FF671, 0x552022F7],
     aU = [0xE9EC95DF, 0x055D6CCD, 0xDFCADBF5, 0xEB86F24A, 0x9F7AE17C, 0x6DDAC4AB, 0x09ADD692, 0x282E2094],
     aT = [0x6B02F394, 0x60BA3A7F, 0x387EA15D, 0x5AF736BE, 0x3EC38691, 0x541CE0C5, 0x32FB79E4, 0x775F5966]\<rparr>,
   \<lparr>aE = [0xD222B565, 0x7C2346E4, 0x258AEB93, 0xA45999A2, 0x64D273CD, 0x66ECF438, 0xB5A5952D, 0x5EF32CC1],
     aU = [0xDCAD7528, 0xBA9DA77E, 0x892C93FF, 0xB6FA24A8, 0xFA1ACD6B, 0xF406AD1F, 0x131E195C, 0x7E4F46D5],
     aT = [0xEA698452, 0x85A61A2D, 0xB9C3F150, 0xEB5AD1F6, 0x89B1BA23, 0xA68B3F01, 0xCA2FEDC4, 0x3306A93B]\<rparr>,
   \<lparr>aE = [0x988BD912, 0x70FD1203, 0x5FC76584, 0xE9BDF6AD, 0xDB704F5D, 0x5E05B4C4, 0x189FDCFE, 0x4830813F],
     aU = [0xEBEF1413, 0x9E343B6F, 0xB7F95D67, 0xC1293137, 0x05CA0B5B, 0x6FB5672D, 0x2AEC172D, 0x37223948],
     aT = [0x28A8DD36, 0xEDC0FD96, 0x89BAA4F4, 0xF796A60E, 0xCF12747E, 0x21A50BBD, 0xCED8D90B, 0x35266C9A]\<rparr>,
   \<lparr>aE = [0xD1F7E9CE, 0x68EE4317, 0xC8731082, 0x27214239, 0x24ED9795, 0x5D86EBC5, 0x4D486C20, 0x303B08CF],
     aU = [0xEA446499, 0x21232B19, 0xEDDC580B, 0x0F110F3B, 0x7F928B59, 0x7BFEE516, 0xC48289F4, 0x4E1CF6CC],
     aT = [0x04969A8C, 0x1768F10E, 0x60B519A9, 0x0834BAF8, 0xCEC7737D, 0x94AAE19E, 0xB5360B34, 0x1DFD019E]\<rparr>,
   \<lparr>aE = [0x454A9789, 0xFA3E5E1F, 0xCE8DDF8F, 0x9259F250, 0x2FBB9A1B, 0x2830FF4E, 0xF57EA2FC, 0x4262554C],
     aU = [0xA28FF940, 0xFFFA0532, 0xE791A9D0, 0x06134380, 0x934E696A, 0x24120A75, 0x2C83BC57, 0x6F671B02],
     aT = [0x9180368F, 0x0BE5ED63, 0xF6E447C2, 0xBB03E3FD, 0x83E29BB6, 0x4CA31E3B, 0x35166005, 0x03BBDFC6]\<rparr>,
   \<lparr>aE = [0xE93AA158, 0xE1B24ECC, 0x3202BCE6, 0xBC5D29A7, 0xA4D753B1, 0x2970E4C0, 0x18E51DF5, 0x776F6C1C],
     aU = [0x3B071E37, 0x0EE1B500, 0x8D80BCA7, 0x3EC32044, 0x5EC7534A, 0x108D5A1C, 0xEBA1A511, 0x64ECAAC0],
     aT = [0x1535C514, 0x10E50013, 0x6D74A32A, 0xD00F9D21, 0xA13E6050, 0x8C125FB0, 0xA3AC991A, 0x4BC50BF7]\<rparr>,
   \<lparr>aE = [0x3EB40DBD, 0x10DC6E26, 0x1F4F95D8, 0x31DC4E88, 0x5D45B50A, 0x2C33E16E, 0x2A3899E8, 0x3622E7BF],
     aU = [0xD4AB70A1, 0x6CC3477A, 0x712BA4D4, 0x0BC92225, 0x4564D8F4, 0xD51C733D, 0x599B372A, 0x029CAFA5],
     aT = [0x6518ADF3, 0x3D63011A, 0x816D4B31, 0x84FD6E87, 0x67CD8FA6, 0x396102BA, 0xE547B2AD, 0x30F0D235]\<rparr>,
   \<lparr>aE = [0x82E719F6, 0x54246632, 0x779DEFF8, 0xB3E38AE4, 0x3EE0C99A, 0x3F2A874D, 0x8561373F, 0x70F7A39B],
     aU = [0xB7854025, 0xCB9E1D5C, 0xC064493E, 0x960067A5, 0xA91ED717, 0x41F420B5, 0x7E661D8D, 0x6E81F9FA],
     aT = [0xD1B3FF89, 0x96737B3B, 0x8B260B44, 0xFA5B9975, 0xD5EB0507, 0x4E40C5DC, 0xE37DDC45, 0x797141D1]\<rparr>,
   \<lparr>aE = [0xDE84F742, 0x3A2AA626, 0xE24C4D0F, 0xC52014D6, 0x665947AC, 0x87620DD6, 0x38239FA8, 0x4489AC65],
     aU = [0xE489DDB8, 0x1A722773, 0x3D4AABD6, 0xF9498389, 0xBB3DFDCC, 0x59F3D4C5, 0xD2801E6A, 0x653EE371],
     aT = [0x108032A6, 0xA14B344A, 0x99975786, 0x336E96DD, 0x6ED6198C, 0x3AF72BF1, 0x23DFA5BC, 0x6E8DE137]\<rparr>,
   \<lparr>aE = [0x21EA7956, 0x5BDDDC01, 0xEE996605, 0x30C254D3, 0xBE2A729B, 0xE23DA12D, 0xD7B177EE, 0x0698AEC8],
     aU = [0x09693F50, 0x460E164D, 0x44D22EC2, 0x96FABF77, 0x595E868E, 0x216A1928, 0xAC402680, 0x50E1BEE9],
     aT = [0x5FE17CBC, 0x2EA3B442, 0x8227BB81, 0x3076D3BE, 0x99779B03, 0x73999AF9, 0x287FBDD0, 0x52BC8B51]\<rparr>,
   \<lparr>aE = [0x33632097, 0x4DE169D2, 0x2711C087, 0x7269B654, 0x544AC635, 0xC7562833, 0x09C7A4DA, 0x67C8ED8C],
     aU = [0x64C6EE61, 0x442C914C, 0xAA3D41CD, 0x5486463A, 0x744FB271, 0x2323BA05, 0xB63D2983, 0x5CE94782],
     aT = [0x41CFEA05, 0x5E85E0F8, 0xC8449D15, 0xFE575987, 0x40C3632A, 0x4B8F046B, 0xC85A090C, 0x79B75334]\<rparr>,
   \<lparr>aE = [0x45B50B50, 0xA1638BEC, 0x669E52E3, 0xB956B5A6, 0x6F53165A, 0xAFF58E0E, 0xEDB8A088, 0x5F00BEB6],
     aU = [0x560BD063, 0x20DDE2D9, 0x9386B815, 0x68337F97, 0xB5F9B94C, 0x9CAE33A6, 0x8B17674E, 0x0F2ED841],
     aT = [0x8690FF50, 0x42082E61, 0x5901899E, 0x3721E53E, 0x342DE052, 0xBB88653D, 0xCF10FA1C, 0x2EED8F30]\<rparr>]"

text \<open>Points \<open>i * 2^195 * G\<close> for \<open>i\<close> from 1 to 16.\<close>

definition point_win_base195 :: "point_affine list" where
  "point_win_base195 = [
   \<lparr>aE = [0x2FD3D48B, 0x259381D5, 0xCA5B1805, 0x05A13379, 0x83A60AC4, 0x4F9CCA64, 0x2FF7C515, 0x26FE2B2D],
     aU = [0x864B8022, 0xC6C4EA52, 0x27F2FE05, 0x3FACF030, 0xAFE0F2B2, 0x5A78F8FD, 0x2117A352, 0x7A205868],
     aT = [0xF869915D, 0x827479FB, 0x2A0FAC70, 0xD2369B35, 0xAA299C4A, 0x759EDBD5, 0x3C1C85C0, 0x6CF49CB7]\<rparr>,
   \<lparr>aE = [0xF6BA6D06, 0xBEA01D24, 0x8F9811D4, 0x2F4C099F, 0x3EE54433, 0xFEFB9425, 0x3F986A71, 0x26E11FA3],
     aU = [0xFDCCE69F, 0xE7A9C455, 0x23C52866, 0xB043C24E, 0x3179B032, 0xCBC1DD8A, 0x4E366C38, 0x597FE7EC],
     aT = [0x28BB5A33, 0xF41D8A29, 0xD79CEDB6, 0xB52F9C48, 0x62DF9B38, 0x31EC395A, 0x2AECDB76, 0x5D82A362]\<rparr>,
   \<lparr>aE = [0x90F2D551, 0x9902C1E0, 0xA8811C74, 0xE3C20E9F, 0xB83A88A9, 0x5D9FD304, 0x152AC3D0, 0x7A97A73E],
     aU = [0x782AD7E7, 0xEBF1C192, 0x0228990B, 0xDAC867CE, 0x39C2A9BB, 0xB0C0AEB8, 0x2E3222F2, 0x5D529C2B],
     aT = [0x8F1AE0C2, 0xDF8E6392, 0x0BB45ACF, 0x8692B805, 0xE7017825, 0x4CC66CF8, 0x70747870, 0x25F396E8]\<rparr>,
   \<lparr>aE = [0xD9017500, 0x825E9E80, 0xC34493C0, 0x532E7F73, 0x55EB285B, 0x23A615DE, 0x6278C4C5, 0x68BEB6AD],
     aU = [0x050CE7CF, 0xE5AD1FDA, 0x398FE9E2, 0xD5179DCB, 0xA2B23DE9, 0x880F0F9C, 0x7C583AB6, 0x73E9DA1D],
     aT = [0x161AD03A, 0x1BED8C4A, 0x631A3736, 0x56A385AC, 0xE2FDED3F, 0x55CA5A73, 0x5751514B, 0x2F2A1084]\<rparr>,
   \<lparr>aE = [0xA10674B8, 0xEF721415, 0x520B23D9, 0x39A98FB9, 0x3583A50F, 0xDD94B182, 0x359D5D64, 0x1A980F7E],
     aU = [0xCED00FE0, 0x81533FD0, 0x457375B0, 0x2B41B323, 0x0B0B6412, 0x3428954D, 0x656FCDE7, 0x3FB05C6B],
     aT = [0xCD1FF35F, 0xD6A2CFBE, 0x3E59FA2B, 0x3EB933A6, 0xD6CF146F, 0x0156D1B1, 0x53FBE8B0, 0x1FA8E207]\<rparr>,
   \<lparr>aE = [0x0A7FA85F, 0xC3201380, 0xA647E0CA, 0xCE6BBA92, 0xC1969616, 0xD1328954, 0xD146C39F, 0x53505DC8],
     aU = [0xAA4DEFF3, 0xABECE8DE, 0x70FF8BED, 0xA6B25F53, 0x8B95875D, 0xC70C1F01, 0x80019FB8, 0x1EEE7F43],
     aT = [0xCC1E0562, 0xCC3FC741, 0x42B13EF8, 0x93B664F2, 0x16798EB4, 0x5D617DE8, 0x3CAC8CA8, 0x35C68ADE]\<rparr>,
   \<lparr>aE = [0x7745E14A, 0x293F3FD5, 0xEE207D6F, 0x023E52D8, 0xA7918F82, 0xC95A3B2F, 0x3594BCCC, 0x203E41FE],
     aU = [0xCE5A6CD2, 0xC2513D53, 0x4C9ADB58, 0x8AF5B5BD, 0x56292D78, 0xDF748C18, 0xC147EB47, 0x1C54D437],
     aT = [0xA5ABCB56, 0x02C3EA61, 0xBA7BA956, 0xB56CC897, 0x80AA5525, 0xB8E346F8, 0x7F925E67, 0x791ECB5E]\<rparr>,
   \<lparr>aE = [0x67A86CB5, 0x9E436CB7, 0xF1F6D3FE, 0x9EAB45BE, 0xE4A81FA1, 0xA2654498, 0xB7FBF10D, 0x5A50303B],
     aU = [0xA4853698, 0x961441BF, 0x425429D3, 0x76396E28, 0x49399AB4, 0x23187D9C, 0x1C754A72, 0x47EC8934],
     aT = [0x6AF04917, 0xB5B36F77, 0x8CDEC91B, 0x4E7E5985, 0x56A70427, 0x47DBD9D7, 0xB2E0E163, 0x00D090A5]\<rparr>,
   \<lparr>aE = [0x3B6C3E84, 0x1390F65E, 0xE8EDE015, 0xD1492FB1, 0xF4D52DD6, 0x3ADC11E0, 0x1EF8D7C0, 0x4E1EFB69],
     aU = [0x56DA5EBB, 0x790DDCB6, 0x8A6C1157, 0x899CA30F, 0xE160FF52, 0xB055E943, 0xE97A3F02, 0x0C4E4B67],
     aT = [0x421C783F, 0xE665E42E, 0x6D8BF1FD, 0x90F6162E, 0x5667BD29, 0x0E7DEA66, 0xBCA04267, 0x5C4551BB]\<rparr>,
   \<lparr>aE = [0x76E757EA, 0x28CA2A1B, 0xB218D2B4, 0x82E93F7D, 0x5317BE46, 0x433AC8B1, 0xBEFBB5CF, 0x0BBAE0E5],
     aU = [0x04D1F6B9, 0x7CBAD6A2, 0x999A4399, 0xEB725D50, 0x104B0670, 0x7C80807D, 0x5DF07889, 0x44B8942C],
     aT = [0x6D315D12, 0x617C6A39, 0x86404CA2, 0x4555C3E7, 0x9819C28B, 0x4584662C, 0x144BDDCC, 0x3B052B97]\<rparr>,
   \<lparr>aE = [0x7FFDE613, 0x0D101C91, 0x631EC7C4, 0x200EE9E2, 0xA8A29B73, 0xD28F560E, 0xE40BF4D0, 0x2CCB2CF7],
     aU = [0x6E7DF796, 0x30FE9671, 0x9A98317F, 0xB6A21496, 0x7543C3F6, 0xEB5423DB, 0xD475BB65, 0x7DD81F0A],
     aT = [0x5FC133E0, 0x6E9D90B8, 0x4652F82F, 0x4ED76031, 0x89A2673B, 0x76EEE284, 0x851B3032, 0x69561B43]\<rparr>,
   \<lparr>aE = [0xB1499911, 0x50C89E4A, 0x513DFDB2, 0xA66737D8, 0x3EE958E7, 0xB3A61F72, 0x27D42687, 0x2DFA0BA1],
     aU = [0x4BB15593, 0x041881DC, 0x90F070A8, 0x06206286, 0xA6239BFD, 0xF6647FFF, 0xE0A8E484, 0x60406418],
     aT = [0xCF384958, 0xB186E710, 0x53A27045, 0xCC5BCAEE, 0x0823ABA8, 0x5F7FF4B1, 0x24508710, 0x3C01E53D]\<rparr>,
   \<lparr>aE = [0x4921B43D, 0xA5498175, 0x169BCBD8, 0x039A3283, 0xF7E6E8DA, 0x16210166, 0x2C1C58B5, 0x0B005155],
     aU = [0xE250DF40, 0x02A5C58C, 0x60313C1E, 0x80A9A629, 0xA9A286D9, 0xEDC81102, 0x0E5DE932, 0x03C8B061],
     aT = [0x329A1F5C, 0x9B656127, 0x90853286, 0x7F61E2E1, 0x901D370E, 0x220189A7, 0xE72A0992, 0x5C2FDF1B]\<rparr>,
   \<lparr>aE = [0x45249491, 0x1725A4D4, 0xD83A2644, 0x117438E7, 0x06740CDF, 0xB7E063EA, 0x9D2BB8D8, 0x6021348E],
     aU = [0x188EE74D, 0x2359C265, 0xDB7611FC, 0x3498D65B, 0x286A6BD1, 0x97D9FFD6, 0x4E36165F, 0x63F77522],
     aT = [0x5B583047, 0xD5B3AA1D, 0x7FE06CED, 0xA3107630, 0xA98D71BD, 0x6492A9AF, 0xB782F441, 0x534AFBC1]\<rparr>,
   \<lparr>aE = [0x1937FD6E, 0x66C6224B, 0xA12C63DB, 0x07778715, 0xB3E6947A, 0xD35D4667, 0x27D08486, 0x6C435D4A],
     aU = [0xD34FC573, 0x14BD04EF, 0x7B42BEA3, 0x58F89E26, 0x083CC9BF, 0xDD4D47FA, 0x8DA29629, 0x5C69FCC3],
     aT = [0x623C4605, 0x98A6F2B6, 0xDD9551F4, 0x4F944F4C, 0xD1C9E81B, 0x5A90BF07, 0x6A326820, 0x0B9C0955]\<rparr>,
   \<lparr>aE = [0x173AD989, 0xF4448E39, 0xAC6C7FE8, 0xB4BD88C5, 0xC5C899F0, 0x6217606A, 0x2CBA888E, 0x4DA95AF1],
     aU = [0x81B3D10D, 0x805E0284, 0x39FCEFCB, 0x3E6A069F, 0x7FED771B, 0xDA636B90, 0xB675A4E1, 0x162581D9],
     aT = [0x02F702CE, 0x52668A89, 0x39061B8D, 0x44FDFE7C, 0x252FD554, 0xEEAA462F, 0xB083E563, 0x02FA9D8F]\<rparr>]"

definition point_of_affine :: "point_affine \<Rightarrow> point" where
  "point_of_affine qa = \<lparr>E = aE qa, Z = gf_one, U = aU qa, T = aT qa\<rparr>"

definition point_mulgen_step :: "u8 list \<Rightarrow> point \<Rightarrow> nat \<Rightarrow> point" where
  "point_mulgen_step sd p i =
     (let p = point_xdouble p 5;
          p = point_add_affine p (point_affine_lookup point_win_base (sd ! i));
          p = point_add_affine p (point_affine_lookup point_win_base65 (sd ! (i + 13)));
          p = point_add_affine p (point_affine_lookup point_win_base130 (sd ! (i + 26)))
      in point_add_affine p (point_affine_lookup point_win_base195 (sd ! (i + 39))))"

definition point_mulgen :: "scalar \<Rightarrow> point" where
  "point_mulgen s =
     (let sd = scalar_recode s;
          p = point_of_affine (point_affine_lookup point_win_base (sd ! 12));
          p = point_add_affine p (point_affine_lookup point_win_base65 (sd ! 25));
          p = point_add_affine p (point_affine_lookup point_win_base130 (sd ! 38))
      in foldl (point_mulgen_step sd) p (rev [0..<12]))"

text \<open>
  \<^verbatim>\<open>point_mul128_add_mulgen_vartime\<close>: the wNAF window \<open>win[i] = (2 i + 1) * P1\<close>, and
  the body of the main loop. The state is the flag \<open>zz\<close>, the number \<open>ndbl\<close> of
  pending doublings and the accumulator \<open>p2\<close>; the digits are read as \<^verbatim>\<open>int\<close>.
\<close>

definition vartime_window :: "point \<Rightarrow> point list" where
  "vartime_window p1 =
     (let w0 = point_double p1;
          w1 = point_add w0 p1;
          win = foldl (\<lambda>w i. w @ [point_add (w ! (i - 1)) w0]) [w0, w1] [2..<8]
      in win[0 := p1])"

definition vartime_step ::
  "point list \<Rightarrow> u8 list \<Rightarrow> u8 list \<Rightarrow> bool \<times> nat \<times> point \<Rightarrow> nat \<Rightarrow> bool \<times> nat \<times> point" where
  "vartime_step win sdu sdv st i = (case st of (zz, ndbl, p2) \<Rightarrow>
     let ndbl = ndbl + 1;
         eu = sint (sdu ! i);
         ev0 = sint (sdv ! i);
         ev1 = (if i < 126 then sint (sdv ! (i + 130)) else 0)
     in if eu = 0 \<and> ev0 = 0 \<and> ev1 = 0 then (zz, ndbl, p2)
        else
          let p2 = (if zz then point_neutral else point_xdouble p2 ndbl);
              p2 = (if eu \<noteq> 0 then
                      (if eu > 0 then point_add p2 (win ! nat (eu div 2))
                       else point_sub p2 (win ! nat ((- eu) div 2)))
                    else p2);
              p2 = (if ev0 \<noteq> 0 then
                      (if ev0 > 0 then point_add_affine p2 (point_win_base ! nat (ev0 - 1))
                       else point_sub_affine p2 (point_win_base ! nat (- ev0 - 1)))
                    else p2);
              p2 = (if ev1 \<noteq> 0 then
                      (if ev1 > 0 then point_add_affine p2 (point_win_base130 ! nat (ev1 - 1))
                       else point_sub_affine p2 (point_win_base130 ! nat (- ev1 - 1)))
                    else p2)
          in (False, 0, p2))"

text \<open>The argument \<open>p2\<close> is the content of the output slot before the call.\<close>

definition point_mul128_add_mulgen_vartime :: "point \<Rightarrow> point \<Rightarrow> u32 list \<Rightarrow> scalar \<Rightarrow> point" where
  "point_mul128_add_mulgen_vartime p2 p1 u v =
     (let win = vartime_window p1;
          sdu = uint_recode_wNAF 130 (take 4 u);
          sdv = scalar_recode_wNAF v
      in case foldl (vartime_step win sdu sdv) (True, 0, p2) (rev [0..<130]) of
           (zz, ndbl, p) \<Rightarrow> if zz then point_neutral else point_xdouble p ndbl)"

section \<open>BLAKE2s (portable implementation)\<close>

definition IV :: "u32 list" where
  "IV = [0x6A09E667, 0xBB67AE85, 0x3C6EF372, 0xA54FF53A,
         0x510E527F, 0x9B05688C, 0x1F83D9AB, 0x5BE0CD19]"

definition ROR :: "u32 \<Rightarrow> nat \<Rightarrow> u32" where
  "ROR x n = push_bit (32 - n) x OR drop_bit n x"

definition G :: "nat \<Rightarrow> nat \<Rightarrow> nat \<Rightarrow> nat \<Rightarrow> u32 \<Rightarrow> u32 \<Rightarrow> u32 list \<Rightarrow> u32 list" where
  "G a b c d x y v =
     (let va = v ! a + (v ! b + x);
          vd = ROR (v ! d XOR va) 16;
          vc = v ! c + vd;
          vb = ROR (v ! b XOR vc) 12;
          va = va + (vb + y);
          vd = ROR (vd XOR va) 8;
          vc = vc + vd;
          vb = ROR (vb XOR vc) 7
      in v[a := va, b := vb, c := vc, d := vd])"

definition ROUND :: "u32 list \<Rightarrow> nat list \<Rightarrow> u32 list \<Rightarrow> u32 list" where
  "ROUND m s v =
     (let v = G 0 4 8 12 (m ! (s ! 0)) (m ! (s ! 1)) v;
          v = G 1 5 9 13 (m ! (s ! 2)) (m ! (s ! 3)) v;
          v = G 2 6 10 14 (m ! (s ! 4)) (m ! (s ! 5)) v;
          v = G 3 7 11 15 (m ! (s ! 6)) (m ! (s ! 7)) v;
          v = G 0 5 10 15 (m ! (s ! 8)) (m ! (s ! 9)) v;
          v = G 1 6 11 12 (m ! (s ! 10)) (m ! (s ! 11)) v;
          v = G 2 7 8 13 (m ! (s ! 12)) (m ! (s ! 13)) v
      in G 3 4 9 14 (m ! (s ! 14)) (m ! (s ! 15)) v)"

definition blake2s_sigma :: "nat list list" where
  "blake2s_sigma = [
     [ 0,  1,  2,  3,  4,  5,  6,  7,  8,  9, 10, 11, 12, 13, 14, 15],
     [14, 10,  4,  8,  9, 15, 13,  6,  1, 12,  0,  2, 11,  7,  5,  3],
     [11,  8, 12,  0,  5,  2, 15, 13, 10, 14,  3,  6,  7,  1,  9,  4],
     [ 7,  9,  3,  1, 13, 12, 11, 14,  2,  6,  5, 10,  4,  0, 15,  8],
     [ 9,  0,  5,  7,  2,  4, 10, 15, 14,  1, 11, 12,  6,  8,  3, 13],
     [ 2, 12,  6, 10,  0, 11,  8,  3,  4, 13,  7,  5, 15, 14,  1,  9],
     [12,  5,  1, 15, 14, 13,  4, 10,  0,  7,  6,  3,  9,  2,  8, 11],
     [13, 11,  7, 14, 12,  1,  3,  9,  5,  0, 15,  4,  8,  6,  2, 10],
     [ 6, 15, 14,  9, 11,  3,  0,  8, 12,  2, 13,  7,  1,  4, 10,  5],
     [10,  2,  8,  4,  7,  6,  1,  5, 15, 11,  9, 14,  3, 12, 13,  0]]"

text \<open>\<^verbatim>\<open>process_block(h, data, t, f)\<close> returns the new \<open>h\<close>.\<close>

definition process_block :: "u32 list \<Rightarrow> u8 list \<Rightarrow> u64 \<Rightarrow> bool \<Rightarrow> u32 list" where
  "process_block h data t f =
     (let v = take 8 h @ IV;
          v = v[12 := v ! 12 XOR ucast t];
          v = v[13 := v ! 13 XOR ucast (drop_bit 32 t)];
          v = (if f then v[14 := NOT (v ! 14)] else v);
          m = dec32le_limbs 16 data;
          v = foldl (\<lambda>v s. ROUND m s v) v blake2s_sigma
      in map (\<lambda>i. h ! i XOR (v ! i XOR v ! (i + 8))) [0..<8])"

record blake2s_context =
  buf :: "u8 list"
  h :: "u32 list"
  ctr :: u64
  out_len :: nat

text \<open>
  \<^verbatim>\<open>blake2s_init\<close> leaves \<^verbatim>\<open>buf\<close> as it is; no byte of it is read before it has been
  written, and the model starts from a zeroed buffer.
\<close>

definition blake2s_init :: "nat \<Rightarrow> blake2s_context" where
  "blake2s_init n =
     \<lparr>buf = replicate 64 0, h = IV[0 := IV ! 0 XOR (0x01010000 XOR of_nat n)],
      ctr = 0, out_len = n\<rparr>"

text \<open>
  The loop \<^verbatim>\<open>while (len > sizeof bc->buf)\<close> of \<^verbatim>\<open>blake2s_update\<close>; it returns \<open>h\<close>,
  \<open>ctr\<close> and the data left.
\<close>

function update_blocks :: "u32 list \<Rightarrow> u64 \<Rightarrow> u8 list \<Rightarrow> u32 list \<times> u64 \<times> u8 list" where
  "update_blocks hh c data =
     (if length data > 64
      then update_blocks (process_block hh (take 64 data) (c + 64) False) (c + 64) (drop 64 data)
      else (hh, c, data))"
  by pat_completeness auto
termination
  by (relation "measure (\<lambda>(hh, c, data). length data)") auto

declare update_blocks.simps [simp del]

definition blake2s_update :: "blake2s_context \<Rightarrow> u8 list \<Rightarrow> blake2s_context" where
  "blake2s_update bc data =
     (if length data = 0 then bc
      else
        let c = ctr bc;
            p = unat (c AND 63)
        in if (c = 0 \<or> p \<noteq> 0) \<and> 64 - p \<ge> length data
           then bc\<lparr>buf := take p (buf bc) @ data @ drop (p + length data) (buf bc),
                   ctr := c + of_nat (length data)\<rparr>
           else
             let clen = (if c = 0 \<or> p \<noteq> 0 then 64 - p else 0);
                 b = take p (buf bc) @ take clen data @ drop (p + clen) (buf bc);
                 c = c + of_nat clen;
                 data = drop clen data;
                 hh = process_block (h bc) b c False;
                 r = update_blocks hh c data;
                 rest = snd (snd r)
             in bc\<lparr>buf := rest @ drop (length rest) b, h := fst r,
                     ctr := fst (snd r) + of_nat (length rest)\<rparr>)"

definition blake2s_final :: "blake2s_context \<Rightarrow> u8 list" where
  "blake2s_final bc =
     (let p = unat (ctr bc AND 63);
          b = (if ctr bc = 0 \<or> p \<noteq> 0 then take p (buf bc) @ replicate (64 - p) 0 else buf bc);
          hh = process_block (h bc) b (ctr bc) True
      in take (out_len bc) (enc32le_limbs hh))"

section \<open>Keys, signatures and key exchange\<close>

text \<open>
  A private key is a scalar; a public key is a point followed by its 32-byte encoding.
\<close>

type_synonym jq_private_key = scalar

record jq_public_key =
  pk_point :: point
  pk_enc :: "u8 list"

record jq_keypair =
  private_key :: jq_private_key
  public_key :: jq_public_key

definition jq_generate_private_key :: "u8 list \<Rightarrow> jq_private_key" where
  "jq_generate_private_key seed =
     (let tmp = blake2s_final (blake2s_update (blake2s_init 32) seed);
          s = scalar_decode_reduce tmp
      in scalar_select s scalar_one (scalar_is_zero s))"

definition jq_make_public :: "jq_private_key \<Rightarrow> jq_public_key" where
  "jq_make_public sk = (let p = point_mulgen sk in \<lparr>pk_point = p, pk_enc = point_encode p\<rparr>)"

definition jq_generate_keypair :: "u8 list \<Rightarrow> jq_keypair" where
  "jq_generate_keypair seed =
     (let sk = jq_generate_private_key seed
      in \<lparr>private_key = sk, public_key = jq_make_public sk\<rparr>)"

definition jq_decode_private_key :: "u8 list \<Rightarrow> int \<times> jq_private_key" where
  "jq_decode_private_key src =
     (if length src \<noteq> 32 then (0, scalar_zero)
      else
        let ds = scalar_decode src;
            r = fst ds AND NOT (scalar_is_zero (snd ds))
        in (sint (r AND 1), snd ds))"

definition jq_decode_public_key :: "u8 list \<Rightarrow> int \<times> jq_public_key" where
  "jq_decode_public_key src =
     (if length src \<noteq> 32 then (0, \<lparr>pk_point = point_neutral, pk_enc = replicate 32 0\<rparr>)
      else
        let dp = point_decode src;
            r = fst dp AND NOT (point_is_neutral (snd dp))
        in (sint (r AND 1), \<lparr>pk_point = snd dp, pk_enc = src\<rparr>))"

definition jq_decode_keypair :: "u8 list \<Rightarrow> int \<times> jq_keypair" where
  "jq_decode_keypair src =
     (if length src \<noteq> 64
      then (0, \<lparr>private_key = scalar_zero,
                public_key = \<lparr>pk_point = point_neutral, pk_enc = replicate 32 0\<rparr>\<rparr>)
      else
        let ds = scalar_decode (take 32 src);
            r = fst ds AND NOT (scalar_is_zero (snd ds));
            dp = point_decode (drop 32 src);
            r = r AND fst dp;
            r = r AND NOT (point_is_neutral (snd dp))
        in (sint (r AND 1),
            \<lparr>private_key = scalar_select scalar_zero (snd ds) r,
             public_key = \<lparr>pk_point = point_select point_neutral (snd dp) r,
                           pk_enc = drop 32 src\<rparr>\<rparr>))"

definition jq_encode_private_key :: "jq_private_key \<Rightarrow> u8 list \<times> nat" where
  "jq_encode_private_key sk = (scalar_encode sk, 32)"

definition jq_encode_public_key :: "jq_public_key \<Rightarrow> u8 list \<times> nat" where
  "jq_encode_public_key pk =
     (let r = NOT (point_is_neutral (pk_point pk))
      in (map (\<lambda>t. ucast ((ucast t :: u32) AND r)) (take 32 (pk_enc pk)), 32))"

definition jq_encode_keypair :: "jq_keypair \<Rightarrow> u8 list \<times> nat" where
  "jq_encode_keypair jk =
     (fst (jq_encode_private_key (private_key jk)) @ fst (jq_encode_public_key (public_key jk)), 64)"

text \<open>
  A \<^verbatim>\<open>const char *hash_name\<close> is \<open>None\<close> when it is \<^verbatim>\<open>NULL\<close>, and otherwise the bytes
  it points to; the string stops before the first zero byte.
\<close>

definition cstr :: "u8 list \<Rightarrow> u8 list" where
  "cstr s = takeWhile (\<lambda>c. c \<noteq> 0) s"

text \<open>
  The domain part common to \<^verbatim>\<open>make_sign_k\<close> and \<^verbatim>\<open>make_challenge\<close>: byte \<^verbatim>\<open>0x52\<close> in raw
  mode, else byte \<^verbatim>\<open>0x48\<close> and the hash name with its terminating zero.
\<close>

definition update_hash_name :: "blake2s_context \<Rightarrow> u8 list option \<Rightarrow> blake2s_context" where
  "update_hash_name bc hash_name =
     (case hash_name of
        None \<Rightarrow> blake2s_update bc [0x52]
      | Some s \<Rightarrow>
          if cstr s = [] then blake2s_update bc [0x52]
          else blake2s_update (blake2s_update bc [0x48]) (cstr s @ [0]))"

definition make_sign_k ::
  "scalar \<Rightarrow> u8 list \<Rightarrow> u8 list option \<Rightarrow> u8 list \<Rightarrow> u8 list \<Rightarrow> scalar" where
  "make_sign_k sec epub hash_name hv seed =
     (let bc = blake2s_init 32;
          bc = blake2s_update bc (scalar_encode sec);
          bc = blake2s_update bc (take 32 epub);
          sl = (of_nat (length seed) :: u64);
          bc = blake2s_update bc (map (\<lambda>i. ucast (drop_bit (8 * i) sl)) [0..<8]);
          bc = blake2s_update bc seed;
          bc = update_hash_name bc hash_name;
          bc = blake2s_update bc hv
      in scalar_decode_reduce (blake2s_final bc))"

definition make_challenge :: "point \<Rightarrow> u8 list \<Rightarrow> u8 list option \<Rightarrow> u8 list \<Rightarrow> u8 list" where
  "make_challenge r epub hash_name hv =
     (let bc = blake2s_init 32;
          bc = blake2s_update bc (point_encode r);
          bc = blake2s_update bc (take 32 epub);
          bc = update_hash_name bc hash_name;
          bc = blake2s_update bc hv
      in take 16 (blake2s_final bc))"

text \<open>\<^verbatim>\<open>jq_sign_seeded\<close> returns the signature and its length.\<close>

definition jq_sign_seeded ::
  "jq_keypair \<Rightarrow> u8 list option \<Rightarrow> u8 list \<Rightarrow> u8 list \<Rightarrow> u8 list \<times> nat" where
  "jq_sign_seeded jk hash_name hv seed =
     (let sec = private_key jk;
          epub = pk_enc (public_key jk);
          k = make_sign_k sec epub hash_name hv seed;
          r = point_mulgen k;
          tmp = make_challenge r epub hash_name hv;
          s = scalar_decode_reduce tmp;
          s = scalar_mul s sec;
          s = scalar_add s k
      in (tmp @ scalar_encode s, 48))"

definition jq_sign :: "jq_keypair \<Rightarrow> u8 list option \<Rightarrow> u8 list \<Rightarrow> u8 list \<times> nat" where
  "jq_sign jk hash_name hv = jq_sign_seeded jk hash_name hv []"

definition jq_verify :: "u8 list \<Rightarrow> jq_public_key \<Rightarrow> u8 list option \<Rightarrow> u8 list \<Rightarrow> int" where
  "jq_verify sig pk hash_name hv =
     (if length sig \<noteq> 48 then 0
      else
        let p = pk_point pk;
            epub = pk_enc pk
        in if point_is_neutral p \<noteq> 0 then 0
           else
             let ds = scalar_decode (drop 16 sig)
             in if fst ds = 0 then 0
                else
                  let c = dec32le_limbs 4 sig;
                      p = point_neg p;
                      p = point_mul128_add_mulgen_vartime p p c (snd ds);
                      tmp = make_challenge p epub hash_name hv
                  in if tmp = take 16 sig then 1 else 0)"

text \<open>
  \<^verbatim>\<open>jq_ECDH\<close>: the flag \<open>bad\<close>, the shared secret that is hashed, the two encoded
  public keys in lexicographic order, and the domain byte.
\<close>

definition ecdh_bad :: "jq_public_key \<Rightarrow> u32" where
  "ecdh_bad pk_peer = point_is_neutral (pk_point pk_peer)"

definition ecdh_shared :: "jq_keypair \<Rightarrow> jq_public_key \<Rightarrow> u8 list" where
  "ecdh_shared jk_self pk_peer =
     (let bad = ecdh_bad pk_peer;
          s = private_key jk_self;
          shared = point_encode (point_mul (pk_point pk_peer) s);
          tmp = scalar_encode s
      in map2 (\<lambda>sh t. sh XOR ucast (bad AND ucast (sh XOR t))) shared tmp)"

definition ecdh_order :: "u8 list \<Rightarrow> u8 list \<Rightarrow> u8 list" where
  "ecdh_order epub_self epub_peer =
     (let cc = foldl (\<lambda>cc i. drop_bit 31 ((ucast (epub_self ! i) :: u32) - ucast (epub_peer ! i) - cc))
                 0 (rev [0..<32]);
          z1 = - cc;
          z2 = NOT z1
      in map (\<lambda>i. ucast (((ucast (epub_self ! i) :: u32) AND z1) OR (ucast (epub_peer ! i) AND z2)))
           [0..<32]
         @ map (\<lambda>i. ucast (((ucast (epub_self ! i) :: u32) AND z2) OR (ucast (epub_peer ! i) AND z1)))
             [0..<32])"

definition ecdh_domain :: "jq_public_key \<Rightarrow> u8" where
  "ecdh_domain pk_peer = ucast (0x53 - (ecdh_bad pk_peer AND (0x53 - 0x46)))"

text \<open>\<^verbatim>\<open>jq_ECDH\<close> returns the shared key and the status.\<close>

definition jq_ECDH :: "jq_keypair \<Rightarrow> jq_public_key \<Rightarrow> u8 list \<times> int" where
  "jq_ECDH jk_self pk_peer =
     (let bad = ecdh_bad pk_peer;
          shared = ecdh_shared jk_self pk_peer;
          tmp = ecdh_order (pk_enc (public_key jk_self)) (pk_enc pk_peer);
          bc = blake2s_init 32;
          bc = blake2s_update bc tmp;
          bc = blake2s_update bc [ecdh_domain pk_peer];
          bc = blake2s_update bc shared
      in (blake2s_final bc, sint (bad + 1)))"

section \<open>Values of limb arrays and the moduli\<close>

text \<open>The integer held by an array of 32-bit limbs, least significant limb first.\<close>

primrec limbs_val :: "u32 list \<Rightarrow> int" where
  "limbs_val [] = 0"
| "limbs_val (w # ws) = uint w + 2 ^ 32 * limbs_val ws"

text \<open>The field modulus \<open>q = 2^255 - MQ\<close>.\<close>

definition modq :: int where
  "modq = 2 ^ 255 - 18651"

text \<open>A field element is partially reduced when it has 8 limbs and is below \<open>2^255 + 2^32\<close>.\<close>

definition gf_pr :: "gf \<Rightarrow> bool" where
  "gf_pr a \<longleftrightarrow> length a = 8 \<and> limbs_val a < 2 ^ 255 + 2 ^ 32"

text \<open>The field element held by 8 limbs.\<close>

definition gfval :: "gf \<Rightarrow> int" where
  "gfval a = limbs_val a mod modq"

text \<open>
  For the limbs \<open>a\<close>: the sum of the squares \<open>a[i]^2 * 2^(64 i)\<close>, the sum of the cross
  products \<open>a[i] * a[j] * 2^(32 (i + j))\<close> for \<open>i < j\<close>, and the part of the latter for
  \<open>i < k\<close>.
\<close>

primrec sq_diag_val :: "u32 list \<Rightarrow> int" where
  "sq_diag_val [] = 0"
| "sq_diag_val (x # xs) = uint x * uint x + 2 ^ 64 * sq_diag_val xs"

primrec cross_val :: "u32 list \<Rightarrow> int" where
  "cross_val [] = 0"
| "cross_val (x # xs) = uint x * limbs_val xs * 2 ^ 32 + 2 ^ 64 * cross_val xs"

primrec cross_upto :: "u32 list \<Rightarrow> nat \<Rightarrow> int" where
  "cross_upto a 0 = 0"
| "cross_upto a (Suc k) =
     cross_upto a k + uint (a ! k) * limbs_val (drop (Suc k) a) * 2 ^ (32 * (2 * k + 1))"

text \<open>The field element held by \<open>a\<close> is a square modulo \<open>q\<close>.\<close>

definition gf_is_square :: "gf \<Rightarrow> bool" where
  "gf_is_square a \<longleftrightarrow> (\<exists>y::int. (y * y) mod modq = gfval a)"

text \<open>
  The limbs \<open>a\<close> are partially reduced and hold the integer \<open>v\<close> modulo \<open>q\<close>; the same for
  the coordinates of a point and of an affine point.
\<close>

definition gfrep :: "gf \<Rightarrow> int \<Rightarrow> bool" where
  "gfrep a v \<longleftrightarrow> gf_pr a \<and> limbs_val a mod modq = v mod modq"

definition point_rep :: "point \<Rightarrow> int \<Rightarrow> int \<Rightarrow> int \<Rightarrow> int \<Rightarrow> bool" where
  "point_rep p e z u t \<longleftrightarrow> gfrep (E p) e \<and> gfrep (Z p) z \<and> gfrep (U p) u \<and> gfrep (T p) t"

definition affine_rep :: "point_affine \<Rightarrow> int \<Rightarrow> int \<Rightarrow> int \<Rightarrow> bool" where
  "affine_rep p e u t \<longleftrightarrow> gfrep (aE p) e \<and> gfrep (aU p) u \<and> gfrep (aT p) t"

text \<open>All four coordinates of a point have 8 limbs.\<close>

definition point_ok :: "point \<Rightarrow> bool" where
  "point_ok p \<longleftrightarrow> length (E p) = 8 \<and> length (Z p) = 8 \<and> length (U p) = 8 \<and> length (T p) = 8"

text \<open>Primes among the integers.\<close>

definition prime_int :: "int \<Rightarrow> bool" where
  "prime_int p \<longleftrightarrow> 1 < p \<and> (\<forall>d. 0 < d \<and> d dvd p \<longrightarrow> d = 1 \<or> d = p)"


section \<open>Arithmetic of the carry loops\<close>

lemma uint_lt32: "uint (w::u32) < 4294967296"
  using uint_lt2p [of w] by simp

lemma uint_lt64: "uint (w::u64) < 18446744073709551616"
  using uint_lt2p [of w] by simp

lemma int_mod_unique: "0 \<le> r \<Longrightarrow> r < m \<Longrightarrow> a = k * m + r \<Longrightarrow> a mod m = (r::int)"
  by simp

lemma int_div_unique: "0 \<le> r \<Longrightarrow> r < m \<Longrightarrow> a = k * m + r \<Longrightarrow> a div m = (k::int)"
  by simp

lemma limbs_val_nonneg: "0 \<le> limbs_val ws"
  by (induction ws) simp_all

lemma limbs_val_bound: "limbs_val ws < 2 ^ (32 * length ws)"
proof (induction ws)
  case Nil show ?case by simp
next
  case (Cons w ws)
  have "uint w < 2 ^ 32" using uint_lt32 [of w] by simp
  moreover have "limbs_val ws + 1 \<le> 2 ^ (32 * length ws)" using Cons by simp
  then have "2 ^ 32 * (limbs_val ws + 1) \<le> (2::int) ^ 32 * 2 ^ (32 * length ws)"
    by (rule mult_left_mono) simp
  ultimately show ?case by (simp add: power_add)
qed

lemma limbs_val_inj: "length xs = length ys \<Longrightarrow> limbs_val xs = limbs_val ys \<Longrightarrow> xs = ys"
proof (induction xs ys rule: list_induct2)
  case Nil show ?case by simp
next
  case (Cons x xs y ys)
  have bx: "uint x < 2 ^ 32" "0 \<le> uint x" and by': "uint y < 2 ^ 32" "0 \<le> uint y"
    using uint_lt32 [of x] uint_lt32 [of y] by simp_all
  from Cons.prems have e: "uint x + 2 ^ 32 * limbs_val xs = uint y + 2 ^ 32 * limbs_val ys" by simp
  from e have "(uint x + 2 ^ 32 * limbs_val xs) mod 2 ^ 32 = (uint y + 2 ^ 32 * limbs_val ys) mod 2 ^ 32"
    by simp
  then have xy: "uint x = uint y" using bx by' by simp
  with e have "limbs_val xs = limbs_val ys" by simp
  with Cons.IH xy show ?case by (simp add: word_uint_eq_iff)
qed

lemma uint_neg32: "(r::u32) \<noteq> 0 \<Longrightarrow> uint (- r) = 4294967296 - uint r"
proof -
  assume "r \<noteq> 0"
  then have "0 < uint r" by (simp add: word_uint_eq_iff less_le)
  moreover have "uint r < 4294967296" by (rule uint_lt32)
  ultimately have "(- uint r) mod 4294967296 = 4294967296 - uint r"
    by (intro int_mod_unique [where k = "-1"]) simp_all
  then show ?thesis by (simp add: uint_word_ariths)
qed

lemma uint_drop_bit: "uint (drop_bit n (w::'a::len word)) = uint w div 2 ^ n"
  by (subst unsigned_drop_bit_eq) (simp add: drop_bit_eq_div take_bit_eq_mod uint_lt2p)

lemma nz_mask: "drop_bit 31 ((r::u32) OR - r) = (if r = 0 then 0 else 1)"
proof (cases "r = 0")
  case True then show ?thesis by simp
next
  case False
  define w where "w = r OR - r"
  have r1: "r \<le> w" unfolding w_def by (rule le_word_or2)
  have r2: "- r \<le> w" unfolding w_def by (subst or.commute) (rule le_word_or2)
  from r1 r2 have "uint r \<le> uint w" "uint (- r) \<le> uint w" by (simp_all add: word_le_def)
  with uint_neg32 [OF False] have "2 ^ 31 \<le> uint w" by simp
  moreover have "uint w < 2 ^ 32" using uint_lt32 [of w] by simp
  ultimately have "uint w div 2 ^ 31 = 1" by (intro int_div_unique [where r = "uint w - 2 ^ 31"]) simp_all
  then have "uint (drop_bit 31 w) = uint (1::u32)" by (simp add: uint_drop_bit)
  then have "drop_bit 31 w = 1" by (simp only: word_uint_eq_iff)
  with False show ?thesis by (simp add: w_def)
qed

lemma length8E:
  assumes "length (a :: 'a list) = 8"
  obtains a0 a1 a2 a3 a4 a5 a6 a7 where "a = [a0, a1, a2, a3, a4, a5, a6, a7]"
proof -
  from assms obtain a0 r0 where "a = a0 # r0" "length r0 = 7" by (cases a) auto
  moreover then obtain a1 r1 where "r0 = a1 # r1" "length r1 = 6" by (cases r0) auto
  moreover then obtain a2 r2 where "r1 = a2 # r2" "length r2 = 5" by (cases r1) auto
  moreover then obtain a3 r3 where "r2 = a3 # r3" "length r3 = 4" by (cases r2) auto
  moreover then obtain a4 r4 where "r3 = a4 # r4" "length r4 = 3" by (cases r3) auto
  moreover then obtain a5 r5 where "r4 = a5 # r5" "length r5 = 2" by (cases r4) auto
  moreover then obtain a6 r6 where "r5 = a6 # r6" "length r6 = 1" by (cases r5) auto
  moreover then obtain a7 where "r6 = [a7]" by (cases r6) auto
  ultimately show ?thesis using that by simp
qed

lemma upt_1_7: "[Suc 0..<7] = [1, 2, 3, 4, 5, 6]"
  by code_simp

lemma not_eq_0_iff: "NOT (x::u32) = 0 \<longleftrightarrow> x = 0xFFFFFFFF"
proof
  assume "NOT x = 0"
  then have "NOT (NOT x) = NOT 0" by simp
  then show "x = 0xFFFFFFFF" by simp
next
  assume "x = 0xFFFFFFFF" then show "NOT x = 0" by simp
qed

lemma xor_eq_0_iff: "(x::u32) XOR y = 0 \<longleftrightarrow> x = y"
  by (metis xor.right_neutral xor_self_eq xor.left_commute xor.commute)

lemma nz_mask': "drop_bit 31 (r::u32) OR drop_bit 31 (- r) = (if r = 0 then 0 else 1)"
  using nz_mask [of r] by simp

lemma gf_is_zero_eq:
  assumes "length a = 8"
  shows "gf_is_zero a = (if a = gf_zero \<or> a = gf_q then 0xFFFFFFFF else 0)"
proof -
  from assms obtain a0 a1 a2 a3 a4 a5 a6 a7 where a: "a = [a0, a1, a2, a3, a4, a5, a6, a7]"
    by (rule length8E)
  define r0 where "r0 = a0 OR a1 OR a2 OR a3 OR a4 OR a5 OR a6 OR a7"
  define r1 where "r1 = (a0 XOR (- MQ)) OR NOT a1 OR NOT a2 OR NOT a3 OR NOT a4 OR NOT a5 OR NOT a6
                       OR (a7 XOR 0x7FFFFFFF)"
  have f0: "foldl (OR) (a ! 0) (map (\<lambda>i. a ! i) [1..<7]) OR a ! 7 = r0"
    by (simp add: a upt_1_7 r0_def or.assoc)
  have f1: "foldl (OR) (a ! 0 XOR (- MQ)) (map (\<lambda>i. NOT (a ! i)) [1..<7]) OR (a ! 7 XOR 0x7FFFFFFF) = r1"
    by (simp add: a upt_1_7 r1_def or.assoc)
  have g: "gf_is_zero a = drop_bit 31 ((r0 OR - r0) AND (r1 OR - r1)) - 1"
    by (simp only: gf_is_zero_def Let_def f0 f1)
  have z0: "r0 = 0 \<longleftrightarrow> a = gf_zero"
    by (simp add: r0_def a gf_zero_def or_eq_0_iff)
  have z1: "r1 = 0 \<longleftrightarrow> a = gf_q"
    by (simp add: r1_def a gf_q_def or_eq_0_iff not_eq_0_iff xor_eq_0_iff)
  have "drop_bit 31 ((r0 OR - r0) AND (r1 OR - r1)) = (if r0 = 0 \<or> r1 = 0 then 0 else 1)"
    by (simp add: nz_mask')
  with g z0 z1 show ?thesis by simp
qed

lemma uint_ucast_up: "uint (ucast (a::u32) :: u64) = uint a"
  by (simp add: unsigned_ucast_eq take_bit_eq_mod) (use uint_lt32 [of a] in simp)

lemma uint_ucast_down: "uint (ucast (w::u64) :: u32) = uint w mod 4294967296"
  by (simp add: unsigned_ucast_eq take_bit_eq_mod)

lemma uint_ucast_hi: "uint (ucast (drop_bit 32 (w::u64)) :: u32) = uint w div 4294967296"
proof -
  have "uint w div 4294967296 < 4294967296" using uint_lt64 [of w] by simp
  moreover have "0 \<le> uint w div 4294967296" by (simp add: pos_imp_zdiv_nonneg_iff)
  ultimately have "uint w div 4294967296 mod 4294967296 = uint w div 4294967296" by simp
  then show ?thesis by (simp add: uint_ucast_down uint_drop_bit)
qed

lemma uint_split64: "uint (ucast (w::u64) :: u32) + 4294967296 * uint (ucast (drop_bit 32 w) :: u32) = uint w"
  by (subst uint_ucast_hi) (simp add: uint_ucast_down)

lemma adc_word:
  fixes a b cc :: u32
  defines "w \<equiv> (ucast a :: u64) + ucast b + ucast cc"
  shows "uint (ucast w :: u32) + 4294967296 * uint (ucast (drop_bit 32 w) :: u32) = uint a + uint b + uint cc"
proof -
  have "uint a + uint b + uint cc < 18446744073709551616"
    using uint_lt32 [of a] uint_lt32 [of b] uint_lt32 [of cc] by simp
  then have "uint w = uint a + uint b + uint cc"
    by (simp add: w_def uint_word_ariths uint_ucast_up mod_add_left_eq)
  then show ?thesis by (simp add: uint_split64)
qed

lemma carry_word:
  fixes a cc :: u32
  defines "w \<equiv> (ucast a :: u64) + ucast cc"
  shows "uint (ucast w :: u32) + 4294967296 * uint (ucast (drop_bit 32 w) :: u32) = uint a + uint cc"
proof -
  have "uint a + uint cc < 18446744073709551616"
    using uint_lt32 [of a] uint_lt32 [of cc] by simp
  then have "uint w = uint a + uint cc"
    by (simp add: w_def uint_word_ariths uint_ucast_up)
  then show ?thesis by (simp add: uint_split64)
qed

lemma mul_bound32: "uint (x::u32) * uint (b::u32) \<le> 4294967295 * 4294967295"
  using uint_lt32 [of x] uint_lt32 [of b] by (intro mult_mono) simp_all

lemma mul_word:
  fixes x b t cc :: u32
  defines "w \<equiv> (ucast x :: u64) * ucast b + ucast t + ucast cc"
  shows "uint (ucast w :: u32) + 4294967296 * uint (ucast (drop_bit 32 w) :: u32)
         = uint x * uint b + uint t + uint cc"
proof -
  have "uint x * uint b + uint t + uint cc < 18446744073709551616"
    using mul_bound32 [of x b] uint_lt32 [of t] uint_lt32 [of cc] by simp
  moreover have "0 \<le> uint x * uint b" by simp
  ultimately have "uint w = uint x * uint b + uint t + uint cc"
    by (simp add: w_def uint_word_ariths uint_ucast_up mod_add_left_eq mod_mult_eq)
  then show ?thesis by (simp add: uint_split64)
qed

lemma sbb_word:
  fixes a b cc :: u32
  defines "w \<equiv> (ucast a :: u64) - ucast b - ucast cc"
  defines "c' \<equiv> - (ucast (drop_bit 32 w) :: u32)"
  shows "uint (ucast w :: u32) - 4294967296 * uint c' = uint a - uint b - uint cc"
    and "uint c' \<le> 2" and "uint cc \<le> 1 \<Longrightarrow> uint c' \<le> 1"
proof -
  define v where "v = uint a - uint b - uint cc"
  have vb: "- 8589934592 < v" "v < 4294967296"
    using uint_lt32 [of a] uint_lt32 [of b] uint_lt32 [of cc]
      uint_ge_0 [of a] uint_ge_0 [of b] uint_ge_0 [of cc] unfolding v_def by linarith+
  have uw: "uint w = v mod 18446744073709551616"
    by (simp add: w_def v_def uint_word_ariths uint_ucast_up mod_diff_left_eq)
  have "uint (ucast w :: u32) - 4294967296 * uint c' = v \<and> uint c' \<le> 2 \<and> (uint cc \<le> 1 \<longrightarrow> uint c' \<le> 1)"
  proof (cases "0 \<le> v")
    case True
    with vb uw have "uint w = v" by simp
    with vb True have "uint (ucast w :: u32) = v"
      by (simp add: uint_ucast_down)
    from \<open>uint w = v\<close> vb True have "uint (ucast (drop_bit 32 w) :: u32) = 0"
      by (subst uint_ucast_hi) simp
    then have "ucast (drop_bit 32 w) = (0::u32)" by (simp add: word_uint_eq_iff)
    with \<open>uint (ucast w :: u32) = v\<close> show ?thesis by (simp add: c'_def)
  next
    case False
    with vb have "v mod 18446744073709551616 = v + 18446744073709551616"
      by (intro int_mod_unique [where k = "-1"]) simp_all
    with uw have w: "uint w = v + 18446744073709551616" by simp
    show ?thesis
    proof (cases "- 4294967296 \<le> v")
      case True
      have lo: "uint w mod 4294967296 = v + 4294967296"
        using w True False by (intro int_mod_unique [where k = 4294967295]) simp_all
      have hi: "uint w div 4294967296 = 4294967295"
        using w True False by (intro int_div_unique [where r = "v + 4294967296"]) simp_all
      have "uint (ucast (drop_bit 32 w) :: u32) = uint (4294967295 :: u32)"
        using hi by (simp add: uint_ucast_hi)
      then have "ucast (drop_bit 32 w) = (4294967295 :: u32)" by (simp only: word_uint_eq_iff)
      then have "c' = 1" by (simp add: c'_def)
      with lo show ?thesis by (simp add: uint_ucast_down)
    next
      case F2: False
      have lo: "uint w mod 4294967296 = v + 8589934592"
        using w F2 vb by (intro int_mod_unique [where k = 4294967294]) simp_all
      have hi: "uint w div 4294967296 = 4294967294"
        using w F2 vb by (intro int_div_unique [where r = "v + 8589934592"]) simp_all
      have "uint (ucast (drop_bit 32 w) :: u32) = uint (4294967294 :: u32)"
        using hi by (simp add: uint_ucast_hi)
      then have "ucast (drop_bit 32 w) = (4294967294 :: u32)" by (simp only: word_uint_eq_iff)
      then have "c' = 2" by (simp add: c'_def)
      moreover have "\<not> uint cc \<le> 1"
        using F2 uint_lt32 [of b] uint_ge_0 [of a] unfolding v_def by linarith
      ultimately show ?thesis using lo by (simp add: uint_ucast_down)
    qed
  qed
  then show "uint (ucast w :: u32) - 4294967296 * uint c' = uint a - uint b - uint cc"
    and "uint c' \<le> 2" and "uint cc \<le> 1 \<Longrightarrow> uint c' \<le> 1"
    by (simp_all add: v_def)
qed

lemma adc_loop_length: "length (fst (adc_loop a b cc)) = min (length a) (length b)"
  by (induction a b cc rule: adc_loop.induct) (simp_all add: Let_def)

lemma adc_loop_val:
  "length a = length b \<Longrightarrow>
   limbs_val (fst (adc_loop a b cc)) + 2 ^ (32 * length a) * uint (snd (adc_loop a b cc))
   = limbs_val a + limbs_val b + uint cc"
proof (induction a b arbitrary: cc rule: list_induct2)
  case Nil show ?case by simp
next
  case (Cons x xs y ys)
  define w where "w = (ucast x :: u64) + ucast y + ucast cc"
  define r where "r = adc_loop xs ys (ucast (drop_bit 32 w))"
  have ih: "limbs_val (fst r) + 2 ^ (32 * length xs) * uint (snd r)
            = limbs_val xs + limbs_val ys + uint (ucast (drop_bit 32 w) :: u32)"
    unfolding r_def by (rule Cons.IH)
  have st: "uint (ucast w :: u32) + 4294967296 * uint (ucast (drop_bit 32 w) :: u32) = uint x + uint y + uint cc"
    unfolding w_def by (rule adc_word)
  have "limbs_val (ucast w # fst r) + 2 ^ (32 * length (x # xs)) * uint (snd r)
        = uint (ucast w :: u32) + 4294967296 * (limbs_val (fst r) + 2 ^ (32 * length xs) * uint (snd r))"
    by (simp add: power_add algebra_simps)
  also have "\<dots> = uint (ucast w :: u32) + 4294967296 * (limbs_val xs + limbs_val ys + uint (ucast (drop_bit 32 w) :: u32))"
    by (simp only: ih)
  also have "\<dots> = limbs_val (x # xs) + limbs_val (y # ys) + uint cc"
    using st by (simp add: algebra_simps)
  finally show ?case by (simp add: Let_def w_def r_def)
qed

lemma adc_loop_carry:
  "uint cc \<le> 1 \<Longrightarrow> uint (snd (adc_loop a b cc)) \<le> 1"
proof (induction a b cc rule: adc_loop.induct)
  case (1 a as b bs cc)
  define w where "w = (ucast a :: u64) + ucast b + ucast cc"
  have st: "uint (ucast w :: u32) + 4294967296 * uint (ucast (drop_bit 32 w) :: u32) = uint a + uint b + uint cc"
    unfolding w_def by (rule adc_word)
  have "uint (ucast (drop_bit 32 w) :: u32) \<le> 1"
    using st uint_lt32 [of a] uint_lt32 [of b] "1.prems" uint_ge_0 [of "ucast w :: u32"] by linarith
  then have "uint (snd (adc_loop as bs (ucast (drop_bit 32 w)))) \<le> 1"
    by (rule "1.IH" [OF w_def])
  then show ?case by (simp add: Let_def w_def)
qed simp_all

lemma carry_loop_length: "length (fst (carry_loop a cc)) = length a"
  by (induction a cc rule: carry_loop.induct) (simp_all add: Let_def)

lemma carry_loop_val:
  "limbs_val (fst (carry_loop a cc)) + 2 ^ (32 * length a) * uint (snd (carry_loop a cc))
   = limbs_val a + uint cc"
proof (induction a arbitrary: cc)
  case Nil show ?case by simp
next
  case (Cons x xs)
  define w where "w = (ucast x :: u64) + ucast cc"
  define r where "r = carry_loop xs (ucast (drop_bit 32 w))"
  have ih: "limbs_val (fst r) + 2 ^ (32 * length xs) * uint (snd r)
            = limbs_val xs + uint (ucast (drop_bit 32 w) :: u32)"
    unfolding r_def by (rule Cons.IH)
  have st: "uint (ucast w :: u32) + 4294967296 * uint (ucast (drop_bit 32 w) :: u32) = uint x + uint cc"
    unfolding w_def by (rule carry_word)
  have "limbs_val (ucast w # fst r) + 2 ^ (32 * length (x # xs)) * uint (snd r)
        = uint (ucast w :: u32) + 4294967296 * (limbs_val (fst r) + 2 ^ (32 * length xs) * uint (snd r))"
    by (simp add: power_add algebra_simps)
  also have "\<dots> = uint (ucast w :: u32) + 4294967296 * (limbs_val xs + uint (ucast (drop_bit 32 w) :: u32))"
    by (simp only: ih)
  also have "\<dots> = limbs_val (x # xs) + uint cc"
    using st by (simp add: algebra_simps)
  finally show ?case by (simp add: Let_def w_def r_def)
qed

lemma sbb_loop_length: "length (fst (sbb_loop a b cc)) = min (length a) (length b)"
  by (induction a b cc rule: sbb_loop.induct) (simp_all add: Let_def)

lemma sbb_loop_val:
  "length a = length b \<Longrightarrow>
   limbs_val (fst (sbb_loop a b cc)) - 2 ^ (32 * length a) * uint (snd (sbb_loop a b cc))
   = limbs_val a - limbs_val b - uint cc"
proof (induction a b arbitrary: cc rule: list_induct2)
  case Nil show ?case by simp
next
  case (Cons x xs y ys)
  define w where "w = (ucast x :: u64) - ucast y - ucast cc"
  define c' where "c' = - (ucast (drop_bit 32 w) :: u32)"
  define r where "r = sbb_loop xs ys c'"
  have ih: "limbs_val (fst r) - 2 ^ (32 * length xs) * uint (snd r)
            = limbs_val xs - limbs_val ys - uint c'"
    unfolding r_def by (rule Cons.IH)
  have st: "uint (ucast w :: u32) - 4294967296 * uint c' = uint x - uint y - uint cc"
    unfolding w_def c'_def by (rule sbb_word)
  have "limbs_val (ucast w # fst r) - 2 ^ (32 * length (x # xs)) * uint (snd r)
        = uint (ucast w :: u32) + 4294967296 * (limbs_val (fst r) - 2 ^ (32 * length xs) * uint (snd r))"
    by (simp add: power_add algebra_simps)
  also have "\<dots> = uint (ucast w :: u32) + 4294967296 * (limbs_val xs - limbs_val ys - uint c')"
    by (simp only: ih)
  also have "\<dots> = limbs_val (x # xs) - limbs_val (y # ys) - uint cc"
    using st by (simp add: algebra_simps)
  finally show ?case by (simp add: Let_def w_def r_def c'_def)
qed

lemma sbb_loop_carry:
  "uint cc \<le> 1 \<Longrightarrow> uint (snd (sbb_loop a b cc)) \<le> 1"
proof (induction a b cc rule: sbb_loop.induct)
  case (1 a as b bs cc)
  define w where "w = (ucast a :: u64) - ucast b - ucast cc"
  have "uint (- (ucast (drop_bit 32 w) :: u32)) \<le> 1"
    unfolding w_def using "1.prems" by (rule sbb_word(3))
  then have "uint (snd (sbb_loop as bs (- (ucast (drop_bit 32 w))))) \<le> 1"
    by (rule "1.IH" [OF w_def])
  then show ?case by (simp add: Let_def w_def)
qed simp_all

lemma sbb_loop_carry2:
  "uint cc \<le> 2 \<Longrightarrow> uint (snd (sbb_loop a b cc)) \<le> 2"
proof (induction a b cc rule: sbb_loop.induct)
  case (1 a as b bs cc)
  define w where "w = (ucast a :: u64) - ucast b - ucast cc"
  have "uint (- (ucast (drop_bit 32 w) :: u32)) \<le> 2"
    unfolding w_def by (rule sbb_word(2))
  then have "uint (snd (sbb_loop as bs (- (ucast (drop_bit 32 w))))) \<le> 2"
    by (rule "1.IH" [OF w_def])
  then show ?case by (simp add: Let_def w_def)
qed simp_all

lemma mul_row_length: "length (fst (mul_row x b t cc)) = min (length b) (length t)"
  by (induction x b t cc rule: mul_row.induct) (simp_all add: Let_def)

lemma mul_row_val:
  "length b = length t \<Longrightarrow>
   limbs_val (fst (mul_row x b t cc)) + 2 ^ (32 * length b) * uint (snd (mul_row x b t cc))
   = uint x * limbs_val b + limbs_val t + uint cc"
proof (induction b t arbitrary: cc rule: list_induct2)
  case Nil show ?case by simp
next
  case (Cons y ys z zs)
  define w where "w = (ucast x :: u64) * ucast y + ucast z + ucast cc"
  define r where "r = mul_row x ys zs (ucast (drop_bit 32 w))"
  have ih: "limbs_val (fst r) + 2 ^ (32 * length ys) * uint (snd r)
            = uint x * limbs_val ys + limbs_val zs + uint (ucast (drop_bit 32 w) :: u32)"
    unfolding r_def by (rule Cons.IH)
  have st: "uint (ucast w :: u32) + 4294967296 * uint (ucast (drop_bit 32 w) :: u32)
            = uint x * uint y + uint z + uint cc"
    unfolding w_def by (rule mul_word)
  have "limbs_val (ucast w # fst r) + 2 ^ (32 * length (y # ys)) * uint (snd r)
        = uint (ucast w :: u32) + 4294967296 * (limbs_val (fst r) + 2 ^ (32 * length ys) * uint (snd r))"
    by (simp add: power_add algebra_simps)
  also have "\<dots> = uint (ucast w :: u32)
        + 4294967296 * (uint x * limbs_val ys + limbs_val zs + uint (ucast (drop_bit 32 w) :: u32))"
    by (simp only: ih)
  also have "\<dots> = uint x * limbs_val (y # ys) + limbs_val (z # zs) + uint cc"
    using st by (simp add: algebra_simps)
  finally show ?case by (simp add: Let_def w_def r_def)
qed

lemma limbs_val_append: "limbs_val (xs @ ys) = limbs_val xs + 2 ^ (32 * length xs) * limbs_val ys"
  by (induction xs) (simp_all add: power_add algebra_simps)

lemma limbs_val_replicate0 [simp]: "limbs_val (replicate n 0) = 0"
  by (induction n) simp_all

lemma limbs_val_take_drop:
  "k \<le> length a \<Longrightarrow> limbs_val (take k a) + 2 ^ (32 * k) * limbs_val (drop k a) = limbs_val a"
  using limbs_val_append [of "take k a" "drop k a"] by (simp add: min_def)

lemma limbs_val_take_Suc:
  "k < length a \<Longrightarrow> limbs_val (take (Suc k) a) = limbs_val (take k a) + 2 ^ (32 * k) * uint (a ! k)"
  by (simp add: take_Suc_conv_app_nth limbs_val_append)

lemma mul_limbs_inv:
  "k \<le> length a \<Longrightarrow>
   \<exists>p. foldl (mul_step a b) (replicate (length a + length b) 0) [0..<k] = p @ replicate (length a - k) 0
       \<and> length p = k + length b \<and> limbs_val p = limbs_val (take k a) * limbs_val b"
proof (induction k)
  case 0
  have "replicate (length a + length b) (0::u32) = replicate (length b) 0 @ replicate (length a) 0"
    by (simp add: add.commute [of "length a"] replicate_add)
  then show ?case by (intro exI [where x = "replicate (length b) 0"]) simp
next
  case (Suc k)
  then have kl: "k < length a" by simp
  with Suc.IH obtain p where
    t: "foldl (mul_step a b) (replicate (length a + length b) 0) [0..<k] = p @ replicate (length a - k) 0"
    and lp: "length p = k + length b" and vp: "limbs_val p = limbs_val (take k a) * limbs_val b"
    by auto
  define n where "n = length b"
  define r where "r = mul_row (a ! k) b (drop k p) 0"
  have lr: "length (fst r) = n" by (simp add: r_def mul_row_length lp n_def)
  have sl: "take n (drop k (p @ replicate (length a - k) 0)) = drop k p"
    using lp by (simp add: n_def)
  have dr: "drop (k + n + 1) (p @ replicate (length a - k) 0) = replicate (length a - Suc k) 0"
    using lp kl by (simp add: n_def)
  have "mul_step a b (p @ replicate (length a - k) 0) k
        = take k p @ fst r @ [snd r] @ replicate (length a - Suc k) 0"
    unfolding mul_step_def Let_def n_def [symmetric] sl dr r_def [symmetric] using lp by simp
  then have st: "foldl (mul_step a b) (replicate (length a + length b) 0) [0..<Suc k]
        = (take k p @ fst r @ [snd r]) @ replicate (length a - Suc k) 0"
    by (simp add: t)
  have rv: "limbs_val (fst r) + 2 ^ (32 * n) * uint (snd r) = uint (a ! k) * limbs_val b + limbs_val (drop k p)"
    using mul_row_val [of b "drop k p" "a ! k" 0] lp by (simp add: r_def n_def)
  have "limbs_val (take k p @ fst r @ [snd r])
        = limbs_val (take k p) + 2 ^ (32 * k) * (limbs_val (fst r) + 2 ^ (32 * n) * uint (snd r))"
    using lp lr by (simp add: limbs_val_append min_def)
  also have "\<dots> = (limbs_val (take k p) + 2 ^ (32 * k) * limbs_val (drop k p))
                    + 2 ^ (32 * k) * uint (a ! k) * limbs_val b"
    by (simp only: rv) (simp add: algebra_simps)
  also have "limbs_val (take k p) + 2 ^ (32 * k) * limbs_val (drop k p) = limbs_val p"
    using limbs_val_take_drop [of k p] lp by simp
  also have "limbs_val p + 2 ^ (32 * k) * uint (a ! k) * limbs_val b = limbs_val (take (Suc k) a) * limbs_val b"
    by (simp add: vp limbs_val_take_Suc [OF kl] algebra_simps)
  finally have "limbs_val (take k p @ fst r @ [snd r]) = limbs_val (take (Suc k) a) * limbs_val b" .
  moreover have "length (take k p @ fst r @ [snd r]) = Suc k + length b"
    using lp lr by (simp add: n_def)
  ultimately show ?case using st by blast
qed

lemma mul_limbs_val: "limbs_val (mul_limbs a b) = limbs_val a * limbs_val b"
  using mul_limbs_inv [of "length a" a b] by (auto simp: mul_limbs_def)

lemma mul_limbs_length: "length (mul_limbs a b) = length a + length b"
  using mul_limbs_inv [of "length a" a b] by (auto simp: mul_limbs_def)


section \<open>Zero test of field elements\<close>

lemma limbs_val_gf_zero [simp]: "limbs_val gf_zero = 0"
  by (simp add: gf_zero_def)

lemma limbs_val_gf_q [simp]: "limbs_val gf_q = modq"
  by (simp add: gf_q_def MQ_def modq_def)

lemma limbs_val_gf_one [simp]: "limbs_val gf_one = 1"
  by (simp add: gf_one_def)

lemma gf_zero_iff:
  assumes "length a = 8" and "limbs_val a < 2 ^ 255 + 2 ^ 32"
  shows "limbs_val a mod modq = 0 \<longleftrightarrow> a = gf_zero \<or> a = gf_q"
proof
  assume m: "limbs_val a mod modq = 0"
  have nn: "0 \<le> limbs_val a" by (rule limbs_val_nonneg)
  from m obtain k where k: "limbs_val a = modq * k" by (auto simp: mod_eq_0_iff_dvd)
  have "k = 0 \<or> k = 1"
  proof -
    have "0 \<le> k" using nn k by (simp add: modq_def zero_le_mult_iff)
    moreover have "k < 2"
    proof (rule ccontr)
      assume "\<not> k < 2"
      then have "modq * 2 \<le> modq * k" by (intro mult_left_mono) (simp_all add: modq_def)
      with k assms(2) show False by (simp add: modq_def)
    qed
    ultimately show ?thesis by auto
  qed
  then have "limbs_val a = limbs_val gf_zero \<or> limbs_val a = limbs_val gf_q"
    using k by auto
  then show "a = gf_zero \<or> a = gf_q"
    using assms(1) by (auto intro: limbs_val_inj simp: gf_zero_def gf_q_def)
next
  assume "a = gf_zero \<or> a = gf_q"
  then show "limbs_val a mod modq = 0" by auto
qed

lemma gf_is_zero_mod:
  assumes "length a = 8" and "limbs_val a < 2 ^ 255 + 2 ^ 32"
  shows "gf_is_zero a = (if limbs_val a mod modq = 0 then - 1 else 0)"
  using gf_is_zero_eq [OF assms(1)] gf_zero_iff [OF assms] by simp

lemma ones32: "(0xFFFFFFFF :: u32) = - 1"
  by simp

lemma ucast_and_ones: "(ucast ((ucast (t::u8) :: u32) AND 0xFFFFFFFF) :: u8) = t"
  by (simp only: ones32 and.right_neutral) (simp add: ucast_up_ucast_id is_up)

lemma ucast_and_zero: "(ucast ((ucast (t::u8) :: u32) AND 0) :: u8) = 0"
  by simp


section \<open>Field arithmetic: values of the operations\<close>

lemma int_div_lt: "0 < b \<Longrightarrow> a < b * c \<Longrightarrow> a div b < (c::int)"
proof -
  assume b: "0 < b" and a: "a < b * c"
  have "(b * c - 1) div b = c - 1"
    using b by (intro int_div_unique [where r = "b - 1"]) (simp_all add: algebra_simps)
  moreover have "a div b \<le> (b * c - 1) div b" using a b by (intro zdiv_mono1) simp_all
  ultimately show ?thesis by simp
qed

lemma int_div_ge: "0 < b \<Longrightarrow> b * c \<le> a \<Longrightarrow> (c::int) \<le> a div b"
proof -
  assume b: "0 < b" and a: "b * c \<le> a"
  have "(b * c) div b \<le> a div b" using a b by (intro zdiv_mono1) simp_all
  with b show ?thesis by simp
qed

lemma uint_and_mask31: "uint ((x::u32) AND 0x7FFFFFFF) = uint x mod 2147483648"
proof -
  have m: "(0x7FFFFFFF :: u32) = mask 31" by (simp add: mask_eq_exp_minus_1)
  have "uint (x AND mask 31) = uint (word_of_int (uint x mod 2 ^ 31) :: u32)"
    by (simp only: and_mask_mod_2p)
  also have "\<dots> = (uint x mod 2 ^ 31) mod 2 ^ 32"
    by (simp only: uint_word_of_int) simp
  also have "\<dots> = uint x mod 2147483648"
    by (simp add: mod_mod_cancel)
  finally show ?thesis by (simp only: m)
qed

lemma div31_bounds: "0 \<le> uint (x::u32) div 2147483648" "uint x div 2147483648 \<le> 1"
proof -
  show "0 \<le> uint x div 2147483648" by (simp add: pos_imp_zdiv_nonneg_iff)
  have "uint x div 2147483648 < 2" using uint_lt32 [of x] by (intro int_div_lt) simp_all
  then show "uint x div 2147483648 \<le> 1" by simp
qed

lemma limbs_val_split7:
  assumes "length d = 8"
  shows "limbs_val d = limbs_val (take 7 d) + 2 ^ 224 * uint (d ! 7)"
    and "limbs_val (d[7 := x]) = limbs_val (take 7 d) + 2 ^ 224 * uint x"
    and "limbs_val (take 7 d) < 2 ^ 224" and "0 \<le> limbs_val (take 7 d)"
proof -
  from assms obtain d0 d1 d2 d3 d4 d5 d6 d7 where d: "d = [d0, d1, d2, d3, d4, d5, d6, d7]"
    by (rule length8E)
  show "limbs_val d = limbs_val (take 7 d) + 2 ^ 224 * uint (d ! 7)"
    by (simp add: d)
  show "limbs_val (d[7 := x]) = limbs_val (take 7 d) + 2 ^ 224 * uint x"
    by (simp add: d eval_nat_numeral)
  show "limbs_val (take 7 d) < 2 ^ 224"
    using limbs_val_bound [of "take 7 d"] assms by simp
  show "0 \<le> limbs_val (take 7 d)" by (rule limbs_val_nonneg)
qed

lemma uint_MQ [simp]: "uint MQ = 18651"
  by (simp add: MQ_def)

lemma gf_partial_reduce_val:
  assumes len: "length d = 8" and ex: "uint extra < 65536"
  shows "length (gf_partial_reduce d extra) = 8"
    and "limbs_val (gf_partial_reduce d extra)
         = limbs_val d + uint extra * 2 ^ 256 - modq * (2 * uint extra + uint (d ! 7) div 2147483648)"
    and "limbs_val (gf_partial_reduce d extra) < 2 ^ 255 + 2 ^ 32"
proof -
  define L where "L = limbs_val (take 7 d)"
  define h where "h = uint (d ! 7)"
  define b where "b = h div 2147483648"
  define m where "m = h mod 2147483648"
  define e where "e = uint extra"
  define cc where "cc = (push_bit 1 extra + drop_bit 31 (d ! 7)) * MQ"
  define d1 where "d1 = d[7 := d ! 7 AND 0x7FFFFFFF]"
  define r where "r = carry_loop d1 cc"
  have out: "gf_partial_reduce d extra = fst r"
    by (simp add: gf_partial_reduce_def Let_def cc_def d1_def r_def)
  have e0: "0 \<le> e" "e < 65536" using ex by (simp_all add: e_def)
  have b01: "0 \<le> b" "b \<le> 1" using div31_bounds [of "d ! 7"] by (simp_all add: b_def h_def)
  have m0: "0 \<le> m" "m < 2147483648" by (simp_all add: m_def)
  have hm: "h = m + 2147483648 * b" by (simp add: m_def b_def)
  have u1: "uint (push_bit 1 extra) = 2 * e"
    using e0 by (simp add: push_bit_eq_mult uint_word_ariths e_def)
  have u2: "uint (drop_bit 31 (d ! 7)) = b" by (simp add: uint_drop_bit b_def h_def)
  have "uint (push_bit 1 extra + drop_bit 31 (d ! 7))
        = (uint (push_bit 1 extra) + uint (drop_bit 31 (d ! 7))) mod 2 ^ LENGTH(32)"
    by (rule uint_word_ariths)
  also have "\<dots> = (2 * e + b) mod 2 ^ LENGTH(32)" by (simp only: u1 u2)
  also have "\<dots> = 2 * e + b" using e0 b01 by simp
  finally have u3: "uint (push_bit 1 extra + drop_bit 31 (d ! 7)) = 2 * e + b" .
  have "(2 * e + b) * 18651 \<le> 131073 * 18651" using e0 b01 by (intro mult_right_mono) simp_all
  moreover have "0 \<le> (2 * e + b) * 18651" using e0 b01 by simp
  moreover have "uint cc = (uint (push_bit 1 extra + drop_bit 31 (d ! 7)) * uint MQ) mod 2 ^ LENGTH(32)"
    unfolding cc_def by (rule uint_word_ariths)
  ultimately have ucc: "uint cc = (2 * e + b) * 18651"
    by (simp only: u3 uint_MQ) simp
  have vd: "limbs_val d = L + 2 ^ 224 * h" and vd1: "limbs_val d1 = L + 2 ^ 224 * m"
    and Lb: "L < 2 ^ 224" "0 \<le> L"
    using limbs_val_split7 [OF len] by (simp_all add: L_def h_def d1_def m_def uint_and_mask31)
  have ld1: "length d1 = 8" by (simp add: d1_def len)
  have cl: "limbs_val (fst r) + 2 ^ 256 * uint (snd r) = limbs_val d1 + uint cc"
    using carry_loop_val [of d1 cc] by (simp add: r_def ld1)
  have s: "limbs_val d1 + uint cc < 2 ^ 255 + 2 ^ 32"
    using Lb m0 \<open>(2 * e + b) * 18651 \<le> 131073 * 18651\<close> by (simp add: vd1 ucc)
  have "uint (snd r) = 0"
  proof (rule ccontr)
    assume "uint (snd r) \<noteq> 0"
    then have "1 \<le> uint (snd r)" using uint_ge_0 [of "snd r"] by linarith
    then have "2 ^ 256 * 1 \<le> (2::int) ^ 256 * uint (snd r)" by (intro mult_left_mono) simp_all
    with cl s limbs_val_nonneg [of "fst r"] show False by simp
  qed
  with cl have v: "limbs_val (fst r) = limbs_val d1 + uint cc" by simp
  show "length (gf_partial_reduce d extra) = 8"
    by (simp add: out r_def carry_loop_length ld1)
  show "limbs_val (gf_partial_reduce d extra) < 2 ^ 255 + 2 ^ 32"
    using s v by (simp add: out)
  show "limbs_val (gf_partial_reduce d extra)
         = limbs_val d + uint extra * 2 ^ 256 - modq * (2 * uint extra + uint (d ! 7) div 2147483648)"
    unfolding out v vd vd1 ucc e_def [symmetric] h_def [symmetric] b_def [symmetric]
    by (simp add: hm modq_def algebra_simps)
qed

lemma mod_sub_mult: "(x - m * k) mod m = x mod (m::int)"
  by (metis mod_mult_self2 diff_conv_add_uminus mult_minus_right)

lemma modq_pos: "0 < modq"
  by (simp add: modq_def)

lemma gf_pr_length: "gf_pr a \<Longrightarrow> length a = 8"
  by (simp add: gf_pr_def)

lemma gf_partial_reduce_pr: "length d = 8 \<Longrightarrow> uint extra < 65536 \<Longrightarrow> gf_pr (gf_partial_reduce d extra)"
  unfolding gf_pr_def using gf_partial_reduce_val(1,3) by blast

lemma gf_partial_reduce_mod:
  "length d = 8 \<Longrightarrow> uint extra < 65536 \<Longrightarrow>
   gfval (gf_partial_reduce d extra) = (limbs_val d + uint extra * 2 ^ 256) mod modq"
  by (simp add: gfval_def gf_partial_reduce_val(2) mod_sub_mult)

lemma two256_mod: "(x + y * 2 ^ 256) mod modq = (x + y * 37302) mod modq"
proof -
  have "x + y * 2 ^ 256 = (x + y * 37302) + modq * (2 * y)" by (simp add: modq_def algebra_simps)
  then show ?thesis by (metis mod_mult_self2)
qed

lemma gf_add_val:
  assumes "length a = 8" "length b = 8"
  shows "gf_pr (gf_add a b)" and "gfval (gf_add a b) = (limbs_val a + limbs_val b) mod modq"
proof -
  define r where "r = adc_loop a b 0"
  have l: "length (fst r) = 8" by (simp add: r_def adc_loop_length assms)
  have c: "uint (snd r) \<le> 1" unfolding r_def by (rule adc_loop_carry) simp
  then have c': "uint (snd r) < 65536" by simp
  have v: "limbs_val (fst r) + 2 ^ 256 * uint (snd r) = limbs_val a + limbs_val b"
    using adc_loop_val [of a b 0] assms by (simp add: r_def)
  have g: "gf_add a b = gf_partial_reduce (fst r) (snd r)" by (simp add: gf_add_def r_def Let_def)
  show "gf_pr (gf_add a b)" unfolding g using l c' by (rule gf_partial_reduce_pr)
  show "gfval (gf_add a b) = (limbs_val a + limbs_val b) mod modq"
    unfolding g gf_partial_reduce_mod [OF l c'] using v by (simp add: algebra_simps)
qed

lemma sbb_loop_carry_le2: "a \<noteq> [] \<Longrightarrow> b \<noteq> [] \<Longrightarrow> uint (snd (sbb_loop a b cc)) \<le> 2"
proof -
  assume "a \<noteq> []" "b \<noteq> []"
  then obtain x xs y ys where a: "a = x # xs" and b: "b = y # ys" by (cases a; cases b) auto
  define w where "w = (ucast x :: u64) - ucast y - ucast cc"
  have "uint (- (ucast (drop_bit 32 w) :: u32)) \<le> 2" unfolding w_def by (rule sbb_word(2))
  then have "uint (snd (sbb_loop xs ys (- (ucast (drop_bit 32 w))))) \<le> 2" by (rule sbb_loop_carry2)
  then show ?thesis by (simp add: a b Let_def w_def)
qed

lemma gf_sub_val:
  assumes "length a = 8" "length b = 8"
  shows "gf_pr (gf_sub a b)" and "gfval (gf_sub a b) = (limbs_val a - limbs_val b) mod modq"
proof -
  define r where "r = sbb_loop a b (4 * MQ)"
  have l: "length (fst r) = 8" by (simp add: r_def sbb_loop_length assms)
  have c: "uint (snd r) \<le> 2" unfolding r_def using assms by (intro sbb_loop_carry_le2) auto
  have "uint (2 - snd r) = (uint (2::u32) - uint (snd r)) mod 2 ^ LENGTH(32)" by (rule uint_word_ariths)
  moreover have "0 \<le> 2 - uint (snd r)" using c by simp
  moreover have "2 - uint (snd r) < 4294967296" using uint_ge_0 [of "snd r"] by linarith
  ultimately have e: "uint (2 - snd r) = 2 - uint (snd r)" by simp
  then have c': "uint (2 - snd r) < 65536" using uint_ge_0 [of "snd r"] by linarith
  have "uint (4 * MQ) = 74604" by (simp add: MQ_def)
  then have v: "limbs_val (fst r) - 2 ^ 256 * uint (snd r) = limbs_val a - limbs_val b - 74604"
    using sbb_loop_val [of a b "4 * MQ"] assms by (simp add: r_def)
  have g: "gf_sub a b = gf_partial_reduce (fst r) (2 - snd r)" by (simp add: gf_sub_def r_def Let_def)
  show "gf_pr (gf_sub a b)" unfolding g using l c' by (rule gf_partial_reduce_pr)
  have "limbs_val (fst r) + uint (2 - snd r) * 2 ^ 256 = (limbs_val a - limbs_val b) + modq * 4"
    using v by (simp add: e modq_def algebra_simps)
  then show "gfval (gf_sub a b) = (limbs_val a - limbs_val b) mod modq"
    unfolding g gf_partial_reduce_mod [OF l c'] by (simp only: mod_mult_self2)
qed

lemma gf_select_0: "length a0 = length a1 \<Longrightarrow> gf_select a0 a1 0 = a0"
  by (induction a0 a1 rule: list_induct2) (simp_all add: gf_select_def)

lemma xor_xor_cancel: "(x::u32) XOR (x XOR y) = y"
  by (simp add: xor.assoc [symmetric])

lemma gf_select_1: "length a0 = length a1 \<Longrightarrow> gf_select a0 a1 (- 1) = a1"
  by (induction a0 a1 rule: list_induct2) (simp_all add: gf_select_def xor_xor_cancel)

lemma gf_select_length: "length (gf_select a0 a1 c) = min (length a0) (length a1)"
  by (simp add: gf_select_def)

lemma length_gf_zero [simp]: "length gf_zero = 8" by (simp add: gf_zero_def)
lemma length_gf_one [simp]: "length gf_one = 8" by (simp add: gf_one_def)
lemma length_gf_q [simp]: "length gf_q = 8" by (simp add: gf_q_def)
lemma length_gf_minus_one [simp]: "length gf_minus_one = 8" by (simp add: gf_minus_one_def)

lemma gf_pr_zero [simp]: "gf_pr gf_zero" by (simp add: gf_pr_def)
lemma gf_pr_one [simp]: "gf_pr gf_one" by (simp add: gf_pr_def)

lemma gfval_zero [simp]: "gfval gf_zero = 0" by (simp add: gfval_def)
lemma gfval_one [simp]: "gfval gf_one = 1" by (simp add: gfval_def modq_def)

lemma gf_neg_val:
  assumes "length a = 8"
  shows "gf_pr (gf_neg a)" and "gfval (gf_neg a) = (- limbs_val a) mod modq"
  using gf_sub_val [of gf_zero a] assms by (simp_all add: gf_neg_def)

lemma fold_word:
  fixes l hh cc :: u32
  defines "w \<equiv> (ucast l :: u64) + ucast hh * ucast (2 * MQ) + ucast cc"
  shows "uint (ucast w :: u32) + 4294967296 * uint (ucast (drop_bit 32 w) :: u32)
         = uint l + uint hh * 37302 + uint cc"
proof -
  have "w = (ucast hh :: u64) * ucast (2 * MQ) + ucast l + ucast cc" by (simp add: w_def)
  moreover have "uint (2 * MQ) = 37302" by (simp add: MQ_def)
  ultimately show ?thesis using mul_word [of hh "2 * MQ" l cc] by simp
qed

lemma fold_loop_length: "length (fst (fold_loop l hs cc)) = min (length l) (length hs)"
  by (induction l hs cc rule: fold_loop.induct) (simp_all add: Let_def)

lemma fold_loop_val:
  "length l = length hs \<Longrightarrow>
   limbs_val (fst (fold_loop l hs cc)) + 2 ^ (32 * length l) * uint (snd (fold_loop l hs cc))
   = limbs_val l + 37302 * limbs_val hs + uint cc"
proof (induction l hs arbitrary: cc rule: list_induct2)
  case Nil show ?case by simp
next
  case (Cons x xs y ys)
  define w where "w = (ucast x :: u64) + ucast y * ucast (2 * MQ) + ucast cc"
  define r where "r = fold_loop xs ys (ucast (drop_bit 32 w))"
  have ih: "limbs_val (fst r) + 2 ^ (32 * length xs) * uint (snd r)
            = limbs_val xs + 37302 * limbs_val ys + uint (ucast (drop_bit 32 w) :: u32)"
    unfolding r_def by (rule Cons.IH)
  have st: "uint (ucast w :: u32) + 4294967296 * uint (ucast (drop_bit 32 w) :: u32)
            = uint x + uint y * 37302 + uint cc"
    unfolding w_def by (rule fold_word)
  have "limbs_val (ucast w # fst r) + 2 ^ (32 * length (x # xs)) * uint (snd r)
        = uint (ucast w :: u32) + 4294967296 * (limbs_val (fst r) + 2 ^ (32 * length xs) * uint (snd r))"
    by (simp add: power_add algebra_simps)
  also have "\<dots> = uint (ucast w :: u32)
        + 4294967296 * (limbs_val xs + 37302 * limbs_val ys + uint (ucast (drop_bit 32 w) :: u32))"
    by (simp only: ih)
  also have "\<dots> = limbs_val (x # xs) + 37302 * limbs_val (y # ys) + uint cc"
    using st by (simp add: algebra_simps)
  finally show ?case by (simp add: Let_def w_def r_def)
qed

lemma gf_fold_val:
  assumes "length t = 16"
  shows "gf_pr (gf_fold t)" and "gfval (gf_fold t) = limbs_val t mod modq"
proof -
  define r where "r = fold_loop (take 8 t) (drop 8 t) 0"
  have l: "length (fst r) = 8" by (simp add: r_def fold_loop_length assms)
  have v: "limbs_val (fst r) + 2 ^ 256 * uint (snd r) = limbs_val (take 8 t) + 37302 * limbs_val (drop 8 t)"
    using fold_loop_val [of "take 8 t" "drop 8 t" 0] assms by (simp add: r_def)
  have b1: "limbs_val (take 8 t) < 2 ^ 256" using limbs_val_bound [of "take 8 t"] assms by simp
  have b2: "limbs_val (drop 8 t) < 2 ^ 256" using limbs_val_bound [of "drop 8 t"] assms by simp
  have c': "uint (snd r) < 65536"
  proof (rule ccontr)
    assume "\<not> uint (snd r) < 65536"
    then have "2 ^ 256 * 65536 \<le> (2::int) ^ 256 * uint (snd r)" by (intro mult_left_mono) simp_all
    with v b1 b2 limbs_val_nonneg [of "fst r"] show False by simp
  qed
  have g: "gf_fold t = gf_partial_reduce (fst r) (snd r)" by (simp add: gf_fold_def r_def Let_def)
  show "gf_pr (gf_fold t)" unfolding g using l c' by (rule gf_partial_reduce_pr)
  have "limbs_val t = limbs_val (take 8 t) + 2 ^ 256 * limbs_val (drop 8 t)"
    using limbs_val_take_drop [of 8 t] assms by simp
  then have "limbs_val (fst r) + uint (snd r) * 2 ^ 256 = limbs_val t + modq * (- 2 * limbs_val (drop 8 t))"
    using v by (simp add: modq_def algebra_simps)
  then show "gfval (gf_fold t) = limbs_val t mod modq"
    unfolding g gf_partial_reduce_mod [OF l c'] by (simp only: mod_mult_self2)
qed

lemma gf_mul_val:
  assumes "length a = 8" "length b = 8"
  shows "gf_pr (gf_mul a b)" and "gfval (gf_mul a b) = (limbs_val a * limbs_val b) mod modq"
  using gf_fold_val [of "mul_limbs a b"] assms
  by (simp_all add: gf_mul_def mul_limbs_length mul_limbs_val)

lemma word_le1_cases: "uint (c::u32) \<le> 1 \<Longrightarrow> c = 0 \<or> c = 1"
proof -
  assume "uint c \<le> 1"
  then have "uint c = 0 \<or> uint c = 1" using uint_ge_0 [of c] by linarith
  then show ?thesis by (auto simp: word_uint_eq_iff)
qed

lemma map_and_zero: "map (\<lambda>x. (0::u32) AND x) xs = replicate (length xs) 0"
  by (induction xs) simp_all

lemma map_and_ones: "map (\<lambda>x. (- 1::u32) AND x) xs = xs"
  by (induction xs) simp_all

lemma gf_finish_reduce_val:
  assumes "gf_pr d"
  shows "length (gf_finish_reduce d) = 8"
    and "limbs_val (gf_finish_reduce d) = limbs_val d mod modq"
proof -
  from assms have len: "length d = 8" and bd: "limbs_val d < 2 ^ 255 + 2 ^ 32"
    by (simp_all add: gf_pr_def)
  define r where "r = sbb_loop d gf_q 0"
  define z where "z = - snd r"
  define ou where "ou = adc_loop (fst r) (map (\<lambda>qi. z AND qi) gf_q) 0"
  have out: "gf_finish_reduce d = fst ou"
    by (simp add: gf_finish_reduce_def Let_def r_def z_def ou_def)
  have lr: "length (fst r) = 8" by (simp add: r_def sbb_loop_length len)
  have v1: "limbs_val (fst r) - 2 ^ 256 * uint (snd r) = limbs_val d - modq"
    using sbb_loop_val [of d gf_q 0] len by (simp add: r_def)
  have c1: "snd r = 0 \<or> snd r = 1"
    by (rule word_le1_cases) (simp add: r_def sbb_loop_carry)
  have b1: "limbs_val (fst r) < 2 ^ 256" "0 \<le> limbs_val (fst r)"
    using limbs_val_bound [of "fst r"] lr by (simp_all add: limbs_val_nonneg)
  have d0: "0 \<le> limbs_val d" by (rule limbs_val_nonneg)
  show "length (gf_finish_reduce d) = 8" by (simp add: out ou_def adc_loop_length lr)
  from c1 show "limbs_val (gf_finish_reduce d) = limbs_val d mod modq"
  proof
    assume c: "snd r = 0"
    then have e: "limbs_val (fst r) = limbs_val d - modq" using v1 by simp
    have "map (\<lambda>qi. z AND qi) gf_q = gf_zero" by (simp add: z_def c gf_q_def gf_zero_def)
    then have "limbs_val (fst ou) + 2 ^ 256 * uint (snd ou) = limbs_val (fst r)"
      using adc_loop_val [of "fst r" gf_zero 0] lr by (simp add: ou_def)
    moreover have "uint (snd ou) = 0"
    proof (rule ccontr)
      assume "uint (snd ou) \<noteq> 0"
      then have "1 \<le> uint (snd ou)" using uint_ge_0 [of "snd ou"] by linarith
      then have "2 ^ 256 * 1 \<le> (2::int) ^ 256 * uint (snd ou)" by (intro mult_left_mono) simp_all
      with calculation b1 limbs_val_nonneg [of "fst ou"] show False by simp
    qed
    ultimately have "limbs_val (fst ou) = limbs_val d - modq" using e by simp
    moreover have "limbs_val d mod modq = limbs_val d - modq"
      using e b1 bd by (intro int_mod_unique [where k = 1]) (simp_all add: modq_def)
    ultimately show ?thesis by (simp add: out)
  next
    assume c: "snd r = 1"
    then have e: "limbs_val (fst r) = limbs_val d - modq + 2 ^ 256" using v1 by simp
    have "map (\<lambda>qi. z AND qi) gf_q = gf_q" by (simp add: z_def c gf_q_def)
    then have s: "limbs_val (fst ou) + 2 ^ 256 * uint (snd ou) = limbs_val d + 2 ^ 256"
      using adc_loop_val [of "fst r" gf_q 0] lr e by (simp add: ou_def)
    have lt: "limbs_val d < modq" using e b1 by simp
    have c2: "snd ou = 0 \<or> snd ou = 1"
      by (rule word_le1_cases) (simp add: ou_def adc_loop_carry)
    have lo: "length (fst ou) = 8" by (simp add: ou_def adc_loop_length lr)
    have b2: "limbs_val (fst ou) < 2 ^ 256" using limbs_val_bound [of "fst ou"] lo by simp
    from c2 s b2 d0 have "limbs_val (fst ou) = limbs_val d" by auto
    moreover have "limbs_val d mod modq = limbs_val d" using lt d0 by simp
    ultimately show ?thesis by (simp add: out)
  qed
qed

lemma gf_finish_reduce_gfval: "gf_pr d \<Longrightarrow> limbs_val (gf_finish_reduce d) = gfval d"
  by (simp add: gf_finish_reduce_val gfval_def)

lemma and1_uint: "uint ((w::u32) AND 1) = uint w mod 2"
proof -
  have "(1::u32) = mask 1" by simp
  then have "uint (w AND 1) = uint (w AND mask 1)" by simp
  also have "\<dots> = uint (word_of_int (uint w mod 2 ^ 1) :: u32)" by (simp only: and_mask_mod_2p)
  also have "\<dots> = (uint w mod 2) mod 2 ^ 32" by (simp only: uint_word_of_int) simp
  also have "\<dots> = uint w mod 2" by (simp add: mod_mod_cancel)
  finally show ?thesis .
qed

lemma and1_cases: "(w::u32) AND 1 = (if odd (uint w) then 1 else 0)"
proof -
  have "uint (w AND 1) = (if odd (uint w) then 1 else 0)"
    unfolding and1_uint by (simp add: mod_2_eq_odd) 
  then show ?thesis by (auto simp: word_uint_eq_iff split: if_splits)
qed

lemma limbs_val_parity: "a \<noteq> [] \<Longrightarrow> odd (limbs_val a) \<longleftrightarrow> odd (uint (a ! 0))"
  by (cases a) simp_all

lemma gf_is_negative_val:
  assumes "gf_pr x"
  shows "gf_is_negative x = (if odd (gfval x) then - 1 else 0)"
proof -
  have "length (gf_finish_reduce x) = 8" using assms by (rule gf_finish_reduce_val)
  then have "gf_finish_reduce x \<noteq> []" by auto
  then have "odd (uint (gf_finish_reduce x ! 0)) \<longleftrightarrow> odd (gfval x)"
    using limbs_val_parity [of "gf_finish_reduce x"] gf_finish_reduce_gfval [OF assms] by simp
  then show ?thesis by (simp add: gf_is_negative_def and1_cases)
qed


subsection \<open>Squaring, and the lengths of the field operations\<close>

lemma sq_expand: "limbs_val a * limbs_val a = sq_diag_val a + 2 * cross_val a"
  by (induction a) (simp_all add: algebra_simps)

lemma cross_upto_drop:
  "k \<le> length a \<Longrightarrow> cross_upto a k + 2 ^ (64 * k) * cross_val (drop k a) = cross_val a"
proof (induction k)
  case 0 show ?case by simp
next
  case (Suc k)
  then have kl: "k < length a" by simp
  have d: "drop k a = a ! k # drop (Suc k) a" using kl by (simp add: Cons_nth_drop_Suc)
  have "(2::int) ^ (64 * Suc k) = 2 ^ (64 * k) * 2 ^ 64" by (simp add: power_add)
  moreover have "(2::int) ^ (32 * (2 * k + 1)) = 2 ^ (64 * k) * 2 ^ 32" by (simp add: power_add mult.commute)
  ultimately have "cross_upto a (Suc k) + 2 ^ (64 * Suc k) * cross_val (drop (Suc k) a)
        = cross_upto a k + 2 ^ (64 * k) * cross_val (drop k a)"
    by (simp add: d algebra_simps)
  with Suc.IH kl show ?case by simp
qed

lemma cross_upto_all: "cross_upto a (length a) = cross_val a"
  using cross_upto_drop [of "length a" a] by simp

lemma sqr_step_inv:
  assumes "length a = 8"
  shows "k \<le> 7 \<Longrightarrow>
   \<exists>p. foldl (sqr_step a) (replicate 16 0) [0..<k] = p @ replicate (8 - k) 0
       \<and> length p = k + 8 \<and> limbs_val p = cross_upto a k \<and> p ! 0 = 0"
proof (induction k)
  case 0
  have "replicate 16 (0::u32) = replicate 8 0 @ replicate 8 0"
    by (simp add: replicate_add [symmetric])
  then show ?case by (intro exI [where x = "replicate 8 0"]) simp
next
  case (Suc k)
  then have k6: "k \<le> 6" by simp
  with Suc.IH obtain p where
    t: "foldl (sqr_step a) (replicate 16 0) [0..<k] = p @ replicate (8 - k) 0"
    and lp: "length p = k + 8" and vp: "limbs_val p = cross_upto a k" and p0: "p ! 0 = 0"
    by auto
  define r where "r = mul_row (a ! k) (drop (k + 1) a) (drop (2 * k + 1) p) 0"
  have lr: "length (fst r) = 7 - k" using k6 by (simp add: r_def mul_row_length lp assms)
  have sl: "take (7 - k) (drop (2 * k + 1) (p @ replicate (8 - k) 0)) = drop (2 * k + 1) p"
    using lp k6 by simp
  have dr: "drop (k + 9) (p @ replicate (8 - k) 0) = replicate (8 - Suc k) 0"
    using lp k6 by simp
  have tk: "take (2 * k + 1) (p @ replicate (8 - k) 0) = take (2 * k + 1) p"
    using lp k6 by simp
  have "sqr_step a (p @ replicate (8 - k) 0) k
        = take (2 * k + 1) p @ fst r @ [snd r] @ replicate (8 - Suc k) 0"
    unfolding sqr_step_def Let_def sl dr tk r_def [symmetric] by simp
  then have st: "foldl (sqr_step a) (replicate 16 0) [0..<Suc k]
        = (take (2 * k + 1) p @ fst r @ [snd r]) @ replicate (8 - Suc k) 0"
    by (simp add: t)
  have rv: "limbs_val (fst r) + 2 ^ (32 * (7 - k)) * uint (snd r)
            = uint (a ! k) * limbs_val (drop (k + 1) a) + limbs_val (drop (2 * k + 1) p)"
    using mul_row_val [of "drop (k + 1) a" "drop (2 * k + 1) p" "a ! k" 0] lp k6 assms
    by (simp add: r_def)
  have "limbs_val (take (2 * k + 1) p @ fst r @ [snd r])
        = limbs_val (take (2 * k + 1) p)
          + 2 ^ (32 * (2 * k + 1)) * (limbs_val (fst r) + 2 ^ (32 * (7 - k)) * uint (snd r))"
    using lp lr k6 by (simp add: limbs_val_append min_def)
  also have "\<dots> = (limbs_val (take (2 * k + 1) p) + 2 ^ (32 * (2 * k + 1)) * limbs_val (drop (2 * k + 1) p))
                    + 2 ^ (32 * (2 * k + 1)) * (uint (a ! k) * limbs_val (drop (k + 1) a))"
    by (simp only: rv) (simp add: algebra_simps)
  also have "limbs_val (take (2 * k + 1) p) + 2 ^ (32 * (2 * k + 1)) * limbs_val (drop (2 * k + 1) p) = limbs_val p"
    using limbs_val_take_drop [of "2 * k + 1" p] lp k6 by simp
  also have "limbs_val p + 2 ^ (32 * (2 * k + 1)) * (uint (a ! k) * limbs_val (drop (k + 1) a)) = cross_upto a (Suc k)"
    by (simp add: vp algebra_simps)
  finally have "limbs_val (take (2 * k + 1) p @ fst r @ [snd r]) = cross_upto a (Suc k)" .
  moreover have "length (take (2 * k + 1) p @ fst r @ [snd r]) = Suc k + 8"
    using lp lr k6 by simp
  moreover have "(take (2 * k + 1) p @ fst r @ [snd r]) ! 0 = 0"
    using p0 lp by (simp add: nth_append)
  ultimately show ?case using st by blast
qed

lemma shl_or_plus:
  fixes x y :: u32
  assumes "n < 32"
  shows "push_bit n x OR drop_bit (32 - n) y = push_bit n x + drop_bit (32 - n) y"
proof -
  have "push_bit n x AND drop_bit (32 - n) y = 0"
    using assms by (intro bit_word_eqI) (auto simp: bit_simps dest: bit_imp_le_length)
  then show ?thesis by (simp add: disjunctive_add_eq_or)
qed

lemma shl_or_uint:
  fixes x y :: u32
  assumes "0 < n" "n < 32"
  shows "uint (push_bit n x OR drop_bit (32 - n) y)
         = 2 ^ n * (uint x mod 2 ^ (32 - n)) + uint y div 2 ^ (32 - n)"
proof -
  have p: "(2::int) ^ 32 = 2 ^ n * 2 ^ (32 - n)" using assms by (simp flip: power_add)
  have a: "uint (push_bit n x) = 2 ^ n * (uint x mod 2 ^ (32 - n))"
  proof -
    have "uint (push_bit n x) = (uint x * 2 ^ n) mod 2 ^ 32"
      by (subst unsigned_push_bit_eq) (simp add: push_bit_eq_mult take_bit_eq_mod)
    also have "\<dots> = (2 ^ n * uint x) mod (2 ^ n * 2 ^ (32 - n))" by (simp only: p mult.commute)
    also have "\<dots> = 2 ^ n * (uint x mod 2 ^ (32 - n))" by (rule mod_mult_mult1)
    finally show ?thesis .
  qed
  have b: "uint (drop_bit (32 - n) y) = uint y div 2 ^ (32 - n)" by (rule uint_drop_bit)
  have b0: "0 \<le> uint y div 2 ^ (32 - n)" by (simp add: pos_imp_zdiv_nonneg_iff)
  have p': "(2::int) ^ (32 - n) * 2 ^ n = 4294967296" "(2::int) ^ n * 2 ^ (32 - n) = 4294967296"
    using p by (simp_all add: mult.commute)
  have b1: "uint y div 2 ^ (32 - n) < 2 ^ n"
    using uint_lt32 [of y] by (intro int_div_lt) (simp_all add: p')
  have a1: "uint x mod 2 ^ (32 - n) + 1 \<le> 2 ^ (32 - n)"
  proof -
    have "uint x mod 2 ^ (32 - n) < 2 ^ (32 - n)" by (rule pos_mod_bound) simp
    then show ?thesis by linarith
  qed
  have "2 ^ n * (uint x mod 2 ^ (32 - n) + 1) \<le> (2::int) ^ n * 2 ^ (32 - n)"
    using a1 by (intro mult_left_mono) simp_all
  then have s: "2 ^ n * (uint x mod 2 ^ (32 - n)) + uint y div 2 ^ (32 - n) < 2 ^ 32"
    using b1 by (simp add: p' algebra_simps)
  have s0: "0 \<le> 2 ^ n * (uint x mod 2 ^ (32 - n)) + uint y div 2 ^ (32 - n)"
    using b0 by simp
  have "uint (push_bit n x + drop_bit (32 - n) y)
        = (uint (push_bit n x) + uint (drop_bit (32 - n) y)) mod 2 ^ LENGTH(32)"
    by (rule uint_word_ariths)
  also have "\<dots> = (2 ^ n * (uint x mod 2 ^ (32 - n)) + uint y div 2 ^ (32 - n)) mod 2 ^ 32"
    by (simp only: a b) simp
  also have "\<dots> = 2 ^ n * (uint x mod 2 ^ (32 - n)) + uint y div 2 ^ (32 - n)"
    by (rule mod_pos_pos_trivial [OF s0 s])
  finally show ?thesis using assms by (simp only: shl_or_plus)
qed

lemma dbl_limb: "uint (push_bit 1 (x::u32) OR drop_bit 31 (y::u32))
                 = 2 * uint x - 4294967296 * (uint x div 2147483648) + uint y div 2147483648"
proof -
  have "uint x mod 2147483648 = uint x - 2147483648 * (uint x div 2147483648)"
    by (simp add: minus_mult_div_eq_mod)
  then show ?thesis using shl_or_uint [of 1 x y] by simp
qed

lemma upt_1_15: "[Suc 0..<15] = [1, 2, 3, 4, 5, 6, 7, 8, 9, 10, 11, 12, 13, 14]"
  by code_simp

lemma length15E:
  assumes "length (p :: 'a list) = 15"
  obtains p0 p1 p2 p3 p4 p5 p6 p7 p8 p9 p10 p11 p12 p13 p14
  where "p = [p0, p1, p2, p3, p4, p5, p6, p7, p8, p9, p10, p11, p12, p13, p14]"
proof -
  have l: "length (take 7 p) = 7" "length (drop 7 p) = 8" using assms by simp_all
  from l(2) obtain p7 p8 p9 p10 p11 p12 p13 p14 where d: "drop 7 p = [p7, p8, p9, p10, p11, p12, p13, p14]"
    by (rule length8E)
  have "length (take 7 p @ [undefined]) = 8" using l by simp
  then obtain p0 p1 p2 p3 p4 p5 p6 x where "take 7 p @ [undefined] = [p0, p1, p2, p3, p4, p5, p6, x]"
    by (rule length8E)
  then have t: "take 7 p = [p0, p1, p2, p3, p4, p5, p6]"
    by (metis butlast_snoc butlast.simps(2) list.distinct(1))
  have "p = take 7 p @ drop 7 p" by simp
  with t d that show ?thesis by simp
qed

lemma sqr_double_val:
  assumes "length p = 15" "p ! 0 = 0"
  shows "limbs_val (sqr_double (p @ [0])) = 2 * limbs_val p" and "length (sqr_double (p @ [0])) = 16"
proof -
  from assms(1) obtain p0 p1 p2 p3 p4 p5 p6 p7 p8 p9 p10 p11 p12 p13 p14
    where p: "p = [p0, p1, p2, p3, p4, p5, p6, p7, p8, p9, p10, p11, p12, p13, p14]"
    by (rule length15E)
  from assms(2) have z: "p0 = 0" by (simp add: p)
  show "length (sqr_double (p @ [0])) = 16" by (simp add: sqr_double_def)
  have "sqr_double (p @ [0]) =
        [0, push_bit 1 p1 OR drop_bit 31 p0, push_bit 1 p2 OR drop_bit 31 p1,
            push_bit 1 p3 OR drop_bit 31 p2, push_bit 1 p4 OR drop_bit 31 p3,
            push_bit 1 p5 OR drop_bit 31 p4, push_bit 1 p6 OR drop_bit 31 p5,
            push_bit 1 p7 OR drop_bit 31 p6, push_bit 1 p8 OR drop_bit 31 p7,
            push_bit 1 p9 OR drop_bit 31 p8, push_bit 1 p10 OR drop_bit 31 p9,
            push_bit 1 p11 OR drop_bit 31 p10, push_bit 1 p12 OR drop_bit 31 p11,
            push_bit 1 p13 OR drop_bit 31 p12, push_bit 1 p14 OR drop_bit 31 p13,
            drop_bit 31 p14]"
    unfolding sqr_double_def p z upt_1_15 [unfolded One_nat_def [symmetric]]
    by (simp add: upt_1_15 del: push_bit_eq_mult drop_bit_eq_div)
  then show "limbs_val (sqr_double (p @ [0])) = 2 * limbs_val p"
    by (simp only: limbs_val.simps dbl_limb uint_drop_bit p z) (simp add: algebra_simps)
qed

lemma diag_word:
  fixes x t0 t1 cc :: u32
  defines "w \<equiv> (ucast x :: u64) * ucast x + ucast t0 + ucast cc"
  defines "w2 \<equiv> (ucast t1 :: u64) + drop_bit 32 w"
  shows "uint (ucast w :: u32) + 4294967296 * uint (ucast w2 :: u32)
         + 18446744073709551616 * uint (ucast (drop_bit 32 w2) :: u32)
         = uint x * uint x + uint t0 + uint cc + 4294967296 * uint t1"
proof -
  have a: "uint (ucast w :: u32) + 4294967296 * uint (ucast (drop_bit 32 w) :: u32)
           = uint x * uint x + uint t0 + uint cc"
    unfolding w_def by (rule mul_word)
  have h: "uint (drop_bit 32 w) = uint (ucast (drop_bit 32 w) :: u32)"
    by (subst uint_ucast_hi) (simp add: uint_drop_bit)
  have hb: "uint (ucast (drop_bit 32 w) :: u32) < 4294967296" by (rule uint_lt32)
  have "uint w2 = (uint (ucast t1 :: u64) + uint (drop_bit 32 w)) mod 2 ^ LENGTH(64)"
    unfolding w2_def by (rule uint_word_ariths)
  also have "\<dots> = (uint t1 + uint (ucast (drop_bit 32 w) :: u32)) mod 2 ^ 64"
    by (simp only: uint_ucast_up h) simp
  also have "\<dots> = uint t1 + uint (ucast (drop_bit 32 w) :: u32)"
    using hb uint_lt32 [of t1] by simp
  finally have "uint w2 = uint t1 + uint (ucast (drop_bit 32 w) :: u32)" .
  then have b: "uint (ucast w2 :: u32) + 4294967296 * uint (ucast (drop_bit 32 w2) :: u32)
                = uint t1 + uint (ucast (drop_bit 32 w) :: u32)"
    by (simp only: uint_split64)
  from a b show ?thesis by (simp add: algebra_simps)
qed

lemma sqr_diag_length: "length t = 2 * length a \<Longrightarrow> length (fst (sqr_diag a t cc)) = 2 * length a"
  by (induction a t cc rule: sqr_diag.induct) (simp_all add: Let_def)

lemma sqr_diag_val:
  "length t = 2 * length a \<Longrightarrow>
   limbs_val (fst (sqr_diag a t cc)) + 2 ^ (64 * length a) * uint (snd (sqr_diag a t cc))
   = sq_diag_val a + limbs_val t + uint cc"
proof (induction a t cc rule: sqr_diag.induct)
  case (1 x xs t0 t1 ts cc)
  define w where "w = (ucast x :: u64) * ucast x + ucast t0 + ucast cc"
  define w2 where "w2 = (ucast t1 :: u64) + drop_bit 32 w"
  define r where "r = sqr_diag xs ts (ucast (drop_bit 32 w2))"
  have "length ts = 2 * length xs" using "1.prems" by simp
  then have ih: "limbs_val (fst r) + 2 ^ (64 * length xs) * uint (snd r)
            = sq_diag_val xs + limbs_val ts + uint (ucast (drop_bit 32 w2) :: u32)"
    unfolding r_def by (rule "1.IH" [OF w_def w2_def])
  have st: "uint (ucast w :: u32) + 4294967296 * uint (ucast w2 :: u32)
         + 18446744073709551616 * uint (ucast (drop_bit 32 w2) :: u32)
         = uint x * uint x + uint t0 + uint cc + 4294967296 * uint t1"
    unfolding w_def w2_def by (rule diag_word)
  have "limbs_val (ucast w # ucast w2 # fst r) + 2 ^ (64 * length (x # xs)) * uint (snd r)
        = uint (ucast w :: u32) + 4294967296 * uint (ucast w2 :: u32)
          + 18446744073709551616 * (limbs_val (fst r) + 2 ^ (64 * length xs) * uint (snd r))"
    by (simp add: power_add algebra_simps)
  also have "\<dots> = uint (ucast w :: u32) + 4294967296 * uint (ucast w2 :: u32)
          + 18446744073709551616 * (sq_diag_val xs + limbs_val ts + uint (ucast (drop_bit 32 w2) :: u32))"
    by (simp only: ih)
  also have "\<dots> = sq_diag_val (x # xs) + limbs_val (t0 # t1 # ts) + uint cc"
    using st by (simp add: algebra_simps)
  finally show ?case by (simp add: Let_def w_def w2_def r_def)
qed simp_all

lemma gf_square_val:
  assumes "length a = 8"
  shows "gf_pr (gf_square a)" and "gfval (gf_square a) = (limbs_val a * limbs_val a) mod modq"
proof -
  from sqr_step_inv [OF assms, of 7] obtain p where
    t1: "foldl (sqr_step a) (replicate 16 0) [0..<7] = p @ [0]"
    and lp: "length p = 15" and vp: "limbs_val p = cross_upto a 7" and p0: "p ! 0 = 0"
    by (auto simp: eval_nat_numeral)
  have "cross_upto a 8 = cross_upto a 7" using assms by (simp add: eval_nat_numeral)
  then have c: "limbs_val p = cross_val a" using cross_upto_all [of a] assms vp by simp
  define t2 where "t2 = sqr_double (p @ [0])"
  have v2: "limbs_val t2 = 2 * cross_val a" and l2: "length t2 = 16"
    using sqr_double_val [OF lp p0] c by (simp_all add: t2_def)
  define r where "r = sqr_diag a t2 0"
  have l3: "length (fst r) = 16" using sqr_diag_length [of t2 a 0] l2 assms by (simp add: r_def)
  have "limbs_val (fst r) + 2 ^ 512 * uint (snd r) = sq_diag_val a + limbs_val t2"
    using sqr_diag_val [of t2 a 0] l2 assms by (simp add: r_def)
  then have e: "limbs_val (fst r) + 2 ^ 512 * uint (snd r) = limbs_val a * limbs_val a"
    by (simp add: v2 sq_expand)
  have ab: "limbs_val a < 2 ^ 256" "0 \<le> limbs_val a"
    using limbs_val_bound [of a] assms by (simp_all add: limbs_val_nonneg)
  have "limbs_val a * limbs_val a < 2 ^ 256 * 2 ^ 256"
    using ab by (intro mult_strict_mono) simp_all
  then have sb: "limbs_val a * limbs_val a < 2 ^ 512" by simp
  have "uint (snd r) = 0"
  proof (rule ccontr)
    assume "uint (snd r) \<noteq> 0"
    then have "1 \<le> uint (snd r)" using uint_ge_0 [of "snd r"] by linarith
    then have "2 ^ 512 * 1 \<le> (2::int) ^ 512 * uint (snd r)" by (intro mult_left_mono) simp_all
    with e sb limbs_val_nonneg [of "fst r"] show False by simp
  qed
  with e have v3: "limbs_val (fst r) = limbs_val a * limbs_val a" by simp
  have g: "gf_square a = gf_fold (fst r)"
    by (simp add: gf_square_def Let_def t1 t2_def r_def)
  show "gf_pr (gf_square a)" unfolding g using l3 by (rule gf_fold_val)
  show "gfval (gf_square a) = (limbs_val a * limbs_val a) mod modq"
    unfolding g using gf_fold_val(2) [OF l3] v3 by simp
qed

lemma gf_partial_reduce_length: "length (gf_partial_reduce d extra) = length d"
  by (simp add: gf_partial_reduce_def Let_def carry_loop_length)

lemma lsh_loop_length: "length (fst (lsh_loop n a cc)) = length a"
  by (induction n a cc rule: lsh_loop.induct) (simp_all add: Let_def)

lemma gf_lsh_length: "length (gf_lsh a n) = length a"
  by (simp add: gf_lsh_def Let_def gf_partial_reduce_length lsh_loop_length)

lemma gf_mul2_length: "length (gf_mul2 a) = length a"
  by (simp add: gf_mul2_def gf_lsh_length)

lemma gf_mul_length: "length a = 8 \<Longrightarrow> length b = 8 \<Longrightarrow> length (gf_mul a b) = 8"
  using gf_mul_val(1) [of a b] by (simp add: gf_pr_def)

lemma gf_square_length: "length a = 8 \<Longrightarrow> length (gf_square a) = 8"
  using gf_square_val(1) [of a] by (simp add: gf_pr_def)

lemma gf_sub_length: "length a = 8 \<Longrightarrow> length b = 8 \<Longrightarrow> length (gf_sub a b) = 8"
  using gf_sub_val(1) [of a b] by (simp add: gf_pr_def)

lemma gf_add_length: "length a = 8 \<Longrightarrow> length b = 8 \<Longrightarrow> length (gf_add a b) = 8"
  using gf_add_val(1) [of a b] by (simp add: gf_pr_def)

lemma gf_neg_length: "length a = 8 \<Longrightarrow> length (gf_neg a) = 8"
  using gf_neg_val(1) [of a] by (simp add: gf_pr_def)

lemma gf_xsquare_length: "length a = 8 \<Longrightarrow> length (gf_xsquare a n) = 8"
  by (induction a n rule: gf_xsquare.induct) (simp_all add: gf_square_length)

lemmas gf_len = gf_mul_length gf_square_length gf_sub_length gf_add_length gf_neg_length
  gf_xsquare_length gf_mul2_length gf_lsh_length length_gf_zero length_gf_one

lemma gf_prep240_length:
  assumes "length a = 8"
  shows "length (fst (gf_prep240 a)) = 8"
    and "snd (gf_prep240 a) = [a, gf_square a, gf_mul a (gf_square a)]"
  using assms by (simp_all add: gf_prep240_def Let_def gf_len)

lemma gf_exp_step_length:
  assumes "length x = 8" "length w0 = 8" "length w1 = 8" "length w2 = 8"
  shows "length (gf_exp_step e [w0, w1, w2] x i) = 8"
proof -
  define k where "k = drop_bit i e AND 3"
  have "k \<le> 3" unfolding k_def by (rule word_and_le1)
  then have "unat k \<le> 3" by (simp add: word_le_nat_alt)
  then have "unat k - 1 = 0 \<or> unat k - 1 = 1 \<or> unat k - 1 = 2" by auto
  then have "length ([w0, w1, w2] ! (unat k - 1)) = 8" using assms by auto
  then show ?thesis using assms by (simp add: gf_exp_step_def Let_def k_def gf_len)
qed

lemma gf_exp_fold_length:
  assumes "length x = 8" "length w0 = 8" "length w1 = 8" "length w2 = 8"
  shows "length (foldl (gf_exp_step e [w0, w1, w2]) x is) = 8"
  using assms(1) by (induction "is" arbitrary: x) (simp_all add: gf_exp_step_length assms)


subsection \<open>Equality test and conditional negation\<close>

lemma gf_pr_gfval_limbs: "gf_pr a \<Longrightarrow> limbs_val a mod modq = gfval a"
  by (simp add: gfval_def)

lemma gf_is_zero_gfval: "gf_pr a \<Longrightarrow> gf_is_zero a = (if gfval a = 0 then - 1 else 0)"
  using gf_is_zero_mod [of a] by (simp add: gf_pr_def gfval_def)

lemma gf_equals_val:
  assumes "length a = 8" "length b = 8"
  shows "gf_equals a b = (if gfval a = gfval b then - 1 else 0)"
proof -
  have "(limbs_val a - limbs_val b) mod modq = 0 \<longleftrightarrow> limbs_val a mod modq = limbs_val b mod modq"
    by (simp only: mod_eq_dvd_iff mod_eq_0_iff_dvd)
  then have "gfval (gf_sub a b) = 0 \<longleftrightarrow> gfval a = gfval b"
    by (simp only: gf_sub_val(2) [OF assms] gfval_def [of a] gfval_def [of b])
  then show ?thesis using gf_is_zero_gfval [OF gf_sub_val(1) [OF assms]] by (simp add: gf_equals_def)
qed

lemma gf_condneg_nonneg:
  assumes "gf_pr x"
  shows "gf_pr (gf_condneg x (gf_is_negative x))"
    and "gf_is_negative (gf_condneg x (gf_is_negative x)) = 0"
proof -
  have len: "length x = 8" using assms by (rule gf_pr_length)
  have ln: "length (gf_neg x) = 8" using len by (rule gf_neg_length)
  have "gf_pr (gf_condneg x (gf_is_negative x)) \<and> gf_is_negative (gf_condneg x (gf_is_negative x)) = 0"
  proof (cases "odd (gfval x)")
    case False
    then have m: "gf_is_negative x = 0" using gf_is_negative_val [OF assms] by simp
    then have "gf_condneg x (gf_is_negative x) = x"
      using len ln by (simp add: gf_condneg_def gf_select_0)
    with assms m show ?thesis by simp
  next
    case True
    then have m: "gf_is_negative x = - 1" using gf_is_negative_val [OF assms] by simp
    then have c: "gf_condneg x (gf_is_negative x) = gf_neg x"
      using len ln by (simp add: gf_condneg_def gf_select_1)
    have p: "gf_pr (gf_neg x)" using len by (rule gf_neg_val)
    define v where "v = gfval x"
    have vb: "0 \<le> v" "v < modq" using modq_pos by (simp_all add: v_def gfval_def)
    have v0: "v \<noteq> 0" using True by (auto simp: v_def)
    have "gfval (gf_neg x) = (- limbs_val x) mod modq" using len by (rule gf_neg_val)
    also have "\<dots> = (- v) mod modq" by (simp add: v_def gfval_def mod_minus_eq)
    also have "\<dots> = modq - v" using vb v0 by (intro int_mod_unique [where k = "-1"]) simp_all
    finally have "gfval (gf_neg x) = modq - v" .
    moreover have "odd modq" by (simp add: modq_def)
    ultimately have "even (gfval (gf_neg x))" using True by (simp add: v_def)
    then have "gf_is_negative (gf_neg x) = 0" using gf_is_negative_val [OF p] by simp
    with c p show ?thesis by simp
  qed
  then show "gf_pr (gf_condneg x (gf_is_negative x))"
    and "gf_is_negative (gf_condneg x (gf_is_negative x)) = 0" by simp_all
qed

text \<open>What \<^verbatim>\<open>gf_sqrt\<close> returns is a root, or zero with the mask 0.\<close>

lemma gf_sqrt_sound:
  assumes "length a = 8"
  shows "((fst (gf_sqrt a) = 0xFFFFFFFF \<and> gf_pr (snd (gf_sqrt a))
           \<and> (limbs_val (snd (gf_sqrt a)) * limbs_val (snd (gf_sqrt a))) mod modq = limbs_val a mod modq
           \<and> gf_is_negative (snd (gf_sqrt a)) = 0)
          \<or> (fst (gf_sqrt a) = 0 \<and> snd (gf_sqrt a) = gf_zero))
         \<and> (gf_is_square a \<or> (fst (gf_sqrt a) = 0 \<and> snd (gf_sqrt a) = gf_zero))"
proof -
  define x0 where "x0 = gf_mul2 a"
  define win where "win = [x0, gf_square x0, gf_mul x0 (gf_square x0)]"
  define x1 where "x1 = foldl (gf_exp_step (drop_bit 3 (- MQ - 5)) win) (fst (gf_prep240 x0)) [10, 8, 6, 4, 2, 0]"
  define y where "y = gf_mul x1 a"
  define x5 where "x5 = gf_mul y (gf_sub (gf_mul2 (gf_mul y x1)) gf_one)"
  define x6 where "x6 = gf_condneg x5 (gf_is_negative x5)"
  define r where "r = gf_equals (gf_square x6) a"
  have l0: "length x0 = 8" by (simp add: x0_def gf_len assms)
  have l1: "length x1 = 8"
    unfolding x1_def win_def by (intro gf_exp_fold_length) (simp_all add: gf_len l0 gf_prep240_length)
  have ly: "length y = 8" by (simp add: y_def gf_len l1 assms)
  have p5: "gf_pr x5" unfolding x5_def by (intro gf_mul_val) (simp_all add: gf_len ly l1)
  have p6: "gf_pr x6" and n6: "gf_is_negative x6 = 0"
    unfolding x6_def using p5 by (rule gf_condneg_nonneg)+
  have l6: "length x6 = 8" using p6 by (rule gf_pr_length)
  have l0': "length (gf_mul2 a) = 8" using l0 by (simp add: x0_def)
  have s: "gf_sqrt a = (r, gf_select gf_zero x6 r)"
    unfolding gf_sqrt_def Let_def r_def x6_def x5_def y_def x1_def win_def x0_def
      gf_prep240_length(2) [OF l0'] by (rule refl)
  have rv: "r = (if gfval (gf_square x6) = gfval a then - 1 else 0)"
    unfolding r_def by (intro gf_equals_val) (simp_all add: gf_len l6 assms)
  have sq: "gfval (gf_square x6) = (limbs_val x6 * limbs_val x6) mod modq"
    using l6 by (rule gf_square_val)
  show ?thesis
  proof (cases "gfval (gf_square x6) = gfval a")
    case True
    then have r1: "r = - 1" using rv by simp
    have d: "gf_select gf_zero x6 r = x6" unfolding r1 using l6 by (simp add: gf_select_1)
    have e: "(limbs_val x6 * limbs_val x6) mod modq = limbs_val a mod modq"
      using True sq by (simp add: gfval_def)
    then have isq: "gf_is_square a" unfolding gf_is_square_def gfval_def by blast
    have f: "fst (gf_sqrt a) = 0xFFFFFFFF" unfolding s fst_conv r1 by simp
    have g: "snd (gf_sqrt a) = x6" unfolding s snd_conv d by (rule refl)
    show ?thesis unfolding g using f p6 e n6 isq by blast
  next
    case False
    then have r0: "r = 0" using rv by simp
    have d: "gf_select gf_zero x6 r = gf_zero" unfolding r0 using l6 by (simp add: gf_select_0)
    have f: "fst (gf_sqrt a) = 0" unfolding s fst_conv r0 by (rule refl)
    have g: "snd (gf_sqrt a) = gf_zero" unfolding s snd_conv d by (rule refl)
    show ?thesis using f g by blast
  qed
qed


subsection \<open>Shifts, halving, and values modulo \<open>q\<close>\<close>

lemma lsh_step:
  fixes t y :: u32
  assumes "0 < n" "n < 32"
  shows "uint (push_bit n t OR drop_bit (32 - n) y) + 2 ^ 32 * uint (drop_bit (32 - n) t)
         = 2 ^ n * uint t + uint y div 2 ^ (32 - n)"
proof -
  have p: "(2::int) ^ 32 = 2 ^ n * 2 ^ (32 - n)" using assms by (simp flip: power_add)
  have s: "uint t = 2 ^ (32 - n) * (uint t div 2 ^ (32 - n)) + uint t mod 2 ^ (32 - n)" by simp
  have "2 ^ n * uint t = 2 ^ n * (2 ^ (32 - n) * (uint t div 2 ^ (32 - n)) + uint t mod 2 ^ (32 - n))"
    using s by simp
  then show ?thesis
    unfolding shl_or_uint [OF assms] uint_drop_bit p by (simp only: algebra_simps)
qed

lemma lsh_loop_val:
  assumes "0 < n" "n < 32"
  shows "limbs_val (fst (lsh_loop n a (drop_bit (32 - n) y)))
           + 2 ^ (32 * length a) * uint (snd (lsh_loop n a (drop_bit (32 - n) y)))
         = 2 ^ n * limbs_val a + uint y div 2 ^ (32 - n)"
proof (induction a arbitrary: y)
  case Nil show ?case by (simp add: uint_drop_bit)
next
  case (Cons t ts)
  define r where "r = lsh_loop n ts (drop_bit (32 - n) t)"
  have ih: "limbs_val (fst r) + 2 ^ (32 * length ts) * uint (snd r)
            = 2 ^ n * limbs_val ts + uint t div 2 ^ (32 - n)"
    unfolding r_def by (rule Cons.IH)
  have st: "uint (push_bit n t OR drop_bit (32 - n) y) + 2 ^ 32 * (uint t div 2 ^ (32 - n))
            = 2 ^ n * uint t + uint y div 2 ^ (32 - n)"
    using lsh_step [OF assms, of t y] by (simp only: uint_drop_bit)
  have "limbs_val (fst (lsh_loop n (t # ts) (drop_bit (32 - n) y)))
          + 2 ^ (32 * length (t # ts)) * uint (snd (lsh_loop n (t # ts) (drop_bit (32 - n) y)))
        = uint (push_bit n t OR drop_bit (32 - n) y)
          + 2 ^ 32 * (limbs_val (fst r) + 2 ^ (32 * length ts) * uint (snd r))"
    by (simp add: Let_def r_def [symmetric] power_add algebra_simps)
  also have "\<dots> = uint (push_bit n t OR drop_bit (32 - n) y)
          + 2 ^ 32 * (2 ^ n * limbs_val ts + uint t div 2 ^ (32 - n))"
    by (simp only: ih)
  also have "\<dots> = 2 ^ n * limbs_val (t # ts) + uint y div 2 ^ (32 - n)"
    using st by (simp add: algebra_simps)
  finally show ?case .
qed

lemma lsh_loop_carry:
  assumes "0 < n" "n \<le> 16"
  shows "uint (snd (lsh_loop n a (drop_bit (32 - n) (y::u32)))) < 65536"
proof (induction a arbitrary: y)
  case Nil
  have "(2::int) ^ 32 = 2 ^ (32 - n) * 2 ^ n" using assms by (simp flip: power_add)
  then have "uint y < 2 ^ (32 - n) * 2 ^ n" using uint_lt32 [of y] by simp
  then have "uint y div 2 ^ (32 - n) < 2 ^ n" by (intro int_div_lt) simp_all
  moreover have "(2::int) ^ n \<le> 2 ^ 16" using assms by (intro power_increasing) simp_all
  ultimately show ?case by (simp add: uint_drop_bit)
next
  case (Cons t ts)
  then show ?case by (simp add: Let_def)
qed

lemma gf_lsh_val:
  assumes "length a = 8" "0 < n" "n \<le> 16"
  shows "gf_pr (gf_lsh a n)" and "gfval (gf_lsh a n) = (2 ^ n * limbs_val a) mod modq"
proof -
  define r where "r = lsh_loop n a (drop_bit (32 - n) 0)"
  have r0: "lsh_loop n a 0 = r" by (simp add: r_def)
  have n32: "n < 32" using assms by simp
  have l: "length (fst r) = 8" by (simp add: r_def lsh_loop_length assms)
  have c: "uint (snd r) < 65536" unfolding r_def using assms(2,3) by (rule lsh_loop_carry)
  have v: "limbs_val (fst r) + 2 ^ 256 * uint (snd r) = 2 ^ n * limbs_val a"
    using lsh_loop_val [OF assms(2) n32, of a 0] by (simp add: r_def assms)
  have g: "gf_lsh a n = gf_partial_reduce (fst r) (snd r)" by (simp add: gf_lsh_def r0)
  show "gf_pr (gf_lsh a n)" unfolding g using l c by (rule gf_partial_reduce_pr)
  have "gfval (gf_lsh a n) = (limbs_val (fst r) + uint (snd r) * 2 ^ 256) mod modq"
    unfolding g using l c by (rule gf_partial_reduce_mod)
  also have "limbs_val (fst r) + uint (snd r) * 2 ^ 256 = 2 ^ n * limbs_val a"
    using v by (simp add: mult.commute)
  finally show "gfval (gf_lsh a n) = (2 ^ n * limbs_val a) mod modq" .
qed

lemma gf_mul2_val:
  assumes "length a = 8"
  shows "gf_pr (gf_mul2 a)" and "gfval (gf_mul2 a) = (2 * limbs_val a) mod modq"
  using gf_lsh_val [OF assms, of 1] by (simp_all add: gf_mul2_def)

lemma shr_or_uint:
  fixes x y :: u32
  shows "uint (drop_bit (Suc 0) x OR push_bit 31 y) = uint x div 2 + 2147483648 * (uint y mod 2)"
  using shl_or_uint [of 31 y x] by (simp add: or.commute)

lemma upt_0_7: "[0..<7] = [0, Suc 0, 2, 3, 4, 5, 6]"
  by code_simp

lemma limbs_val_gf_hq: "limbs_val gf_hq = 2 ^ 254 - 9325"
  by (simp add: gf_hq_def MQ_def)

lemma half_arith:
  fixes d0 d1 d2 d3 d4 d5 d6 d7 m0 m1 m2 m3 m4 m5 m6 m7 :: int
  shows "2 * (((d0 + 2147483648 * m1) + 4294967296 * ((d1 + 2147483648 * m2)
            + 4294967296 * ((d2 + 2147483648 * m3) + 4294967296 * ((d3 + 2147483648 * m4)
            + 4294967296 * ((d4 + 2147483648 * m5) + 4294967296 * ((d5 + 2147483648 * m6)
            + 4294967296 * (d6 + 2147483648 * m7))))))) + 2 ^ 224 * d7) + m0
         = (2 * d0 + m0) + 4294967296 * ((2 * d1 + m1) + 4294967296 * ((2 * d2 + m2)
            + 4294967296 * ((2 * d3 + m3) + 4294967296 * ((2 * d4 + m4)
            + 4294967296 * ((2 * d5 + m5) + 4294967296 * ((2 * d6 + m6)
            + 4294967296 * (2 * d7 + m7)))))))"
  by (simp add: algebra_simps)

lemma half_shift_val:
  assumes "length a = 8"
  shows "2 * (limbs_val (map (\<lambda>i. drop_bit 1 (a ! i) OR push_bit 31 (a ! (i + 1))) [0..<7])
              + 2 ^ 224 * (uint (a ! 7) div 2)) + uint (a ! 0) mod 2 = limbs_val a"
proof -
  from assms obtain a0 a1 a2 a3 a4 a5 a6 a7 where a: "a = [a0, a1, a2, a3, a4, a5, a6, a7]"
    by (auto elim: length8E)
  have l: "limbs_val (map (\<lambda>i. drop_bit 1 (a ! i) OR push_bit 31 (a ! (i + 1))) [0..<7])
           = (uint a0 div 2 + 2147483648 * (uint a1 mod 2)) + 4294967296 * ((uint a1 div 2 + 2147483648 * (uint a2 mod 2))
            + 4294967296 * ((uint a2 div 2 + 2147483648 * (uint a3 mod 2)) + 4294967296 * ((uint a3 div 2 + 2147483648 * (uint a4 mod 2))
            + 4294967296 * ((uint a4 div 2 + 2147483648 * (uint a5 mod 2)) + 4294967296 * ((uint a5 div 2 + 2147483648 * (uint a6 mod 2))
            + 4294967296 * (uint a6 div 2 + 2147483648 * (uint a7 mod 2)))))))"
    unfolding a upt_0_7 by (simp add: shr_or_uint)
  have r: "limbs_val a
           = (2 * (uint a0 div 2) + uint a0 mod 2) + 4294967296 * ((2 * (uint a1 div 2) + uint a1 mod 2) + 4294967296 * ((2 * (uint a2 div 2) + uint a2 mod 2)
            + 4294967296 * ((2 * (uint a3 div 2) + uint a3 mod 2) + 4294967296 * ((2 * (uint a4 div 2) + uint a4 mod 2)
            + 4294967296 * ((2 * (uint a5 div 2) + uint a5 mod 2) + 4294967296 * ((2 * (uint a6 div 2) + uint a6 mod 2)
            + 4294967296 * (2 * (uint a7 div 2) + uint a7 mod 2)))))))"
    unfolding a by simp
  have n: "a ! 7 = a7" "a ! 0 = a0" by (simp_all add: a)
  show ?thesis unfolding l r n by (rule half_arith)
qed

lemma uint_add3_small:
  fixes x y c :: u32
  assumes "uint x + uint y + uint c < 4294967296"
  shows "uint (x + y + c) = uint x + uint y + uint c"
proof -
  have "uint (x + y + c) = (uint (x + y) + uint c) mod 2 ^ LENGTH(32)" by (rule uint_word_ariths)
  also have "uint (x + y) = (uint x + uint y) mod 2 ^ LENGTH(32)" by (rule uint_word_ariths)
  also have "((uint x + uint y) mod 2 ^ LENGTH(32) + uint c) mod 2 ^ LENGTH(32)
             = (uint x + uint y + uint c) mod 2 ^ LENGTH(32)" by (simp add: mod_add_left_eq)
  also have "\<dots> = uint x + uint y + uint c"
    using assms uint_ge_0 [of x] uint_ge_0 [of y] uint_ge_0 [of c]
    by (intro int_mod_unique [where k = 0]) simp_all
  finally show ?thesis .
qed

lemma gf_half_gen:
  assumes "gf_pr a"
  shows "length (gf_half a) = 8"
    and "2 * limbs_val (gf_half a) = limbs_val a + (if odd (limbs_val a) then modq else 0)"
proof -
  have len: "length a = 8" and bd: "limbs_val a < 2 ^ 255 + 2 ^ 32"
    using assms by (simp_all add: gf_pr_def)
  define z where "z = - (a ! 0 AND 1)"
  define ts where "ts = map (\<lambda>i. drop_bit 1 (a ! i) OR push_bit 31 (a ! (i + 1))) [0..<7]"
  define hm where "hm = map (\<lambda>x. z AND x) (take 7 gf_hq)"
  define r where "r = adc_loop ts hm 0"
  define top where "top = drop_bit 1 (a ! 7) + (z AND gf_hq ! 7) + snd r"
  have g: "gf_half a = fst r @ [top]"
    by (simp add: gf_half_def Let_def z_def ts_def hm_def r_def top_def)
  have lt: "length ts = 7" by (simp add: ts_def)
  have lh: "length hm = 7" by (simp add: hm_def gf_hq_def)
  have lr: "length (fst r) = 7" by (simp add: r_def adc_loop_length lt lh)
  show "length (gf_half a) = 8" by (simp add: g lr)
  have rv: "limbs_val (fst r) + 2 ^ 224 * uint (snd r) = limbs_val ts + limbs_val hm"
    using adc_loop_val [of ts hm 0] by (simp add: r_def lt lh)
  have rc: "uint (snd r) \<le> 1" unfolding r_def by (rule adc_loop_carry) simp
  have sp: "limbs_val a = limbs_val (take 7 a) + 2 ^ 224 * uint (a ! 7)"
    and sp0: "0 \<le> limbs_val (take 7 a)" using limbs_val_split7 [OF len] by simp_all
  have "2 ^ 224 * uint (a ! 7) < 2 ^ 224 * (2147483648 + 1)" using sp sp0 bd by simp
  then have a7: "uint (a ! 7) \<le> 2147483648" by simp
  have d7: "uint (a ! 7) div 2 \<le> 1073741824"
  proof -
    have "uint (a ! 7) div 2 < 1073741825" using a7 by (intro int_div_lt) simp_all
    then show ?thesis by simp
  qed
  have d70: "0 \<le> uint (a ! 7) div 2" by (simp add: pos_imp_zdiv_nonneg_iff)
  have hs: "2 * (limbs_val ts + 2 ^ 224 * (uint (a ! 7) div 2)) + uint (a ! 0) mod 2 = limbs_val a"
    unfolding ts_def using len by (rule half_shift_val)
  have ne: "a \<noteq> []" using len by auto
  have par: "odd (limbs_val a) \<longleftrightarrow> odd (uint (a ! 0))" using ne by (rule limbs_val_parity)
  have zc: "z = (if odd (uint (a ! 0)) then - 1 else 0)" by (simp add: z_def and1_cases)
  show "2 * limbs_val (gf_half a) = limbs_val a + (if odd (limbs_val a) then modq else 0)"
  proof (cases "odd (uint (a ! 0))")
    case True
    then have z1: "z = - 1" using zc by simp
    have hm1: "hm = take 7 gf_hq" unfolding hm_def z1 by (rule map_and_ones)
    have hv: "limbs_val hm = 2 ^ 224 - 9325" unfolding hm1 by (simp add: gf_hq_def MQ_def)
    have h7: "uint (z AND gf_hq ! 7) = 1073741823" unfolding z1 by (simp add: gf_hq_def)
    have "uint top = uint (drop_bit 1 (a ! 7)) + uint (z AND gf_hq ! 7) + uint (snd r)"
      unfolding top_def using d7 rc by (intro uint_add3_small) (simp add: uint_drop_bit h7)
    then have tv: "uint top = uint (a ! 7) div 2 + 1073741823 + uint (snd r)"
      by (simp add: uint_drop_bit h7)
    have m1: "uint (a ! 0) mod 2 = 1" using True by (simp add: odd_iff_mod_2_eq_one)
    have "limbs_val (gf_half a) = limbs_val (fst r) + 2 ^ 224 * uint top"
      by (simp add: g limbs_val_append lr)
    also have "\<dots> = (limbs_val (fst r) + 2 ^ 224 * uint (snd r))
                      + 2 ^ 224 * (uint (a ! 7) div 2) + 2 ^ 224 * 1073741823"
      unfolding tv by (simp add: algebra_simps)
    also have "\<dots> = limbs_val ts + (2 ^ 224 - 9325) + 2 ^ 224 * (uint (a ! 7) div 2) + 2 ^ 224 * 1073741823"
      unfolding rv hv by simp
    finally have "2 * limbs_val (gf_half a)
        = 2 * (limbs_val ts + 2 ^ 224 * (uint (a ! 7) div 2)) + 2 * ((2 ^ 224 - 9325) + 2 ^ 224 * 1073741823)"
      by simp
    also have "\<dots> = (limbs_val a - 1) + 2 * ((2 ^ 224 - 9325) + 2 ^ 224 * 1073741823)"
      using hs m1 by simp
    also have "\<dots> = limbs_val a + modq" by (simp add: modq_def)
    finally show ?thesis using True par by simp
  next
    case False
    then have z0: "z = 0" using zc by simp
    have hm0: "hm = replicate (length (take 7 gf_hq)) 0" unfolding hm_def z0 by (rule map_and_zero)
    have hv: "limbs_val hm = 0" unfolding hm0 by simp
    have h7: "uint (z AND gf_hq ! 7) = 0" unfolding z0 by simp
    have "uint top = uint (drop_bit 1 (a ! 7)) + uint (z AND gf_hq ! 7) + uint (snd r)"
      unfolding top_def using d7 rc by (intro uint_add3_small) (simp add: uint_drop_bit h7)
    then have tv: "uint top = uint (a ! 7) div 2 + uint (snd r)"
      by (simp add: uint_drop_bit h7)
    have m0: "uint (a ! 0) mod 2 = 0" using False by simp
    have "limbs_val (gf_half a) = limbs_val (fst r) + 2 ^ 224 * uint top"
      by (simp add: g limbs_val_append lr)
    also have "\<dots> = (limbs_val (fst r) + 2 ^ 224 * uint (snd r)) + 2 ^ 224 * (uint (a ! 7) div 2)"
      unfolding tv by (simp add: algebra_simps)
    also have "\<dots> = limbs_val ts + 2 ^ 224 * (uint (a ! 7) div 2)"
      unfolding rv hv by simp
    finally have "2 * limbs_val (gf_half a) = 2 * (limbs_val ts + 2 ^ 224 * (uint (a ! 7) div 2))"
      by simp
    also have "\<dots> = limbs_val a" using hs m0 by simp
    finally show ?thesis using False par by simp
  qed
qed

lemma gf_half_val:
  assumes "gf_pr a"
  shows "gf_pr (gf_half a)" and "(2 * limbs_val (gf_half a)) mod modq = limbs_val a mod modq"
proof -
  have bd: "limbs_val a < 2 ^ 255 + 2 ^ 32" using assms by (simp add: gf_pr_def)
  have e: "2 * limbs_val (gf_half a) = limbs_val a + (if odd (limbs_val a) then modq else 0)"
    using assms by (rule gf_half_gen)
  have "2 * limbs_val (gf_half a) \<le> limbs_val a + modq" using e modq_pos by (simp split: if_splits)
  then have "limbs_val (gf_half a) < 2 ^ 255 + 2 ^ 32" using bd by (simp add: modq_def)
  then show "gf_pr (gf_half a)" using gf_half_gen(1) [OF assms] by (simp add: gf_pr_def)
  show "(2 * limbs_val (gf_half a)) mod modq = limbs_val a mod modq"
    unfolding e by simp
qed


lemma gfrepI: "gf_pr a \<Longrightarrow> gfval a = v mod modq \<Longrightarrow> gfrep a v"
  by (simp add: gfrep_def gfval_def)

lemma gfrep_pr: "gfrep a v \<Longrightarrow> gf_pr a"
  by (simp add: gfrep_def)

lemma gfrep_length: "gfrep a v \<Longrightarrow> length a = 8"
  by (simp add: gfrep_def gf_pr_def)

lemma gfrep_self: "gf_pr a \<Longrightarrow> gfrep a (limbs_val a)"
  by (simp add: gfrep_def)

lemma gfrep_cong: "gfrep a x \<Longrightarrow> x = y \<Longrightarrow> gfrep a y"
  by simp

lemma gfrep_zero: "gfrep gf_zero 0"
  by (simp add: gfrep_def gf_pr_zero)

lemma gfrep_one: "gfrep gf_one 1"
  by (simp add: gfrep_def gf_pr_one)

lemma gfrep_add:
  assumes "gfrep a x" "gfrep b y"
  shows "gfrep (gf_add a b) (x + y)"
proof (rule gfrepI)
  have la: "length a = 8" and lb: "length b = 8" using assms by (simp_all add: gfrep_length)
  have ma: "limbs_val a mod modq = x mod modq" and mb: "limbs_val b mod modq = y mod modq"
    using assms by (simp_all add: gfrep_def)
  show "gf_pr (gf_add a b)" using la lb by (rule gf_add_val)
  have "gfval (gf_add a b) = (limbs_val a + limbs_val b) mod modq" using la lb by (rule gf_add_val)
  also have "\<dots> = (x + y) mod modq" using ma mb by (rule mod_add_cong)
  finally show "gfval (gf_add a b) = (x + y) mod modq" .
qed

lemma gfrep_sub:
  assumes "gfrep a x" "gfrep b y"
  shows "gfrep (gf_sub a b) (x - y)"
proof (rule gfrepI)
  have la: "length a = 8" and lb: "length b = 8" using assms by (simp_all add: gfrep_length)
  have ma: "limbs_val a mod modq = x mod modq" and mb: "limbs_val b mod modq = y mod modq"
    using assms by (simp_all add: gfrep_def)
  show "gf_pr (gf_sub a b)" using la lb by (rule gf_sub_val)
  have "gfval (gf_sub a b) = (limbs_val a - limbs_val b) mod modq" using la lb by (rule gf_sub_val)
  also have "\<dots> = (x - y) mod modq" using ma mb by (rule mod_diff_cong)
  finally show "gfval (gf_sub a b) = (x - y) mod modq" .
qed

lemma gfrep_neg:
  assumes "gfrep a x"
  shows "gfrep (gf_neg a) (- x)"
proof (rule gfrepI)
  have la: "length a = 8" using assms by (simp add: gfrep_length)
  have ma: "limbs_val a mod modq = x mod modq" using assms by (simp add: gfrep_def)
  show "gf_pr (gf_neg a)" using la by (rule gf_neg_val)
  have "gfval (gf_neg a) = (- limbs_val a) mod modq" using la by (rule gf_neg_val)
  also have "\<dots> = (- (limbs_val a mod modq)) mod modq" by (simp only: mod_minus_eq)
  also have "\<dots> = (- (x mod modq)) mod modq" by (simp only: ma)
  also have "\<dots> = (- x) mod modq" by (simp only: mod_minus_eq)
  finally show "gfval (gf_neg a) = (- x) mod modq" .
qed

lemma gfrep_mul:
  assumes "gfrep a x" "gfrep b y"
  shows "gfrep (gf_mul a b) (x * y)"
proof (rule gfrepI)
  have la: "length a = 8" and lb: "length b = 8" using assms by (simp_all add: gfrep_length)
  have ma: "limbs_val a mod modq = x mod modq" and mb: "limbs_val b mod modq = y mod modq"
    using assms by (simp_all add: gfrep_def)
  show "gf_pr (gf_mul a b)" using la lb by (rule gf_mul_val)
  have "gfval (gf_mul a b) = (limbs_val a * limbs_val b) mod modq" using la lb by (rule gf_mul_val)
  also have "\<dots> = (x * y) mod modq" using ma mb by (rule mod_mult_cong)
  finally show "gfval (gf_mul a b) = (x * y) mod modq" .
qed

lemma gfrep_square:
  assumes "gfrep a x"
  shows "gfrep (gf_square a) (x * x)"
proof (rule gfrepI)
  have la: "length a = 8" using assms by (simp add: gfrep_length)
  have ma: "limbs_val a mod modq = x mod modq" using assms by (simp add: gfrep_def)
  show "gf_pr (gf_square a)" using la by (rule gf_square_val)
  have "gfval (gf_square a) = (limbs_val a * limbs_val a) mod modq" using la by (rule gf_square_val)
  also have "\<dots> = (x * x) mod modq" using ma ma by (rule mod_mult_cong)
  finally show "gfval (gf_square a) = (x * x) mod modq" .
qed

lemma gfrep_lsh:
  assumes "gfrep a x" "0 < n" "n \<le> 16"
  shows "gfrep (gf_lsh a n) (2 ^ n * x)"
proof (rule gfrepI)
  have la: "length a = 8" using assms by (simp add: gfrep_length)
  have ma: "limbs_val a mod modq = x mod modq" using assms by (simp add: gfrep_def)
  show "gf_pr (gf_lsh a n)" using la assms(2,3) by (rule gf_lsh_val)
  have "gfval (gf_lsh a n) = (2 ^ n * limbs_val a) mod modq" using la assms(2,3) by (rule gf_lsh_val)
  also have "\<dots> = (2 ^ n * x) mod modq" using refl ma by (rule mod_mult_cong)
  finally show "gfval (gf_lsh a n) = (2 ^ n * x) mod modq" .
qed

lemma gfrep_mul2: "gfrep a x \<Longrightarrow> gfrep (gf_mul2 a) (2 * x)"
  using gfrep_lsh [of a x 1] by (simp add: gf_mul2_def)

lemma gfrep_half: 
  assumes "gfrep a (2 * v)"
  shows "gfrep (gf_half a) v"
proof -
  have p: "gf_pr a" and m: "limbs_val a mod modq = (2 * v) mod modq"
    using assms by (simp_all add: gfrep_def)
  have "(2 * limbs_val (gf_half a)) mod modq = (2 * v) mod modq"
    using gf_half_val(2) [OF p] m by simp
  then have "modq dvd 2 * limbs_val (gf_half a) - 2 * v" by (simp only: mod_eq_dvd_iff)
  then have "modq dvd (limbs_val (gf_half a) - v) * 2" by (simp add: algebra_simps)
  moreover have "odd modq" by (simp add: modq_def)
  then have "coprime modq 2" using coprime_right_2_iff_odd [of modq] by blast
  ultimately have "modq dvd limbs_val (gf_half a) - v"
    by (simp only: coprime_dvd_mult_left_iff)
  then have "limbs_val (gf_half a) mod modq = v mod modq" by (simp only: mod_eq_dvd_iff)
  then show ?thesis using gf_half_val(1) [OF p] by (simp add: gfrep_def)
qed


section \<open>Curve operations on the neutral point and the base point\<close>

lemmas gfrep_ops = gfrep_add gfrep_sub gfrep_neg gfrep_mul gfrep_square gfrep_mul2 gfrep_zero gfrep_one

lemma point_add_affine_rep:
  assumes "point_rep p e z u t" and "affine_rep qa e2 u2 t2"
  shows "point_rep (point_add_affine p qa)
           ((z + 8 * (t * t2)) * (e * e2) + 16 * (u * u2) * (z * t2 + t))
           ((z - 8 * (t * t2)) * (z - 8 * (t * t2)))
           ((z - 8 * (t * t2)) * (e * u2 + u * e2))
           ((e * u2 + u * e2) * (e * u2 + u * e2))"
proof -
  have pe: "gfrep (E p) e" and pz: "gfrep (Z p) z" and pu: "gfrep (U p) u" and pt: "gfrep (T p) t"
    using assms(1) by (simp_all add: point_rep_def)
  have qe: "gfrep (aE qa) e2" and qu: "gfrep (aU qa) u2" and qt: "gfrep (aT qa) t2"
    using assms(2) by (simp_all add: affine_rep_def)
  define e1e2 where "e1e2 = gf_mul (E p) (aE qa)"
  define u1u2 where "u1u2 = gf_mul (U p) (aU qa)"
  define t1t2 where "t1t2 = gf_mul (T p) (aT qa)"
  define eu where "eu = gf_sub (gf_mul (gf_add (E p) (U p)) (gf_add (aE qa) (aU qa))) (gf_add e1e2 u1u2)"
  define zt where "zt = gf_add (gf_mul (Z p) (aT qa)) (T p)"
  define hd where "hd = gf_sub (Z p) (gf_lsh t1t2 3)"
  define E3 where "E3 = gf_add (gf_mul (gf_add (Z p) (gf_lsh t1t2 3)) e1e2) (gf_mul (gf_lsh u1u2 4) zt)"
  define g1 where "g1 = gf_sub (gf_square (gf_add hd eu)) (gf_add (gf_square hd) (gf_square eu))"
  have s: "point_add_affine p qa = \<lparr>E = E3, Z = gf_square hd, U = gf_half g1, T = gf_square eu\<rparr>"
    unfolding point_add_affine_def Let_def g1_def E3_def hd_def zt_def eu_def t1t2_def u1u2_def e1e2_def
    by (rule refl)
  have r1: "gfrep e1e2 (e * e2)" unfolding e1e2_def by (intro gfrep_ops pe qe)
  have r2: "gfrep u1u2 (u * u2)" unfolding u1u2_def by (intro gfrep_ops pu qu)
  have r3: "gfrep t1t2 (t * t2)" unfolding t1t2_def by (intro gfrep_ops pt qt)
  have l3: "gfrep (gf_lsh t1t2 3) (8 * (t * t2))" using gfrep_lsh [OF r3, of 3] by simp
  have l4: "gfrep (gf_lsh u1u2 4) (16 * (u * u2))" using gfrep_lsh [OF r2, of 4] by simp
  have "gfrep eu ((e + u) * (e2 + u2) - (e * e2 + u * u2))"
    unfolding eu_def by (intro gfrep_ops pe pu qe qu r1 r2)
  then have r4: "gfrep eu (e * u2 + u * e2)" by (rule gfrep_cong) (simp add: algebra_simps)
  have r5: "gfrep zt (z * t2 + t)" unfolding zt_def by (intro gfrep_ops pz qt pt)
  have r6: "gfrep hd (z - 8 * (t * t2))" unfolding hd_def by (intro gfrep_ops pz l3)
  have r7: "gfrep E3 ((z + 8 * (t * t2)) * (e * e2) + 16 * (u * u2) * (z * t2 + t))"
    unfolding E3_def by (intro gfrep_ops pz l3 r1 l4 r5)
  have "gfrep g1 (((z - 8 * (t * t2)) + (e * u2 + u * e2)) * ((z - 8 * (t * t2)) + (e * u2 + u * e2))
                  - ((z - 8 * (t * t2)) * (z - 8 * (t * t2)) + (e * u2 + u * e2) * (e * u2 + u * e2)))"
    unfolding g1_def by (intro gfrep_ops r6 r4)
  then have "gfrep g1 (2 * ((z - 8 * (t * t2)) * (e * u2 + u * e2)))"
    by (rule gfrep_cong) (simp add: algebra_simps)
  then have r8: "gfrep (gf_half g1) ((z - 8 * (t * t2)) * (e * u2 + u * e2))" by (rule gfrep_half)
  show ?thesis unfolding s point_rep_def using r7 r8 gfrep_square [OF r6] gfrep_square [OF r4] by simp
qed

lemma xwj_double_neutral:
  assumes "gfrep X 1" "gf_pr W" "gfrep (gf_square W) 1" "gfrep J 0"
  shows "gfrep (fst (xwj_double (X, W, J))) 1"
    and "gf_pr (fst (snd (xwj_double (X, W, J))))"
    and "gfrep (gf_square (fst (snd (xwj_double (X, W, J))))) 1"
    and "gfrep (snd (snd (xwj_double (X, W, J)))) 0"
proof -
  define ww where "ww = gf_square W"
  define g1 where "g1 = gf_sub ww (gf_mul2 X)"
  define g2 where "g2 = gf_square g1"
  define J1 where "J1 = gf_mul J (gf_mul2 (gf_mul g1 W))"
  define W1 where "W1 = gf_sub g2 (gf_mul2 (gf_square ww))"
  have s: "xwj_double (X, W, J) = (gf_square g2, W1, J1)"
    unfolding xwj_double_def Let_def prod.case W1_def J1_def g2_def g1_def ww_def by (rule refl)
  have w: "gfrep W (limbs_val W)" using assms(2) by (rule gfrep_self)
  have a: "gfrep ww 1" unfolding ww_def by (rule assms(3))
  have "gfrep g1 (1 - 2 * 1)" unfolding g1_def by (intro gfrep_ops a assms(1))
  then have b: "gfrep g1 (- 1)" by simp
  have "gfrep g2 (- 1 * - 1)" unfolding g2_def by (intro gfrep_ops b)
  then have c: "gfrep g2 1" by simp
  have "gfrep J1 (0 * (2 * (- 1 * limbs_val W)))" unfolding J1_def by (intro gfrep_ops assms(4) b w)
  then have d: "gfrep J1 0" by simp
  have "gfrep W1 (1 - 2 * (1 * 1))" unfolding W1_def by (intro gfrep_ops c a)
  then have e: "gfrep W1 (- 1)" by simp
  have "gfrep (gf_square W1) (- 1 * - 1)" by (intro gfrep_ops e)
  then have f: "gfrep (gf_square W1) 1" by simp
  have "gfrep (gf_square g2) (1 * 1)" by (intro gfrep_ops c)
  then have g: "gfrep (gf_square g2) 1" by simp
  show "gfrep (fst (xwj_double (X, W, J))) 1" unfolding s using g by simp
  show "gf_pr (fst (snd (xwj_double (X, W, J))))" unfolding s using e by (simp add: gfrep_pr)
  show "gfrep (gf_square (fst (snd (xwj_double (X, W, J))))) 1" unfolding s using f by simp
  show "gfrep (snd (snd (xwj_double (X, W, J)))) 0" unfolding s using d by simp
qed

lemma xwj_double_iter_neutral:
  assumes "gfrep X 1" "gf_pr W" "gfrep (gf_square W) 1" "gfrep J 0"
  shows "gfrep (fst ((xwj_double ^^ n) (X, W, J))) 1
         \<and> gf_pr (fst (snd ((xwj_double ^^ n) (X, W, J))))
         \<and> gfrep (gf_square (fst (snd ((xwj_double ^^ n) (X, W, J))))) 1
         \<and> gfrep (snd (snd ((xwj_double ^^ n) (X, W, J)))) 0"
proof (induction n)
  case 0
  show ?case using assms by simp
next
  case (Suc n)
  obtain X' W' J' where s: "(xwj_double ^^ n) (X, W, J) = (X', W', J')" by (rule prod_cases3)
  from Suc have i: "gfrep X' 1" "gf_pr W'" "gfrep (gf_square W') 1" "gfrep J' 0"
    by (simp_all add: s)
  show ?case using xwj_double_neutral [OF i] by (simp add: s)
qed

lemma point_xdouble_neutral:
  assumes "point_rep p 1 1 0 0"
  shows "point_rep (point_xdouble p n) 1 1 0 0"
proof (cases "n = 0")
  case True
  then show ?thesis using assms by (simp add: point_xdouble_def)
next
  case False
  have pe: "gfrep (E p) 1" and pz: "gfrep (Z p) 1" and pu: "gfrep (U p) 0" and pt: "gfrep (T p) 0"
    using assms by (simp_all add: point_rep_def)
  define g1 where "g1 = gf_square (E p)"
  define J0 where "J0 = gf_mul2 (gf_mul (E p) (U p))"
  define X0 where "X0 = gf_square g1"
  define W0 where "W0 = gf_sub (gf_mul2 (gf_square (Z p))) g1"
  define st where "st = (xwj_double ^^ (n - 1)) (X0, W0, J0)"
  define X1 where "X1 = fst st"
  define W1 where "W1 = fst (snd st)"
  define J1 where "J1 = snd (snd st)"
  have s: "point_xdouble p n
           = \<lparr>E = gf_sub (gf_mul2 X1) (gf_square W1), Z = gf_square W1, U = gf_mul W1 J1, T = gf_square J1\<rparr>"
    unfolding point_xdouble_def Let_def X1_def W1_def J1_def st_def W0_def X0_def J0_def g1_def
    using False by simp
  have "gfrep g1 (1 * 1)" unfolding g1_def by (intro gfrep_ops pe)
  then have a: "gfrep g1 1" by simp
  have "gfrep J0 (2 * (1 * 0))" unfolding J0_def by (intro gfrep_ops pe pu)
  then have b: "gfrep J0 0" by simp
  have "gfrep X0 (1 * 1)" unfolding X0_def by (intro gfrep_ops a)
  then have c: "gfrep X0 1" by simp
  have "gfrep W0 (2 * (1 * 1) - 1)" unfolding W0_def by (intro gfrep_ops pz a)
  then have d: "gfrep W0 1" by simp
  have "gfrep (gf_square W0) (1 * 1)" by (intro gfrep_ops d)
  then have e: "gfrep (gf_square W0) 1" by simp
  have i: "gfrep X1 1" "gf_pr W1" "gfrep (gf_square W1) 1" "gfrep J1 0"
    unfolding X1_def W1_def J1_def st_def
    using xwj_double_iter_neutral [OF c gfrep_pr [OF d] e b, of "n - 1"] by simp_all
  have w: "gfrep W1 (limbs_val W1)" using i(2) by (rule gfrep_self)
  have "gfrep (gf_sub (gf_mul2 X1) (gf_square W1)) (2 * 1 - 1)" by (intro gfrep_ops i)
  then have f: "gfrep (gf_sub (gf_mul2 X1) (gf_square W1)) 1" by simp
  have "gfrep (gf_mul W1 J1) (limbs_val W1 * 0)" by (intro gfrep_ops w i)
  then have g: "gfrep (gf_mul W1 J1) 0" by simp
  have "gfrep (gf_square J1) (0 * 0)" by (intro gfrep_ops i)
  then have h': "gfrep (gf_square J1) 0" by simp
  show ?thesis unfolding s point_rep_def using f i(3) g h' by simp
qed

lemma gfrep_mul_one: "gfrep a 1 \<Longrightarrow> gfrep b 1 \<Longrightarrow> gfrep (gf_mul a b) 1"
  using gfrep_mul [of a 1 b 1] by simp

lemma gfrep_square_one: "gfrep a 1 \<Longrightarrow> gfrep (gf_square a) 1"
  using gfrep_square [of a 1] by simp

lemma gfrep_xsquare_one: "gfrep a 1 \<Longrightarrow> gfrep (gf_xsquare a n) 1"
  by (induction a n rule: gf_xsquare.induct) (simp_all add: gfrep_square_one)

lemmas gfrep_one_ops = gfrep_mul_one gfrep_square_one gfrep_xsquare_one

lemma gf_prep240_one:
  assumes "gfrep a 1"
  shows "gfrep (fst (gf_prep240 a)) 1"
  unfolding gf_prep240_def Let_def fst_conv by (intro gfrep_one_ops assms)

lemma gf_exp_step_one:
  assumes "gfrep x 1" "gfrep w0 1" "gfrep w1 1" "gfrep w2 1"
  shows "gfrep (gf_exp_step e [w0, w1, w2] x i) 1"
proof -
  define k where "k = drop_bit i e AND 3"
  have "k \<le> 3" unfolding k_def by (rule word_and_le1)
  then have "unat k \<le> 3" by (simp add: word_le_nat_alt)
  then have "unat k - 1 = 0 \<or> unat k - 1 = 1 \<or> unat k - 1 = 2" by auto
  then have "gfrep ([w0, w1, w2] ! (unat k - 1)) 1" using assms by auto
  then show ?thesis using assms(1) by (simp add: gf_exp_step_def Let_def k_def gfrep_one_ops)
qed

lemma gf_exp_fold_one:
  assumes "gfrep x 1" "gfrep w0 1" "gfrep w1 1" "gfrep w2 1"
  shows "gfrep (foldl (gf_exp_step e [w0, w1, w2]) x js) 1"
  using assms(1) by (induction js arbitrary: x) (simp_all add: gf_exp_step_one assms)

lemma gf_inv_one:
  assumes "gfrep a 1"
  shows "gfrep (gf_inv a) 1"
proof -
  have l: "length a = 8" using assms by (rule gfrep_length)
  have w: "snd (gf_prep240 a) = [a, gf_square a, gf_mul a (gf_square a)]"
    using l by (rule gf_prep240_length)
  have f: "gfrep (foldl (gf_exp_step (- MQ - 2) [a, gf_square a, gf_mul a (gf_square a)])
                   (fst (gf_prep240 a)) [13, 11, 9, 7, 5, 3, 1]) 1"
    by (intro gf_exp_fold_one gf_prep240_one gfrep_one_ops assms)
  show ?thesis unfolding gf_inv_def Let_def w using f assms by (simp add: gfrep_one_ops)
qed

lemma limbs_val_gf_minus_one: "limbs_val gf_minus_one = modq - 1"
  by (simp add: gf_minus_one_def MQ_def modq_def)

lemma enc_minus_one:
  "enc32le_limbs gf_minus_one =
     [0x24, 0xB7, 0xFF, 0xFF, 0xFF, 0xFF, 0xFF, 0xFF, 0xFF, 0xFF, 0xFF, 0xFF, 0xFF, 0xFF, 0xFF, 0xFF,
      0xFF, 0xFF, 0xFF, 0xFF, 0xFF, 0xFF, 0xFF, 0xFF, 0xFF, 0xFF, 0xFF, 0xFF, 0xFF, 0xFF, 0xFF, 0x7F]"
  by code_simp

lemma point_encode_minus_one:
  assumes "point_rep p 3 1 1 t"
  shows "point_encode p = enc32le_limbs gf_minus_one"
proof -
  have pe: "gfrep (E p) 3" and pz: "gfrep (Z p) 1" and pu: "gfrep (U p) 1"
    using assms by (simp_all add: point_rep_def)
  define iZ where "iZ = gf_inv (Z p)"
  define e where "e = gf_mul (E p) iZ"
  define u where "u = gf_mul (U p) iZ"
  have i: "gfrep iZ 1" unfolding iZ_def using pz by (rule gf_inv_one)
  have "gfrep e (3 * 1)" unfolding e_def using pe i by (rule gfrep_mul)
  then have e3: "gf_pr e" "limbs_val e mod modq = 3 mod modq" by (simp_all add: gfrep_def)
  have "(3::int) mod modq = 3" by (simp add: modq_def)
  then have "gfval e = 3" using e3 by (simp add: gfval_def)
  then have n: "gf_is_negative e = - 1" using gf_is_negative_val [OF e3(1)] by simp
  have "gfrep u (1 * 1)" unfolding u_def using pu i by (rule gfrep_mul)
  then have u1: "gfrep u 1" by simp
  have lu: "length u = 8" using u1 by (rule gfrep_length)
  have c: "gf_condneg u (gf_is_negative e) = gf_neg u"
    unfolding n gf_condneg_def using lu by (simp add: gf_select_1 gf_neg_length)
  have m: "gfrep (gf_neg u) (- 1)" using u1 by (rule gfrep_neg)
  then have m1: "gf_pr (gf_neg u)" "limbs_val (gf_neg u) mod modq = (- 1) mod modq"
    by (simp_all add: gfrep_def)
  have "(- 1) mod modq = modq - 1"
    by (rule int_mod_unique [where k = "- 1"]) (simp_all add: modq_def)
  then have "limbs_val (gf_finish_reduce (gf_neg u)) = limbs_val gf_minus_one"
    using gf_finish_reduce_val(2) [OF m1(1)] m1(2) by (simp add: limbs_val_gf_minus_one)
  moreover have "length (gf_finish_reduce (gf_neg u)) = length gf_minus_one"
    using gf_finish_reduce_val(1) [OF m1(1)] by (simp add: gf_minus_one_def)
  ultimately have f: "gf_finish_reduce (gf_neg u) = gf_minus_one" by (rule limbs_val_inj [rotated])
  show ?thesis
    unfolding point_encode_def Let_def iZ_def [symmetric] e_def [symmetric] u_def [symmetric] c
      gf_encode_def f by (rule refl)
qed

lemma scalar_recode_one: "scalar_recode scalar_one = 1 # replicate 50 0"
  by code_simp

lemma lookup_mask_eq: "lookup_mask m j = (if m = of_nat j + 1 then - 1 else 0)"
proof -
  define c where "c = m - of_nat j - 1"
  have e: "c = 0 \<longleftrightarrow> m = of_nat j + 1" unfolding c_def by (auto simp: algebra_simps)
  have "lookup_mask m j = drop_bit 31 (c OR - c) - 1" by (simp only: lookup_mask_def Let_def c_def)
  also have "\<dots> = (if c = 0 then 0 else 1) - 1" by (simp only: nz_mask)
  also have "\<dots> = (if m = of_nat j + 1 then - 1 else 0)" using e by simp
  finally show ?thesis .
qed

lemma of_nat_small_eq_0: "n < 4294967296 \<Longrightarrow> (of_nat n :: u32) = 0 \<longleftrightarrow> n = 0"
  by (auto simp: word_of_nat_eq_0_iff dest: dvd_imp_le)

lemma lookup_mask_0: "j < 16 \<Longrightarrow> lookup_mask 0 j = 0"
proof -
  assume "j < 16"
  then have "(of_nat (Suc j) :: u32) \<noteq> 0" using of_nat_small_eq_0 [of "Suc j"] by simp
  then have "(0::u32) \<noteq> of_nat j + 1" by (simp add: add.commute)
  then show ?thesis by (simp add: lookup_mask_eq)
qed

lemma lookup_mask_1: "j < 16 \<Longrightarrow> lookup_mask 1 j = (if j = 0 then - 1 else 0)"
proof -
  assume "j < 16"
  then have "(of_nat j :: u32) = 0 \<longleftrightarrow> j = 0" by (intro of_nat_small_eq_0) simp
  then show ?thesis by (auto simp: lookup_mask_eq)
qed

lemma lookup_abs_0: "lookup_abs 0 = (0, 0)"
  by (simp add: lookup_abs_def)

lemma lookup_abs_1: "lookup_abs 1 = (1, 0)"
  by (simp add: lookup_abs_def Let_def drop_bit_eq_div)

lemma affine_fold_keep:
  assumes w: "\<forall>q \<in> set win. length (aE q) = 8 \<and> length (aU q) = 8 \<and> length (aT q) = 8"
    and p: "length (aE p) = 8" "length (aU p) = 8" "length (aT p) = 8"
    and js: "\<forall>j \<in> set js. j < length win \<and> lookup_mask m j = 0"
  shows "foldl (\<lambda>p j. let c = lookup_mask m j in
                  \<lparr>aE = gf_select (aE p) (aE (win ! j)) c,
                   aU = gf_select (aU p) (aU (win ! j)) c,
                   aT = gf_select (aT p) (aT (win ! j)) c\<rparr>) p js = p"
  using js
proof (induction js)
  case Nil show ?case by simp
next
  case (Cons j js)
  then have j: "j < length win" "lookup_mask m j = 0" by simp_all
  then have "win ! j \<in> set win" by simp
  then have "length (aE (win ! j)) = 8" "length (aU (win ! j)) = 8" "length (aT (win ! j)) = 8"
    using w by simp_all
  then have "\<lparr>aE = gf_select (aE p) (aE (win ! j)) 0, aU = gf_select (aU p) (aU (win ! j)) 0,
              aT = gf_select (aT p) (aT (win ! j)) 0\<rparr> = p"
    using p by (simp add: gf_select_0)
  then show ?case using Cons by (simp add: j Let_def)
qed

lemma point_affine_lookup_0:
  assumes "\<forall>q \<in> set win. length (aE q) = 8 \<and> length (aU q) = 8 \<and> length (aT q) = 8"
    and "length win = 16"
  shows "point_affine_lookup win 0 = point_affine_neutral"
proof -
  have "foldl (\<lambda>p j. let c = lookup_mask 0 j in
                  \<lparr>aE = gf_select (aE p) (aE (win ! j)) c,
                   aU = gf_select (aU p) (aU (win ! j)) c,
                   aT = gf_select (aT p) (aT (win ! j)) c\<rparr>) point_affine_neutral [0..<16]
        = point_affine_neutral"
    using assms(1) by (rule affine_fold_keep) (simp_all add: point_affine_neutral_def assms(2) lookup_mask_0)
  moreover have "gf_condneg gf_zero 0 = gf_zero"
    by (simp add: gf_condneg_def gf_select_0 gf_neg_length)
  ultimately show ?thesis
    by (simp add: point_affine_lookup_def lookup_abs_0 Let_def point_affine_neutral_def)
qed

lemma point_affine_lookup_1:
  assumes "\<forall>q \<in> set win. length (aE q) = 8 \<and> length (aU q) = 8 \<and> length (aT q) = 8"
    and "length win = 16"
  shows "point_affine_lookup win 1 = win ! 0"
proof -
  have "win ! 0 \<in> set win" using assms(2) by simp
  then have l0: "length (aE (win ! 0)) = 8" "length (aU (win ! 0)) = 8" "length (aT (win ! 0)) = 8"
    using assms(1) by simp_all
  define F where "F = (\<lambda>(p::point_affine) j. let c = lookup_mask 1 j in
                  \<lparr>aE = gf_select (aE p) (aE (win ! j)) c,
                   aU = gf_select (aU p) (aU (win ! j)) c,
                   aT = gf_select (aT p) (aT (win ! j)) c\<rparr>)"
  have u: "[0..<16] = 0 # [Suc 0..<16]" by (simp add: upt_conv_Cons)
  have k: "foldl F (win ! 0) [Suc 0..<16] = win ! 0"
    unfolding F_def using assms(1) l0 by (rule affine_fold_keep) (simp add: assms(2) lookup_mask_1)
  have f: "F point_affine_neutral 0 = win ! 0"
    using l0 by (simp add: F_def lookup_mask_1 gf_select_1 point_affine_neutral_def)
  have c: "gf_condneg (aU (win ! 0)) 0 = aU (win ! 0)"
    using l0 by (simp add: gf_condneg_def gf_select_0 gf_neg_length)
  have r: "foldl F point_affine_neutral [0..<16] = win ! 0"
    unfolding u by (simp add: f k)
  have g: "point_affine_lookup win 1
           = (foldl F point_affine_neutral [0..<16])
               \<lparr>aU := gf_condneg (aU (foldl F point_affine_neutral [0..<16])) 0\<rparr>"
    unfolding point_affine_lookup_def lookup_abs_1 Let_def fst_conv snd_conv F_def by (rule refl)
  show ?thesis unfolding g r c by simp
qed

lemma win_base_ok:
  "\<forall>q \<in> set point_win_base. length (aE q) = 8 \<and> length (aU q) = 8 \<and> length (aT q) = 8"
  "length point_win_base = 16"
  by (simp_all add: point_win_base_def)

lemma win_base65_ok:
  "\<forall>q \<in> set point_win_base65. length (aE q) = 8 \<and> length (aU q) = 8 \<and> length (aT q) = 8"
  "length point_win_base65 = 16"
  by (simp_all add: point_win_base65_def)

lemma win_base130_ok:
  "\<forall>q \<in> set point_win_base130. length (aE q) = 8 \<and> length (aU q) = 8 \<and> length (aT q) = 8"
  "length point_win_base130 = 16"
  by (simp_all add: point_win_base130_def)

lemma win_base195_ok:
  "\<forall>q \<in> set point_win_base195. length (aE q) = 8 \<and> length (aU q) = 8 \<and> length (aT q) = 8"
  "length point_win_base195 = 16"
  by (simp_all add: point_win_base195_def)

lemmas lookup_zero =
  point_affine_lookup_0 [OF win_base_ok] point_affine_lookup_0 [OF win_base65_ok]
  point_affine_lookup_0 [OF win_base130_ok] point_affine_lookup_0 [OF win_base195_ok]

lemma affine_rep_neutral: "affine_rep point_affine_neutral 1 0 0"
  by (simp add: affine_rep_def point_affine_neutral_def gfrep_one gfrep_zero)

lemma point_rep_of_neutral: "point_rep (point_of_affine point_affine_neutral) 1 1 0 0"
  by (simp add: point_rep_def point_of_affine_def point_affine_neutral_def gfrep_one gfrep_zero)

lemma add_affine_neutral: 
  assumes "point_rep p e 1 u t"
  shows "point_rep (point_add_affine p point_affine_neutral) e 1 u (u * u)"
  using point_add_affine_rep [OF assms affine_rep_neutral] by simp

lemma add_affine_neutral0:
  assumes "point_rep p 1 1 0 0"
  shows "point_rep (point_add_affine p point_affine_neutral) 1 1 0 0"
  using add_affine_neutral [OF assms] by simp

lemma affine_rep_base: "affine_rep (point_win_base ! 0) 3 1 1"
proof -
  have "gfrep [3, 0, 0, 0, 0, 0, 0, 0] 3" by (simp add: gfrep_def gf_pr_def)
  moreover have "gfrep [1, 0, 0, 0, 0, 0, 0, 0] 1" by (simp add: gfrep_def gf_pr_def)
  ultimately show ?thesis by (simp add: point_win_base_def affine_rep_def)
qed

lemma mulgen_step_zero:
  assumes "sd ! i = 0" "sd ! (i + 13) = 0" "sd ! (i + 26) = 0" "sd ! (i + 39) = 0"
    and "point_rep p 1 1 0 0"
  shows "point_rep (point_mulgen_step sd p i) 1 1 0 0"
  unfolding point_mulgen_step_def Let_def assms(1-4) lookup_zero
  by (intro add_affine_neutral0 point_xdouble_neutral assms(5))

lemma mulgen_fold_zero:
  assumes "\<forall>i \<in> set js. sd ! i = 0 \<and> sd ! (i + 13) = 0 \<and> sd ! (i + 26) = 0 \<and> sd ! (i + 39) = 0"
    and "point_rep p 1 1 0 0"
  shows "point_rep (foldl (point_mulgen_step sd) p js) 1 1 0 0"
  using assms by (induction js arbitrary: p) (simp_all add: mulgen_step_zero)

lemma mulgen_step_one:
  assumes "sd ! i = 1" "sd ! (i + 13) = 0" "sd ! (i + 26) = 0" "sd ! (i + 39) = 0"
    and "point_rep p 1 1 0 0"
  shows "point_rep (point_mulgen_step sd p i) 3 1 1 1"
proof -
  have a: "point_rep (point_xdouble p 5) 1 1 0 0" using assms(5) by (rule point_xdouble_neutral)
  have b: "point_rep (point_add_affine (point_xdouble p 5) (point_win_base ! 0)) 3 1 1 1"
    using point_add_affine_rep [OF a affine_rep_base] by simp
  note c1 = add_affine_neutral [OF b, simplified]
  note c2 = add_affine_neutral [OF c1, simplified]
  note c = add_affine_neutral [OF c2, simplified]
  show ?thesis
    unfolding point_mulgen_step_def Let_def assms(1-4) lookup_zero point_affine_lookup_1 [OF win_base_ok]
    using c by simp
qed

lemma point_mulgen_one: "point_rep (point_mulgen scalar_one) 3 1 1 1"
proof -
  define sd where "sd = scalar_recode scalar_one"
  have sd: "sd = 1 # replicate 50 0" unfolding sd_def by (rule scalar_recode_one)
  define p0 where "p0 = point_add_affine (point_add_affine (point_of_affine point_affine_neutral)
                          point_affine_neutral) point_affine_neutral"
  have p0: "point_rep p0 1 1 0 0"
    unfolding p0_def by (intro add_affine_neutral0 point_rep_of_neutral)
  have d: "sd ! 12 = 0" "sd ! 25 = 0" "sd ! 38 = 0" by (simp_all add: sd)
  have s: "point_mulgen scalar_one = foldl (point_mulgen_step sd) p0 (rev [0..<12])"
    unfolding point_mulgen_def Let_def sd_def [symmetric] d lookup_zero p0_def by (rule refl)
  have r: "rev [0..<12] = rev [Suc 0..<12] @ [0]" by (simp add: upt_conv_Cons)
  have z: "\<forall>i \<in> set (rev [Suc 0..<12]). sd ! i = 0 \<and> sd ! (i + 13) = 0 \<and> sd ! (i + 26) = 0 \<and> sd ! (i + 39) = 0"
    by (auto simp: sd nth_Cons')
  have m: "point_rep (foldl (point_mulgen_step sd) p0 (rev [Suc 0..<12])) 1 1 0 0"
    using z p0 by (rule mulgen_fold_zero)
  have l: "sd ! 0 = 1" "sd ! (0 + 13) = 0" "sd ! (0 + 26) = 0" "sd ! (0 + 39) = 0" by (simp_all add: sd)
  show ?thesis unfolding s r foldl_append foldl_Cons foldl_Nil using l m by (rule mulgen_step_one)
qed

lemma mulgen_one_encoding:
  "point_encode (point_mulgen scalar_one) =
     [0x24, 0xB7, 0xFF, 0xFF, 0xFF, 0xFF, 0xFF, 0xFF, 0xFF, 0xFF, 0xFF, 0xFF, 0xFF, 0xFF, 0xFF, 0xFF,
      0xFF, 0xFF, 0xFF, 0xFF, 0xFF, 0xFF, 0xFF, 0xFF, 0xFF, 0xFF, 0xFF, 0xFF, 0xFF, 0xFF, 0xFF, 0x7F]"
  using point_encode_minus_one [OF point_mulgen_one] by (simp only: enc_minus_one)


section \<open>Lengths through the point operations and the hash\<close>

lemma gf_half_length: "length a = 8 \<Longrightarrow> length (gf_half a) = 8"
  by (simp add: gf_half_def Let_def adc_loop_length gf_hq_def)

lemma gf_select_length8: "length a = 8 \<Longrightarrow> length b = 8 \<Longrightarrow> length (gf_select a b c) = 8"
  by (simp add: gf_select_length)

lemma gf_condneg_length: "length a = 8 \<Longrightarrow> length (gf_condneg a c) = 8"
  by (simp add: gf_condneg_def gf_select_length gf_neg_length)

lemmas gf_len8 = gf_len gf_half_length gf_select_length8 gf_condneg_length

lemma point_ok_neutral: "point_ok point_neutral"
  by (simp add: point_ok_def point_neutral_def)

lemma point_add_ok: "point_ok p1 \<Longrightarrow> point_ok p2 \<Longrightarrow> point_ok (point_add p1 p2)"
  by (simp add: point_ok_def point_add_def Let_def gf_len8)

lemma xwj_double_ok:
  assumes "length X = 8" "length W = 8" "length J = 8"
  shows "length (fst (xwj_double (X, W, J))) = 8 \<and> length (fst (snd (xwj_double (X, W, J)))) = 8
         \<and> length (snd (snd (xwj_double (X, W, J)))) = 8"
  using assms by (simp add: xwj_double_def Let_def gf_len8)

lemma xwj_double_iter_ok:
  assumes "length X = 8" "length W = 8" "length J = 8"
  shows "length (fst ((xwj_double ^^ n) (X, W, J))) = 8
         \<and> length (fst (snd ((xwj_double ^^ n) (X, W, J)))) = 8
         \<and> length (snd (snd ((xwj_double ^^ n) (X, W, J)))) = 8"
proof (induction n)
  case 0
  show ?case using assms by simp
next
  case (Suc n)
  obtain X' W' J' where s: "(xwj_double ^^ n) (X, W, J) = (X', W', J')" by (rule prod_cases3)
  from Suc have i: "length X' = 8" "length W' = 8" "length J' = 8" by (simp_all add: s)
  show ?case using xwj_double_ok [OF i] by (simp add: s)
qed

lemma point_xdouble_ok:
  assumes "point_ok p"
  shows "point_ok (point_xdouble p n)"
proof (cases "n = 0")
  case True
  then show ?thesis using assms by (simp add: point_xdouble_def)
next
  case False
  have l: "length (E p) = 8" "length (Z p) = 8" "length (U p) = 8" "length (T p) = 8"
    using assms by (simp_all add: point_ok_def)
  define st where "st = (xwj_double ^^ (n - 1))
     (gf_square (gf_square (E p)), gf_sub (gf_mul2 (gf_square (Z p))) (gf_square (E p)),
      gf_mul2 (gf_mul (E p) (U p)))"
  have i: "length (fst st) = 8" "length (fst (snd st)) = 8" "length (snd (snd st)) = 8"
    unfolding st_def using xwj_double_iter_ok [of _ _ _ "n - 1"] l by (simp_all add: gf_len8)
  have s: "point_xdouble p n
           = \<lparr>E = gf_sub (gf_mul2 (fst st)) (gf_square (fst (snd st))), Z = gf_square (fst (snd st)),
              U = gf_mul (fst (snd st)) (snd (snd st)), T = gf_square (snd (snd st))\<rparr>"
    unfolding point_xdouble_def Let_def st_def using False by simp
  show ?thesis unfolding s point_ok_def using i by (simp add: gf_len8)
qed

lemma point_double_ok: "point_ok p \<Longrightarrow> point_ok (point_double p)"
  by (simp add: point_double_def point_xdouble_ok)

lemma point_select_ok: "point_ok p0 \<Longrightarrow> point_ok p1 \<Longrightarrow> point_ok (point_select p0 p1 c)"
  by (simp add: point_ok_def point_select_def gf_len8)

lemma point_lookup_fold_ok:
  assumes "\<forall>q \<in> set win. point_ok q" "point_ok p" "\<forall>j \<in> set js. j < length win"
  shows "point_ok (foldl (\<lambda>p j. point_select p (win ! j) (lookup_mask m j)) p js)"
  using assms(2,3)
proof (induction js arbitrary: p)
  case Nil then show ?case by simp
next
  case (Cons j js)
  then have "win ! j \<in> set win" by simp
  then have "point_ok (win ! j)" using assms(1) by simp
  then have "point_ok (point_select p (win ! j) (lookup_mask m j))"
    using Cons.prems(1) by (intro point_select_ok)
  then show ?case using Cons by simp
qed

lemma point_lookup_ok:
  assumes "\<forall>q \<in> set win. point_ok q" "length win = 16"
  shows "point_ok (point_lookup win k)"
proof -
  have "point_ok (foldl (\<lambda>p j. point_select p (win ! j) (lookup_mask (fst (lookup_abs k)) j))
                   point_neutral [0..<16])"
    using assms(1) point_ok_neutral by (rule point_lookup_fold_ok) (simp add: assms(2))
  then show ?thesis by (simp add: point_lookup_def Let_def point_ok_def gf_len8)
qed

lemma length_ETA: "length ETA = 8"
  by (simp add: ETA_def)

lemma point_zeta_ok: "point_ok p \<Longrightarrow> length eta = 8 \<Longrightarrow> point_ok (point_zeta eta p)"
  by (simp add: point_zeta_def point_ok_def gf_len8)

lemma win_step_ok:
  assumes "\<forall>q \<in> set win. point_ok q" "i div 2 < length win"
  shows "\<forall>q \<in> set (win_step win i). point_ok q" and "length (win_step win i) = length win + 2"
proof -
  have a: "point_ok (win ! (i div 2))" using assms by simp
  have "0 < length win" using assms(2) by (cases win) simp_all
  then have b: "point_ok (win ! 0)" using assms(1) by simp
  show "\<forall>q \<in> set (win_step win i). point_ok q"
    using assms(1) a b by (simp add: win_step_def Let_def point_add_ok point_double_ok)
  show "length (win_step win i) = length win + 2" by (simp add: win_step_def Let_def)
qed

lemma point_mul_window_ok:
  assumes "point_ok w0"
  shows "\<forall>q \<in> set (point_mul_window w0). point_ok q" and "length (point_mul_window w0) = 16"
proof -
  have w1: "\<forall>q \<in> set (win_step [w0] 1). point_ok q" "length (win_step [w0] 1) = 3"
    using win_step_ok [of "[w0]" 1] assms by simp_all
  define v1 where "v1 = win_step [w0] 1"
  have v1: "\<forall>q \<in> set v1. point_ok q" "length v1 = 3" using w1 by (simp_all add: v1_def)
  define v2 where "v2 = win_step v1 3"
  have v2: "\<forall>q \<in> set v2. point_ok q" "length v2 = 5"
    unfolding v2_def using win_step_ok [of v1 3] v1 by auto
  define v3 where "v3 = win_step v2 5"
  have v3: "\<forall>q \<in> set v3. point_ok q" "length v3 = 7"
    unfolding v3_def using win_step_ok [of v2 5] v2 by auto
  define v4 where "v4 = win_step v3 7"
  have v4: "\<forall>q \<in> set v4. point_ok q" "length v4 = 9"
    unfolding v4_def using win_step_ok [of v3 7] v3 by auto
  define v5 where "v5 = win_step v4 9"
  have v5: "\<forall>q \<in> set v5. point_ok q" "length v5 = 11"
    unfolding v5_def using win_step_ok [of v4 9] v4 by auto
  define v6 where "v6 = win_step v5 11"
  have v6: "\<forall>q \<in> set v6. point_ok q" "length v6 = 13"
    unfolding v6_def using win_step_ok [of v5 11] v5 by auto
  define v7 where "v7 = win_step v6 13"
  have v7: "\<forall>q \<in> set v7. point_ok q" "length v7 = 15"
    unfolding v7_def using win_step_ok [of v6 13] v6 by auto
  have s: "point_mul_window w0 = v7 @ [point_double (v7 ! 7)]"
    by (simp add: point_mul_window_def Let_def v7_def v6_def v5_def v4_def v3_def v2_def v1_def)
  have "point_ok (v7 ! 7)" using v7 by simp
  then show "\<forall>q \<in> set (point_mul_window w0). point_ok q" using v7 by (simp add: s point_double_ok)
  show "length (point_mul_window w0) = 16" using v7 by (simp add: s)
qed

lemma point_mul_step_ok:
  assumes "\<forall>q \<in> set win. point_ok q" "length win = 16" "length eta = 8" "point_ok p2"
  shows "point_ok (point_mul_step win eta sd0 sd1 p2 i)"
  unfolding point_mul_step_def Let_def
  by (intro point_add_ok point_xdouble_ok point_zeta_ok point_lookup_ok assms)

lemma point_mul_fold_ok:
  assumes "\<forall>q \<in> set win. point_ok q" "length win = 16" "length eta = 8" "point_ok p2"
  shows "point_ok (foldl (point_mul_step win eta sd0 sd1) p2 js)"
  using assms(4) by (induction js arbitrary: p2) (simp_all add: point_mul_step_ok assms)

lemma point_mul_ok:
  assumes "point_ok p1"
  shows "point_ok (point_mul p1 s)"
proof -
  define sk where "sk = fst (scalar_split s)"
  define w0 where "w0 = p1\<lparr>U := gf_condneg (U p1) (- (sk AND 1))\<rparr>"
  have "point_ok w0" using assms by (simp add: w0_def point_ok_def gf_len8)
  then have w: "\<forall>q \<in> set (point_mul_window w0). point_ok q" "length (point_mul_window w0) = 16"
    by (rule point_mul_window_ok)+
  define eta where "eta = gf_condneg ETA (- ((sk XOR drop_bit 1 sk) AND 1))"
  have e: "length eta = 8" by (simp add: eta_def gf_len8 length_ETA)
  show ?thesis
    unfolding point_mul_def Let_def sk_def [symmetric] w0_def [symmetric] eta_def [symmetric]
    by (intro point_mul_fold_ok point_add_ok point_zeta_ok point_lookup_ok w e)
qed

lemma gf_inv_length:
  assumes "length a = 8"
  shows "length (gf_inv a) = 8"
proof -
  have w: "snd (gf_prep240 a) = [a, gf_square a, gf_mul a (gf_square a)]"
    using assms by (rule gf_prep240_length)
  have f: "length (foldl (gf_exp_step (- MQ - 2) [a, gf_square a, gf_mul a (gf_square a)])
                    (fst (gf_prep240 a)) [13, 11, 9, 7, 5, 3, 1]) = 8"
    by (intro gf_exp_fold_length gf_prep240_length gf_len assms)
  show ?thesis unfolding gf_inv_def Let_def w using f assms by (simp add: gf_len)
qed

lemma gf_finish_reduce_length: "length d = 8 \<Longrightarrow> length (gf_finish_reduce d) = 8"
  by (simp add: gf_finish_reduce_def Let_def adc_loop_length sbb_loop_length gf_q_def)

lemma length_enc32le_limbs: "length (enc32le_limbs v) = 4 * length v"
  by (induction v) (simp_all add: enc32le_limbs_def enc32le_def)

lemma point_encode_length: "point_ok p \<Longrightarrow> length (point_encode p) = 32"
  by (simp add: point_encode_def Let_def gf_encode_def length_enc32le_limbs gf_finish_reduce_length
      gf_len8 gf_inv_length point_ok_def)

lemma ecdh_bad_val:
  "gf_pr (U (pk_point pk)) \<Longrightarrow> ecdh_bad pk = (if gfval (U (pk_point pk)) = 0 then - 1 else 0)"
  by (simp add: ecdh_bad_def point_is_neutral_def gf_is_zero_gfval)

lemma mask_byte_ones: "(x::u8) XOR ucast (ucast (x XOR y) :: u32) = y"
proof -
  have "(ucast (ucast (x XOR y) :: u32) :: u8) = x XOR y" by (simp add: ucast_up_ucast_id is_up)
  then show ?thesis by (simp add: xor.assoc [symmetric])
qed

lemma mask_byte_zero: "(x::u8) XOR ucast ((0 :: u32) AND ucast (x XOR y)) = x"
  by simp

lemma map2_snd: "length xs = length ys \<Longrightarrow> map2 (\<lambda>x y. y) xs ys = ys"
  by (induction xs ys rule: list_induct2) simp_all

lemma map2_fst: "length xs = length ys \<Longrightarrow> map2 (\<lambda>x y. x) xs ys = xs"
  by (induction xs ys rule: list_induct2) simp_all

lemma process_block_length: "length (process_block hh b c f) = 8"
  by (simp add: process_block_def Let_def)

lemma blake2s_final_length: "length (blake2s_final bc) = min (out_len bc) 32"
  by (simp add: blake2s_final_def Let_def length_enc32le_limbs process_block_length)

lemma blake2s_update_out_len: "out_len (blake2s_update bc d) = out_len bc"
  by (simp add: blake2s_update_def Let_def)

lemma blake2s_init_out_len: "out_len (blake2s_init n) = n"
  by (simp add: blake2s_init_def)


section \<open>The exponentiation of the square root, and the invalid-key sentinels\<close>

lemma gfrep_pow_square: "gfrep a (v ^ m) \<Longrightarrow> gfrep (gf_square a) (v ^ (2 * m))"
proof -
  assume "gfrep a (v ^ m)"
  then have "gfrep (gf_square a) (v ^ m * v ^ m)" by (rule gfrep_square)
  then show ?thesis by (simp add: power_add mult_2)
qed

lemma gfrep_pow_mul: "gfrep a (v ^ m) \<Longrightarrow> gfrep b (v ^ n) \<Longrightarrow> gfrep (gf_mul a b) (v ^ (m + n))"
proof -
  assume "gfrep a (v ^ m)" "gfrep b (v ^ n)"
  then have "gfrep (gf_mul a b) (v ^ m * v ^ n)" by (rule gfrep_mul)
  then show ?thesis by (simp add: power_add)
qed

lemma gfrep_pow_xsquare: "gfrep a (v ^ m) \<Longrightarrow> gfrep (gf_xsquare a k) (v ^ (m * 2 ^ k))"
proof (induction a k arbitrary: m rule: gf_xsquare.induct)
  case (1 a)
  then show ?case by simp
next
  case (2 a n)
  have "gfrep (gf_square a) (v ^ (2 * m))" using "2.prems" by (rule gfrep_pow_square)
  then have "gfrep (gf_xsquare (gf_square a) n) (v ^ (2 * m * 2 ^ n))" by (rule "2.IH")
  then show ?case by (simp add: mult.assoc mult.left_commute)
qed

lemma gfrep_pow_cong: "gfrep a (v ^ m) \<Longrightarrow> m = n \<Longrightarrow> gfrep a (v ^ n)"
  by simp

lemma gf_prep240_pow:
  assumes "gfrep a v"
  shows "gfrep (fst (gf_prep240 a)) (v ^ 1766847064778384329583297500742918515827483896875618958121606201292619775)"
    and "gfrep (gf_square a) (v ^ 2)" and "gfrep (gf_mul a (gf_square a)) (v ^ 3)"
proof -
  define w1 where "w1 = gf_square a"
  define w2 where "w2 = gf_mul a w1"
  define y1 where "y1 = gf_mul (gf_xsquare w2 2) w2"
  define y2 where "y2 = gf_mul (gf_square y1) a"
  define x3 where "x3 = gf_mul (gf_xsquare y2 5) y2"
  define y3 where "y3 = gf_mul y2 (gf_xsquare x3 5)"
  define y4 where "y4 = gf_mul y3 (gf_xsquare y3 15)"
  define y5 where "y5 = gf_mul y4 (gf_xsquare y4 30)"
  define y6 where "y6 = gf_mul y5 (gf_xsquare y5 60)"
  have s: "fst (gf_prep240 a) = gf_mul y6 (gf_xsquare y6 120)"
    unfolding gf_prep240_def Let_def fst_conv y6_def y5_def y4_def y3_def x3_def y2_def y1_def w2_def w1_def
    by (rule refl)
  have a1: "gfrep a (v ^ 1)" using assms by simp
  have r1: "gfrep w1 (v ^ 2)" unfolding w1_def by (rule gfrep_pow_cong [OF gfrep_pow_square [OF a1]]) simp
  have r2: "gfrep w2 (v ^ 3)" unfolding w2_def by (rule gfrep_pow_cong [OF gfrep_pow_mul [OF a1 r1]]) simp
  have r3: "gfrep y1 (v ^ 15)"
    unfolding y1_def by (rule gfrep_pow_cong [OF gfrep_pow_mul [OF gfrep_pow_xsquare [OF r2, of 2] r2]]) simp
  have r4: "gfrep y2 (v ^ 31)"
    unfolding y2_def by (rule gfrep_pow_cong [OF gfrep_pow_mul [OF gfrep_pow_square [OF r3] a1]]) simp
  have r5: "gfrep x3 (v ^ 1023)"
    unfolding x3_def by (rule gfrep_pow_cong [OF gfrep_pow_mul [OF gfrep_pow_xsquare [OF r4, of 5] r4]]) simp
  have r6: "gfrep y3 (v ^ 32767)"
    unfolding y3_def by (rule gfrep_pow_cong [OF gfrep_pow_mul [OF r4 gfrep_pow_xsquare [OF r5, of 5]]]) simp
  have r7: "gfrep y4 (v ^ 1073741823)"
    unfolding y4_def by (rule gfrep_pow_cong [OF gfrep_pow_mul [OF r6 gfrep_pow_xsquare [OF r6, of 15]]]) simp
  have r8: "gfrep y5 (v ^ 1152921504606846975)"
    unfolding y5_def by (rule gfrep_pow_cong [OF gfrep_pow_mul [OF r7 gfrep_pow_xsquare [OF r7, of 30]]]) simp
  have r9: "gfrep y6 (v ^ 1329227995784915872903807060280344575)"
    unfolding y6_def by (rule gfrep_pow_cong [OF gfrep_pow_mul [OF r8 gfrep_pow_xsquare [OF r8, of 60]]]) simp
  show "gfrep (fst (gf_prep240 a)) (v ^ 1766847064778384329583297500742918515827483896875618958121606201292619775)"
    unfolding s by (rule gfrep_pow_cong [OF gfrep_pow_mul [OF r9 gfrep_pow_xsquare [OF r9, of 120]]]) simp
  show "gfrep (gf_square a) (v ^ 2)" using r1 by (simp add: w1_def)
  show "gfrep (gf_mul a (gf_square a)) (v ^ 3)" using r2 by (simp add: w2_def w1_def)
qed

lemma sqrt_exp_digits:
  "drop_bit 10 (drop_bit 3 (- MQ - 5)) AND 3 = 1"
  "drop_bit 8 (drop_bit 3 (- MQ - 5)) AND 3 = 2"
  "drop_bit 6 (drop_bit 3 (- MQ - 5)) AND 3 = 3"
  "drop_bit 4 (drop_bit 3 (- MQ - 5)) AND 3 = 2"
  "drop_bit 2 (drop_bit 3 (- MQ - 5)) AND 3 = 1"
  "drop_bit 0 (drop_bit 3 (- MQ - 5)) AND 3 = 0"
  by code_simp+

lemma gf_exp_step_digit:
  assumes "drop_bit i e AND 3 = k"
  shows "gf_exp_step e win x i
         = (if k \<noteq> 0 then gf_mul (gf_xsquare x 2) (win ! (unat k - 1)) else gf_xsquare x 2)"
  unfolding gf_exp_step_def Let_def assms by (rule refl)

lemma gf_sqrt_chain_pow:
  assumes "gfrep x0 v"
  shows "gfrep (foldl (gf_exp_step (drop_bit 3 (- MQ - 5)) [x0, gf_square x0, gf_mul x0 (gf_square x0)])
                 (fst (gf_prep240 x0)) [10, 8, 6, 4, 2, 0])
           (v ^ 7237005577332262213973186563042994240829374041602535252466099000494570600164)"
proof -
  define w1 where "w1 = gf_square x0"
  define w2 where "w2 = gf_mul x0 w1"
  define p where "p = fst (gf_prep240 x0)"
  define t1 where "t1 = gf_mul (gf_xsquare p 2) x0"
  define t2 where "t2 = gf_mul (gf_xsquare t1 2) w1"
  define t3 where "t3 = gf_mul (gf_xsquare t2 2) w2"
  define t4 where "t4 = gf_mul (gf_xsquare t3 2) w1"
  define t5 where "t5 = gf_mul (gf_xsquare t4 2) x0"
  have s: "foldl (gf_exp_step (drop_bit 3 (- MQ - 5)) [x0, gf_square x0, gf_mul x0 (gf_square x0)])
             (fst (gf_prep240 x0)) [10, 8, 6, 4, 2, 0] = gf_xsquare t5 2"
    unfolding foldl_Cons foldl_Nil
      gf_exp_step_digit [OF sqrt_exp_digits(1)] gf_exp_step_digit [OF sqrt_exp_digits(2)]
      gf_exp_step_digit [OF sqrt_exp_digits(3)] gf_exp_step_digit [OF sqrt_exp_digits(4)]
      gf_exp_step_digit [OF sqrt_exp_digits(5)] gf_exp_step_digit [OF sqrt_exp_digits(6)]
    by (simp add: t5_def t4_def t3_def t2_def t1_def p_def w2_def w1_def)
  have a1: "gfrep x0 (v ^ 1)" using assms by simp
  have b1: "gfrep w1 (v ^ 2)" unfolding w1_def using assms by (rule gf_prep240_pow)
  have b2: "gfrep w2 (v ^ 3)" unfolding w2_def w1_def using assms by (rule gf_prep240_pow)
  have r0: "gfrep p (v ^ 1766847064778384329583297500742918515827483896875618958121606201292619775)"
    unfolding p_def using assms by (rule gf_prep240_pow)
  have r1: "gfrep t1 (v ^ 7067388259113537318333190002971674063309935587502475832486424805170479101)"
    unfolding t1_def by (rule gfrep_pow_cong [OF gfrep_pow_mul [OF gfrep_pow_xsquare [OF r0, of 2] a1]]) simp
  have r2: "gfrep t2 (v ^ 28269553036454149273332760011886696253239742350009903329945699220681916406)"
    unfolding t2_def by (rule gfrep_pow_cong [OF gfrep_pow_mul [OF gfrep_pow_xsquare [OF r1, of 2] b1]]) simp
  have r3: "gfrep t3 (v ^ 113078212145816597093331040047546785012958969400039613319782796882727665627)"
    unfolding t3_def by (rule gfrep_pow_cong [OF gfrep_pow_mul [OF gfrep_pow_xsquare [OF r2, of 2] b2]]) simp
  have r4: "gfrep t4 (v ^ 452312848583266388373324160190187140051835877600158453279131187530910662510)"
    unfolding t4_def by (rule gfrep_pow_cong [OF gfrep_pow_mul [OF gfrep_pow_xsquare [OF r3, of 2] b1]]) simp
  have r5: "gfrep t5 (v ^ 1809251394333065553493296640760748560207343510400633813116524750123642650041)"
    unfolding t5_def by (rule gfrep_pow_cong [OF gfrep_pow_mul [OF gfrep_pow_xsquare [OF r4, of 2] a1]]) simp
  show ?thesis
    unfolding s by (rule gfrep_pow_cong [OF gfrep_pow_xsquare [OF r5, of 2]]) simp
qed

lemma gfrep_square_condneg:
  assumes "gfrep x w"
  shows "gfrep (gf_square (gf_condneg x (gf_is_negative x))) (w * w)"
proof -
  have p: "gf_pr x" using assms by (rule gfrep_pr)
  have l: "length x = 8" using assms by (rule gfrep_length)
  have ln: "length (gf_neg x) = 8" using l by (rule gf_neg_length)
  show ?thesis
  proof (cases "odd (gfval x)")
    case False
    then have "gf_is_negative x = 0" using gf_is_negative_val [OF p] by simp
    then have "gf_condneg x (gf_is_negative x) = x" using l ln by (simp add: gf_condneg_def gf_select_0)
    then show ?thesis using gfrep_square [OF assms] by simp
  next
    case True
    then have "gf_is_negative x = - 1" using gf_is_negative_val [OF p] by simp
    then have "gf_condneg x (gf_is_negative x) = gf_neg x" using l ln by (simp add: gf_condneg_def gf_select_1)
    then show ?thesis using gfrep_square [OF gfrep_neg [OF assms]] by simp
  qed
qed

lemma gf_sqrt_mask:
  assumes a: "gfrep a va"
    and b: "b = (2 * va) ^ 7237005577332262213973186563042994240829374041602535252466099000494570600164"
    and w: "((b * va) * (2 * ((b * va) * b) - 1)) * ((b * va) * (2 * ((b * va) * b) - 1)) mod modq = va mod modq"
  shows "fst (gf_sqrt a) = - 1"
proof -
  have la: "length a = 8" using a by (rule gfrep_length)
  define x0 where "x0 = gf_mul2 a"
  define x1 where "x1 = foldl (gf_exp_step (drop_bit 3 (- MQ - 5)) [x0, gf_square x0, gf_mul x0 (gf_square x0)])
                          (fst (gf_prep240 x0)) [10, 8, 6, 4, 2, 0]"
  define y where "y = gf_mul x1 a"
  define x5 where "x5 = gf_mul y (gf_sub (gf_mul2 (gf_mul y x1)) gf_one)"
  define x6 where "x6 = gf_condneg x5 (gf_is_negative x5)"
  define r where "r = gf_equals (gf_square x6) a"
  have l0: "length (gf_mul2 a) = 8" using la by (simp add: gf_len)
  have s: "gf_sqrt a = (r, gf_select gf_zero x6 r)"
    unfolding gf_sqrt_def Let_def r_def x6_def x5_def y_def x1_def x0_def
      gf_prep240_length(2) [OF l0] by (rule refl)
  have r0: "gfrep x0 (2 * va)" unfolding x0_def using a by (rule gfrep_mul2)
  have r1: "gfrep x1 b" unfolding x1_def b using r0 by (rule gf_sqrt_chain_pow)
  have r2: "gfrep y (b * va)" unfolding y_def using r1 a by (rule gfrep_mul)
  have r5: "gfrep x5 ((b * va) * (2 * ((b * va) * b) - 1))"
    unfolding x5_def by (intro gfrep_mul gfrep_sub gfrep_mul2 gfrep_one r1 r2)
  have r6: "gfrep (gf_square x6) (((b * va) * (2 * ((b * va) * b) - 1)) * ((b * va) * (2 * ((b * va) * b) - 1)))"
    unfolding x6_def using r5 by (rule gfrep_square_condneg)
  have "gfval (gf_square x6) = va mod modq" using r6 w by (simp only: gfrep_def gfval_def)
  moreover have "gfval a = va mod modq" using a by (simp only: gfrep_def gfval_def)
  ultimately have e: "gfval (gf_square x6) = gfval a" by simp
  have "r = (if gfval (gf_square x6) = gfval a then - 1 else 0)"
    unfolding r_def by (intro gf_equals_val gf_square_length gfrep_length [OF r5, folded x6_def] la)
      (simp add: x6_def gf_condneg_length gfrep_length [OF r5])
  then show ?thesis unfolding s fst_conv e by simp
qed

lemma sqrt_one_algebra:
  fixes B :: int
  assumes "(B * B * B * B * 4) mod modq = modq - 1"
  shows "((B * 1) * (2 * ((B * 1) * B) - 1)) * ((B * 1) * (2 * ((B * 1) * B) - 1)) mod modq = 1 mod modq"
proof -
  have "(B * B * B * B * 4 + 1) mod modq = ((B * B * B * B * 4) mod modq + 1) mod modq"
    by (simp only: mod_add_left_eq)
  also have "\<dots> = (modq - 1 + 1) mod modq" by (simp only: assms)
  also have "\<dots> = 0" by simp
  finally have "(B * B * B * B * 4 + 1) mod modq = 0" .
  then have d: "modq dvd B * B * B * B * 4 + 1" by (simp only: mod_eq_0_iff_dvd)
  have "((B * 1) * (2 * ((B * 1) * B) - 1)) * ((B * 1) * (2 * ((B * 1) * B) - 1)) - 1
        = (B * B - 1) * (B * B * B * B * 4 + 1)"
    by (simp add: algebra_simps)
  then have "modq dvd ((B * 1) * (2 * ((B * 1) * B) - 1)) * ((B * 1) * (2 * ((B * 1) * B) - 1)) - 1"
    using d by (simp only: dvd_mult)
  then show ?thesis by (simp only: mod_eq_dvd_iff)
qed

lemma gf_sqrt_one_mask_aux:
  assumes c: "(2::int) ^ 28948022309329048855892746252171976963317496166410141009864396001978282400658 mod modq
              = 57896044618658097711785492504343953926634992332820282019728792003956564801316"
    and a: "gfrep a 1"
  shows "fst (gf_sqrt a) = - 1"
proof -
  define B where "B = (2::int) ^ 7237005577332262213973186563042994240829374041602535252466099000494570600164"
  have n: "(28948022309329048855892746252171976963317496166410141009864396001978282400658::nat)
           = 7237005577332262213973186563042994240829374041602535252466099000494570600164
             + 7237005577332262213973186563042994240829374041602535252466099000494570600164
             + 7237005577332262213973186563042994240829374041602535252466099000494570600164
             + 7237005577332262213973186563042994240829374041602535252466099000494570600164 + 2"
    by simp
  have f: "(2::int) ^ 2 = 4" by simp
  have "(2::int) ^ 28948022309329048855892746252171976963317496166410141009864396001978282400658
        = B * B * B * B * 4"
    by (simp only: n power_add B_def f)
  then have "(B * B * B * B * 4) mod modq
             = 57896044618658097711785492504343953926634992332820282019728792003956564801316"
    using c by (simp only:)
  moreover have "(57896044618658097711785492504343953926634992332820282019728792003956564801316::int) = modq - 1"
    by (simp add: modq_def)
  ultimately have "(B * B * B * B * 4) mod modq = modq - 1" by (simp only:)
  then have w: "((B * 1) * (2 * ((B * 1) * B) - 1)) * ((B * 1) * (2 * ((B * 1) * B) - 1)) mod modq = 1 mod modq"
    by (rule sqrt_one_algebra)
  have b: "B = (2 * 1) ^ 7237005577332262213973186563042994240829374041602535252466099000494570600164"
    by (simp only: B_def mult_1_right)
  show ?thesis using a b w by (rule gf_sqrt_mask)
qed

lemma gf_decode_zero: "gf_decode (replicate 32 0) = (- 1, gf_zero)"
  by code_simp

lemma gf_select_same: "gf_select a a c = a"
  by (induction a) (simp_all add: gf_select_def)

lemma point_decode_zero_aux:
  assumes c: "(2::int) ^ 28948022309329048855892746252171976963317496166410141009864396001978282400658 mod modq
              = 57896044618658097711785492504343953926634992332820282019728792003956564801316"
  shows "fst (point_decode (replicate 32 0)) = - 1"
    and "U (snd (point_decode (replicate 32 0))) = gf_zero"
    and "Z (snd (point_decode (replicate 32 0))) = gf_one"
proof -
  define ee where "ee = gf_add (gf_lsh (gf_square (gf_square gf_zero)) 3) gf_one"
  have "gfrep (gf_square gf_zero) (0 * 0)" using gfrep_zero by (rule gfrep_square)
  then have "gfrep (gf_square (gf_square gf_zero)) ((0 * 0) * (0 * 0))" by (rule gfrep_square)
  then have "gfrep (gf_lsh (gf_square (gf_square gf_zero)) 3) (2 ^ 3 * ((0 * 0) * (0 * 0)))"
    by (rule gfrep_lsh) simp_all
  then have "gfrep ee (2 ^ 3 * ((0 * 0) * (0 * 0)) + 1)" unfolding ee_def using gfrep_one by (rule gfrep_add)
  then have e1: "gfrep ee 1" by simp
  have m: "fst (gf_sqrt ee) = - 1" using c e1 by (rule gf_sqrt_one_mask_aux)
  have s: "point_decode (replicate 32 0)
           = (- 1 AND fst (gf_sqrt ee),
              \<lparr>E = gf_select gf_minus_one (snd (gf_sqrt ee)) (- 1 AND fst (gf_sqrt ee)), Z = gf_one,
                U = gf_select gf_zero gf_zero (- 1 AND fst (gf_sqrt ee)),
                T = gf_select gf_zero (gf_square gf_zero) (- 1 AND fst (gf_sqrt ee))\<rparr>)"
    unfolding point_decode_def Let_def gf_decode_zero fst_conv snd_conv ee_def by (rule refl)
  show "fst (point_decode (replicate 32 0)) = - 1" unfolding s fst_conv m by simp
  show "U (snd (point_decode (replicate 32 0))) = gf_zero" unfolding s by (simp add: gf_select_same)
  show "Z (snd (point_decode (replicate 32 0))) = gf_one" unfolding s by simp
qed

lemma point_is_neutral_zero: "U p = gf_zero \<Longrightarrow> point_is_neutral p = - 1"
  using gf_is_zero_gfval [OF gf_pr_zero] by (simp add: point_is_neutral_def gfval_zero)

lemma jq_decode_public_key_zero:
  "fst (jq_decode_public_key (replicate 32 0)) = 0"
  "U (pk_point (snd (jq_decode_public_key (replicate 32 0)))) = gf_zero"
proof -
  define dp where "dp = point_decode (replicate 32 0)"
  have u: "U (snd dp) = gf_zero"
    unfolding dp_def point_decode_def Let_def gf_decode_zero fst_conv snd_conv
    by (simp add: gf_select_same)
  then have n: "point_is_neutral (snd dp) = - 1" by (rule point_is_neutral_zero)
  show "fst (jq_decode_public_key (replicate 32 0)) = 0"
    by (simp add: jq_decode_public_key_def Let_def dp_def [symmetric] n)
  show "U (pk_point (snd (jq_decode_public_key (replicate 32 0)))) = gf_zero"
    by (simp add: jq_decode_public_key_def Let_def dp_def [symmetric] u)
qed

lemma jq_verify_neutral:
  assumes "gf_pr (U (pk_point pk))" "gfval (U (pk_point pk)) = 0"
  shows "jq_verify sig pk hash_name hv = 0"
proof -
  have "point_is_neutral (pk_point pk) = - 1"
    using gf_is_zero_gfval [OF assms(1)] assms(2) by (simp add: point_is_neutral_def)
  then show ?thesis by (simp add: jq_verify_def Let_def)
qed

lemma jq_ECDH_neutral:
  assumes "gf_pr (U (pk_point pk))" "gfval (U (pk_point pk)) = 0"
  shows "snd (jq_ECDH jk pk) = 0"
  using ecdh_bad_val [OF assms(1)] assms(2) by (simp add: jq_ECDH_def Let_def)

lemma jq_sign_seeded_length: "snd (jq_sign_seeded jk hash_name hv seed) = 48"
  by (simp add: jq_sign_seeded_def Let_def)


subsection \<open>Squares have square roots\<close>

lemma gfrep_mul2_raw: "length a = 8 \<Longrightarrow> gfrep (gf_mul2 a) (2 * limbs_val a)"
  using gf_mul2_val [of a] by (simp add: gfrep_def gfval_def)

lemma gfrep_mul_raw:
  assumes "gfrep x v" "length a = 8"
  shows "gfrep (gf_mul x a) (v * limbs_val a)"
proof (rule gfrepI)
  have lx: "length x = 8" using assms(1) by (rule gfrep_length)
  have mx: "limbs_val x mod modq = v mod modq" using assms(1) by (simp add: gfrep_def)
  show "gf_pr (gf_mul x a)" using lx assms(2) by (rule gf_mul_val)
  have "gfval (gf_mul x a) = (limbs_val x * limbs_val a) mod modq" using lx assms(2) by (rule gf_mul_val)
  also have "\<dots> = (v * limbs_val a) mod modq" using mx refl by (rule mod_mult_cong)
  finally show "gfval (gf_mul x a) = (v * limbs_val a) mod modq" .
qed

lemma gf_sqrt_mask_raw:
  assumes la: "length a = 8"
    and b: "b = (2 * limbs_val a) ^ 7237005577332262213973186563042994240829374041602535252466099000494570600164"
    and w: "((b * limbs_val a) * (2 * ((b * limbs_val a) * b) - 1))
            * ((b * limbs_val a) * (2 * ((b * limbs_val a) * b) - 1)) mod modq = limbs_val a mod modq"
  shows "fst (gf_sqrt a) = - 1"
proof -
  define x0 where "x0 = gf_mul2 a"
  define x1 where "x1 = foldl (gf_exp_step (drop_bit 3 (- MQ - 5)) [x0, gf_square x0, gf_mul x0 (gf_square x0)])
                          (fst (gf_prep240 x0)) [10, 8, 6, 4, 2, 0]"
  define y where "y = gf_mul x1 a"
  define x5 where "x5 = gf_mul y (gf_sub (gf_mul2 (gf_mul y x1)) gf_one)"
  define x6 where "x6 = gf_condneg x5 (gf_is_negative x5)"
  define r where "r = gf_equals (gf_square x6) a"
  have l0: "length (gf_mul2 a) = 8" using la by (simp add: gf_len)
  have s: "gf_sqrt a = (r, gf_select gf_zero x6 r)"
    unfolding gf_sqrt_def Let_def r_def x6_def x5_def y_def x1_def x0_def
      gf_prep240_length(2) [OF l0] by (rule refl)
  have r0: "gfrep x0 (2 * limbs_val a)" unfolding x0_def using la by (rule gfrep_mul2_raw)
  have r1: "gfrep x1 b" unfolding x1_def b using r0 by (rule gf_sqrt_chain_pow)
  have r2: "gfrep y (b * limbs_val a)" unfolding y_def using r1 la by (rule gfrep_mul_raw)
  have r5: "gfrep x5 ((b * limbs_val a) * (2 * ((b * limbs_val a) * b) - 1))"
    unfolding x5_def by (intro gfrep_mul gfrep_sub gfrep_mul2 gfrep_one r1 r2)
  have r6: "gfrep (gf_square x6) (((b * limbs_val a) * (2 * ((b * limbs_val a) * b) - 1))
                                  * ((b * limbs_val a) * (2 * ((b * limbs_val a) * b) - 1)))"
    unfolding x6_def using r5 by (rule gfrep_square_condneg)
  have "gfval (gf_square x6) = limbs_val a mod modq" using r6 w by (simp only: gfrep_def gfval_def)
  then have e: "gfval (gf_square x6) = gfval a" by (simp only: gfval_def)
  have l6: "length x6 = 8" unfolding x6_def using gfrep_length [OF r5] by (rule gf_condneg_length)
  have "r = (if gfval (gf_square x6) = gfval a then - 1 else 0)"
    unfolding r_def using gf_square_length [OF l6] la by (rule gf_equals_val)
  then show ?thesis unfolding s fst_conv e by simp
qed

lemma euler_square_aux:
  assumes fl: "\<And>y::int. \<not> modq dvd y \<Longrightarrow> y ^ nat (modq - 1) mod modq = 1"
    and sq: "(y * y) mod modq = v mod modq" and nz: "\<not> modq dvd v"
  shows "v ^ 28948022309329048855892746252171976963317496166410141009864396001978282400658 mod modq = 1"
proof -
  have ny: "\<not> modq dvd y"
  proof
    assume "modq dvd y"
    then have "modq dvd y * y" by simp
    then have "(y * y) mod modq = 0" by (simp only: mod_eq_0_iff_dvd)
    then have "v mod modq = 0" using sq by simp
    then show False using nz by (simp only: mod_eq_0_iff_dvd)
  qed
  have n: "nat (modq - 1)
           = 28948022309329048855892746252171976963317496166410141009864396001978282400658
             + 28948022309329048855892746252171976963317496166410141009864396001978282400658"
    by (simp add: modq_def)
  define N :: nat where "N = 28948022309329048855892746252171976963317496166410141009864396001978282400658"
  have "v ^ N mod modq = (v mod modq) ^ N mod modq" by (simp only: power_mod)
  also have "\<dots> = ((y * y) mod modq) ^ N mod modq" by (simp only: sq)
  also have "\<dots> = (y * y) ^ N mod modq" by (simp only: power_mod)
  also have "(y * y) ^ N = y ^ (N + N)" by (simp only: power_mult_distrib power_add)
  also have "N + N = nat (modq - 1)" by (simp only: n N_def)
  also have "y ^ nat (modq - 1) mod modq = 1" using ny by (rule fl)
  finally show ?thesis by (simp only: N_def)
qed

lemma sqrt_algebra:
  fixes b v :: int
  assumes "(b * b * b * b * ((2 * v) * (2 * v))) mod modq = modq - 1"
  shows "((b * v) * (2 * ((b * v) * b) - 1)) * ((b * v) * (2 * ((b * v) * b) - 1)) mod modq = v mod modq"
proof -
  define i2 where "i2 = b * b * b * b * ((2 * v) * (2 * v))"
  have "(i2 + 1) mod modq = (i2 mod modq + 1) mod modq" by (simp only: mod_add_left_eq)
  also have "\<dots> = (modq - 1 + 1) mod modq" using assms by (simp only: i2_def)
  also have "\<dots> = 0" by simp
  finally have "modq dvd i2 + 1" by (simp only: mod_eq_0_iff_dvd)
  moreover have "((b * v) * (2 * ((b * v) * b) - 1)) * ((b * v) * (2 * ((b * v) * b) - 1)) - v
        = (b * b * v * v - v) * (i2 + 1)"
    unfolding i2_def by algebra
  ultimately have "modq dvd ((b * v) * (2 * ((b * v) * b) - 1)) * ((b * v) * (2 * ((b * v) * b) - 1)) - v"
    by (simp only: dvd_mult)
  then show ?thesis by (simp only: mod_eq_dvd_iff)
qed

lemma gf_sqrt_square_aux:
  assumes fl: "\<And>y::int. \<not> modq dvd y \<Longrightarrow> y ^ nat (modq - 1) mod modq = 1"
    and two: "(2::int) ^ 28948022309329048855892746252171976963317496166410141009864396001978282400658 mod modq
              = 57896044618658097711785492504343953926634992332820282019728792003956564801316"
    and la: "length a = 8"
    and sq: "(y * y) mod modq = limbs_val a mod modq"
  shows "fst (gf_sqrt a) = - 1"
proof -
  define v where "v = limbs_val a"
  define b where "b = (2 * v) ^ 7237005577332262213973186563042994240829374041602535252466099000494570600164"
  have b': "b = (2 * limbs_val a) ^ 7237005577332262213973186563042994240829374041602535252466099000494570600164"
    by (simp only: b_def v_def)
  have "((b * v) * (2 * ((b * v) * b) - 1)) * ((b * v) * (2 * ((b * v) * b) - 1)) mod modq = v mod modq"
  proof (cases "modq dvd v")
    case True
    then have "modq dvd ((b * v) * (2 * ((b * v) * b) - 1)) * ((b * v) * (2 * ((b * v) * b) - 1))"
      by (intro dvd_mult2 dvd_mult) 
    then have "((b * v) * (2 * ((b * v) * b) - 1)) * ((b * v) * (2 * ((b * v) * b) - 1)) mod modq = 0"
      by (simp only: mod_eq_0_iff_dvd)
    moreover have "v mod modq = 0" using True by (simp only: mod_eq_0_iff_dvd)
    ultimately show ?thesis by simp
  next
    case False
    define T where "T = (2::int) ^ 28948022309329048855892746252171976963317496166410141009864396001978282400658"
    have t: "T mod modq = 57896044618658097711785492504343953926634992332820282019728792003956564801316"
      using two by (simp only: T_def)
    have sq': "(y * y) mod modq = v mod modq" using sq by (simp only: v_def)
    have eu: "v ^ 28948022309329048855892746252171976963317496166410141009864396001978282400658 mod modq = 1"
      using fl sq' False by (rule euler_square_aux)
    have n: "(28948022309329048855892746252171976963317496166410141009864396001978282400658::nat)
             = 7237005577332262213973186563042994240829374041602535252466099000494570600164
               + 7237005577332262213973186563042994240829374041602535252466099000494570600164
               + 7237005577332262213973186563042994240829374041602535252466099000494570600164
               + 7237005577332262213973186563042994240829374041602535252466099000494570600164 + 2"
      by simp
    have "(2 * v) ^ 28948022309329048855892746252171976963317496166410141009864396001978282400658
          = b * b * b * b * ((2 * v) * (2 * v))"
      by (simp only: n power_add b_def power2_eq_square)
    moreover have "(2 * v) ^ 28948022309329048855892746252171976963317496166410141009864396001978282400658
          = T * v ^ 28948022309329048855892746252171976963317496166410141009864396001978282400658"
      by (simp only: power_mult_distrib T_def)
    ultimately have "(b * b * b * b * ((2 * v) * (2 * v))) mod modq
          = (T * v ^ 28948022309329048855892746252171976963317496166410141009864396001978282400658) mod modq"
      by (simp only:)
    also have "\<dots> = ((T mod modq)
          * (v ^ 28948022309329048855892746252171976963317496166410141009864396001978282400658 mod modq)) mod modq"
      by (simp only: mod_mult_eq)
    also have "\<dots> = (57896044618658097711785492504343953926634992332820282019728792003956564801316 * 1) mod modq"
      by (simp only: t eu)
    also have "\<dots> = modq - 1" by (simp add: modq_def)
    finally show ?thesis by (rule sqrt_algebra)
  qed
  then show ?thesis unfolding v_def using la b' by (intro gf_sqrt_mask_raw)
qed


section \<open>Primes, Fermat's little theorem and Pocklington's criterion\<close>

lemma prime_int_gt1: "prime_int p \<Longrightarrow> 1 < p"
  by (simp add: prime_int_def)

lemma prime_divisor_nat:
  "1 < n \<Longrightarrow> \<exists>p. prime_int p \<and> p dvd int n"
proof (induction n rule: less_induct)
  case (less n)
  show ?case
  proof (cases "prime_int (int n)")
    case True
    then have "prime_int (int n) \<and> int n dvd int n" by simp
    then show ?thesis by (rule exI)
  next
    case False
    then obtain d where d: "0 < d" "d dvd int n" "d \<noteq> 1" "d \<noteq> int n"
      using less.prems by (auto simp: prime_int_def)
    have "d \<le> int n" using d(1,2) less.prems by (intro zdvd_imp_le) simp_all
    then have dn: "d < int n" using d(4) by simp
    have d1: "1 < d" using d(1,3) by simp
    then have "1 < nat d" "nat d < n" using dn by simp_all
    then obtain p where "prime_int p" "p dvd int (nat d)" using less.IH by blast
    then have "prime_int p" "p dvd int n" using d(1,2) by (auto intro: dvd_trans)
    then show ?thesis by blast
  qed
qed

lemma prime_divisor: "1 < (n::int) \<Longrightarrow> \<exists>p. prime_int p \<and> p dvd n"
  using prime_divisor_nat [of "nat n"] by simp

lemma prime_int_coprime:
  assumes "prime_int p" "\<not> p dvd a"
  shows "coprime p a"
proof -
  have g: "gcd p a dvd p" "gcd p a dvd a" by simp_all
  have "0 \<le> gcd p a" by simp
  moreover have "gcd p a \<noteq> 0" using assms(1) by (auto simp: prime_int_def)
  ultimately have "0 < gcd p a" by linarith
  then have "gcd p a = 1 \<or> gcd p a = p" using assms(1) g(1) by (simp add: prime_int_def)
  moreover have "gcd p a \<noteq> p"
  proof
    assume "gcd p a = p"
    then have "p dvd a" using g(2) by simp
    then show False using assms(2) by simp
  qed
  ultimately have "gcd p a = 1" by simp
  then show ?thesis by (simp add: coprime_iff_gcd_eq_1)
qed

lemma prime_int_dvd_mult:
  assumes "prime_int p" "p dvd a * b"
  shows "p dvd a \<or> p dvd b"
proof (cases "p dvd a")
  case True then show ?thesis by simp
next
  case False
  have "coprime p a" using assms(1) False by (rule prime_int_coprime)
  then have "p dvd b" using assms(2) by (simp add: coprime_dvd_mult_right_iff)
  then show ?thesis by simp
qed

lemma prime_int_dvd_prod:
  assumes "prime_int p" "finite S" "p dvd prod f S"
  shows "\<exists>x \<in> S. p dvd f x"
  using assms(2,3)
proof (induction S rule: finite_induct)
  case empty
  then have "p dvd 1" by simp
  then show ?case using assms(1) by (auto simp: prime_int_def)
next
  case (insert x S)
  then have "p dvd f x * prod f S" by simp
  then have "p dvd f x \<or> p dvd prod f S" using assms(1) by (rule prime_int_dvd_mult [rotated])
  then show ?case using insert by auto
qed

lemma prime_int_dvd_power:
  assumes "prime_int p" "p dvd a ^ n"
  shows "p dvd a"
  using assms(2)
proof (induction n)
  case 0
  then show ?case using assms(1) by (auto simp: prime_int_def)
next
  case (Suc n)
  then have "p dvd a \<or> p dvd a ^ n" using assms(1) prime_int_dvd_mult [of p a "a ^ n"] by simp
  then show ?case using Suc by auto
qed

theorem fermat_little:
  assumes p: "prime_int p" and a: "\<not> p dvd a"
  shows "a ^ nat (p - 1) mod p = 1"
proof -
  have p1: "1 < p" using p by (rule prime_int_gt1)
  define S where "S = {1..p - 1}"
  define f where "f = (\<lambda>x. (a * x) mod p)"
  have fin: "finite S" by (simp add: S_def)
  have nz: "\<not> p dvd x" if "x \<in> S" for x
  proof
    assume "p dvd x"
    then have "p \<le> x" using that by (intro zdvd_imp_le) (simp_all add: S_def)
    then show False using that by (simp add: S_def)
  qed
  have sub: "f ` S \<subseteq> S"
  proof
    fix y assume "y \<in> f ` S"
    then obtain x where x: "x \<in> S" "y = (a * x) mod p" by (auto simp: f_def)
    have "\<not> p dvd a * x" using prime_int_dvd_mult [OF p, of a x] a nz [OF x(1)] by blast
    then have "y \<noteq> 0" using x(2) by (simp add: mod_eq_0_iff_dvd)
    moreover have "0 \<le> y" "y < p" using p1 x(2) by simp_all
    ultimately show "y \<in> S" by (simp add: S_def)
  qed
  have inj: "inj_on f S"
  proof (rule inj_onI)
    fix x y assume x: "x \<in> S" and y: "y \<in> S" and e: "f x = f y"
    then have "p dvd a * x - a * y" by (simp add: f_def mod_eq_dvd_iff)
    then have "p dvd a * (x - y)" by (simp add: algebra_simps)
    then have d: "p dvd x - y" using prime_int_dvd_mult [OF p, of a "x - y"] a by blast
    have "\<bar>x - y\<bar> < p" using x y by (auto simp: S_def)
    then show "x = y" using d zdvd_not_zless [of "\<bar>x - y\<bar>" p] by (cases "x = y") auto
  qed
  have img: "f ` S = S" using fin sub inj by (rule endo_inj_surj)
  have "prod f S = prod id (f ` S)" using inj by (simp add: prod.reindex)
  then have e1: "prod f S = prod id S" by (simp only: img)
  have "prod f S mod p = (\<Prod>x\<in>S. a * x) mod p" unfolding f_def by (rule mod_prod_eq)
  also have "(\<Prod>x\<in>S. a * x) = a ^ card S * prod id S" by (simp add: prod.distrib)
  finally have "(a ^ card S * prod id S) mod p = prod id S mod p" using e1 by simp
  then have "p dvd a ^ card S * prod id S - prod id S" by (simp only: mod_eq_dvd_iff)
  then have "p dvd (a ^ card S - 1) * prod id S" by (simp add: algebra_simps)
  then have "p dvd a ^ card S - 1 \<or> p dvd prod id S" by (rule prime_int_dvd_mult [OF p])
  moreover have "\<not> p dvd prod id S"
  proof
    assume "p dvd prod id S"
    then obtain x where "x \<in> S" "p dvd id x" using prime_int_dvd_prod [OF p fin] by blast
    then show False using nz by simp
  qed
  ultimately have "p dvd a ^ card S - 1" by simp
  then have "a ^ card S mod p = 1 mod p" by (simp add: mod_eq_dvd_iff)
  moreover have "card S = nat (p - 1)" by (simp add: S_def)
  ultimately show ?thesis using p1 by simp
qed

lemma pow_order:
  assumes r: "1 < (r::int)" and m: "0 < m" "a ^ m mod r = 1"
  shows "\<exists>e. 0 < e \<and> a ^ e mod r = 1 \<and> (\<forall>t. a ^ t mod r = 1 \<longleftrightarrow> e dvd t)"
proof -
  define e where "e = (LEAST k. 0 < k \<and> a ^ k mod r = 1)"
  have ex: "0 < m \<and> a ^ m mod r = 1" using m by simp
  have e: "0 < e \<and> a ^ e mod r = 1" unfolding e_def using ex by (rule LeastI)
  have least: "k < e \<Longrightarrow> \<not> (0 < k \<and> a ^ k mod r = 1)" for k
    unfolding e_def by (rule not_less_Least)
  have pe: "(a ^ e) ^ k mod r = 1" for k
  proof -
    have "(a ^ e) ^ k mod r = (a ^ e mod r) ^ k mod r" by (simp only: power_mod)
    then show ?thesis using e r by simp
  qed
  have "a ^ t mod r = 1 \<longleftrightarrow> e dvd t" for t
  proof
    assume t: "a ^ t mod r = 1"
    have "t = e * (t div e) + t mod e" by simp
    then have "a ^ t = a ^ (e * (t div e) + t mod e)" by (rule arg_cong)
    also have "\<dots> = (a ^ e) ^ (t div e) * a ^ (t mod e)" by (simp only: power_add power_mult)
    finally have "a ^ t mod r = ((a ^ e) ^ (t div e) mod r) * a ^ (t mod e) mod r"
      by (simp only: mod_mult_left_eq)
    also have "\<dots> = 1 * a ^ (t mod e) mod r" by (simp only: pe)
    finally have "a ^ (t mod e) mod r = 1" using t by simp
    moreover have "t mod e < e" using e by simp
    then have "\<not> (0 < t mod e \<and> a ^ (t mod e) mod r = 1)" by (rule least)
    ultimately have "t mod e = 0" by simp
    then show "e dvd t" by (simp only: dvd_eq_mod_eq_0)
  next
    assume "e dvd t"
    then obtain k where "t = e * k" by (rule dvdE)
    then show "a ^ t mod r = 1" using pe [of k] by (simp only: power_mult)
  qed
  then have "0 < e \<and> a ^ e mod r = 1 \<and> (\<forall>t. a ^ t mod r = 1 \<longleftrightarrow> e dvd t)"
    using e by simp
  then show ?thesis by (rule exI)
qed

lemma pock_step:
  fixes n a r :: int and p M :: nat
  assumes n: "1 < n" and p: "prime_int (int p)" and an: "a ^ (p * M) mod n = 1"
    and co: "coprime (a ^ M mod n - 1) n" and r: "prime_int r" "r dvd n"
  shows "int p dvd r - 1"
proof -
  have r1: "1 < r" using r(1) by (rule prime_int_gt1)
  have p1: "1 < p" using prime_int_gt1 [OF p] by simp
  have M0: "0 < M"
  proof (rule ccontr)
    assume "\<not> 0 < M"
    then have "a ^ M mod n - 1 = 0" using n by simp
    then have "coprime 0 n" using co by simp
    then show False using n by simp
  qed
  have pm: "0 < p * M" using p1 M0 by simp
  have "a ^ (p * M) mod r = (a ^ (p * M) mod n) mod r" using r(2) by (simp add: mod_mod_cancel)
  then have ar: "a ^ (p * M) mod r = 1" using an r1 by simp
  have nM: "a ^ M mod r \<noteq> 1"
  proof
    assume h: "a ^ M mod r = 1"
    have "(a ^ M mod n) mod r = a ^ M mod r" using r(2) by (simp add: mod_mod_cancel)
    then have "(a ^ M mod n) mod r = 1 mod r" using h r1 by simp
    then have "r dvd a ^ M mod n - 1" by (simp only: mod_eq_dvd_iff)
    with co have "is_unit r" using r(2) by (rule coprime_common_divisor)
    then show False using r1 by simp
  qed
  obtain e where e: "0 < e" "\<forall>t. a ^ t mod r = 1 \<longleftrightarrow> e dvd t"
    using pow_order [OF r1 pm ar] by blast
  have e1: "e dvd p * M" using e(2) ar by blast
  have e2: "\<not> e dvd M" using e(2) nM by blast
  have nra: "\<not> r dvd a"
  proof
    assume "r dvd a"
    moreover have "a dvd a ^ (p * M)" using pm by (intro dvd_power) simp
    ultimately have "r dvd a ^ (p * M)" by (rule dvd_trans)
    then show False using ar by (simp add: mod_eq_0_iff_dvd)
  qed
  have "a ^ nat (r - 1) mod r = 1" using r(1) nra by (rule fermat_little)
  then have e3: "e dvd nat (r - 1)" using e(2) by blast
  have pe: "p dvd e"
  proof (rule ccontr)
    assume np: "\<not> p dvd e"
    have "int (gcd p e) dvd int p" by simp
    moreover have "0 < int (gcd p e)" using p1 by (simp add: gcd_pos_nat)
    moreover have "\<forall>d. 0 < d \<and> d dvd int p \<longrightarrow> d = 1 \<or> d = int p"
      using p by (simp add: prime_int_def)
    ultimately have "int (gcd p e) = 1 \<or> int (gcd p e) = int p" by blast
    moreover have "gcd p e \<noteq> p"
    proof
      assume "gcd p e = p"
      moreover have "gcd p e dvd e" by simp
      ultimately have "p dvd e" by simp
      then show False using np by simp
    qed
    ultimately have "gcd p e = 1" by simp
    then have "coprime e p" by (simp add: coprime_iff_gcd_eq_1 gcd.commute)
    then have "e dvd M" using e1 by (simp add: coprime_dvd_mult_right_iff)
    then show False using e2 by simp
  qed
  then have "p dvd nat (r - 1)" using e3 by (rule dvd_trans)
  then have "int p dvd int (nat (r - 1))" by (simp only: of_nat_dvd_iff)
  then show ?thesis using r1 by simp
qed

lemma pock_prime:
  fixes n F :: int
  assumes n: "1 < n" and F: "0 < F" "n \<le> F * F"
    and d: "\<And>r. prime_int r \<Longrightarrow> r dvd n \<Longrightarrow> F dvd r - 1"
  shows "prime_int n"
  unfolding prime_int_def
proof (intro conjI allI impI)
  show "1 < n" by (rule n)
  fix x assume x: "0 < x \<and> x dvd n"
  show "x = 1 \<or> x = n"
  proof (rule ccontr)
    assume c: "\<not> (x = 1 \<or> x = n)"
    obtain y where y: "n = x * y" using x by (auto elim: dvdE)
    have "0 < x * y" using n y by simp
    then have y0: "0 < y" using x by (intro zero_less_mult_pos [of x y]) simp_all
    have x1: "1 < x" using x c by simp
    have y1: "1 < y"
    proof (rule ccontr)
      assume "\<not> 1 < y"
      then have "y = 1" using y0 by simp
      then show False using y c by simp
    qed
    define s where "s = min x y"
    have s1: "1 < s" using x1 y1 by (simp add: s_def)
    have sn: "s dvd n" using y by (simp add: s_def min_def)
    have "s * s \<le> x * y" using x1 y1 by (intro mult_mono) (simp_all add: s_def)
    then have ss: "s * s \<le> n" using y by simp
    obtain r where r: "prime_int r" "r dvd s" using prime_divisor [OF s1] by blast
    have rn: "r dvd n" using r(2) sn by (rule dvd_trans)
    have r1: "1 < r" using r(1) by (rule prime_int_gt1)
    have "r \<le> s" using r(2) s1 by (intro zdvd_imp_le) simp_all
    then have "r * r \<le> s * s" using r1 by (intro mult_mono) simp_all
    then have rr: "r * r \<le> n" using ss by simp
    have "F dvd r - 1" using r(1) rn by (rule d)
    then have "F \<le> r - 1" using r1 by (intro zdvd_imp_le) simp_all
    then have "F < r" by simp
    then have "F * F < r * r" using F(1) by (intro mult_strict_mono) simp_all
    then show False using F(2) rr by simp
  qed
qed

lemma trial_prime:
  fixes p :: int
  assumes "1 < p" and "p < int s * int s" and "\<forall>d \<in> set [2..<s]. \<not> int d dvd p"
  shows "prime_int p"
  unfolding prime_int_def
proof (intro conjI allI impI)
  show "1 < p" by (rule assms)
  fix x assume x: "0 < x \<and> x dvd p"
  show "x = 1 \<or> x = p"
  proof (rule ccontr)
    assume c: "\<not> (x = 1 \<or> x = p)"
    obtain y where y: "p = x * y" using x by (auto elim: dvdE)
    have "0 < x * y" using assms(1) y by simp
    then have y0: "0 < y" using x by (intro zero_less_mult_pos [of x y]) simp_all
    have x1: "1 < x" using x c by simp
    have y1: "1 < y"
    proof (rule ccontr)
      assume "\<not> 1 < y"
      then have "y = 1" using y0 by simp
      then show False using y c by simp
    qed
    define t where "t = min x y"
    have t1: "1 < t" using x1 y1 by (simp add: t_def)
    have tp: "t dvd p" using y by (simp add: t_def min_def)
    have "t * t \<le> x * y" using x1 y1 by (intro mult_mono) (simp_all add: t_def)
    then have tt: "t * t < int s * int s" using y assms(2) by simp
    have ts: "t < int s"
    proof (rule ccontr)
      assume "\<not> t < int s"
      then have "int s \<le> t" by simp
      then have "int s * int s \<le> t * t" by (intro mult_mono) simp_all
      then show False using tt by simp
    qed
    have "2 \<le> nat t" "nat t < s" using t1 ts by linarith+
    then have "nat t \<in> set [2..<s]" by simp
    then have "\<not> int (nat t) dvd p" using assms(3) by blast
    then show False using tp t1 by simp
  qed
qed

lemma bezout_coprime: "s * x + t * y = (1::int) \<Longrightarrow> coprime x y"
proof (rule coprimeI)
  fix c assume e: "s * x + t * y = 1" and "c dvd x" "c dvd y"
  then have "c dvd s * x + t * y" by (intro dvd_add dvd_mult)
  then show "is_unit c" by (simp only: e)
qed

lemma powm_sq_mod:
  assumes "(x::int) mod m = r"
  shows "(x * x) mod m = (r * r) mod m"
proof -
  have "(x * x) mod m = ((x mod m) * (x mod m)) mod m" by (simp only: mod_mult_eq)
  then show ?thesis by (simp only: assms)
qed

lemma powm_sq0:
  assumes "(b::int) ^ numeral n mod m = r" and "r * r = k * m + r'" and "0 \<le> r'" and "r' < m"
  shows "b ^ numeral (Num.Bit0 n) mod m = r'"
proof -
  have "b ^ numeral (Num.Bit0 n) = b ^ numeral n * b ^ numeral n"
    by (simp only: numeral_Bit0 power_add)
  then have "b ^ numeral (Num.Bit0 n) mod m = (r * r) mod m"
    using powm_sq_mod [OF assms(1)] by (simp only:)
  also have "\<dots> = (k * m + r') mod m" by (simp only: assms(2))
  also have "\<dots> = r'" using assms(3,4) by simp
  finally show ?thesis .
qed

lemma powm_sq1:
  assumes "(b::int) ^ numeral n mod m = r" and "b * (r * r) = k * m + r'" and "0 \<le> r'" and "r' < m"
  shows "b ^ numeral (Num.Bit1 n) mod m = r'"
proof -
  have "b ^ numeral (Num.Bit1 n) = b * (b ^ numeral n * b ^ numeral n)"
    by (simp only: numeral_Bit1 power_add power_one_right mult.commute mult.left_commute)
  then have "b ^ numeral (Num.Bit1 n) mod m = (b * (b ^ numeral n * b ^ numeral n)) mod m"
    by (simp only:)
  also have "\<dots> = (b * (r * r)) mod m"
    using refl powm_sq_mod [OF assms(1)] by (rule mod_mult_cong)
  also have "\<dots> = (k * m + r') mod m" by (simp only: assms(2))
  also have "\<dots> = r'" using assms(3,4) by simp
  finally show ?thesis .
qed

lemma powm_start0:
  assumes "(b::int) * b = k * m + r'" and "0 \<le> r'" and "r' < m"
  shows "b ^ numeral (Num.Bit0 Num.One) mod m = r'"
proof -
  have "b ^ numeral (Num.Bit0 Num.One) = b * b" by (simp add: power2_eq_square)
  then have "b ^ numeral (Num.Bit0 Num.One) mod m = (k * m + r') mod m" by (simp only: assms(1))
  also have "\<dots> = r'" using assms(2,3) by simp
  finally show ?thesis .
qed

lemma powm_start1:
  assumes "(b::int) * (b * b) = k * m + r'" and "0 \<le> r'" and "r' < m"
  shows "b ^ numeral (Num.Bit1 Num.One) mod m = r'"
proof -
  have "b ^ numeral (Num.Bit1 Num.One) = b * (b * b)" by (simp add: power3_eq_cube)
  then have "b ^ numeral (Num.Bit1 Num.One) mod m = (k * m + r') mod m" by (simp only: assms(1))
  also have "\<dots> = r'" using assms(2,3) by simp
  finally show ?thesis .
qed

lemma pock_cert1:
  fixes a c n :: int
  assumes "a ^ M mod n = c" and "c ^ p mod n = 1"
  shows "a ^ (p * M) mod n = 1"
proof -
  have "a ^ (p * M) = (a ^ M) ^ p" by (simp only: power_mult mult.commute [of p M])
  then have "a ^ (p * M) mod n = (a ^ M mod n) ^ p mod n" by (simp only: power_mod)
  then show "a ^ (p * M) mod n = 1" by (simp only: assms)
qed

lemma pock_cert2:
  fixes a c n :: int
  assumes "a ^ M mod n = c" and "s * (c - 1) + t * n = 1"
  shows "coprime (a ^ M mod n - 1) n"
proof -
  have "coprime (c - 1) n" using assms(2) by (rule bezout_coprime)
  then show ?thesis by (simp only: assms(1))
qed



section \<open>Encoding of public keys\<close>

text \<open>
  C10: for a public key whose point is the identity (its \<open>U\<close> coordinate, partially
  reduced, is zero modulo \<open>q\<close>), \<^verbatim>\<open>jq_encode_public_key\<close> writes 32 bytes \<^verbatim>\<open>0x00\<close> and
  returns 32, whatever the stored encoding holds; for a valid key it writes the 32 stored
  bytes and returns 32. After \<^verbatim>\<open>jq_decode_public_key\<close> of a 32-byte input, the stored
  encoding is the source.
\<close>

theorem jq_encode_public_key_masks:
  assumes "length (U (pk_point pk)) = 8"
    and "limbs_val (U (pk_point pk)) < 2 ^ 255 + 2 ^ 32"
    and "length (pk_enc pk) = 32"
  shows "jq_encode_public_key pk =
           (if limbs_val (U (pk_point pk)) mod modq = 0 then replicate 32 0 else pk_enc pk, 32)
         \<and> (length src = 32 \<longrightarrow> pk_enc (snd (jq_decode_public_key src)) = src)"
proof -
  have d: "length src = 32 \<longrightarrow> pk_enc (snd (jq_decode_public_key src)) = src"
      by (simp add: jq_decode_public_key_def Let_def)
  have "jq_encode_public_key pk =
           (if limbs_val (U (pk_point pk)) mod modq = 0 then replicate 32 0 else pk_enc pk, 32)"
  proof (cases "limbs_val (U (pk_point pk)) mod modq = 0")
    case True
    then have "point_is_neutral (pk_point pk) = - 1"
      using gf_is_zero_mod [OF assms(1,2)] by (simp add: point_is_neutral_def)
    then have "jq_encode_public_key pk = (map (\<lambda>t. 0) (take 32 (pk_enc pk)), 32)"
      by (simp add: jq_encode_public_key_def)
    with True assms(3) show ?thesis by (simp add: map_replicate_const)
  next
    case False
    then have "point_is_neutral (pk_point pk) = 0"
      using gf_is_zero_mod [OF assms(1,2)] by (simp add: point_is_neutral_def)
    then have "jq_encode_public_key pk = (map (\<lambda>t. t) (take 32 (pk_enc pk)), 32)"
      by (simp add: jq_encode_public_key_def ucast_up_ucast_id is_up)
    with False assms(3) show ?thesis by simp
  qed
  with d show ?thesis by simp
qed

theorem jq_encode_public_key_masks_witness:
  "length (U point_neutral) = 8 \<and> limbs_val (U point_neutral) < 2 ^ 255 + 2 ^ 32
   \<and> jq_encode_public_key \<lparr>pk_point = point_neutral, pk_enc = replicate 32 0x55\<rparr>
       = (replicate 32 0, 32)
   \<and> jq_encode_public_key
         \<lparr>pk_point = \<lparr>E = gf_one, Z = gf_one, U = gf_one, T = gf_one\<rparr>, pk_enc = replicate 32 0x55\<rparr>
       = (replicate 32 0x55, 32)
   \<and> pk_enc (snd (jq_decode_public_key (replicate 32 0xFF))) = replicate 32 0xFF"
  using jq_encode_public_key_masks
          [of "\<lparr>pk_point = point_neutral, pk_enc = replicate 32 0x55\<rparr>" "replicate 32 0xFF"]
        jq_encode_public_key_masks
          [of "\<lparr>pk_point = \<lparr>E = gf_one, Z = gf_one, U = gf_one, T = gf_one\<rparr>,
                pk_enc = replicate 32 0x55\<rparr>" "replicate 32 0xFF"]
  by (simp add: point_neutral_def gf_zero_def gf_one_def modq_def)

subsection \<open>C8: the encoding of the base point\<close>

text \<open>
  C8, as stated: \<^verbatim>\<open>point_mulgen\<close> applied to the scalar 1 yields a point whose encoding is the
  byte \<open>0x03\<close> followed by 31 bytes \<open>0x00\<close>. This does not hold: the first table entry is
  \<open>(e, u) = (3, 1)\<close>, \<open>e = 3\<close> is odd, hence negative, and \<^verbatim>\<open>point_encode\<close> writes \<open>-u\<close>.
\<close>

theorem mulgen_one_not_three:
  "point_encode (point_mulgen scalar_one) \<noteq> 0x03 # replicate 31 0x00"
  unfolding mulgen_one_encoding by simp

text \<open>
  C8, amended: \<^verbatim>\<open>point_mulgen\<close> applied to the scalar 1 yields a point whose 32-byte encoding
  is \<open>24 B7 FF ... FF 7F\<close>, the little-endian encoding of \<open>q - 1\<close>, that is \<open>u = -1\<close>.
\<close>

theorem mulgen_one_encodes_minus_one:
  "point_encode (point_mulgen scalar_one) =
     [0x24, 0xB7, 0xFF, 0xFF, 0xFF, 0xFF, 0xFF, 0xFF, 0xFF, 0xFF, 0xFF, 0xFF, 0xFF, 0xFF, 0xFF, 0xFF,
      0xFF, 0xFF, 0xFF, 0xFF, 0xFF, 0xFF, 0xFF, 0xFF, 0xFF, 0xFF, 0xFF, 0xFF, 0xFF, 0xFF, 0xFF, 0x7F]
   \<and> point_encode (point_mulgen scalar_one) = enc32le_limbs gf_minus_one
   \<and> limbs_val gf_minus_one = modq - 1"
  unfolding mulgen_one_encoding enc_minus_one limbs_val_gf_minus_one by simp


subsection \<open>C5: key exchange\<close>

text \<open>
  C5: for an own key pair whose private scalar has 8 limbs and a peer public key whose point has
  8-limb coordinates with a partially reduced \<open>U\<close>, \<^verbatim>\<open>jq_ECDH\<close> writes 32 bytes and returns 1
  when the peer point is not the neutral (\<open>U\<close> is not zero in the field) and 0 when it is; the
  output is the BLAKE2s hash of the two ordered public keys, the domain byte and the shared
  secret, where for the neutral peer the domain byte is \<open>0x46\<close> instead of \<open>0x53\<close> and the
  secret is the encoding of the own private scalar instead of the encoded product.
\<close>

theorem jq_ECDH_result:
  assumes "point_ok (pk_point pk_peer)" and "gf_pr (U (pk_point pk_peer))"
    and "length (private_key jk_self) = 8"
  shows "length (fst (jq_ECDH jk_self pk_peer)) = 32
       \<and> snd (jq_ECDH jk_self pk_peer) = (if gfval (U (pk_point pk_peer)) = 0 then 0 else 1)
       \<and> fst (jq_ECDH jk_self pk_peer)
           = blake2s_final (blake2s_update (blake2s_update (blake2s_update (blake2s_init 32)
               (ecdh_order (pk_enc (public_key jk_self)) (pk_enc pk_peer)))
               [if gfval (U (pk_point pk_peer)) = 0 then 0x46 else 0x53])
               (if gfval (U (pk_point pk_peer)) = 0 then scalar_encode (private_key jk_self)
                else point_encode (point_mul (pk_point pk_peer) (private_key jk_self))))"
proof -
  define s where "s = private_key jk_self"
  define shared where "shared = point_encode (point_mul (pk_point pk_peer) s)"
  have ls: "length shared = 32"
    unfolding shared_def by (intro point_encode_length point_mul_ok assms(1))
  have lt: "length (scalar_encode s) = 32"
    using assms(3) by (simp add: scalar_encode_def length_enc32le_limbs s_def)
  have b: "ecdh_bad pk_peer = (if gfval (U (pk_point pk_peer)) = 0 then - 1 else 0)"
    using assms(2) by (rule ecdh_bad_val)
  have sh: "ecdh_shared jk_self pk_peer
            = (if gfval (U (pk_point pk_peer)) = 0 then scalar_encode s else shared)"
    unfolding ecdh_shared_def Let_def s_def [symmetric] shared_def [symmetric] b
    using ls lt by (simp add: mask_byte_ones map2_snd map2_fst)
  have dm: "ecdh_domain pk_peer = (if gfval (U (pk_point pk_peer)) = 0 then 0x46 else 0x53)"
    unfolding ecdh_domain_def b by simp
  have r: "sint (ecdh_bad pk_peer + 1) = (if gfval (U (pk_point pk_peer)) = 0 then 0 else 1)"
    unfolding b by simp
  have l: "length (fst (jq_ECDH jk_self pk_peer)) = 32"
    by (simp add: jq_ECDH_def Let_def blake2s_final_length blake2s_update_out_len blake2s_init_out_len)
  have f: "fst (jq_ECDH jk_self pk_peer)
           = blake2s_final (blake2s_update (blake2s_update (blake2s_update (blake2s_init 32)
               (ecdh_order (pk_enc (public_key jk_self)) (pk_enc pk_peer)))
               [ecdh_domain pk_peer]) (ecdh_shared jk_self pk_peer))"
    by (simp add: jq_ECDH_def Let_def)
  have g: "snd (jq_ECDH jk_self pk_peer) = sint (ecdh_bad pk_peer + 1)"
    by (simp add: jq_ECDH_def Let_def)
  show ?thesis unfolding f g r dm sh using l [unfolded f dm sh]
    by (simp add: s_def shared_def split: if_splits)
qed

theorem jq_ECDH_result_witness:
  "point_ok \<lparr>E = gf_one, Z = gf_one, U = gf_one, T = gf_one\<rparr>
   \<and> gf_pr gf_one \<and> length scalar_one = 8
   \<and> length (fst (jq_ECDH
         \<lparr>private_key = scalar_one,
            public_key = \<lparr>pk_point = point_neutral, pk_enc = replicate 32 0\<rparr>\<rparr>
         \<lparr>pk_point = \<lparr>E = gf_one, Z = gf_one, U = gf_one, T = gf_one\<rparr>,
            pk_enc = replicate 32 0\<rparr>)) = 32
   \<and> snd (jq_ECDH
         \<lparr>private_key = scalar_one,
            public_key = \<lparr>pk_point = point_neutral, pk_enc = replicate 32 0\<rparr>\<rparr>
         \<lparr>pk_point = \<lparr>E = gf_one, Z = gf_one, U = gf_one, T = gf_one\<rparr>,
            pk_enc = replicate 32 0\<rparr>) = 1"
proof -
  define peer where
    "peer = \<lparr>pk_point = \<lparr>E = gf_one, Z = gf_one, U = gf_one, T = gf_one\<rparr>, pk_enc = replicate 32 0\<rparr>"
  define self where
    "self = \<lparr>private_key = scalar_one,
              public_key = \<lparr>pk_point = point_neutral, pk_enc = replicate 32 0\<rparr>\<rparr>"
  have h1: "point_ok (pk_point peer)" by (simp add: peer_def point_ok_def)
  have h2: "gf_pr (U (pk_point peer))" by (simp add: peer_def gf_pr_one)
  have h3: "length (private_key self) = 8" by (simp add: self_def scalar_one_def)
  have v: "gfval (U (pk_point peer)) = 1" by (simp add: peer_def gfval_one)
  have a: "length (fst (jq_ECDH self peer)) = 32"
    using jq_ECDH_result [OF h1 h2 h3] by (rule conjunct1)
  have "snd (jq_ECDH self peer) = (if gfval (U (pk_point peer)) = 0 then 0 else 1)"
    using jq_ECDH_result [OF h1 h2 h3] by (elim conjE)
  then have b: "snd (jq_ECDH self peer) = 1" unfolding v by simp
  show ?thesis using h1 h2 h3 a b unfolding peer_def self_def by simp
qed


section \<open>The power \<open>2 ^ ((q - 1) / 2)\<close> modulo \<open>q\<close>\<close>

text \<open>
  Square and multiply along the bits of \<open>(q - 1) / 2\<close>; every step is certified by the quotient
  of the division by \<open>q = 2^255 - 18651\<close>. The result is \<open>q - 1\<close>: 2 is not a square modulo \<open>q\<close>.
\<close>

lemma pow_sq_mod:
  assumes "(x::int) mod modq = r"
  shows "(x * x) mod modq = (r * r) mod modq"
proof -
  have "(x * x) mod modq = ((x mod modq) * (x mod modq)) mod modq" by (simp only: mod_mult_eq)
  then show ?thesis by (simp only: assms)
qed

lemma pow_sq0:
  assumes "(b::int) ^ numeral n mod modq = r"
    and "r * r + 18651 * k = k * 57896044618658097711785492504343953926634992332820282019728792003956564819968 + r'"
    and "0 \<le> r'" and "r' < 57896044618658097711785492504343953926634992332820282019728792003956564801317"
  shows "b ^ numeral (Num.Bit0 n) mod modq = r'"
proof -
  have "b ^ numeral (Num.Bit0 n) = b ^ numeral n * b ^ numeral n"
    by (simp only: numeral_Bit0 power_add)
  then have "b ^ numeral (Num.Bit0 n) mod modq = (r * r) mod modq"
    using pow_sq_mod [OF assms(1)] by (simp only:)
  also have "r * r = k * modq + r'" using assms(2) by (simp add: modq_def algebra_simps)
  also have "(k * modq + r') mod modq = r'" using assms(3,4) by (simp add: modq_def)
  finally show ?thesis .
qed

lemma pow_sq1:
  assumes "(b::int) ^ numeral n mod modq = r"
    and "b * (r * r) + 18651 * k = k * 57896044618658097711785492504343953926634992332820282019728792003956564819968 + r'"
    and "0 \<le> r'" and "r' < 57896044618658097711785492504343953926634992332820282019728792003956564801317"
  shows "b ^ numeral (Num.Bit1 n) mod modq = r'"
proof -
  have "b ^ numeral (Num.Bit1 n) = b * (b ^ numeral n * b ^ numeral n)"
    by (simp only: numeral_Bit1 power_add power_one_right mult.commute mult.left_commute)
  then have "b ^ numeral (Num.Bit1 n) mod modq = (b * (b ^ numeral n * b ^ numeral n)) mod modq"
    by (simp only:)
  also have "\<dots> = (b * (r * r)) mod modq"
    using refl pow_sq_mod [OF assms(1)] by (rule mod_mult_cong)
  also have "b * (r * r) = k * modq + r'" using assms(2) by (simp add: modq_def algebra_simps)
  also have "(k * modq + r') mod modq = r'" using assms(3,4) by (simp add: modq_def)
  finally show ?thesis .
qed

lemma two_pow_7: "(2::int) ^ 127 mod modq = 170141183460469231731687303715884105728"
  by (simp add: modq_def)

lemma two_pow_8: "(2::int) ^ 255 mod modq = 18651"
  by (rule pow_sq1 [where k = 1, OF two_pow_7]) (simp_all only: arith_simps rel_simps)

lemma two_pow_9: "(2::int) ^ 511 mod modq = 695719602"
  by (rule pow_sq1 [where k = 0, OF two_pow_8]) (simp_all only: arith_simps rel_simps)

lemma two_pow_10: "(2::int) ^ 1023 mod modq = 968051529214076808"
  by (rule pow_sq1 [where k = 0, OF two_pow_9]) (simp_all only: arith_simps rel_simps)

lemma two_pow_11: "(2::int) ^ 2047 mod modq = 1874247526427425207323015487446937728"
  by (rule pow_sq1 [where k = 0, OF two_pow_10]) (simp_all only: arith_simps rel_simps)

lemma two_pow_12: "(2::int) ^ 4095 mod modq = 7025607580638643901866180056538673916473774761887204353873880809419603968"
  by (rule pow_sq1 [where k = 0, OF two_pow_11]) (simp_all only: arith_simps rel_simps)

lemma two_pow_13: "(2::int) ^ 8191 mod modq = 51012787243684848006334291834704757126555126749782115817911342967322621141716"
  by (rule pow_sq1 [where k = 1705096166836248907813666858915152091378459123166440106605690964100796, OF two_pow_12]) (simp_all only: arith_simps rel_simps)

lemma two_pow_14: "(2::int) ^ 16383 mod modq = 21169638912725499825049500165060762314584633376127873885072646556145886118218"
  by (rule pow_sq1 [where k = 89895759874788186014414364167801659202501899516213557640435797154965280084382, OF two_pow_13]) (simp_all only: arith_simps rel_simps)

lemma two_pow_15: "(2::int) ^ 32767 mod modq = 15121411517388670985123988392063507386182816272696731594937079813856631268912"
  by (rule pow_sq1 [where k = 15481320516695735962058149900168280921246566883454156972025189622250384474808, OF two_pow_14]) (simp_all only: arith_simps rel_simps)

lemma two_pow_16: "(2::int) ^ 65535 mod modq = 12755741008398886577946670743573329923533666714973478346967239374789365342847"
  by (rule pow_sq1 [where k = 7898884553661742522650306508305675251152150215049854805098769060776395990573, OF two_pow_15]) (simp_all only: arith_simps rel_simps)

lemma two_pow_17: "(2::int) ^ 131071 mod modq = 18800600164261576882764197325764843864271154638763107645619314206094356196650"
  by (rule pow_sq1 [where k = 5620726933767527450506347291327048724410447430023629051912208505291409971704, OF two_pow_16]) (simp_all only: arith_simps rel_simps)

lemma two_pow_18: "(2::int) ^ 262143 mod modq = 2580739987616486433350198301143398581697434272251162472583045539614081160861"
  by (rule pow_sq1 [where k = 12210249210099662671684939588920776187954593593416070297067623345699394122767, OF two_pow_17]) (simp_all only: arith_simps rel_simps)

lemma two_pow_19: "(2::int) ^ 524287 mod modq = 333062539646856282684752628098167411274329314941840652224965018641951407339"
  by (rule pow_sq1 [where k = 230075091573228502713608300459663716669184336676199919457173229719791952859, OF two_pow_18]) (simp_all only: arith_simps rel_simps)

lemma two_pow_20: "(2::int) ^ 1048575 mod modq = 958461844960585556593840054158735135794413143983959637991210073231015564378"
  by (rule pow_sq1 [where k = 3832063348944712087478692881222480439152582238354533514117116944516103992, OF two_pow_19]) (simp_all only: arith_simps rel_simps)

lemma two_pow_21: "(2::int) ^ 2097151 mod modq = 46504605868229185794069083709371456443827853809864011733723467759677432074365"
  by (rule pow_sq1 [where k = 31734434167172707268104287239770419173243372495229098055305131975089210159, OF two_pow_20]) (simp_all only: arith_simps rel_simps)

lemma two_pow_22: "(2::int) ^ 4194303 mod modq = 13180508593889098089180210296493096620232268585513421655847918478820841579220"
  by (rule pow_sq1 [where k = 74709019630068902128997745507775880325736060888048610658795767946074029481190, OF two_pow_21]) (simp_all only: arith_simps rel_simps)

lemma two_pow_23: "(2::int) ^ 8388607 mod modq = 34238894630833489387685490318637043871326610728571570130194479431647016199708"
  by (rule pow_sq1 [where k = 6001301399356664710914429193966985158096064440568007403782185412606967601076, OF two_pow_22]) (simp_all only: arith_simps rel_simps)

lemma two_pow_24: "(2::int) ^ 16777215 mod modq = 10123407421059895015104830563634136856842241701221016410413378757255627790169"
  by (rule pow_sq1 [where k = 40496787414852925522349162337473227367966061624879780596382283226517203554427, OF two_pow_23]) (simp_all only: arith_simps rel_simps)

lemma two_pow_25: "(2::int) ^ 33554431 mod modq = 53182534974452516604767547459936051076584752111225828725496649979065742666859"
  by (rule pow_sq1 [where k = 3540254899546050978467399787127120391018882860503541389447968341713822821739, OF two_pow_24]) (simp_all only: arith_simps rel_simps)

lemma two_pow_26: "(2::int) ^ 67108863 mod modq = 44731991508335720930757303423898641227193164358207857996927058674082116225592"
  by (rule pow_sq1 [where k = 97705535669611717317281371812927939586605366546432161106074368668474557289010, OF two_pow_25]) (simp_all only: arith_simps rel_simps)

lemma two_pow_27: "(2::int) ^ 134217727 mod modq = 35279801657821051697177848592654663858418767868629538620559642636997747504978"
  by (rule pow_sq1 [where k = 69122202647224526982232678615501800978601208591279492300893773872852128355350, OF two_pow_26]) (simp_all only: arith_simps rel_simps)

lemma two_pow_28: "(2::int) ^ 268435455 mod modq = 35921102418608223804410565919786148578826908490375462989775295542179281154753"
  by (rule pow_sq1 [where k = 42996526384950184746263228416449079713531682086628786128297840865332321558395, OF two_pow_27]) (simp_all only: arith_simps rel_simps)

lemma two_pow_29: "(2::int) ^ 536870911 mod modq = 41755366002111131714274301025846320503242091744945708359375754179923214355742"
  by (rule pow_sq1 [where k = 44573877454568276513892327514015334824829196778473726746776651531630511678228, OF two_pow_28]) (simp_all only: arith_simps rel_simps)

lemma two_pow_30: "(2::int) ^ 1073741823 mod modq = 28716679548995569333080913557103635257233235727507844683740169258263450467307"
  by (rule pow_sq1 [where k = 60229005330301228265383566995416099527409373591644265595928764265464872425113, OF two_pow_29]) (simp_all only: arith_simps rel_simps)

lemma two_pow_31: "(2::int) ^ 2147483647 mod modq = 10727707765907978326305449092043107030567286093396579350747616638039787305458"
  by (rule pow_sq1 [where k = 28487185601412985959815512765260721325681088388227425030284054943778915253120, OF two_pow_30]) (simp_all only: arith_simps rel_simps)

lemma two_pow_32: "(2::int) ^ 4294967295 mod modq = 43542251639379665286202537847594759479017754635698255407647524857698948480256"
  by (rule pow_sq1 [where k = 3975529405117061812563494846893533046449999756387248599158745829852548464616, OF two_pow_31]) (simp_all only: arith_simps rel_simps)

lemma two_pow_33: "(2::int) ^ 8589934591 mod modq = 21833072071353163105193258987227100374997819411391307985648898876244680740816"
  by (rule pow_sq1 [where k = 65494203975933185615678699512656550825232617945153765445920800090397596717168, OF two_pow_32]) (simp_all only: arith_simps rel_simps)

lemma two_pow_34: "(2::int) ^ 17179869183 mod modq = 16686938548259404460226084674705033988288896018820653455712785058848606695494"
  by (rule pow_sq1 [where k = 16466860187518971094118930866930050634403397273226914849853758843988085490354, OF two_pow_33]) (simp_all only: arith_simps rel_simps)

lemma two_pow_35: "(2::int) ^ 34359738367 mod modq = 536235262231769635304770224715861692221923095343819868005715664453076573193"
  by (rule pow_sq1 [where k = 9619099886614659271071044072977536250208729974177369035108726561933550755987, OF two_pow_34]) (simp_all only: arith_simps rel_simps)

lemma two_pow_36: "(2::int) ^ 68719476735 mod modq = 49699615863965267310905414347914168589069552654587705072165994438527734684009"
  by (rule pow_sq1 [where k = 9933260842075103368366136230268559032246597753238327718662115017591037317, OF two_pow_35]) (simp_all only: arith_simps rel_simps)

lemma two_pow_37: "(2::int) ^ 137438953471 mod modq = 50550975826905716029454117117971559841305826786002028844308249974633501793309"
  by (rule pow_sq1 [where k = 85327135326605266905880458440893102568455732205568084473039664313772059207009, OF two_pow_36]) (simp_all only: arith_simps rel_simps)

lemma two_pow_38: "(2::int) ^ 274877906943 mod modq = 887804070928055044262058663385900448928260930907382990852383263915849582848"
  by (rule pow_sq1 [where k = 88275500472751797756092205945903186736864275230227902549207017337092220822442, OF two_pow_37]) (simp_all only: arith_simps rel_simps)

lemma two_pow_39: "(2::int) ^ 549755813887 mod modq = 667494993674277928420476756171057236887284718311510328174723308292386255222"
  by (rule pow_sq1 [where k = 27227976403155384805300719495184905691427465630322586508364131888845441858, OF two_pow_38]) (simp_all only: arith_simps rel_simps)

lemma two_pow_40: "(2::int) ^ 1099511627775 mod modq = 24988144341277705632196071773744244616237735641104132530009613515730871952115"
  by (rule pow_sq1 [where k = 15391364626544368079919579475393127786787671408840876337827958168773613809, OF two_pow_39]) (simp_all only: arith_simps rel_simps)

lemma two_pow_41: "(2::int) ^ 2199023255551 mod modq = 32130984679187756811684620595457480171280394359041039513238359538425121074750"
  by (rule pow_sq1 [where k = 21569948749808097094711126999239292153625827032762934694944173048111195220100, OF two_pow_40]) (simp_all only: arith_simps rel_simps)

lemma two_pow_42: "(2::int) ^ 4398046511103 mod modq = 8952329627602990680320254533293818041808264375792503975803451467234556318677"
  by (rule pow_sq1 [where k = 35663927760670815534363482031262544179806508874947305671911424625652976588919, OF two_pow_41]) (simp_all only: arith_simps rel_simps)

lemma two_pow_43: "(2::int) ^ 8796093022207 mod modq = 7212580498233659479170390816642961747063157283971614830943208761053024072250"
  by (rule pow_sq1 [where k = 2768555478673591890698520427060515761206418991663799066365537931357224190424, OF two_pow_42]) (simp_all only: arith_simps rel_simps)

lemma two_pow_44: "(2::int) ^ 17592186044415 mod modq = 50123766188299718702110560449707343513892511409714593733713339195599638975885"
  by (rule pow_sq1 [where k = 1797059463600580688942427795626913998174220774689193633453056646308980672095, OF two_pow_43]) (simp_all only: arith_simps rel_simps)

lemma two_pow_45: "(2::int) ^ 35184372088831 mod modq = 34334278305887227280301186963138018046140120340799185575369537275804451647025"
  by (rule pow_sq1 [where k = 86789760974091559661367856427047416646504924402912640624412744345769885384525, OF two_pow_44]) (simp_all only: arith_simps rel_simps)

lemma two_pow_46: "(2::int) ^ 70368744177663 mod modq = 14330877727120085520925819143298336387322329219231383300712548749075636332905"
  by (rule pow_sq1 [where k = 40722735881207812153981978286891446612172895724230387568884789774390489429285, OF two_pow_45]) (simp_all only: arith_simps rel_simps)

lemma two_pow_47: "(2::int) ^ 140737488355327 mod modq = 972765584889135948457079811635090715233222746581026221979405908953487563391"
  by (rule pow_sq1 [where k = 7094579872680313159738324080129522023216298851516078281542101689005886252327, OF two_pow_46]) (simp_all only: arith_simps rel_simps)

lemma two_pow_48: "(2::int) ^ 281474976710655 mod modq = 30251719402291518158139802321890933400320887735283065973671853777919716449430"
  by (rule pow_sq1 [where k = 32688688471811367414708215751254068187594481741067238242537401852916620796, OF two_pow_47]) (simp_all only: arith_simps rel_simps)

lemma two_pow_49: "(2::int) ^ 562949953421311 mod modq = 48742936425508046344442058063752881481121848736035865371117194913098551214634"
  by (rule pow_sq1 [where k = 31614129525527252677471724953868549639135078487534712419031081553257009683398, OF two_pow_48]) (simp_all only: arith_simps rel_simps)

lemma two_pow_50: "(2::int) ^ 1125899906842623 mod modq = 51600447983095432145771485438537239115558159648705891700662809868847176728828"
  by (rule pow_sq1 [where k = 82073788184675011190606201764089744463496368719687598320830704568291429221852, OF two_pow_49]) (simp_all only: arith_simps rel_simps)

lemma two_pow_51: "(2::int) ^ 2251799813685247 mod modq = 15834415567128311225735441115303780782415594052597841128912980867691344572255"
  by (rule pow_sq1 [where k = 91978864863526864397060572611039045157312335540770246934124877175814837358189, OF two_pow_50]) (simp_all only: arith_simps rel_simps)

lemma two_pow_52: "(2::int) ^ 4503599627370495 mod modq = 12799642624076561885603519218034322728722418073764470558907105184976561120504"
  by (rule pow_sq1 [where k = 8661341824091151021218301296798411820098391933572273743127262380933013673538, OF two_pow_51]) (simp_all only: arith_simps rel_simps)

lemma two_pow_53: "(2::int) ^ 9007199254740991 mod modq = 16935286583680796765217002814049330178180058939137172271142909746144546882930"
  by (rule pow_sq1 [where k = 5659483385546512375106827156669967146619090229756170522950606977654211391606, OF two_pow_52]) (simp_all only: arith_simps rel_simps)

lemma two_pow_54: "(2::int) ^ 18014398509481983 mod modq = 44546430281061733941525935107795094003970068048994311166202954449918510176753"
  by (rule pow_sq1 [where k = 9907548384711959739433493793991702345635611258377669425025667653650522599691, OF two_pow_53]) (simp_all only: arith_simps rel_simps)

lemma two_pow_55: "(2::int) ^ 36028797018963967 mod modq = 55938280419360641596769360325609405524278367480738554029993316372162030382362"
  by (rule pow_sq1 [where k = 68549914380368163944781722641815267540722575147922053272230429770882444287368, OF two_pow_54]) (simp_all only: arith_simps rel_simps)

lemma two_pow_56: "(2::int) ^ 72057594037927935 mod modq = 17041929726345847712870033357081606009766155412944590354724679809927961294250"
  by (rule pow_sq1 [where k = 108093436672066443909978416299894254983482251008072408325910652643062082166214, OF two_pow_55]) (simp_all only: arith_simps rel_simps)

lemma two_pow_57: "(2::int) ^ 144115188075855871 mod modq = 55125432934278019191328837785243257809671096639918329979827387795918718653200"
  by (rule pow_sq1 [where k = 10032718839798411226851324841483796539772437881047967560341314769771995085400, OF two_pow_56]) (simp_all only: arith_simps rel_simps)

lemma two_pow_58: "(2::int) ^ 288230376151711743 mod modq = 23013521404370277479662675909034468964480374280921104767891026295189963152345"
  by (rule pow_sq1 [where k = 104974817406171077348776692911605683801155589001553493378133562242468604058715, OF two_pow_57]) (simp_all only: arith_simps rel_simps)

lemma two_pow_59: "(2::int) ^ 576460752303423487 mod modq = 40112646824097390838272788519044842687722728678436390609923292956540041641720"
  by (rule pow_sq1 [where k = 18295625233739305464358140728929029093012715937061622394179343395295523283490, OF two_pow_58]) (simp_all only: arith_simps rel_simps)

lemma two_pow_60: "(2::int) ^ 1152921504606846975 mod modq = 20550279715602092842237627695942542091237037723286519456325953630129432078724"
  by (rule pow_sq1 [where k = 55583224927812490826201641074068952610693913288140857290040569407439282583628, OF two_pow_59]) (simp_all only: arith_simps rel_simps)

lemma two_pow_61: "(2::int) ^ 2305843009213693951 mod modq = 46695015251513900511467230240858697338069999634438019243538003058996405276428"
  by (rule pow_sq1 [where k = 14588699423980620057760497761641955855113155019537383986715570742975387210372, OF two_pow_60]) (simp_all only: arith_simps rel_simps)

lemma two_pow_62: "(2::int) ^ 4611686018427387903 mod modq = 11813445599337428183804491547362131872462887238957050755324926052354960989015"
  by (rule pow_sq1 [where k = 75322052264566366315806507793378968352883224168876953704816469046315412407509, OF two_pow_61]) (simp_all only: arith_simps rel_simps)

lemma two_pow_63: "(2::int) ^ 9223372036854775807 mod modq = 53010715794428148258783302402894313739370876569812597531034150757908232076013"
  by (rule pow_sq1 [where k = 4820968266406572420561727096509487359415997396163115301961394051044300817361, OF two_pow_62]) (simp_all only: arith_simps rel_simps)

lemma two_pow_64: "(2::int) ^ 18446744073709551615 mod modq = 7614873223546593497125783768933173180019998837805894382257541623293761685124"
  by (rule pow_sq1 [where k = 97075232256264164800939603524052616178590034466830012249268057980714325570742, OF two_pow_63]) (simp_all only: arith_simps rel_simps)

lemma two_pow_65: "(2::int) ^ 36893488147419103231 mod modq = 30309186778943708629516713843733544239695598287241516008324647985228940810733"
  by (rule pow_sq1 [where k = 2003117642755156567161871808925553155045502798081582581810493430356021132407, OF two_pow_64]) (simp_all only: arith_simps rel_simps)

lemma two_pow_66: "(2::int) ^ 73786976294838206463 mod modq = 16572746559677033685790120091660162276753668595454552426147057654074204369851"
  by (rule pow_sq1 [where k = 31734354540166454120823339185292583574322897885937071420086634855838595886731, OF two_pow_65]) (simp_all only: arith_simps rel_simps)

lemma two_pow_67: "(2::int) ^ 147573952589676412927 mod modq = 5466197279390934226760068585672794508015729006696421843704122674978619216102"
  by (rule pow_sq1 [where k = 9487899573808670072449264562997542897870150008034740659486364679561055319900, OF two_pow_66]) (simp_all only: arith_simps rel_simps)

lemma two_pow_68: "(2::int) ^ 295147905179352825855 mod modq = 37719050524174200732941599508965174220213328105373981344572810675431457626669"
  by (rule pow_sq1 [where k = 1032171123054291561040609384057977230151073807388551535198446585188258536767, OF two_pow_67]) (simp_all only: arith_simps rel_simps)

lemma two_pow_69: "(2::int) ^ 590295810358705651711 mod modq = 32332546685025573961595159710817693841583598461789028830277355603882739331203"
  by (rule pow_sq1 [where k = 49147632858729191285020879930200432897613861692629713530330575104247890347107, OF two_pow_68]) (simp_all only: arith_simps rel_simps)

lemma two_pow_70: "(2::int) ^ 1180591620717411303423 mod modq = 21710850367169576924225322819465422851953608807106468962704631149156664775871"
  by (rule pow_sq1 [where k = 36112780485265148437108386642194179851947251341791549565597006308523758631191, OF two_pow_69]) (simp_all only: arith_simps rel_simps)

lemma two_pow_71: "(2::int) ^ 2361183241434822606847 mod modq = 28385834091765425355222792873913507096579448281048159036380806482294782343859"
  by (rule pow_sq1 [where k = 16283013002712877187492274418091370226802405190856148241753136323479221605219, OF two_pow_70]) (simp_all only: arith_simps rel_simps)

lemma two_pow_72: "(2::int) ^ 4722366482869645213695 mod modq = 38682463368082675877899293243211852901230776557839500203768950641910854477008"
  by (rule pow_sq1 [where k = 27834563911661843094269735746914410753637339861074294932338524970442107910362, OF two_pow_71]) (simp_all only: arith_simps rel_simps)

lemma two_pow_73: "(2::int) ^ 9444732965739290427391 mod modq = 8101986022014796037598960247982353288722620720002652991244522999516624485763"
  by (rule pow_sq1 [where k = 51690335050655134240223835210823146110600846597785642530782845613818251572345, OF two_pow_72]) (simp_all only: arith_simps rel_simps)

lemma two_pow_74: "(2::int) ^ 18889465931478580854783 mod modq = 15225541686892711239476238787550304904571704436079354028968814967102564756198"
  by (rule pow_sq1 [where k = 2267587636885601791666838122467018910136002005344456622581102691516042975420, OF two_pow_73]) (simp_all only: arith_simps rel_simps)

lemma two_pow_75: "(2::int) ^ 37778931862957161709567 mod modq = 26505967513505060762207628339010683613516587961701197895312394430897299565801"
  by (rule pow_sq1 [where k = 8008046877337119034147352051690607408063258062136087912333062237783958328371, OF two_pow_74]) (simp_all only: arith_simps rel_simps)

lemma two_pow_76: "(2::int) ^ 75557863725914323419135 mod modq = 26149310510345359947635623365139497755866085701735444003116102834667751001516"
  by (rule pow_sq1 [where k = 24269924429364915293340013101115862350965178717873786021555082106649352640958, OF two_pow_75]) (simp_all only: arith_simps rel_simps)

lemma two_pow_77: "(2::int) ^ 151115727451828646838271 mod modq = 46422552942679985069421800141234595499120864023968473959025019620554255511275"
  by (rule pow_sq1 [where k = 23621179811862144676402035553156441509600962715667988234542740213472791799761, OF two_pow_76]) (simp_all only: arith_simps rel_simps)

lemma two_pow_78: "(2::int) ^ 302231454903657293676543 mod modq = 3237429340574281538857654482256720241530515210720325661368764573237440716611"
  by (rule pow_sq1 [where k = 74445618380687074783478101318975402452646604565875400625917797170492473699267, OF two_pow_77]) (simp_all only: arith_simps rel_simps)

lemma two_pow_79: "(2::int) ^ 604462909807314587353087 mod modq = 8060118273290417415961788421152926814979604550323799993793930262985773956323"
  by (rule pow_sq1 [where k = 362060959578352370767939565347543654569794018219632185734028533215112570307, OF two_pow_78]) (simp_all only: arith_simps rel_simps)

lemma two_pow_80: "(2::int) ^ 1208925819614629174706175 mod modq = 17963732753253199391182628394405636706253520203610365670618534235220716431376"
  by (rule pow_sq1 [where k = 2244212260348221928504055144167207895271596079803013362948212498682936861146, OF two_pow_79]) (simp_all only: arith_simps rel_simps)

lemma two_pow_81: "(2::int) ^ 2417851639229258349412351 mod modq = 11232905217571098946670986210354925152088917116986180834584700849472924701392"
  by (rule pow_sq1 [where k = 11147417636413350685265210718202646742138693129578180348073475926000482100080, OF two_pow_80]) (simp_all only: arith_simps rel_simps)

lemma two_pow_82: "(2::int) ^ 4835703278458516698824703 mod modq = 3153782119684804724847243238317864368525853333625552423315555071340983176050"
  by (rule pow_sq1 [where k = 4358783418039328866523276469524452305245193206426040848553975961096716588534, OF two_pow_81]) (simp_all only: arith_simps rel_simps)

lemma two_pow_83: "(2::int) ^ 9671406556917033397649407 mod modq = 13097386753144803189678271051311531884108463247912872852193622432487703312259"
  by (rule pow_sq1 [where k = 343593132275505495806580520796496896191285968635512627068777608263919979873, OF two_pow_82]) (simp_all only: arith_simps rel_simps)

lemma two_pow_84: "(2::int) ^ 19342813113834066795298815 mod modq = 38352345475916234390332059368274580632365382601722191970750943943245195416566"
  by (rule pow_sq1 [where k = 5925846606321374060247677347374551131802213041181606833450717300578110206188, OF two_pow_83]) (simp_all only: arith_simps rel_simps)

lemma two_pow_85: "(2::int) ^ 38685626227668133590597631 mod modq = 44476786266683497812465550403863966387654959758686102713297614415991658594057"
  by (rule pow_sq1 [where k = 50811844339017462794938864976169645295885049646131465819655920711076412637715, OF two_pow_84]) (simp_all only: arith_simps rel_simps)

lemma two_pow_86: "(2::int) ^ 77371252455336267181195263 mod modq = 54061762717561290648829046295790551773089506605580459984252886482046345761093"
  by (rule pow_sq1 [where k = 68335739674165524633067123370253868122801357425407555968332256473892351445465, OF two_pow_85]) (simp_all only: arith_simps rel_simps)

lemma two_pow_87: "(2::int) ^ 154742504910672534362390527 mod modq = 53640677875243375191386553729844842928305855837977784913113093757186262180065"
  by (rule pow_sq1 [where k = 100962827681254508145323106804277138721476738700769329358711037232796499049149, OF two_pow_86]) (simp_all only: arith_simps rel_simps)

lemma two_pow_88: "(2::int) ^ 309485009821345068724781055 mod modq = 898853729297915053060144824737774689353383563119483142138446160207026925548"
  by (rule pow_sq1 [where k = 99396162272140866845604127310221616398269458877348364659837897423679351975006, OF two_pow_87]) (simp_all only: arith_simps rel_simps)

lemma two_pow_89: "(2::int) ^ 618970019642690137449562111 mod modq = 41362559691858604160751871911790509993987834984246066243480618083361773425262"
  by (rule pow_sq1 [where k = 27909955921665716399092622055150464198592960356267911134761431638480420938, OF two_pow_88]) (simp_all only: arith_simps rel_simps)

lemma two_pow_90: "(2::int) ^ 1237940039285380274899124223 mod modq = 21160492123450323023605353470560739549736096317902091017690321514702617028849"
  by (rule pow_sq1 [where k = 59101147773787940330583938093751888752684289302841969029358831294360999590667, OF two_pow_89]) (simp_all only: arith_simps rel_simps)

lemma two_pow_91: "(2::int) ^ 2475880078570760549798248447 mod modq = 43663761269590605572639705443630259983747420809083512199234758212596423456310"
  by (rule pow_sq1 [where k = 15467945344311205083583829572731773054786298305641288824707768021504361099676, OF two_pow_90]) (simp_all only: arith_simps rel_simps)

lemma two_pow_92: "(2::int) ^ 4951760157141521099596496895 mod modq = 50040760733038146282551631237130010700742824985026493470446875657172718956003"
  by (rule pow_sq1 [where k = 65860252138654290796031011837699900263162857736199973079175442009184313896641, OF two_pow_91]) (simp_all only: arith_simps rel_simps)

lemma two_pow_93: "(2::int) ^ 9903520314283042199192993791 mod modq = 39193640002954989608825374599610946730487531160105842896757074724401288842271"
  by (rule pow_sq1 [where k = 86502549569135364532149500081433633871444062121459542723511633332353030564791, OF two_pow_92]) (simp_all only: arith_simps rel_simps)

lemma two_pow_94: "(2::int) ^ 19807040628566084398385987583 mod modq = 46210027195493975891987559969403331815424462318246130703195920868748352835321"
  by (rule pow_sq1 [where k = 53065504795682809428790626593584419599329276785780738538014840187533804253333, OF two_pow_93]) (simp_all only: arith_simps rel_simps)

lemma two_pow_95: "(2::int) ^ 39614081257132168796771975167 mod modq = 55828292432667135621942211023290066031325979643425133207279988344269985883173"
  by (rule pow_sq1 [where k = 73765544001260855839565055574955130380457627331841655443473113236711669259577, OF two_pow_94]) (simp_all only: arith_simps rel_simps)

lemma two_pow_96: "(2::int) ^ 79228162514264337593543950335 mod modq = 28181747123321225560495743950908254859121727346182877419710454361717713351841"
  by (rule pow_sq1 [where k = 107668779671451035672385623231615247589182391758048561899305655159452999583101, OF two_pow_95]) (simp_all only: arith_simps rel_simps)

lemma two_pow_97: "(2::int) ^ 158456325028528675187087900671 mod modq = 27657947237107624081443194529875882435798691117804147951567902818738652570267"
  by (rule pow_sq1 [where k = 27435755798311467582328855646849482926361777085317774142272975836385886116635, OF two_pow_96]) (simp_all only: arith_simps rel_simps)

lemma two_pow_98: "(2::int) ^ 316912650057057350374175801343 mod modq = 50547339530938417374920566746376283272744097030036872582451367840994871187999"
  by (rule pow_sq1 [where k = 26425364648282233037466553426550403977390774270789617675316430159122608000087, OF two_pow_97]) (simp_all only: arith_simps rel_simps)

lemma two_pow_99: "(2::int) ^ 633825300114114700748351602687 mod modq = 39598423093995237984162713491511494740281870922255801026427997001296502372072"
  by (rule pow_sq1 [where k = 88262801042286112967426263927878111170110729718940695693032209008797926582290, OF two_pow_98]) (simp_all only: arith_simps rel_simps)

lemma two_pow_100: "(2::int) ^ 1267650600228229401496703205375 mod modq = 42169901246422894736759950297136568915579954494603088162721921495287848510106"
  by (rule pow_sq1 [where k = 54167262093954044029313364385851776574526782571119901850043837875792469119086, OF two_pow_99]) (simp_all only: arith_simps rel_simps)

lemma two_pow_101: "(2::int) ^ 2535301200456458802993406410751 mod modq = 526504295530640274597824873235726149093146110634311188031980379510410993820"
  by (rule pow_sq1 [where k = 61430813895703270444114193134531751752026112463045955552021389630511619869756, OF two_pow_100]) (simp_all only: arith_simps rel_simps)

lemma two_pow_102: "(2::int) ^ 5070602400912917605986812821503 mod modq = 34535844844579757559479608713990677653517505540976464163064597256032031987069"
  by (rule pow_sq1 [where k = 9576017672298140240250049950511637492597088472939278201384305647717538343, OF two_pow_101]) (simp_all only: arith_simps rel_simps)

lemma two_pow_103: "(2::int) ^ 10141204801825835211973625643007 mod modq = 53740250131865782207895544776513592756912804735276563557206954771208959843213"
  by (rule pow_sq1 [where k = 41202282020644571516518395992847972765715661060531655762569329790168538615777, OF two_pow_102]) (simp_all only: arith_simps rel_simps)

lemma two_pow_104: "(2::int) ^ 20282409603651670423947251286015 mod modq = 19653917448389239761377880033177939053365778838259459529011226650492413074940"
  by (rule pow_sq1 [where k = 99765519501647710711481301359741189629321932717401531822935962890471852984094, OF two_pow_103]) (simp_all only: arith_simps rel_simps)

lemma two_pow_105: "(2::int) ^ 40564819207303340847894502572031 mod modq = 56198218184445066259723852949467070502932854597324288837671941092213323813019"
  by (rule pow_sq1 [where k = 13343794852044662508140215070172494844306418606078637914289348241702145620193, OF two_pow_104]) (simp_all only: arith_simps rel_simps)

lemma two_pow_106: "(2::int) ^ 81129638414606681695789005144063 mod modq = 39097311454392934196245441708209740001662933861168802779352459414270566781796"
  by (rule pow_sq1 [where k = 109100362482748588583187054749857093273927356090200008769977413115853931242678, OF two_pow_105]) (simp_all only: arith_simps rel_simps)

lemma two_pow_107: "(2::int) ^ 162259276829213363391578010288127 mod modq = 7625675809198963758827233015875406005900651815820928598737880110356030445127"
  by (rule pow_sq1 [where k = 52804980824862245925159634876393170815930193379961175410754361261479280646565, OF two_pow_106]) (simp_all only: arith_simps rel_simps)

lemma two_pow_108: "(2::int) ^ 324518553658426726783156020576255 mod modq = 18324415062630253810272739834979352362995213649353283279126312800437984222385"
  by (rule pow_sq1 [where k = 2008804985902682231618482851577836514054305217186585602443011748912438087069, OF two_pow_107]) (simp_all only: arith_simps rel_simps)

lemma two_pow_109: "(2::int) ^ 649037107316853453566312041152511 mod modq = 37489986799199830380829020878368848657648007880068269972490994685853371121030"
  by (rule pow_sq1 [where k = 11599555361657217943919911539082137485046943364248752427453409709722975589260, OF two_pow_108]) (simp_all only: arith_simps rel_simps)

lemma two_pow_110: "(2::int) ^ 1298074214633706907132624082305023 mod modq = 25564994538971119158526620987449471689744077884011863840645667105947811824234"
  by (rule pow_sq1 [where k = 48552508879034158256503836708366741164969704133375905283095584680459742030598, OF two_pow_109]) (simp_all only: arith_simps rel_simps)

lemma two_pow_111: "(2::int) ^ 2596148429267413814265248164610047 mod modq = 36494437992895878130163751864380453763685502473001833904500051992331770593451"
  by (rule pow_sq1 [where k = 22577326312443740421178376786241870798660360717449508180418853471714001799833, OF two_pow_110]) (simp_all only: arith_simps rel_simps)

lemma two_pow_112: "(2::int) ^ 5192296858534827628530496329220095 mod modq = 2454483992240130255548653122169753080706815226360557816141036402353004323732"
  by (rule pow_sq1 [where k = 46008117244959775931160283984372406636168490334989056516965008921545402760710, OF two_pow_111]) (simp_all only: arith_simps rel_simps)

lemma two_pow_113: "(2::int) ^ 10384593717069655257060992658440191 mod modq = 13781099240458549311925469960380011176705698244617661867122505924373329599158"
  by (rule pow_sq1 [where k = 208114102020072755546766075930859379217633396787147815800267568132430167970, OF two_pow_112]) (simp_all only: arith_simps rel_simps)

lemma two_pow_114: "(2::int) ^ 20769187434139310514121985316880383 mod modq = 45248801319220197596509789868766876102645103277844283807503335217286735037779"
  by (rule pow_sq1 [where k = 6560679491191434699398757993600238718104080432720795511881358788590795617297, OF two_pow_113]) (simp_all only: arith_simps rel_simps)

lemma two_pow_115: "(2::int) ^ 41538374868278621028243970633760767 mod modq = 18031665901316401546591811178825688625327954979196226671519198080200619903809"
  by (rule pow_sq1 [where k = 70728632130645851744233784541513328681883288139272194227215502154140142083069, OF two_pow_114]) (simp_all only: arith_simps rel_simps)

lemma two_pow_116: "(2::int) ^ 83076749736557242056487941267521535 mod modq = 1418056341893300942669055902912707309748470528741524335256997998809330399192"
  by (rule pow_sq1 [where k = 11231889063174923488440876641037286314898592661088201953033282681812106003810, OF two_pow_115]) (simp_all only: arith_simps rel_simps)

lemma two_pow_117: "(2::int) ^ 166153499473114484112975882535043071 mod modq = 45002025941650303404791244901917568417427581854933516136011936437023679298165"
  by (rule pow_sq1 [where k = 69465325378575689431365128645868530479584274522036907378822838667961398639, OF two_pow_116]) (simp_all only: arith_simps rel_simps)

lemma two_pow_118: "(2::int) ^ 332306998946228968225951765070086143 mod modq = 48241578692859792129877111137850066561543391604646642471079674619113278797164"
  by (rule pow_sq1 [where k = 69959264132538459591090580046260343250571594260239822595203600337612469967758, OF two_pow_117]) (simp_all only: arith_simps rel_simps)

lemma two_pow_119: "(2::int) ^ 664613997892457936451903530140172287 mod modq = 6702624662891231623240529442246623999123728523907462674795246677027183620997"
  by (rule pow_sq1 [where k = 80394090135455764646501782135743509584078038052743663571032837843069877811135, OF two_pow_118]) (simp_all only: arith_simps rel_simps)

lemma two_pow_120: "(2::int) ^ 1329227995784915872903807060280344575 mod modq = 38358210623400752256969689027712262190400284244174326416766602001961128344206"
  by (rule pow_sq1 [where k = 1551925616594533522307150705350241039380232317538383294055784759262541729236, OF two_pow_119]) (simp_all only: arith_simps rel_simps)

lemma two_pow_121: "(2::int) ^ 2658455991569831745807614120560689151 mod modq = 11006494776444104181618268921097295232756058613226653360397306059177863309557"
  by (rule pow_sq1 [where k = 50827386634803136584453440947001890934993673136222204930031024436119357348695, OF two_pow_120]) (simp_all only: arith_simps rel_simps)

lemma two_pow_122: "(2::int) ^ 5316911983139663491615228241121378303 mod modq = 49838408501212116670337173745183411966655510884307383425127238864431080476633"
  by (rule pow_sq1 [where k = 4184842956434047879372672053634914750905942791328878039097374356931856399845, OF two_pow_121]) (simp_all only: arith_simps rel_simps)

lemma two_pow_123: "(2::int) ^ 10633823966279326983230456482242756607 mod modq = 25369165557178269622779360236488756077074781815795681552451553965034342054346"
  by (rule pow_sq1 [where k = 85804375006758889191746990461444368761240882242524631036137295858236421347896, OF two_pow_122]) (simp_all only: arith_simps rel_simps)

lemma two_pow_124: "(2::int) ^ 21267647932558653966460912964485513215 mod modq = 38087437793379284976965100398778562492760625209582038525018314658938619477469"
  by (rule pow_sq1 [where k = 22232764442084517729400026599906200859768300529881671949388154496055377029839, OF two_pow_123]) (simp_all only: arith_simps rel_simps)

lemma two_pow_125: "(2::int) ^ 42535295865117307932921825928971026431 mod modq = 31571948976902781471940855426070958929722356475002783753238921327178093587635"
  by (rule pow_sq1 [where k = 50112332447561928923035778450865433510667695601081161422647832986608507039411, OF two_pow_124]) (simp_all only: arith_simps rel_simps)

lemma two_pow_126: "(2::int) ^ 85070591730234615865843651857942052863 mod modq = 43812437445200186174120239867204916474809859860929070166892602983584960972236"
  by (rule pow_sq1 [where k = 34433715420998510708678090631273916083320193647030021589955329002255612761742, OF two_pow_125]) (simp_all only: arith_simps rel_simps)

lemma two_pow_127: "(2::int) ^ 170141183460469231731687303715884105727 mod modq = 40333755289170245961960404723632963694619544831574857726386464029532038133760"
  by (rule pow_sq1 [where k = 66309527275408192459614009596901963917303206319173720653107383010842926337696, OF two_pow_126]) (simp_all only: arith_simps rel_simps)

lemma two_pow_128: "(2::int) ^ 340282366920938463463374607431768211455 mod modq = 8639182569964889310389015285353326408828342532261627973289692949340270514465"
  by (rule pow_sq1 [where k = 56197684192139020496810772328253891001476144738007397759799739646633610059955, OF two_pow_127]) (simp_all only: arith_simps rel_simps)

lemma two_pow_129: "(2::int) ^ 680564733841876926926749214863536422911 mod modq = 38505483515667305475263780993027513518129645531446643543807644785073778873066"
  by (rule pow_sq1 [where k = 2578258185642355713109372171813319187519950640476864923322915831595452877752, OF two_pow_128]) (simp_all only: arith_simps rel_simps)

lemma two_pow_130: "(2::int) ^ 1361129467683753853853498429727072845823 mod modq = 32271282879386889838712545327073751336915298019221998804781232164043123538691"
  by (rule pow_sq1 [where k = 51218430224074663549550900413613986149189708928748645652071027802844662759713, OF two_pow_129]) (simp_all only: arith_simps rel_simps)

lemma two_pow_131: "(2::int) ^ 2722258935367507707706996859454145691647 mod modq = 54725469775078474705654722949260876766463713849204056045138018371611944953795"
  by (rule pow_sq1 [where k = 35976056932420803017428363657756587726737033169557389978962504885560122398051, OF two_pow_130]) (simp_all only: arith_simps rel_simps)

lemma two_pow_132: "(2::int) ^ 5444517870735015415413993718908291383295 mod modq = 54338467345912223394310125256968387382518940092636389412766572730793781990702"
  by (rule pow_sq1 [where k = 103457051749537715073259558051995391302828707116159029945691024391160158676244, OF two_pow_131]) (simp_all only: arith_simps rel_simps)

lemma two_pow_133: "(2::int) ^ 10889035741470030830827987437816582766591 mod modq = 43450694415711179190377423604069248308390425322968870338475001470166091659889"
  by (rule pow_sq1 [where k = 101998989842950875154444213762055928419072165963644669175124284433360844634507, OF two_pow_132]) (simp_all only: arith_simps rel_simps)

lemma two_pow_134: "(2::int) ^ 21778071482940061661655974875633165533183 mod modq = 40668507250071626273637066884088366901732713327154013305333172250838729375121"
  by (rule pow_sq1 [where k = 65219061427871113709215952476837280852168340370186477919634865339713896637213, OF two_pow_133]) (simp_all only: arith_simps rel_simps)

lemma two_pow_135: "(2::int) ^ 43556142965880123323311949751266331066367 mod modq = 2726534716073008346822918321458178240653895272789077945525132877703981452689"
  by (rule pow_sq1 [where k = 57134386048062390464705192639835881481885580544470485879551244052093613475229, OF two_pow_134]) (simp_all only: arith_simps rel_simps)

lemma two_pow_136: "(2::int) ^ 87112285931760246646623899502532662132735 mod modq = 13148933326663877203995375308332147832802989824222676557542825535078764388189"
  by (rule pow_sq1 [where k = 256804816526467010512917034590222757258188015567864841622495502675427094209, OF two_pow_135]) (simp_all only: arith_simps rel_simps)

lemma two_pow_137: "(2::int) ^ 174224571863520493293247799005065324265471 mod modq = 10098721102174591512206946947260250896977783761165924146185641550974242002312"
  by (rule pow_sq1 [where k = 5972582367857767739622924670965114181987319381411656418675235630431296925890, OF two_pow_136]) (simp_all only: arith_simps rel_simps)

lemma two_pow_138: "(2::int) ^ 348449143727040986586495598010130648530943 mod modq = 48981148078317317517119734566471099970980416865681846589120478251705164440481"
  by (rule pow_sq1 [where k = 3523009855724757587923073239959758469885623673648533634724780996264139925171, OF two_pow_137]) (simp_all only: arith_simps rel_simps)

lemma two_pow_139: "(2::int) ^ 696898287454081973172991196020261297061887 mod modq = 18733307963388311979950612265940305803718803622336099348345354990304793514423"
  by (rule pow_sq1 [where k = 82877954197820130976055155544892651529119715616700190109151215631289439699247, OF two_pow_138]) (simp_all only: arith_simps rel_simps)

lemma two_pow_140: "(2::int) ^ 1393796574908163946345982392040522594123775 mod modq = 53391720841030856652393807334074240774267315475595685512792110658435561319290"
  by (rule pow_sq1 [where k = 12122998369323900276050783201744891924858919570069622821628700891354167408904, OF two_pow_139]) (simp_all only: arith_simps rel_simps)

lemma two_pow_141: "(2::int) ^ 2787593149816327892691964784081045188247551 mod modq = 44680442091727025113845418149089293767152777442694024593463842257493216035424"
  by (rule pow_sq1 [where k = 98475668696990205179974150550147853779134510753771645021692745017593391542728, OF two_pow_140]) (simp_all only: arith_simps rel_simps)

lemma two_pow_142: "(2::int) ^ 5575186299632655785383929568162090376495103 mod modq = 2142438010733436953119239611643619153903513067491203271202180292912351579839"
  by (rule pow_sq1 [where k = 68962980758406181085956662521043767248353158059695634345369397388406565092589, OF two_pow_141]) (simp_all only: arith_simps rel_simps)

lemma two_pow_143: "(2::int) ^ 11150372599265311570767859136324180752990207 mod modq = 49491271225726105021138784452624192845408134838709243179335949484225033220306"
  by (rule pow_sq1 [where k = 158561458215963130675842661702377513146752408176221000797963657955798353008, OF two_pow_142]) (simp_all only: arith_simps rel_simps)

lemma two_pow_144: "(2::int) ^ 22300745198530623141535718272648361505980415 mod modq = 32582069033872188069420067388760884205260877781459399415271078635374504770644"
  by (rule pow_sq1 [where k = 84613238906791352101686533554960210618123269082088898286910015473893161058084, OF two_pow_143]) (simp_all only: arith_simps rel_simps)

lemma two_pow_145: "(2::int) ^ 44601490397061246283071436545296723011960831 mod modq = 38805353857982024490785471822740953499293365396180064371148402404937519607569"
  by (rule pow_sq1 [where k = 36672322937442778138335485219671704616720817726136105403067382680804412122659, OF two_pow_144]) (simp_all only: arith_simps rel_simps)

lemma two_pow_146: "(2::int) ^ 89202980794122492566142873090593446023921663 mod modq = 26964500816293368784673599517107547061264742557045896242471554777880107702632"
  by (rule pow_sq1 [where k = 52019287257420342663585413580867829567927797250199165645177820171423025209170, OF two_pow_145]) (simp_all only: arith_simps rel_simps)

lemma two_pow_147: "(2::int) ^ 178405961588244985132285746181186892047843327 mod modq = 32344470576057992498226105603970875721713800991159384181261587735162858593314"
  by (rule pow_sq1 [where k = 25116890421822324410405108671088862170082610365821220419696984043961450061702, OF two_pow_146]) (simp_all only: arith_simps rel_simps)

lemma two_pow_148: "(2::int) ^ 356811923176489970264571492362373784095686655 mod modq = 31421947572052672834596504022406544522801322061426108220035054738583898032925"
  by (rule pow_sq1 [where k = 36139421396961367452209717774681538579236590299504884894761447719126854630351, OF two_pow_147]) (simp_all only: arith_simps rel_simps)

lemma two_pow_149: "(2::int) ^ 713623846352979940529142984724747568191373311 mod modq = 48324850998715516963690020025707152977687124472147126138386982539861535428780"
  by (rule pow_sq1 [where k = 34107296818775706930194292275191860308864617304067064483537201774227535052910, OF two_pow_148]) (simp_all only: arith_simps rel_simps)

lemma two_pow_150: "(2::int) ^ 1427247692705959881058285969449495136382746623 mod modq = 34489317355123497738391618758034261304812281027013875428716653678826064860234"
  by (rule pow_sq1 [where k = 80671874544447350325436064028203415677666560639550678774120299478174189437598, OF two_pow_149]) (simp_all only: arith_simps rel_simps)

lemma two_pow_151: "(2::int) ^ 2854495385411919762116571938898990272765493247 mod modq = 10720484534244934179724249269099855518290638198449835117030745988552115795827"
  by (rule pow_sq1 [where k = 41091339467397045219342013947781366803299776710513443822836735953760193416305, OF two_pow_150]) (simp_all only: arith_simps rel_simps)

lemma two_pow_152: "(2::int) ^ 5708990770823839524233143877797980545530986495 mod modq = 18153871573117111473189130627046808357623835563055513002712504328846196254197"
  by (rule pow_sq1 [where k = 3970177562421832281123437143827362462666425901411544254106451311197688220633, OF two_pow_151]) (simp_all only: arith_simps rel_simps)

lemma two_pow_153: "(2::int) ^ 11417981541647679048466287755595961091061972991 mod modq = 46731436050834628026776859336092092036134962730824398615399113275720183347217"
  by (rule pow_sq1 [where k = 11384648304178679846470027361421357363900222794526858746773005258576027427853, OF two_pow_152]) (simp_all only: arith_simps rel_simps)

lemma two_pow_154: "(2::int) ^ 22835963083295358096932575511191922182123945983 mod modq = 1131213664350053316463602657530997029949377510978075857400231290401206437547"
  by (rule pow_sq1 [where k = 75439596254196151282300147752238599196377334076579057396677391628044288588043, OF two_pow_153]) (simp_all only: arith_simps rel_simps)

lemma two_pow_155: "(2::int) ^ 45671926166590716193865151022383844364247891967 mod modq = 51516069925429057362149942619027180810592843425614432779267831552495978454828"
  by (rule pow_sq1 [where k = 44204897341117684525958585378823785068861804446473711811988370557287432270, OF two_pow_154]) (simp_all only: arith_simps rel_simps)

lemma two_pow_156: "(2::int) ^ 91343852333181432387730302044767688728495783935 mod modq = 53558669828600303549886088751393240082052177915114943720914936415181933009023"
  by (rule pow_sq1 [where k = 91678299546785441997837547260926733186223409126206217933745041629193133524685, OF two_pow_155]) (simp_all only: arith_simps rel_simps)

lemma two_pow_157: "(2::int) ^ 182687704666362864775460604089535377456991567871 mod modq = 33308683831966453671181256293638921893102137929478874241335944458467003815365"
  by (rule pow_sq1 [where k = 99092472817550024779000635112412418270495621633429181939264256539269211401529, OF two_pow_156]) (simp_all only: arith_simps rel_simps)

lemma two_pow_158: "(2::int) ^ 365375409332725729550921208179070754913983135743 mod modq = 21377956814132328694784024820901836979652564414406188510080138381003374018276"
  by (rule pow_sq1 [where k = 38326225078953190176304696982458367995478287066220825695062016677468223037622, OF two_pow_157]) (simp_all only: arith_simps rel_simps)

lemma two_pow_159: "(2::int) ^ 730750818665451459101842416358141509827966271487 mod modq = 38544282263064864511764805102882598930948523403622127800805213093716954289487"
  by (rule pow_sq1 [where k = 15787504675220056826229064933476747123473894435091087232184562914644102166845, OF two_pow_158]) (simp_all only: arith_simps rel_simps)

lemma two_pow_160: "(2::int) ^ 1461501637330902918203684832716283019655932542975 mod modq = 33913612121936496760589219901979338637454664317440961452989020271659257147029"
  by (rule pow_sq1 [where k = 51321699261508240357117170721774255741490818460660669244972688744040678428777, OF two_pow_159]) (simp_all only: arith_simps rel_simps)

lemma two_pow_161: "(2::int) ^ 2923003274661805836407369665432566039311865085951 mod modq = 39913129408348869098432834560317484626626821813105873269821867090144699757644"
  by (rule pow_sq1 [where k = 39730972805921387867166383064177875515001186440856423117838140912748442672814, OF two_pow_160]) (simp_all only: arith_simps rel_simps)

lemma two_pow_162: "(2::int) ^ 5846006549323611672814739330865132078623730171903 mod modq = 25618534366582212722702566956402313843122172267804509470077453148054506621578"
  by (rule pow_sq1 [where k = 55031666140944289771342266530035737505154512275415536601174586410353221330782, OF two_pow_161]) (simp_all only: arith_simps rel_simps)

lemma two_pow_163: "(2::int) ^ 11692013098647223345629478661730264157247460343807 mod modq = 6502798556268084860303725015014168474074481275940566795293799356306919508667"
  by (rule pow_sq1 [where k = 22671991063107816624764680629557797823648021487710675637503500770954570430153, OF two_pow_162]) (simp_all only: arith_simps rel_simps)

lemma two_pow_164: "(2::int) ^ 23384026197294446691258957323460528314494920687615 mod modq = 1097197509773115801121429244265587744553450451933163723917797595150965581191"
  by (rule pow_sq1 [where k = 1460769534151377880820239220549290078038748303230502659288453672563070279311, OF two_pow_163]) (simp_all only: arith_simps rel_simps)

lemma two_pow_165: "(2::int) ^ 46768052394588893382517914646921056628989841375231 mod modq = 10046738713505256731459054959622561023685243712597870904420390320391031760251"
  by (rule pow_sq1 [where k = 41586342672686331369319937189693788898214917293219074766954746426171872283, OF two_pow_164]) (simp_all only: arith_simps rel_simps)

lemma two_pow_166: "(2::int) ^ 93536104789177786765035829293842113257979682750463 mod modq = 14587265964770971399308333127893771066638120801610964745177016050942156435867"
  by (rule pow_sq1 [where k = 3486834357762547841521806953682125203168937222648100897855040051091121478155, OF two_pow_165]) (simp_all only: arith_simps rel_simps)

lemma two_pow_167: "(2::int) ^ 187072209578355573530071658587684226515959365500927 mod modq = 7802337884624946609686131997185847894081984674888571037448615196783981741893"
  by (rule pow_sq1 [where k = 7350703479953810423574956113228263550035675102511769093167799997751182689705, OF two_pow_166]) (simp_all only: arith_simps rel_simps)

lemma two_pow_168: "(2::int) ^ 374144419156711147060143317175368453031918731001855 mod modq = 14799929628592374269948953925558136940508407015134945384417314380572445998344"
  by (rule pow_sq1 [where k = 2102958047197410384358314215711385807838960615553513423306786956147852785762, OF two_pow_167]) (simp_all only: arith_simps rel_simps)

lemma two_pow_169: "(2::int) ^ 748288838313422294120286634350736906063837462003711 mod modq = 1436008937579059583946662073595382452978308251569378713744368755215148826837"
  by (rule pow_sq1 [where k = 7566593485065033030144661723945755282155576169657213409298379994279834266255, OF two_pow_168]) (simp_all only: arith_simps rel_simps)

lemma two_pow_170: "(2::int) ^ 1496577676626844588240573268701473812127674924007423 mod modq = 17294701283881981999757948404162976468081669272030628890510814523252187271485"
  by (rule pow_sq1 [where k = 71235321251717484420987188091032208367205618319822170310349210493170867409, OF two_pow_169]) (simp_all only: arith_simps rel_simps)

lemma two_pow_171: "(2::int) ^ 2993155353253689176481146537402947624255349848014847 mod modq = 45966328459228256902750384431883283567962468396674761944182519293754308748126"
  by (rule pow_sq1 [where k = 10332543249502618897565812596134122207119801132746192141483503115593940177572, OF two_pow_170]) (simp_all only: arith_simps rel_simps)

lemma two_pow_172: "(2::int) ^ 5986310706507378352962293074805895248510699696029695 mod modq = 23252778581556284017402103811679488660391078274094703338824223679294740375115"
  by (rule pow_sq1 [where k = 72989557954732348885922178119406036704029671523422332976735112567509246699961, OF two_pow_171]) (simp_all only: arith_simps rel_simps)

lemma two_pow_173: "(2::int) ^ 11972621413014756705924586149611790497021399392059391 mod modq = 6600918115158098088782406222767209451060336634124886299237941594542835835027"
  by (rule pow_sq1 [where k = 18678019036507185487695292399821059730695296000981705265087488919085427559219, OF two_pow_172]) (simp_all only: arith_simps rel_simps)

lemma two_pow_174: "(2::int) ^ 23945242826029513411849172299223580994042798784118783 mod modq = 19584564279968951251414220652051959225861951329945347648208439053042652030358"
  by (rule pow_sq1 [where k = 1505184689213825733393496876834167149370666255599092903810917247300244668300, OF two_pow_173]) (simp_all only: arith_simps rel_simps)

lemma two_pow_175: "(2::int) ^ 47890485652059026823698344598447161988085597568237567 mod modq = 34752224447813576607160430275107286148388666282073555352176268765884807353468"
  by (rule pow_sq1 [where k = 13249787979907278383582079718985181853544378532073974772108922906892939647580, OF two_pow_174]) (simp_all only: arith_simps rel_simps)

lemma two_pow_176: "(2::int) ^ 95780971304118053647396689196894323976171195136475135 mod modq = 38564963850607430955591958495018951251999630525944682218332806127792569415315"
  by (rule pow_sq1 [where k = 41720193910518091671321381602443164975857455010017492047385641062368412952649, OF two_pow_175]) (simp_all only: arith_simps rel_simps)

lemma two_pow_177: "(2::int) ^ 191561942608236107294793378393788647952342390272950271 mod modq = 53516648309260661541807095473308286182229396876580794938636239062350909259713"
  by (rule pow_sq1 [where k = 51376789091369511370579363393832287751756102759760331890398650673734623835261, OF two_pow_176]) (simp_all only: arith_simps rel_simps)

lemma two_pow_178: "(2::int) ^ 383123885216472214589586756787577295904684780545900543 mod modq = 52406110676132333383725333165250428738321981980453072828252621341568353702566"
  by (rule pow_sq1 [where k = 98937040176803495903600595165104463669735865422642960525585154909714334198316, OF two_pow_177]) (simp_all only: arith_simps rel_simps)

lemma two_pow_179: "(2::int) ^ 766247770432944429179173513575154591809369561091801087 mod modq = 34770356066419825301066208400847785288520950397179186940514100874819817619276"
  by (rule pow_sq1 [where k = 94873508347198963515456766943356802444154858212418350450827118377093280101708, OF two_pow_178]) (simp_all only: arith_simps rel_simps)

lemma two_pow_180: "(2::int) ^ 1532495540865888858358347027150309183618739122183602175 mod modq = 25247134442241130403553519698610678617955038817975785759998310537709530954948"
  by (rule pow_sq1 [where k = 41763739438462501845494305726611686699751813526043819386104761589324889312812, OF two_pow_179]) (simp_all only: arith_simps rel_simps)

lemma two_pow_181: "(2::int) ^ 3064991081731777716716694054300618367237478244367204351 mod modq = 10353426230955819331093244875286581576166819897109175219637403977716400277016"
  by (rule pow_sq1 [where k = 22019390158448868827631916680754514422524711096728899922598243691836806959976, OF two_pow_180]) (simp_all only: arith_simps rel_simps)

lemma two_pow_182: "(2::int) ^ 6129982163463555433433388108601236734474956488734408703 mod modq = 33782666799894194564716297737963478014651737596443882636423644997863512942549"
  by (rule pow_sq1 [where k = 3702962280960344110888370101281537235962370784138933111090323875467316093839, OF two_pow_181]) (simp_all only: arith_simps rel_simps)

lemma two_pow_183: "(2::int) ^ 12259964326927110866866776217202473468949912977468817407 mod modq = 11712489841487065569872169894006523764439192797519435834714056927102862198848"
  by (rule pow_sq1 [where k = 39424751159766725437664757152011832859758416153877216815212269819469334357962, OF two_pow_182]) (simp_all only: arith_simps rel_simps)

lemma two_pow_184: "(2::int) ^ 24519928653854221733733552434404946937899825954937634815 mod modq = 57511129091565308242233984659317109625303700799816241798537629326770392056196"
  by (rule pow_sq1 [where k = 4738921948485858116034667609185096871250167033541705594171012094166010341836, OF two_pow_183]) (simp_all only: arith_simps rel_simps)

lemma two_pow_185: "(2::int) ^ 49039857307708443467467104868809893875799651909875269631 mod modq = 47870263220362740948279378769904406013686936136166243734834630312236802169555"
  by (rule pow_sq1 [where k = 114257545266599276280282812615555088547276734437251441555389150480399678703881, OF two_pow_184]) (simp_all only: arith_simps rel_simps)

lemma two_pow_186: "(2::int) ^ 98079714615416886934934209737619787751599303819750539263 mod modq = 29984181361305597969920691268302444931417661643956314314858720614706633731067"
  by (rule pow_sq1 [where k = 79161266227444990520805883671266084779379994438675536104361422247985455693899, OF two_pow_185]) (simp_all only: arith_simps rel_simps)

lemma two_pow_187: "(2::int) ^ 196159429230833773869868419475239575503198607639501078527 mod modq = 48188831821796217824324287854430859306380407847168328623286740553250169187066"
  by (rule pow_sq1 [where k = 31057428459212212047868283761945114618018393020162897382152790149856753272536, OF two_pow_186]) (simp_all only: arith_simps rel_simps)

lemma two_pow_188: "(2::int) ^ 392318858461667547739736838950479151006397215279002157055 mod modq = 57074942781316876387151905269966889468370431581953997281124953979435460128578"
  by (rule pow_sq1 [where k = 80218382020556844212797298754303256165243595040444357650687639163037420511502, OF two_pow_187]) (simp_all only: arith_simps rel_simps)

lemma two_pow_189: "(2::int) ^ 784637716923335095479473677900958302012794430558004314111 mod modq = 45049144131355831584893824754962447060853126235476759020983294535002215401129"
  by (rule pow_sq1 [where k = 112530972191519573339419331740402628099436707424933882111859202344267723164467, OF two_pow_188]) (simp_all only: arith_simps rel_simps)

lemma two_pow_190: "(2::int) ^ 1569275433846670190958947355801916604025588861116008628223 mod modq = 46374281092437357652560966636328946915042801493092862751416569048635571903037"
  by (rule pow_sq1 [where k = 70105838847362321058431271749658358394595318216511043786262251958089360097985, OF two_pow_189]) (simp_all only: arith_simps rel_simps)

lemma two_pow_191: "(2::int) ^ 3138550867693340381917894711603833208051177722232017256447 mod modq = 43406424857107312225802288018523099983693391926033486831455894148855362493770"
  by (rule pow_sq1 [where k = 74290876380433415328660934584887720228491282150315895266576851228190173848104, OF two_pow_190]) (simp_all only: arith_simps rel_simps)

lemma two_pow_192: "(2::int) ^ 6277101735386680763835789423207666416102355444464034512895 mod modq = 5452909113347569992776928764175847052134483030211602835596935481922646636193"
  by (rule pow_sq1 [where k = 65086232791402502996657492347087776891806345725722078667177164216797694753371, OF two_pow_191]) (simp_all only: arith_simps rel_simps)

lemma two_pow_193: "(2::int) ^ 12554203470773361527671578846415332832204710888928069025791 mod modq = 55315914934942953127119556697842153084018940843344765901408128978214755758192"
  by (rule pow_sq1 [where k = 1027158867044487756862639110146445505386759984979132611235079135412805643818, OF two_pow_192]) (simp_all only: arith_simps rel_simps)

lemma two_pow_194: "(2::int) ^ 25108406941546723055343157692830665664409421777856138051583 mod modq = 36677371484543990559330185887849699394011562790378056562109601051138493189883"
  by (rule pow_sq1 [where k = 105701536788706634837886313035242303956205276768578956146737308027144940082785, OF two_pow_193]) (simp_all only: arith_simps rel_simps)

lemma two_pow_195: "(2::int) ^ 50216813883093446110686315385661331328818843555712276103167 mod modq = 49763195304923038912411290467094778799036234360440394122074030414738993569"
  by (rule pow_sq1 [where k = 46470517558697435480739911535354306793995566868126982787680981407299171297277, OF two_pow_194]) (simp_all only: arith_simps rel_simps)

lemma two_pow_196: "(2::int) ^ 100433627766186892221372630771322662657637687111424552206335 mod modq = 2871250354335643792859493463950531210891631551925854687808297486869199661252"
  by (rule pow_sq1 [where k = 85545588589582349755256572622426292834183004903397495561771804515838310, OF two_pow_195]) (simp_all only: arith_simps rel_simps)

lemma two_pow_197: "(2::int) ^ 200867255532373784442745261542645325315275374222849104412671 mod modq = 16556736384647801487869581186301588608230813404435697235624168884648750115464"
  by (rule pow_sq1 [where k = 284789009389969602587454785353210090982642489519123600738950986186285282232, OF two_pow_196]) (simp_all only: arith_simps rel_simps)

lemma two_pow_198: "(2::int) ^ 401734511064747568885490523085290650630550748445698208825343 mod modq = 22994296750244177872476242101464845933044351543575884748947817275397224263403"
  by (rule pow_sq1 [where k = 9469576773898581942702587208612272826516078249652576376430532739782860074417, OF two_pow_197]) (simp_all only: arith_simps rel_simps)

lemma two_pow_199: "(2::int) ^ 803469022129495137770981046170581301261101496891396417650687 mod modq = 26630556906334598214580710212780479659355287749968050819228621572571746075416"
  by (rule pow_sq1 [where k = 18265071008595092163637394525873374441424827430925015924869716898167104567506, OF two_pow_198]) (simp_all only: arith_simps rel_simps)

lemma two_pow_200: "(2::int) ^ 1606938044258990275541962092341162602522202993782792835301375 mod modq = 50355092411031264033863544566255740252388574454854685374197231751488929470578"
  by (rule pow_sq1 [where k = 24498618716104020533373857723190038858035485731997859818211231366640565603702, OF two_pow_199]) (simp_all only: arith_simps rel_simps)

lemma two_pow_201: "(2::int) ^ 3213876088517980551083924184682325205044405987565585670602751 mod modq = 27459082540070419863145778926165519762342615473393934952010545990981613986833"
  by (rule pow_sq1 [where k = 87592696476067791847219179373926949445082386850422457357586510535125641531755, OF two_pow_200]) (simp_all only: arith_simps rel_simps)

lemma two_pow_202: "(2::int) ^ 6427752177035961102167848369364650410088811975131171341205503 mod modq = 19907661642656044393455833908853658201391048813121195400016610724832961259059"
  by (rule pow_sq1 [where k = 26046726297409581555578513236429560510558127078456030170730248144581986089507, OF two_pow_201]) (simp_all only: arith_simps rel_simps)

lemma two_pow_203: "(2::int) ^ 12855504354071922204335696738729300820177623950262342682411007 mod modq = 3954765609438886120678534945676320777528067462028596213513982696513223785203"
  by (rule pow_sq1 [where k = 13690572290002648575407653032022125146449499628208818775348733694853592760627, OF two_pow_202]) (simp_all only: arith_simps rel_simps)

lemma two_pow_204: "(2::int) ^ 25711008708143844408671393477458601640355247900524685364822015 mod modq = 20938825166460131932720091625979471411426428423022144228502719484906781885639"
  by (rule pow_sq1 [where k = 540284612830361914038765450848972172459108652358894687434054083160752136687, OF two_pow_203]) (simp_all only: arith_simps rel_simps)

lemma two_pow_205: "(2::int) ^ 51422017416287688817342786954917203280710495801049370729644031 mod modq = 14771939984721815195065391676107271650515319594584770311331505639840934416421"
  by (rule pow_sq1 [where k = 15145573492607485544123050512743580039868375735291114051525243696128826144313, OF two_pow_204]) (simp_all only: arith_simps rel_simps)

lemma two_pow_206: "(2::int) ^ 102844034832575377634685573909834406561420991602098741459288063 mod modq = 40467993464986127606742480670921462062447836142938887010924391368819709157963"
  by (rule pow_sq1 [where k = 7538000647522672573805544076062859089655289073532714271896608498488389738907, OF two_pow_205]) (simp_all only: arith_simps rel_simps)

lemma two_pow_207: "(2::int) ^ 205688069665150755269371147819668813122841983204197482918576127 mod modq = 14008779381217703125193890351075325924409973859623674872410283888463065514491"
  by (rule pow_sq1 [where k = 56572379196847359101424429031250849259283506590268305988233682046017718413291, OF two_pow_206]) (simp_all only: arith_simps rel_simps)

lemma two_pow_208: "(2::int) ^ 411376139330301510538742295639337626245683966408394965837152255 mod modq = 13468097018834904007537576318830767851053165198548997409992274569642769536939"
  by (rule pow_sq1 [where k = 6779250674004983494837985530942210015998362928857845881629632998864038178619, OF two_pow_207]) (simp_all only: arith_simps rel_simps)

lemma two_pow_209: "(2::int) ^ 822752278660603021077484591278675252491367932816789931674304511 mod modq = 22659565825748304292601732385301234609509035447445129928711154113211704370427"
  by (rule pow_sq1 [where k = 6266045927783238583438758901812761440957428142693041091105712661952603986795, OF two_pow_208]) (simp_all only: arith_simps rel_simps)

lemma two_pow_210: "(2::int) ^ 1645504557321206042154969182557350504982735865633579863348609023 mod modq = 13979227862677261083649599921378117200850144771053074620888604232809963868315"
  by (rule pow_sq1 [where k = 17737167600770762438699987527503594408285829853493723677481076185005598451979, OF two_pow_209]) (simp_all only: arith_simps rel_simps)

lemma two_pow_211: "(2::int) ^ 3291009114642412084309938365114701009965471731267159726697218047 mod modq = 28222538623706903960063560179072494771086619380209022917167427179320770416522"
  by (rule pow_sq1 [where k = 6750679184521522533938520395844015288850234426138677824937837113304408798984, OF two_pow_210]) (simp_all only: arith_simps rel_simps)

lemma two_pow_212: "(2::int) ^ 6582018229284824168619876730229402019930943462534319453394436095 mod modq = 1764621515731775190037598239287372858599508707713972198503481376128769967907"
  by (rule pow_sq1 [where k = 27515236718258884204835628472060432001141254390839814218171886683663432264833, OF two_pow_211]) (simp_all only: arith_simps rel_simps)

lemma two_pow_213: "(2::int) ^ 13164036458569648337239753460458804039861886925068638906788872191 mod modq = 21321163575338796847189943666997708049486931787137589421154814922605884546774"
  by (rule pow_sq1 [where k = 107568284303138661562177688611312587994852451813373211501099905277534844172, OF two_pow_212]) (simp_all only: arith_simps rel_simps)

lemma two_pow_214: "(2::int) ^ 26328072917139296674479506920917608079723773850137277813577744383 mod modq = 1209352874511562447077251552513033342778645497290546067930267939827051864846"
  by (rule pow_sq1 [where k = 15703733103033189707135195035574623836569725023764106430639668689784401616818, OF two_pow_213]) (simp_all only: arith_simps rel_simps)

lemma two_pow_215: "(2::int) ^ 52656145834278593348959013841835216159447547700274555627155488767 mod modq = 41067608803411451368973671134015091786028319470216351268297191140809907555072"
  by (rule pow_sq1 [where k = 50522773523566391785314981184434550212264582382031514259761956833774191080, OF two_pow_214]) (simp_all only: arith_simps rel_simps)

lemma two_pow_216: "(2::int) ^ 105312291668557186697918027683670432318895095400549111254310977535 mod modq = 56288932756571610623875399031988225376729891662650669223737967620463679715264"
  by (rule pow_sq1 [where k = 58261268241682801339460659380775873681184967965725077800088307573500189102912, OF two_pow_215]) (simp_all only: arith_simps rel_simps)

lemma two_pow_217: "(2::int) ^ 210624583337114373395836055367340864637790190801098222508621955071 mod modq = 41017990999437448939627518984759812574997651481787668653041093616151940671562"
  by (rule pow_sq1 [where k = 109452864068463473000852233991104086225700249543036836633867176182994168212990, OF two_pow_216]) (simp_all only: arith_simps rel_simps)

lemma two_pow_218: "(2::int) ^ 421249166674228746791672110734681729275580381602196445017243910143 mod modq = 46018232797622533879797319869702096471723887193843955786955080290185255823289"
  by (rule pow_sq1 [where k = 58120570989325302718373280490451892679669030837388249950167697618698629088547, OF two_pow_217]) (simp_all only: arith_simps rel_simps)

lemma two_pow_219: "(2::int) ^ 842498333348457493583344221469363458551160763204392890034487820287 mod modq = 39218180441721291826490304277758266398108237959275896181162568415298217236701"
  by (rule pow_sq1 [where k = 73154487971142694225016003623344134178512635322861353188066725254698893896673, OF two_pow_218]) (simp_all only: arith_simps rel_simps)

lemma two_pow_220: "(2::int) ^ 1684996666696914987166688442938726917102321526408785780068975640575 mod modq = 11272877150232162028236773462205482935123171962983741528479093060472134556904"
  by (rule pow_sq1 [where k = 53131977747016577511522327368083360257364980770524217130343911953216482503394, OF two_pow_219]) (simp_all only: arith_simps rel_simps)

lemma two_pow_221: "(2::int) ^ 3369993333393829974333376885877453834204643052817571560137951281151 mod modq = 45938502103101738115707643292331017022959765143271581426098707877558333008927"
  by (rule pow_sq1 [where k = 4389859793747401322821320838994931888714560527066075044051302087656720442765, OF two_pow_220]) (simp_all only: arith_simps rel_simps)

lemma two_pow_222: "(2::int) ^ 6739986666787659948666753771754907668409286105635143120275902562303 mod modq = 7928243297905993363795792430081841912932179544703312829724341822861758553410"
  by (rule pow_sq1 [where k = 72901214215127360421681245453843426745577851366067909047849090509917948058944, OF two_pow_221]) (simp_all only: arith_simps rel_simps)

lemma two_pow_223: "(2::int) ^ 13479973333575319897333507543509815336818572211270286240551805124607 mod modq = 12383730846715379053479730868858098913890335159134436195870992060886915224729"
  by (rule pow_sq1 [where k = 2171376031119556957031670401348964977653912024795425025478240631127519170563, OF two_pow_222]) (simp_all only: arith_simps rel_simps)

lemma two_pow_224: "(2::int) ^ 26959946667150639794667015087019630673637144422540572481103610249215 mod modq = 41168579062940694710142434292652319002723354041432980411715944630093634821234"
  by (rule pow_sq1 [where k = 5297660339112971696630203785906015287973331224067416497928555189323483508144, OF two_pow_223]) (simp_all only: arith_simps rel_simps)

lemma two_pow_225: "(2::int) ^ 53919893334301279589334030174039261347274288845081144962207220498431 mod modq = 2700803167630960787761880811478156157929368252157425883067532371203450979110"
  by (rule pow_sq1 [where k = 58548106808505559984445561377607492424793135912264718057739464298841680360506, OF two_pow_224]) (simp_all only: arith_simps rel_simps)

lemma two_pow_226: "(2::int) ^ 107839786668602559178668060348078522694548577690162289924414440996863 mod modq = 9335939344463068670132625078429546468323503943324175826001502319052765620004"
  by (rule pow_sq1 [where k = 251980521237013593281807616914361477221732835939563608149994180796681339988, OF two_pow_225]) (simp_all only: arith_simps rel_simps)

lemma two_pow_227: "(2::int) ^ 215679573337205118357336120696157045389097155380324579848828881993727 mod modq = 5792969816866475648025690201254565414874581111709896717745542486063038056644"
  by (rule pow_sq1 [where k = 3010905633280675848304365279305335007742961928047284737378428705317472152364, OF two_pow_226]) (simp_all only: arith_simps rel_simps)

lemma two_pow_228: "(2::int) ^ 431359146674410236714672241392314090778194310760649159697657763987455 mod modq = 28444623489847115726086806137731288496607642473518499276565739258832931646350"
  by (rule pow_sq1 [where k = 1159267425613083970741069809309525705253684813759203427952507696425532586666, OF two_pow_227]) (simp_all only: arith_simps rel_simps)

lemma two_pow_229: "(2::int) ^ 862718293348820473429344482784628181556388621521298319395315527974911 mod modq = 47781531852268150804787247535632538136631984461262514791251499809045441243781"
  by (rule pow_sq1 [where k = 27949978649091188262055708087388130662990485266664246838562548876421030176007, OF two_pow_228]) (simp_all only: arith_simps rel_simps)

lemma two_pow_230: "(2::int) ^ 1725436586697640946858688965569256363112777243042596638790631055949823 mod modq = 55350217872535386607748090534811276229030916180966540395338991779974199964358"
  by (rule pow_sq1 [where k = 78868074708286781312187536726632833014936332494305414469529735708429183159292, OF two_pow_229]) (simp_all only: arith_simps rel_simps)

lemma two_pow_231: "(2::int) ^ 3450873173395281893717377931138512726225554486085193277581262111899647 mod modq = 13641966986077727530542790583024427655732305723842073405746856840479393944787"
  by (rule pow_sq1 [where k = 105832674363727346909792248052496017023998079438044794499930694254207468000273, OF two_pow_230]) (simp_all only: arith_simps rel_simps)

lemma two_pow_232: "(2::int) ^ 6901746346790563787434755862277025452451108972170386555162524223799295 mod modq = 15272150506881925296221822885469465780152518678339097279374590158548136046298"
  by (rule pow_sq1 [where k = 6428876600294015011674687851068188090368481508974901866647250242630583399320, OF two_pow_231]) (simp_all only: arith_simps rel_simps)

lemma two_pow_233: "(2::int) ^ 13803492693581127574869511724554050904902217944340773110325048447598591 mod modq = 21943769582384236847120466999402384088594547565729526304300109140647642278898"
  by (rule pow_sq1 [where k = 8057150799890336353071074879795038115918703971675508818367364869227751353630, OF two_pow_232]) (simp_all only: arith_simps rel_simps)

lemma two_pow_234: "(2::int) ^ 27606985387162255149739023449108101809804435888681546220650096895197183 mod modq = 50620989972042834249157654200271018035437265909574269244897909769905362439465"
  by (rule pow_sq1 [where k = 16634263243938077590741655930306830632289688242457652727655791422323206780979, OF two_pow_233]) (simp_all only: arith_simps rel_simps)

lemma two_pow_235: "(2::int) ^ 55213970774324510299478046898216203619608871777363092441300193790394367 mod modq = 52729810979922388679266410245049398022380225347023390761479600764160529423197"
  by (rule pow_sq1 [where k = 88520196591248720512597764143086126364276769062591730014990622399227246322209, OF two_pow_234]) (simp_all only: arith_simps rel_simps)

lemma two_pow_236: "(2::int) ^ 110427941548649020598956093796432407239217743554726184882600387580788735 mod modq = 23941904724692371368050998167905149184405971851448160997135742609551700312309"
  by (rule pow_sq1 [where k = 96049151001320614486236789877173525746900225638644917448317881057734100298777, OF two_pow_235]) (simp_all only: arith_simps rel_simps)

lemma two_pow_237: "(2::int) ^ 220855883097298041197912187592864814478435487109452369765200775161577471 mod modq = 28663221691212746302423054659296175311542225554056125083595792155984159501442"
  by (rule pow_sq1 [where k = 19801518588077001740545354916462702637359442615669946485043306070062586352560, OF two_pow_236]) (simp_all only: arith_simps rel_simps)

lemma two_pow_238: "(2::int) ^ 441711766194596082395824375185729628956870974218904739530401550323154943 mod modq = 7889150462798796151756781652810722394383879774034365729165907814189807391865"
  by (rule pow_sq1 [where k = 28381223039711388919794150168711303160716714097750675730817258836071991621539, OF two_pow_237]) (simp_all only: arith_simps rel_simps)

lemma two_pow_239: "(2::int) ^ 883423532389192164791648750371459257913741948437809479060803100646309887 mod modq = 53536617294818576219456979753491798013826796268481956846938218480393319281053"
  by (rule pow_sq1 [where k = 2150015443528964684761353250955607395670335669528619267785262193741432574241, OF two_pow_238]) (simp_all only: arith_simps rel_simps)

lemma two_pow_240: "(2::int) ^ 1766847064778384329583297500742918515827483896875618958121606201292619775 mod modq = 16899760127886297553486073642808290005753351727421293135280944136937896839453"
  by (rule pow_sq1 [where k = 99010887885359618355099384878665879901614652019126639854289746236026589321745, OF two_pow_239]) (simp_all only: arith_simps rel_simps)

lemma two_pow_241: "(2::int) ^ 3533694129556768659166595001485837031654967793751237916243212402585239550 mod modq = 17911505228900006010814550811928102458186254750008846578162567218731766956398"
  by (rule pow_sq0 [where k = 4933012164496896654340686526594640308205300870873878423077344314861823395583, OF two_pow_240]) (simp_all only: arith_simps rel_simps)

lemma two_pow_242: "(2::int) ^ 7067388259113537318333190002971674063309935587502475832486424805170479101 mod modq = 960611104725707673116101917916338348241889580097480482511923782410028667189"
  by (rule pow_sq1 [where k = 11082692148593559713114986913993908068573862981398969610224170570883575037207, OF two_pow_241]) (simp_all only: arith_simps rel_simps)

lemma two_pow_243: "(2::int) ^ 14134776518227074636666380005943348126619871175004951664972849610340958203 mod modq = 37276334141023884396400276172937092750624549062808904461408917553568008034728"
  by (rule pow_sq1 [where k = 31876916656408793832193928824073142413858251899483150530724608981921610242, OF two_pow_242]) (simp_all only: arith_simps rel_simps)

lemma two_pow_244: "(2::int) ^ 28269553036454149273332760011886696253239742350009903329945699220681916406 mod modq = 9183914693170614306095229462008226725537120304635262438829659555983681503014"
  by (rule pow_sq0 [where k = 24000345725612178654737336556800796857928677034666361137639823150374426123410, OF two_pow_243]) (simp_all only: arith_simps rel_simps)

lemma two_pow_245: "(2::int) ^ 56539106072908298546665520023773392506479484700019806659891398441363832813 mod modq = 39513448818206396727882822161336158316949094830428931947887880818632281499431"
  by (rule pow_sq1 [where k = 2913645989012988736502353467472960938422576222704727517614763317898343251533, OF two_pow_244]) (simp_all only: arith_simps rel_simps)

lemma two_pow_246: "(2::int) ^ 113078212145816597093331040047546785012958969400039613319782796882727665627 mod modq = 10419441333345844543172341909521093628286795562512523330224217731728190602257"
  by (rule pow_sq1 [where k = 53935036418907757315583480056828775888431672072364995558107512557773010858045, OF two_pow_245]) (simp_all only: arith_simps rel_simps)

lemma two_pow_247: "(2::int) ^ 226156424291633194186662080095093570025917938800079226639565593765455331255 mod modq = 2971715662455795279175188330089765267040348685815099233564992971328949766545"
  by (rule pow_sq1 [where k = 3750334186527443012676037542781932670571864510879041221045914782725882334109, OF two_pow_246]) (simp_all only: arith_simps rel_simps)

lemma two_pow_248: "(2::int) ^ 452312848583266388373324160190187140051835877600158453279131187530910662510 mod modq = 47271473633360841062446512267795648102476027977824463906833415556464142814833"
  by (rule pow_sq0 [where k = 152533632248153594398904483239106225072226946379408887017423800735951931376, OF two_pow_247]) (simp_all only: arith_simps rel_simps)

lemma two_pow_249: "(2::int) ^ 904625697166532776746648320380374280103671755200316906558262375061821325020 mod modq = 41117500656581479885762957640023970742008351798212844972731694028512017407854"
  by (rule pow_sq0 [where k = 38596630118482904100345420369423332570313883219998658051185746052860771452855, OF two_pow_248]) (simp_all only: arith_simps rel_simps)

lemma two_pow_250: "(2::int) ^ 1809251394333065553493296640760748560207343510400633813116524750123642650041 mod modq = 41444630525350552531782594787423369105843505663048236614543387734919761018494"
  by (rule pow_sq1 [where k = 58402914098181235357018381063599204916154872086195403701912416536988991506114, OF two_pow_249]) (simp_all only: arith_simps rel_simps)

lemma two_pow_251: "(2::int) ^ 3618502788666131106986593281521497120414687020801267626233049500247285300082 mod modq = 39545068400466563286450700359526935755000860726075683922812359385009244616303"
  by (rule pow_sq0 [where k = 29667957641950399550285774487726846924103599626710745662457098110520850121649, OF two_pow_250]) (simp_all only: arith_simps rel_simps)

lemma two_pow_252: "(2::int) ^ 7237005577332262213973186563042994240829374041602535252466099000494570600164 mod modq = 32776054180560562140232658038369639862831297085689313639077663910230468698377"
  by (rule pow_sq0 [where k = 27010695550929068430677161055816012364791732578094455983745965339172317239096, OF two_pow_251]) (simp_all only: arith_simps rel_simps)

lemma two_pow_253: "(2::int) ^ 14474011154664524427946373126085988481658748083205070504932198000989141200329 mod modq = 50239980876195071143105668931948628127607390494261936761302256187452192205879"
  by (rule pow_sq1 [where k = 37110297766381011860698443285860703516930158134247360265080380722411856913487, OF two_pow_252]) (simp_all only: arith_simps rel_simps)

lemma two_pow_254: "(2::int) ^ 28948022309329048855892746252171976963317496166410141009864396001978282400658 mod modq = 57896044618658097711785492504343953926634992332820282019728792003956564801316"
  by (rule pow_sq0 [where k = 43596340562909917446677592282140103837749908914261339496454618178806223445225, OF two_pow_253]) (simp_all only: arith_simps rel_simps)



subsection \<open>C4: the invalid-key sentinels\<close>

text \<open>
  C4, as stated: decoding 32 zero bytes succeeds at the point level and yields the neutral, and
  any later use in sign, verify or ECDH of a key holding the sentinel (neutral point, zero
  scalar) reports a failure. This does not hold for signing: \<^verbatim>\<open>jq_sign_seeded\<close> has no
  failure status and returns the length 48 also for the key pair made of the two sentinels; and
  \<^verbatim>\<open>jq_ECDH\<close> with the zero scalar as own private key and a valid peer key returns 1.
\<close>

theorem sentinel_sign_no_failure:
  "snd (jq_sign_seeded
         \<lparr>private_key = scalar_zero,
            public_key = \<lparr>pk_point = point_neutral, pk_enc = replicate 32 0\<rparr>\<rparr>
         None [] []) = 48
   \<and> snd (jq_ECDH
         \<lparr>private_key = scalar_zero,
            public_key = \<lparr>pk_point = point_neutral, pk_enc = replicate 32 0\<rparr>\<rparr>
         \<lparr>pk_point = \<lparr>E = gf_one, Z = gf_one, U = gf_one, T = gf_one\<rparr>,
            pk_enc = replicate 32 0\<rparr>) = 1"
proof -
  define peer where
    "peer = \<lparr>pk_point = \<lparr>E = gf_one, Z = gf_one, U = gf_one, T = gf_one\<rparr>, pk_enc = replicate 32 0\<rparr>"
  have "gf_pr (U (pk_point peer))" by (simp add: peer_def gf_pr_one)
  then have "ecdh_bad peer = (if gfval (U (pk_point peer)) = 0 then - 1 else 0)" by (rule ecdh_bad_val)
  then have "ecdh_bad peer = 0" by (simp add: peer_def gfval_one)
  then have "snd (jq_ECDH jk peer) = 1" for jk by (simp add: jq_ECDH_def Let_def)
  then show ?thesis unfolding peer_def by (simp add: jq_sign_seeded_length)
qed

text \<open>
  C4, amended: \<^verbatim>\<open>point_decode\<close> of 32 zero bytes returns the all-ones mask and a point with
  \<open>U = 0\<close>, the neutral, and \<^verbatim>\<open>jq_decode_public_key\<close> returns 0 for these bytes; for every
  public key whose point is the neutral (\<open>U\<close> partially reduced and zero in the field),
  \<^verbatim>\<open>jq_verify\<close> returns 0 and \<^verbatim>\<open>jq_ECDH\<close> returns 0; \<^verbatim>\<open>jq_sign_seeded\<close> returns 48 for
  every key pair.
\<close>

theorem sentinel_use:
  assumes "gf_pr (U (pk_point pk))" and "gfval (U (pk_point pk)) = 0"
  shows "fst (point_decode (replicate 32 0)) = 0xFFFFFFFF
       \<and> point_is_neutral (snd (point_decode (replicate 32 0))) = 0xFFFFFFFF
       \<and> fst (jq_decode_public_key (replicate 32 0)) = 0
       \<and> jq_verify sig pk hash_name hv = 0
       \<and> snd (jq_ECDH jk_self pk) = 0
       \<and> snd (jq_sign_seeded jk hash_name hv seed) = 48"
proof -
  have a: "fst (point_decode (replicate 32 0)) = - 1"
    using two_pow_254 by (rule point_decode_zero_aux)
  have "U (snd (point_decode (replicate 32 0))) = gf_zero"
    using two_pow_254 by (rule point_decode_zero_aux)
  then have b: "point_is_neutral (snd (point_decode (replicate 32 0))) = - 1"
    by (rule point_is_neutral_zero)
  have c: "jq_verify sig pk hash_name hv = 0" using assms by (rule jq_verify_neutral)
  have d: "snd (jq_ECDH jk_self pk) = 0" using assms by (rule jq_ECDH_neutral)
  show ?thesis unfolding a b c d by (simp add: jq_decode_public_key_zero jq_sign_seeded_length)
qed

theorem sentinel_use_witness:
  "gf_pr (U point_neutral) \<and> gfval (U point_neutral) = 0
   \<and> jq_verify (replicate 48 0) \<lparr>pk_point = point_neutral, pk_enc = replicate 32 0\<rparr> None [] = 0
   \<and> snd (jq_ECDH
         \<lparr>private_key = scalar_one,
            public_key = \<lparr>pk_point = point_neutral, pk_enc = replicate 32 0\<rparr>\<rparr>
         \<lparr>pk_point = point_neutral, pk_enc = replicate 32 0\<rparr>) = 0"
proof -
  define pk where "pk = \<lparr>pk_point = point_neutral, pk_enc = replicate 32 0\<rparr>"
  have h1: "gf_pr (U (pk_point pk))" by (simp add: pk_def point_neutral_def gf_pr_zero)
  have h2: "gfval (U (pk_point pk)) = 0" by (simp add: pk_def point_neutral_def gfval_zero)
  note r = sentinel_use [OF h1 h2, of "replicate 48 0" None "[]"
      "\<lparr>private_key = scalar_one, public_key = pk\<rparr>"
      "\<lparr>private_key = scalar_one, public_key = pk\<rparr>" "[]"]
  have "jq_verify (replicate 48 0) pk None [] = 0" using r by (elim conjE)
  moreover have "snd (jq_ECDH \<lparr>private_key = scalar_one, public_key = pk\<rparr> pk) = 0"
    using r by (elim conjE)
  ultimately show ?thesis using h1 h2 unfolding pk_def by simp
qed


section \<open>The modulus \<open>q\<close> is prime\<close>

text \<open>
  Pocklington certificates along the chain \<open>q\<close>, \<open>P1\<close>, \<open>P2\<close>, \<open>P3\<close>, where each number is a
  prime factor of the predecessor minus one and exceeds its square root; small primes are
  checked by trial division. Every power is computed by square and multiply, each step
  certified by the quotient of the division.
\<close>

lemma prime_163: "prime_int 163"
  by (rule trial_prime [where s = 13]) (simp, simp, code_simp)

lemma prime_3413: "prime_int 3413"
  by (rule trial_prime [where s = 59]) (simp, simp, code_simp)

lemma prime_397: "prime_int 397"
  by (rule trial_prime [where s = 20]) (simp, simp, code_simp)

lemma prime_4549: "prime_int 4549"
  by (rule trial_prime [where s = 68]) (simp, simp, code_simp)

lemma pw_B_163_a_2: "(2::int) ^ 3 mod 21140123 = 8"
  by (rule powm_start1 [where k = 0]) (simp_all only: arith_simps rel_simps)

lemma pw_B_163_a_3: "(2::int) ^ 7 mod 21140123 = 128"
  by (rule powm_sq1 [where k = 0, OF pw_B_163_a_2]) (simp_all only: arith_simps rel_simps)

lemma pw_B_163_a_4: "(2::int) ^ 15 mod 21140123 = 32768"
  by (rule powm_sq1 [where k = 0, OF pw_B_163_a_3]) (simp_all only: arith_simps rel_simps)

lemma pw_B_163_a_5: "(2::int) ^ 31 mod 21140123 = 12331225"
  by (rule powm_sq1 [where k = 101, OF pw_B_163_a_4]) (simp_all only: arith_simps rel_simps)

lemma pw_B_163_a_6: "(2::int) ^ 63 mod 21140123 = 4344160"
  by (rule powm_sq1 [where k = 14385830, OF pw_B_163_a_5]) (simp_all only: arith_simps rel_simps)

lemma pw_B_163_a_7: "(2::int) ^ 126 mod 21140123 = 1723869"
  by (rule powm_sq0 [where k = 892697, OF pw_B_163_a_6]) (simp_all only: arith_simps rel_simps)

lemma pw_B_163_a_8: "(2::int) ^ 253 mod 21140123 = 8777487"
  by (rule powm_sq1 [where k = 281145, OF pw_B_163_a_7]) (simp_all only: arith_simps rel_simps)

lemma pw_B_163_a_9: "(2::int) ^ 506 mod 21140123 = 8786958"
  by (rule powm_sq0 [where k = 3644457, OF pw_B_163_a_8]) (simp_all only: arith_simps rel_simps)

lemma pw_B_163_a_10: "(2::int) ^ 1013 mod 21140123 = 20035332"
  by (rule powm_sq1 [where k = 7304652, OF pw_B_163_a_9]) (simp_all only: arith_simps rel_simps)

lemma pw_B_163_a_11: "(2::int) ^ 2026 mod 21140123 = 17012153"
  by (rule powm_sq0 [where k = 18988277, OF pw_B_163_a_10]) (simp_all only: arith_simps rel_simps)

lemma pw_B_163_a_12: "(2::int) ^ 4052 mod 21140123 = 13336012"
  by (rule powm_sq0 [where k = 13690239, OF pw_B_163_a_11]) (simp_all only: arith_simps rel_simps)

lemma pw_B_163_a_13: "(2::int) ^ 8105 mod 21140123 = 7561038"
  by (rule powm_sq1 [where k = 16825750, OF pw_B_163_a_12]) (simp_all only: arith_simps rel_simps)

lemma pw_B_163_a_14: "(2::int) ^ 16211 mod 21140123 = 16316473"
  by (rule powm_sq1 [where k = 5408605, OF pw_B_163_a_13]) (simp_all only: arith_simps rel_simps)

lemma pw_B_163_a_15: "(2::int) ^ 32423 mod 21140123 = 16668421"
  by (rule powm_sq1 [where k = 25186919, OF pw_B_163_a_14]) (simp_all only: arith_simps rel_simps)

lemma pw_B_163_a_16: "(2::int) ^ 64847 mod 21140123 = 8206021"
  by (rule powm_sq1 [where k = 26285207, OF pw_B_163_a_15]) (simp_all only: arith_simps rel_simps)

lemma pw_B_163_a_17: "(2::int) ^ 129694 mod 21140123 = 5293899"
  by (rule powm_sq0 [where k = 3185354, OF pw_B_163_a_16]) (simp_all only: arith_simps rel_simps)

lemma pw_B_163_b_2: "(5293899::int) ^ 2 mod 21140123 = 11261716"
  by (rule powm_start0 [where k = 1325695]) (simp_all only: arith_simps rel_simps)

lemma pw_B_163_b_3: "(5293899::int) ^ 5 mod 21140123 = 3863138"
  by (rule powm_sq1 [where k = 31759765237322, OF pw_B_163_b_2]) (simp_all only: arith_simps rel_simps)

lemma pw_B_163_b_4: "(5293899::int) ^ 10 mod 21140123 = 7655440"
  by (rule powm_sq0 [where k = 705948, OF pw_B_163_b_3]) (simp_all only: arith_simps rel_simps)

lemma pw_B_163_b_5: "(5293899::int) ^ 20 mod 21140123 = 13326604"
  by (rule powm_sq0 [where k = 2772252, OF pw_B_163_b_4]) (simp_all only: arith_simps rel_simps)

lemma pw_B_163_b_6: "(5293899::int) ^ 40 mod 21140123 = 10588709"
  by (rule powm_sq0 [where k = 8401009, OF pw_B_163_b_5]) (simp_all only: arith_simps rel_simps)

lemma pw_B_163_b_7: "(5293899::int) ^ 81 mod 21140123 = 15130833"
  by (rule powm_sq1 [where k = 28077224062182, OF pw_B_163_b_6]) (simp_all only: arith_simps rel_simps)

lemma pw_B_163_b_8: "(5293899::int) ^ 163 mod 21140123 = 1"
  by (rule powm_sq1 [where k = 57331567690270, OF pw_B_163_b_7]) (simp_all only: arith_simps rel_simps)

lemma bz_B_163: "(- 4623303) * (5293899 - 1) + 1157765 * 21140123 = (1::int)"
  by simp

lemma pk_B_163:
  assumes "prime_int r" "r dvd 21140123"
  shows "163 dvd r - 1"
proof -
  have "int 163 dvd r - 1"
    by (rule pock_step [OF _ _ pock_cert1 [OF pw_B_163_a_17 pw_B_163_b_8] pock_cert2 [OF pw_B_163_a_17 bz_B_163] assms])
      (simp_all add: prime_163)
  then show ?thesis by simp
qed

lemma pw_B_3413_a_2: "(2::int) ^ 3 mod 21140123 = 8"
  by (rule powm_start1 [where k = 0]) (simp_all only: arith_simps rel_simps)

lemma pw_B_3413_a_3: "(2::int) ^ 6 mod 21140123 = 64"
  by (rule powm_sq0 [where k = 0, OF pw_B_3413_a_2]) (simp_all only: arith_simps rel_simps)

lemma pw_B_3413_a_4: "(2::int) ^ 12 mod 21140123 = 4096"
  by (rule powm_sq0 [where k = 0, OF pw_B_3413_a_3]) (simp_all only: arith_simps rel_simps)

lemma pw_B_3413_a_5: "(2::int) ^ 24 mod 21140123 = 16777216"
  by (rule powm_sq0 [where k = 0, OF pw_B_3413_a_4]) (simp_all only: arith_simps rel_simps)

lemma pw_B_3413_a_6: "(2::int) ^ 48 mod 21140123 = 10219235"
  by (rule powm_sq0 [where k = 13314727, OF pw_B_3413_a_5]) (simp_all only: arith_simps rel_simps)

lemma pw_B_3413_a_7: "(2::int) ^ 96 mod 21140123 = 6722027"
  by (rule powm_sq0 [where k = 4940026, OF pw_B_3413_a_6]) (simp_all only: arith_simps rel_simps)

lemma pw_B_3413_a_8: "(2::int) ^ 193 mod 21140123 = 16368448"
  by (rule powm_sq1 [where k = 4274870, OF pw_B_3413_a_7]) (simp_all only: arith_simps rel_simps)

lemma pw_B_3413_a_9: "(2::int) ^ 387 mod 21140123 = 15918057"
  by (rule powm_sq1 [where k = 25347637, OF pw_B_3413_a_8]) (simp_all only: arith_simps rel_simps)

lemma pw_B_3413_a_10: "(2::int) ^ 774 mod 21140123 = 17963030"
  by (rule powm_sq0 [where k = 11985953, OF pw_B_3413_a_9]) (simp_all only: arith_simps rel_simps)

lemma pw_B_3413_a_11: "(2::int) ^ 1548 mod 21140123 = 18561101"
  by (rule powm_sq0 [where k = 15263413, OF pw_B_3413_a_10]) (simp_all only: arith_simps rel_simps)

lemma pw_B_3413_a_12: "(2::int) ^ 3097 mod 21140123 = 11733619"
  by (rule powm_sq1 [where k = 32593421, OF pw_B_3413_a_11]) (simp_all only: arith_simps rel_simps)

lemma pw_B_3413_a_13: "(2::int) ^ 6194 mod 21140123 = 15583671"
  by (rule powm_sq0 [where k = 6512630, OF pw_B_3413_a_12]) (simp_all only: arith_simps rel_simps)

lemma pw_B_3413_b_2: "(15583671::int) ^ 3 mod 21140123 = 2327092"
  by (rule powm_start1 [where k = 179020103047753]) (simp_all only: arith_simps rel_simps)

lemma pw_B_3413_b_3: "(15583671::int) ^ 6 mod 21140123 = 18708292"
  by (rule powm_sq0 [where k = 256164, OF pw_B_3413_b_2]) (simp_all only: arith_simps rel_simps)

lemma pw_B_3413_b_4: "(15583671::int) ^ 13 mod 21140123 = 15368168"
  by (rule powm_sq1 [where k = 258006436575512, OF pw_B_3413_b_3]) (simp_all only: arith_simps rel_simps)

lemma pw_B_3413_b_5: "(15583671::int) ^ 26 mod 21140123 = 4782020"
  by (rule powm_sq0 [where k = 11172148, OF pw_B_3413_b_4]) (simp_all only: arith_simps rel_simps)

lemma pw_B_3413_b_6: "(15583671::int) ^ 53 mod 21140123 = 18362017"
  by (rule powm_sq1 [where k = 16857184390621, OF pw_B_3413_b_5]) (simp_all only: arith_simps rel_simps)

lemma pw_B_3413_b_7: "(15583671::int) ^ 106 mod 21140123 = 15702273"
  by (rule powm_sq0 [where k = 15948992, OF pw_B_3413_b_6]) (simp_all only: arith_simps rel_simps)

lemma pw_B_3413_b_8: "(15583671::int) ^ 213 mod 21140123 = 6630041"
  by (rule powm_sq1 [where k = 181755394052666, OF pw_B_3413_b_7]) (simp_all only: arith_simps rel_simps)

lemma pw_B_3413_b_9: "(15583671::int) ^ 426 mod 21140123 = 3723230"
  by (rule powm_sq0 [where k = 2079337, OF pw_B_3413_b_8]) (simp_all only: arith_simps rel_simps)

lemma pw_B_3413_b_10: "(15583671::int) ^ 853 mod 21140123 = 12651215"
  by (rule powm_sq1 [where k = 10218849231095, OF pw_B_3413_b_9]) (simp_all only: arith_simps rel_simps)

lemma pw_B_3413_b_11: "(15583671::int) ^ 1706 mod 21140123 = 16775353"
  by (rule powm_sq0 [where k = 7571064, OF pw_B_3413_b_10]) (simp_all only: arith_simps rel_simps)

lemma pw_B_3413_b_12: "(15583671::int) ^ 3413 mod 21140123 = 1"
  by (rule powm_sq1 [where k = 207446253784306, OF pw_B_3413_b_11]) (simp_all only: arith_simps rel_simps)

lemma bz_B_3413: "830854 * (15583671 - 1) + (- 612473) * 21140123 = (1::int)"
  by simp

lemma pk_B_3413:
  assumes "prime_int r" "r dvd 21140123"
  shows "3413 dvd r - 1"
proof -
  have "int 3413 dvd r - 1"
    by (rule pock_step [OF _ _ pock_cert1 [OF pw_B_3413_a_13 pw_B_3413_b_12] pock_cert2 [OF pw_B_3413_a_13 bz_B_3413] assms])
      (simp_all add: prime_3413)
  then show ?thesis by simp
qed

lemma prime_21140123: "prime_int 21140123"
proof (rule pock_prime [where F = "163 * 3413"])
  fix r assume r: "prime_int r" "r dvd 21140123"
  have "1026 * 163 + (- 49) * 3413 = (1::int)" by simp
  then have "coprime (163::int) 3413" by (rule bezout_coprime)
  with pk_B_163 [OF r] pk_B_3413 [OF r] show "163 * 3413 dvd r - 1" by (rule divides_mult)
qed simp_all

lemma pw_A_397_a_2: "(2::int) ^ 2 mod 9925517689 = 4"
  by (rule powm_start0 [where k = 0]) (simp_all only: arith_simps rel_simps)

lemma pw_A_397_a_3: "(2::int) ^ 5 mod 9925517689 = 32"
  by (rule powm_sq1 [where k = 0, OF pw_A_397_a_2]) (simp_all only: arith_simps rel_simps)

lemma pw_A_397_a_4: "(2::int) ^ 11 mod 9925517689 = 2048"
  by (rule powm_sq1 [where k = 0, OF pw_A_397_a_3]) (simp_all only: arith_simps rel_simps)

lemma pw_A_397_a_5: "(2::int) ^ 23 mod 9925517689 = 8388608"
  by (rule powm_sq1 [where k = 0, OF pw_A_397_a_4]) (simp_all only: arith_simps rel_simps)

lemma pw_A_397_a_6: "(2::int) ^ 47 mod 9925517689 = 3573042997"
  by (rule powm_sq1 [where k = 14179, OF pw_A_397_a_5]) (simp_all only: arith_simps rel_simps)

lemma pw_A_397_a_7: "(2::int) ^ 95 mod 9925517689 = 8268957292"
  by (rule powm_sq1 [where k = 2572487734, OF pw_A_397_a_6]) (simp_all only: arith_simps rel_simps)

lemma pw_A_397_a_8: "(2::int) ^ 190 mod 9925517689 = 7275434219"
  by (rule powm_sq0 [where k = 6888875405, OF pw_A_397_a_7]) (simp_all only: arith_simps rel_simps)

lemma pw_A_397_a_9: "(2::int) ^ 381 mod 9925517689 = 755672835"
  by (rule powm_sq1 [where k = 10665830183, OF pw_A_397_a_8]) (simp_all only: arith_simps rel_simps)

lemma pw_A_397_a_10: "(2::int) ^ 762 mod 9925517689 = 8957232174"
  by (rule powm_sq0 [where k = 57532659, OF pw_A_397_a_9]) (simp_all only: arith_simps rel_simps)

lemma pw_A_397_a_11: "(2::int) ^ 1525 mod 9925517689 = 1964421816"
  by (rule powm_sq1 [where k = 16166815824, OF pw_A_397_a_10]) (simp_all only: arith_simps rel_simps)

lemma pw_A_397_a_12: "(2::int) ^ 3051 mod 9925517689 = 3538479998"
  by (rule powm_sq1 [where k = 777582226, OF pw_A_397_a_11]) (simp_all only: arith_simps rel_simps)

lemma pw_A_397_a_13: "(2::int) ^ 6103 mod 9925517689 = 3444566794"
  by (rule powm_sq1 [where k = 2522959726, OF pw_A_397_a_12]) (simp_all only: arith_simps rel_simps)

lemma pw_A_397_a_14: "(2::int) ^ 12207 mod 9925517689 = 4683324047"
  by (rule powm_sq1 [where k = 2390815425, OF pw_A_397_a_13]) (simp_all only: arith_simps rel_simps)

lemma pw_A_397_a_15: "(2::int) ^ 24415 mod 9925517689 = 8102131618"
  by (rule powm_sq1 [where k = 4419623200, OF pw_A_397_a_14]) (simp_all only: arith_simps rel_simps)

lemma pw_A_397_a_16: "(2::int) ^ 48830 mod 9925517689 = 9282769330"
  by (rule powm_sq0 [where k = 6613714146, OF pw_A_397_a_15]) (simp_all only: arith_simps rel_simps)

lemma pw_A_397_a_17: "(2::int) ^ 97661 mod 9925517689 = 4836975771"
  by (rule powm_sq1 [where k = 17363287061, OF pw_A_397_a_16]) (simp_all only: arith_simps rel_simps)

lemma pw_A_397_a_18: "(2::int) ^ 195322 mod 9925517689 = 4646284090"
  by (rule powm_sq0 [where k = 2357190359, OF pw_A_397_a_17]) (simp_all only: arith_simps rel_simps)

lemma pw_A_397_a_19: "(2::int) ^ 390645 mod 9925517689 = 5482119966"
  by (rule powm_sq1 [where k = 4349990906, OF pw_A_397_a_18]) (simp_all only: arith_simps rel_simps)

lemma pw_A_397_a_20: "(2::int) ^ 781290 mod 9925517689 = 4072917450"
  by (rule powm_sq0 [where k = 3027916554, OF pw_A_397_a_19]) (simp_all only: arith_simps rel_simps)

lemma pw_A_397_a_21: "(2::int) ^ 1562581 mod 9925517689 = 5494737536"
  by (rule powm_sq1 [where k = 3342627976, OF pw_A_397_a_20]) (simp_all only: arith_simps rel_simps)

lemma pw_A_397_a_22: "(2::int) ^ 3125163 mod 9925517689 = 5242120500"
  by (rule powm_sq1 [where k = 6083741228, OF pw_A_397_a_21]) (simp_all only: arith_simps rel_simps)

lemma pw_A_397_a_23: "(2::int) ^ 6250326 mod 9925517689 = 5842743785"
  by (rule powm_sq0 [where k = 2768603935, OF pw_A_397_a_22]) (simp_all only: arith_simps rel_simps)

lemma pw_A_397_a_24: "(2::int) ^ 12500652 mod 9925517689 = 7333082446"
  by (rule powm_sq0 [where k = 3439382811, OF pw_A_397_a_23]) (simp_all only: arith_simps rel_simps)

lemma pw_A_397_a_25: "(2::int) ^ 25001304 mod 9925517689 = 5974866009"
  by (rule powm_sq0 [where k = 5417762563, OF pw_A_397_a_24]) (simp_all only: arith_simps rel_simps)

lemma pw_A_397_b_2: "(5974866009::int) ^ 3 mod 9925517689 = 1176747690"
  by (rule powm_start1 [where k = 21489749017914680151]) (simp_all only: arith_simps rel_simps)

lemma pw_A_397_b_3: "(5974866009::int) ^ 6 mod 9925517689 = 9314353274"
  by (rule powm_sq0 [where k = 139512634, OF pw_A_397_b_2]) (simp_all only: arith_simps rel_simps)

lemma pw_A_397_b_4: "(5974866009::int) ^ 12 mod 9925517689 = 6911694304"
  by (rule powm_sq0 [where k = 8740821348, OF pw_A_397_b_3]) (simp_all only: arith_simps rel_simps)

lemma pw_A_397_b_5: "(5974866009::int) ^ 24 mod 9925517689 = 6110355688"
  by (rule powm_sq0 [where k = 4813000152, OF pw_A_397_b_4]) (simp_all only: arith_simps rel_simps)

lemma pw_A_397_b_6: "(5974866009::int) ^ 49 mod 9925517689 = 6518127891"
  by (rule powm_sq1 [where k = 22475428776556981845, OF pw_A_397_b_5]) (simp_all only: arith_simps rel_simps)

lemma pw_A_397_b_7: "(5974866009::int) ^ 99 mod 9925517689 = 2755699037"
  by (rule powm_sq1 [where k = 25575301223974223428, OF pw_A_397_b_6]) (simp_all only: arith_simps rel_simps)

lemma pw_A_397_b_8: "(5974866009::int) ^ 198 mod 9925517689 = 5058427296"
  by (rule powm_sq0 [where k = 765086257, OF pw_A_397_b_7]) (simp_all only: arith_simps rel_simps)

lemma pw_A_397_b_9: "(5974866009::int) ^ 397 mod 9925517689 = 1"
  by (rule powm_sq1 [where k = 15403025248293874487, OF pw_A_397_b_8]) (simp_all only: arith_simps rel_simps)

lemma bz_A_397: "4608845272 * (5974866009 - 1) + (- 2774387575) * 9925517689 = (1::int)"
  by simp

lemma pk_A_397:
  assumes "prime_int r" "r dvd 9925517689"
  shows "397 dvd r - 1"
proof -
  have "int 397 dvd r - 1"
    by (rule pock_step [OF _ _ pock_cert1 [OF pw_A_397_a_25 pw_A_397_b_9] pock_cert2 [OF pw_A_397_a_25 bz_A_397] assms])
      (simp_all add: prime_397)
  then show ?thesis by simp
qed

lemma pw_A_4549_a_2: "(2::int) ^ 2 mod 9925517689 = 4"
  by (rule powm_start0 [where k = 0]) (simp_all only: arith_simps rel_simps)

lemma pw_A_4549_a_3: "(2::int) ^ 4 mod 9925517689 = 16"
  by (rule powm_sq0 [where k = 0, OF pw_A_4549_a_2]) (simp_all only: arith_simps rel_simps)

lemma pw_A_4549_a_4: "(2::int) ^ 8 mod 9925517689 = 256"
  by (rule powm_sq0 [where k = 0, OF pw_A_4549_a_3]) (simp_all only: arith_simps rel_simps)

lemma pw_A_4549_a_5: "(2::int) ^ 16 mod 9925517689 = 65536"
  by (rule powm_sq0 [where k = 0, OF pw_A_4549_a_4]) (simp_all only: arith_simps rel_simps)

lemma pw_A_4549_a_6: "(2::int) ^ 33 mod 9925517689 = 8589934592"
  by (rule powm_sq1 [where k = 0, OF pw_A_4549_a_5]) (simp_all only: arith_simps rel_simps)

lemma pw_A_4549_a_7: "(2::int) ^ 66 mod 9925517689 = 1060260032"
  by (rule powm_sq0 [where k = 7434068288, OF pw_A_4549_a_6]) (simp_all only: arith_simps rel_simps)

lemma pw_A_4549_a_8: "(2::int) ^ 133 mod 9925517689 = 1911121979"
  by (rule powm_sq1 [where k = 226517421, OF pw_A_4549_a_7]) (simp_all only: arith_simps rel_simps)

lemma pw_A_4549_a_9: "(2::int) ^ 266 mod 9925517689 = 3518182539"
  by (rule powm_sq0 [where k = 367979518, OF pw_A_4549_a_8]) (simp_all only: arith_simps rel_simps)

lemma pw_A_4549_a_10: "(2::int) ^ 532 mod 9925517689 = 198107549"
  by (rule powm_sq0 [where k = 1247049148, OF pw_A_4549_a_9]) (simp_all only: arith_simps rel_simps)

lemma pw_A_4549_a_11: "(2::int) ^ 1065 mod 9925517689 = 4592035844"
  by (rule powm_sq1 [where k = 7908222, OF pw_A_4549_a_10]) (simp_all only: arith_simps rel_simps)

lemma pw_A_4549_a_12: "(2::int) ^ 2130 mod 9925517689 = 3865797235"
  by (rule powm_sq0 [where k = 2124503109, OF pw_A_4549_a_11]) (simp_all only: arith_simps rel_simps)

lemma pw_A_4549_a_13: "(2::int) ^ 4261 mod 9925517689 = 5911068299"
  by (rule powm_sq1 [where k = 3011306559, OF pw_A_4549_a_12]) (simp_all only: arith_simps rel_simps)

lemma pw_A_4549_a_14: "(2::int) ^ 8523 mod 9925517689 = 6794416847"
  by (rule powm_sq1 [where k = 7040585595, OF pw_A_4549_a_13]) (simp_all only: arith_simps rel_simps)

lemma pw_A_4549_a_15: "(2::int) ^ 17046 mod 9925517689 = 2766116949"
  by (rule powm_sq0 [where k = 4651052140, OF pw_A_4549_a_14]) (simp_all only: arith_simps rel_simps)

lemma pw_A_4549_a_16: "(2::int) ^ 34092 mod 9925517689 = 8711299845"
  by (rule powm_sq0 [where k = 770882004, OF pw_A_4549_a_15]) (simp_all only: arith_simps rel_simps)

lemma pw_A_4549_a_17: "(2::int) ^ 68184 mod 9925517689 = 9360326064"
  by (rule powm_sq0 [where k = 7645620849, OF pw_A_4549_a_16]) (simp_all only: arith_simps rel_simps)

lemma pw_A_4549_a_18: "(2::int) ^ 136369 mod 9925517689 = 3969328390"
  by (rule powm_sq1 [where k = 17654636618, OF pw_A_4549_a_17]) (simp_all only: arith_simps rel_simps)

lemma pw_A_4549_a_19: "(2::int) ^ 272739 mod 9925517689 = 957277009"
  by (rule powm_sq1 [where k = 3174759919, OF pw_A_4549_a_18]) (simp_all only: arith_simps rel_simps)

lemma pw_A_4549_a_20: "(2::int) ^ 545478 mod 9925517689 = 5193142260"
  by (rule powm_sq0 [where k = 92325589, OF pw_A_4549_a_19]) (simp_all only: arith_simps rel_simps)

lemma pw_A_4549_a_21: "(2::int) ^ 1090956 mod 9925517689 = 8324492498"
  by (rule powm_sq0 [where k = 2717110318, OF pw_A_4549_a_20]) (simp_all only: arith_simps rel_simps)

lemma pw_A_4549_a_22: "(2::int) ^ 2181912 mod 9925517689 = 4460548205"
  by (rule powm_sq0 [where k = 6981718991, OF pw_A_4549_a_21]) (simp_all only: arith_simps rel_simps)

lemma pw_A_4549_b_2: "(4460548205::int) ^ 2 mod 9925517689 = 394659936"
  by (rule powm_start0 [where k = 2004579601]) (simp_all only: arith_simps rel_simps)

lemma pw_A_4549_b_3: "(4460548205::int) ^ 4 mod 9925517689 = 834396304"
  by (rule powm_sq0 [where k = 15692528, OF pw_A_4549_b_2]) (simp_all only: arith_simps rel_simps)

lemma pw_A_4549_b_4: "(4460548205::int) ^ 8 mod 9925517689 = 1939154975"
  by (rule powm_sq0 [where k = 70144169, OF pw_A_4549_b_3]) (simp_all only: arith_simps rel_simps)

lemma pw_A_4549_b_5: "(4460548205::int) ^ 17 mod 9925517689 = 1392674453"
  by (rule powm_sq1 [where k = 1689896502027311448, OF pw_A_4549_b_4]) (simp_all only: arith_simps rel_simps)

lemma pw_A_4549_b_6: "(4460548205::int) ^ 35 mod 9925517689 = 5741874367"
  by (rule powm_sq1 [where k = 871634250894110902, OF pw_A_4549_b_5]) (simp_all only: arith_simps rel_simps)

lemma pw_A_4549_b_7: "(4460548205::int) ^ 71 mod 9925517689 = 6547587590"
  by (rule powm_sq1 [where k = 14816391366577196895, OF pw_A_4549_b_6]) (simp_all only: arith_simps rel_simps)

lemma pw_A_4549_b_8: "(4460548205::int) ^ 142 mod 9925517689 = 3220995080"
  by (rule powm_sq0 [where k = 4319261180, OF pw_A_4549_b_7]) (simp_all only: arith_simps rel_simps)

lemma pw_A_4549_b_9: "(4460548205::int) ^ 284 mod 9925517689 = 6135860365"
  by (rule powm_sq0 [where k = 1045266315, OF pw_A_4549_b_8]) (simp_all only: arith_simps rel_simps)

lemma pw_A_4549_b_10: "(4460548205::int) ^ 568 mod 9925517689 = 3393619008"
  by (rule powm_sq0 [where k = 3793130353, OF pw_A_4549_b_9]) (simp_all only: arith_simps rel_simps)

lemma pw_A_4549_b_11: "(4460548205::int) ^ 1137 mod 9925517689 = 4807184122"
  by (rule powm_sq1 [where k = 5175606347942534582, OF pw_A_4549_b_10]) (simp_all only: arith_simps rel_simps)

lemma pw_A_4549_b_12: "(4460548205::int) ^ 2274 mod 9925517689 = 7734251505"
  by (rule powm_sq0 [where k = 2328243211, OF pw_A_4549_b_11]) (simp_all only: arith_simps rel_simps)

lemma pw_A_4549_b_13: "(4460548205::int) ^ 4549 mod 9925517689 = 1"
  by (rule powm_sq1 [where k = 26882623549671343916, OF pw_A_4549_b_12]) (simp_all only: arith_simps rel_simps)

lemma bz_A_4549: "227563177 * (4460548205 - 1) + (- 102267363) * 9925517689 = (1::int)"
  by simp

lemma pk_A_4549:
  assumes "prime_int r" "r dvd 9925517689"
  shows "4549 dvd r - 1"
proof -
  have "int 4549 dvd r - 1"
    by (rule pock_step [OF _ _ pock_cert1 [OF pw_A_4549_a_22 pw_A_4549_b_13] pock_cert2 [OF pw_A_4549_a_22 bz_A_4549] assms])
      (simp_all add: prime_4549)
  then show ?thesis by simp
qed

lemma prime_9925517689: "prime_int 9925517689"
proof (rule pock_prime [where F = "397 * 4549"])
  fix r assume r: "prime_int r" "r dvd 9925517689"
  have "(- 275) * 397 + 24 * 4549 = (1::int)" by simp
  then have "coprime (397::int) 4549" by (rule bezout_coprime)
  with pk_A_397 [OF r] pk_A_4549 [OF r] show "397 * 4549 dvd r - 1" by (rule divides_mult)
qed simp_all

lemma pw_P3_21140123_a_2: "(2::int) ^ 2 mod 276809062572392527871141621363 = 4"
  by (rule powm_start0 [where k = 0]) (simp_all only: arith_simps rel_simps)

lemma pw_P3_21140123_a_3: "(2::int) ^ 5 mod 276809062572392527871141621363 = 32"
  by (rule powm_sq1 [where k = 0, OF pw_P3_21140123_a_2]) (simp_all only: arith_simps rel_simps)

lemma pw_P3_21140123_a_4: "(2::int) ^ 11 mod 276809062572392527871141621363 = 2048"
  by (rule powm_sq1 [where k = 0, OF pw_P3_21140123_a_3]) (simp_all only: arith_simps rel_simps)

lemma pw_P3_21140123_a_5: "(2::int) ^ 22 mod 276809062572392527871141621363 = 4194304"
  by (rule powm_sq0 [where k = 0, OF pw_P3_21140123_a_4]) (simp_all only: arith_simps rel_simps)

lemma pw_P3_21140123_a_6: "(2::int) ^ 44 mod 276809062572392527871141621363 = 17592186044416"
  by (rule powm_sq0 [where k = 0, OF pw_P3_21140123_a_5]) (simp_all only: arith_simps rel_simps)

lemma pw_P3_21140123_a_7: "(2::int) ^ 88 mod 276809062572392527871141621363 = 309485009821345068724781056"
  by (rule powm_sq0 [where k = 0, OF pw_P3_21140123_a_6]) (simp_all only: arith_simps rel_simps)

lemma pw_P3_21140123_a_8: "(2::int) ^ 177 mod 276809062572392527871141621363 = 17812626209617341142071244588"
  by (rule powm_sq1 [where k = 692036383592527228431068, OF pw_P3_21140123_a_7]) (simp_all only: arith_simps rel_simps)

lemma pw_P3_21140123_a_9: "(2::int) ^ 354 mod 276809062572392527871141621363 = 221046273310799479055798978258"
  by (rule powm_sq0 [where k = 1146240117772760514380920522, OF pw_P3_21140123_a_8]) (simp_all only: arith_simps rel_simps)

lemma pw_P3_21140123_a_10: "(2::int) ^ 709 mod 276809062572392527871141621363 = 107311767674811309540432429565"
  by (rule powm_sq1 [where k = 353033636186056324758683691401, OF pw_P3_21140123_a_9]) (simp_all only: arith_simps rel_simps)

lemma pw_P3_21140123_a_11: "(2::int) ^ 1419 mod 276809062572392527871141621363 = 74256001621607756574283619624"
  by (rule powm_sq1 [where k = 83204035117029467028416574702, OF pw_P3_21140123_a_10]) (simp_all only: arith_simps rel_simps)

lemma pw_P3_21140123_a_12: "(2::int) ^ 2839 mod 276809062572392527871141621363 = 178252639500322842884163040380"
  by (rule powm_sq1 [where k = 39839402117740825482421764844, OF pw_P3_21140123_a_11]) (simp_all only: arith_simps rel_simps)

lemma pw_P3_21140123_a_13: "(2::int) ^ 5678 mod 276809062572392527871141621363 = 98526842590455868627275555708"
  by (rule powm_sq0 [where k = 114786716856578186789730323484, OF pw_P3_21140123_a_12]) (simp_all only: arith_simps rel_simps)

lemma pw_P3_21140123_a_14: "(2::int) ^ 11357 mod 276809062572392527871141621363 = 121487610120675989343592322405"
  by (rule powm_sq1 [where k = 70138879273908910512778170521, OF pw_P3_21140123_a_13]) (simp_all only: arith_simps rel_simps)

lemma pw_P3_21140123_a_15: "(2::int) ^ 22714 mod 276809062572392527871141621363 = 235542898986066470876394448734"
  by (rule powm_sq0 [where k = 53319205938112893150301815257, OF pw_P3_21140123_a_14]) (simp_all only: arith_simps rel_simps)

lemma pw_P3_21140123_a_16: "(2::int) ^ 45428 mod 276809062572392527871141621363 = 272194809267759832669896032296"
  by (rule powm_sq0 [where k = 200428615837860363245251546420, OF pw_P3_21140123_a_15]) (simp_all only: arith_simps rel_simps)

lemma pw_P3_21140123_a_17: "(2::int) ^ 90857 mod 276809062572392527871141621363 = 52979442142485243151783457105"
  by (rule powm_sq1 [where k = 535314946004961474267863078229, OF pw_P3_21140123_a_16]) (simp_all only: arith_simps rel_simps)

lemma pw_P3_21140123_a_18: "(2::int) ^ 181715 mod 276809062572392527871141621363 = 248811585614667629534478669945"
  by (rule powm_sq1 [where k = 20279836676191821214176858835, OF pw_P3_21140123_a_17]) (simp_all only: arith_simps rel_simps)

lemma pw_P3_21140123_a_19: "(2::int) ^ 363431 mod 276809062572392527871141621363 = 8071245560312485149099787831"
  by (rule powm_sq1 [where k = 447291750933152988155286193513, OF pw_P3_21140123_a_18]) (simp_all only: arith_simps rel_simps)

lemma pw_P3_21140123_a_20: "(2::int) ^ 726863 mod 276809062572392527871141621363 = 137590246761041564890925676279"
  by (rule powm_sq1 [where k = 470685491937800598907401961, OF pw_P3_21140123_a_19]) (simp_all only: arith_simps rel_simps)

lemma pw_P3_21140123_a_21: "(2::int) ^ 1453727 mod 276809062572392527871141621363 = 235845005332557921509942173532"
  by (rule powm_sq1 [where k = 136780752969844378577861910050, OF pw_P3_21140123_a_20]) (simp_all only: arith_simps rel_simps)

lemma pw_P3_21140123_a_22: "(2::int) ^ 2907455 mod 276809062572392527871141621363 = 45692433147264302003704707508"
  by (rule powm_sq1 [where k = 401886166756317789770572324580, OF pw_P3_21140123_a_21]) (simp_all only: arith_simps rel_simps)

lemma pw_P3_21140123_a_23: "(2::int) ^ 5814910 mod 276809062572392527871141621363 = 96203080588896573390300169260"
  by (rule powm_sq0 [where k = 7542377505690247237058967308, OF pw_P3_21140123_a_22]) (simp_all only: arith_simps rel_simps)

lemma pw_P3_21140123_a_24: "(2::int) ^ 11629820 mod 276809062572392527871141621363 = 187564144515041538253176567240"
  by (rule powm_sq0 [where k = 33434717161304301502128573720, OF pw_P3_21140123_a_23]) (simp_all only: arith_simps rel_simps)

lemma pw_P3_21140123_a_25: "(2::int) ^ 23259640 mod 276809062572392527871141621363 = 86935632971851711030949413713"
  by (rule powm_sq0 [where k = 127092328483497001934749081749, OF pw_P3_21140123_a_24]) (simp_all only: arith_simps rel_simps)

lemma pw_P3_21140123_a_26: "(2::int) ^ 46519281 mod 276809062572392527871141621363 = 231876648069922358467894822561"
  by (rule powm_sq1 [where k = 54606624580724878298051527579, OF pw_P3_21140123_a_25]) (simp_all only: arith_simps rel_simps)

lemma pw_P3_21140123_a_27: "(2::int) ^ 93038563 mod 276809062572392527871141621363 = 105661125597187265921063447348"
  by (rule powm_sq1 [where k = 388475575333313111821846854138, OF pw_P3_21140123_a_26]) (simp_all only: arith_simps rel_simps)

lemma pw_P3_21140123_a_28: "(2::int) ^ 186077127 mod 276809062572392527871141621363 = 88272838061994265370499940566"
  by (rule powm_sq1 [where k = 80664074786531556721183301134, OF pw_P3_21140123_a_27]) (simp_all only: arith_simps rel_simps)

lemma pw_P3_21140123_a_29: "(2::int) ^ 372154255 mod 276809062572392527871141621363 = 120053012094017539335277481827"
  by (rule powm_sq1 [where k = 56299413517079015870150973895, OF pw_P3_21140123_a_28]) (simp_all only: arith_simps rel_simps)

lemma pw_P3_21140123_a_30: "(2::int) ^ 744308511 mod 276809062572392527871141621363 = 37816953344040582571290537607"
  by (rule powm_sq1 [where k = 104134782141224379210051719177, OF pw_P3_21140123_a_29]) (simp_all only: arith_simps rel_simps)

lemma pw_P3_21140123_a_31: "(2::int) ^ 1488617023 mod 276809062572392527871141621363 = 264757234135087917503814255781"
  by (rule powm_sq1 [where k = 10332912852889918370354610959, OF pw_P3_21140123_a_30]) (simp_all only: arith_simps rel_simps)

lemma pw_P3_21140123_a_32: "(2::int) ^ 2977234046 mod 276809062572392527871141621363 = 20110917993933253200803351462"
  by (rule powm_sq0 [where k = 253230123231712451736093243073, OF pw_P3_21140123_a_31]) (simp_all only: arith_simps rel_simps)

lemma pw_P3_21140123_a_33: "(2::int) ^ 5954468093 mod 276809062572392527871141621363 = 138255053259076929180223319576"
  by (rule powm_sq1 [where k = 2922223852067232946159390224, OF pw_P3_21140123_a_32]) (simp_all only: arith_simps rel_simps)

lemma pw_P3_21140123_a_34: "(2::int) ^ 11908936187 mod 276809062572392527871141621363 = 245469928425450728174805160461"
  by (rule powm_sq1 [where k = 138105736669450889248938617857, OF pw_P3_21140123_a_33]) (simp_all only: arith_simps rel_simps)

lemma pw_P3_21140123_a_35: "(2::int) ^ 23817872375 mod 276809062572392527871141621363 = 226289635417894997443105436109"
  by (rule powm_sq1 [where k = 435357753111407465340660452391, OF pw_P3_21140123_a_34]) (simp_all only: arith_simps rel_simps)

lemma pw_P3_21140123_a_36: "(2::int) ^ 47635744751 mod 276809062572392527871141621363 = 86183170319821157054932535889"
  by (rule powm_sq1 [where k = 369980654691693272331450051771, OF pw_P3_21140123_a_35]) (simp_all only: arith_simps rel_simps)

lemma pw_P3_21140123_a_37: "(2::int) ^ 95271489503 mod 276809062572392527871141621363 = 121827375215581523736085650340"
  by (rule powm_sq1 [where k = 53665431162918044186651470954, OF pw_P3_21140123_a_36]) (simp_all only: arith_simps rel_simps)

lemma pw_P3_21140123_a_38: "(2::int) ^ 190542979007 mod 276809062572392527871141621363 = 133091436542836574654011404377"
  by (rule powm_sq1 [where k = 107235718469560980850947491421, OF pw_P3_21140123_a_37]) (simp_all only: arith_simps rel_simps)

lemma pw_P3_21140123_a_39: "(2::int) ^ 381085958014 mod 276809062572392527871141621363 = 70365454436743489895224307841"
  by (rule powm_sq0 [where k = 63991150854764423007136000976, OF pw_P3_21140123_a_38]) (simp_all only: arith_simps rel_simps)

lemma pw_P3_21140123_a_40: "(2::int) ^ 762171916028 mod 276809062572392527871141621363 = 89275018787002075352630321699"
  by (rule powm_sq0 [where k = 17887048682860718898905833514, OF pw_P3_21140123_a_39]) (simp_all only: arith_simps rel_simps)

lemma pw_P3_21140123_a_41: "(2::int) ^ 1524343832057 mod 276809062572392527871141621363 = 6548346961769563812872242397"
  by (rule powm_sq1 [where k = 57585029228117923985820423735, OF pw_P3_21140123_a_40]) (simp_all only: arith_simps rel_simps)

lemma pw_P3_21140123_a_42: "(2::int) ^ 3048687664114 mod 276809062572392527871141621363 = 166433886472469578447222585262"
  by (rule powm_sq0 [where k = 154911286260731646472170169, OF pw_P3_21140123_a_41]) (simp_all only: arith_simps rel_simps)

lemma pw_P3_21140123_a_43: "(2::int) ^ 6097375328228 mod 276809062572392527871141621363 = 9182482643215890406349606412"
  by (rule powm_sq0 [where k = 100069839870530190704452345064, OF pw_P3_21140123_a_42]) (simp_all only: arith_simps rel_simps)

lemma pw_P3_21140123_a_44: "(2::int) ^ 12194750656456 mod 276809062572392527871141621363 = 106991146454143712565509887410"
  by (rule powm_sq0 [where k = 304607033849947785143448618, OF pw_P3_21140123_a_43]) (simp_all only: arith_simps rel_simps)

lemma pw_P3_21140123_a_45: "(2::int) ^ 24389501312912 mod 276809062572392527871141621363 = 146626982407809276001264108646"
  by (rule powm_sq0 [where k = 41353795692936617315862290858, OF pw_P3_21140123_a_44]) (simp_all only: arith_simps rel_simps)

lemma pw_P3_21140123_a_46: "(2::int) ^ 48779002625825 mod 276809062572392527871141621363 = 263403593697250324388869787168"
  by (rule powm_sq1 [where k = 155337919721449571891881795128, OF pw_P3_21140123_a_45]) (simp_all only: arith_simps rel_simps)

lemma pw_P3_21140123_a_47: "(2::int) ^ 97558005251650 mod 276809062572392527871141621363 = 76510754480661627082385643752"
  by (rule powm_sq0 [where k = 250647332597649821541312465544, OF pw_P3_21140123_a_46]) (simp_all only: arith_simps rel_simps)

lemma pw_P3_21140123_a_48: "(2::int) ^ 195116010503301 mod 276809062572392527871141621363 = 240067717723243553302789274705"
  by (rule powm_sq1 [where k = 42295548395704294630059447381, OF pw_P3_21140123_a_47]) (simp_all only: arith_simps rel_simps)

lemma pw_P3_21140123_a_49: "(2::int) ^ 390232021006602 mod 276809062572392527871141621363 = 38017132206679837489411795478"
  by (rule powm_sq0 [where k = 208203115018225232669189522569, OF pw_P3_21140123_a_48]) (simp_all only: arith_simps rel_simps)

lemma pw_P3_21140123_a_50: "(2::int) ^ 780464042013205 mod 276809062572392527871141621363 = 242311009581055356317702109588"
  by (rule powm_sq1 [where k = 10442594095648082170759691260, OF pw_P3_21140123_a_49]) (simp_all only: arith_simps rel_simps)

lemma pw_P3_21140123_a_51: "(2::int) ^ 1560928084026411 mod 276809062572392527871141621363 = 106477420721350901331432443791"
  by (rule powm_sq1 [where k = 424224733240696917382477584619, OF pw_P3_21140123_a_50]) (simp_all only: arith_simps rel_simps)

lemma pw_P3_21140123_a_52: "(2::int) ^ 3121856168052822 mod 276809062572392527871141621363 = 267539318730698598593160211176"
  by (rule powm_sq0 [where k = 40957622623018494779106225635, OF pw_P3_21140123_a_51]) (simp_all only: arith_simps rel_simps)

lemma pw_P3_21140123_a_53: "(2::int) ^ 6243712336105644 mod 276809062572392527871141621363 = 224585812049316245539595123261"
  by (rule powm_sq0 [where k = 258579998796705126756642528305, OF pw_P3_21140123_a_52]) (simp_all only: arith_simps rel_simps)

lemma pw_P3_21140123_a_54: "(2::int) ^ 12487424672211288 mod 276809062572392527871141621363 = 249040846045901074234020615769"
  by (rule powm_sq0 [where k = 182215085391793454931653228304, OF pw_P3_21140123_a_53]) (simp_all only: arith_simps rel_simps)

lemma pw_P3_21140123_a_55: "(2::int) ^ 24974849344422577 mod 276809062572392527871141621363 = 46863227024232368808517158921"
  by (rule powm_sq1 [where k = 448116419476245005728310449027, OF pw_P3_21140123_a_54]) (simp_all only: arith_simps rel_simps)

lemma pw_P3_21140123_a_56: "(2::int) ^ 49949698688845155 mod 276809062572392527871141621363 = 122983688918080146556133119813"
  by (rule powm_sq1 [where k = 15867703367192982866299495663, OF pw_P3_21140123_a_55]) (simp_all only: arith_simps rel_simps)

lemma pw_P3_21140123_a_57: "(2::int) ^ 99899397377690310 mod 276809062572392527871141621363 = 177694214106962588346160648725"
  by (rule powm_sq0 [where k = 54640507790251791217563630188, OF pw_P3_21140123_a_56]) (simp_all only: arith_simps rel_simps)

lemma pw_P3_21140123_a_58: "(2::int) ^ 199798794755380620 mod 276809062572392527871141621363 = 175727002401847450398645843076"
  by (rule powm_sq0 [where k = 114068641516508675825550442423, OF pw_P3_21140123_a_57]) (simp_all only: arith_simps rel_simps)

lemma pw_P3_21140123_a_59: "(2::int) ^ 399597589510761240 mod 276809062572392527871141621363 = 176189394551182864727519675607"
  by (rule powm_sq0 [where k = 111556966690940650763133568163, OF pw_P3_21140123_a_58]) (simp_all only: arith_simps rel_simps)

lemma pw_P3_21140123_a_60: "(2::int) ^ 799195179021522480 mod 276809062572392527871141621363 = 242304175499327349632817794304"
  by (rule powm_sq0 [where k = 112144820923967903213108679915, OF pw_P3_21140123_a_59]) (simp_all only: arith_simps rel_simps)

lemma pw_P3_21140123_a_61: "(2::int) ^ 1598390358043044960 mod 276809062572392527871141621363 = 69352616921861676723140441987"
  by (rule powm_sq0 [where k = 212100402056216436184872911183, OF pw_P3_21140123_a_60]) (simp_all only: arith_simps rel_simps)

lemma pw_P3_21140123_a_62: "(2::int) ^ 3196780716086089920 mod 276809062572392527871141621363 = 175018978615388549187323429591"
  by (rule powm_sq0 [where k = 17375823714776732749005020806, OF pw_P3_21140123_a_61]) (simp_all only: arith_simps rel_simps)

lemma pw_P3_21140123_a_63: "(2::int) ^ 6393561432172179840 mod 276809062572392527871141621363 = 210904331983312847847056527352"
  by (rule powm_sq0 [where k = 110659826636141617285621343683, OF pw_P3_21140123_a_62]) (simp_all only: arith_simps rel_simps)

lemma pw_P3_21140123_a_64: "(2::int) ^ 12787122864344359680 mod 276809062572392527871141621363 = 191351213938900637296519191919"
  by (rule powm_sq0 [where k = 160690682725370069546951783595, OF pw_P3_21140123_a_63]) (simp_all only: arith_simps rel_simps)

lemma pw_P3_21140123_a_65: "(2::int) ^ 25574245728688719360 mod 276809062572392527871141621363 = 227885527192030158264803426594"
  by (rule powm_sq0 [where k = 132276330607185606857381539909, OF pw_P3_21140123_a_64]) (simp_all only: arith_simps rel_simps)

lemma pw_P3_21140123_a_66: "(2::int) ^ 51148491457377438721 mod 276809062572392527871141621363 = 41544068039796933524637761237"
  by (rule powm_sq1 [where k = 375217581541486143028786535745, OF pw_P3_21140123_a_65]) (simp_all only: arith_simps rel_simps)

lemma pw_P3_21140123_a_67: "(2::int) ^ 102296982914754877442 mod 276809062572392527871141621363 = 15130760522701679413461565718"
  by (rule powm_sq0 [where k = 6235018367015741349691506577, OF pw_P3_21140123_a_66]) (simp_all only: arith_simps rel_simps)

lemma pw_P3_21140123_a_68: "(2::int) ^ 204593965829509754885 mod 276809062572392527871141621363 = 19334630727773610987326052821"
  by (rule powm_sq1 [where k = 1654135972773464066518924929, OF pw_P3_21140123_a_67]) (simp_all only: arith_simps rel_simps)

lemma pw_P3_21140123_a_69: "(2::int) ^ 409187931659019509771 mod 276809062572392527871141621363 = 114274035544349406177231627054"
  by (rule powm_sq1 [where k = 2700980538031352276428982956, OF pw_P3_21140123_a_68]) (simp_all only: arith_simps rel_simps)

lemma pw_P3_21140123_a_70: "(2::int) ^ 818375863318039019543 mod 276809062572392527871141621363 = 242588346941932029371672320588"
  by (rule powm_sq1 [where k = 94350633452805332577018527188, OF pw_P3_21140123_a_69]) (simp_all only: arith_simps rel_simps)

lemma pw_P3_21140123_a_71: "(2::int) ^ 1636751726636078039086 mod 276809062572392527871141621363 = 223824599925638159869210643680"
  by (rule powm_sq0 [where k = 212598191421672339534703805328, OF pw_P3_21140123_a_70]) (simp_all only: arith_simps rel_simps)

lemma pw_P3_21140123_a_72: "(2::int) ^ 3273503453272156078173 mod 276809062572392527871141621363 = 264687047656149703583608959948"
  by (rule powm_sq1 [where k = 361963954982653350886868023804, OF pw_P3_21140123_a_71]) (simp_all only: arith_simps rel_simps)

lemma pw_P3_21140123_a_73: "(2::int) ^ 6547006906544312156347 mod 276809062572392527871141621363 = 203409204514408025540791274702"
  by (rule powm_sq1 [where k = 506191759372810373715309887462, OF pw_P3_21140123_a_72]) (simp_all only: arith_simps rel_simps)

lemma pw_P3_21140123_a_74: "(2::int) ^ 13094013813088624312694 mod 276809062572392527871141621363 = 141540809207981568127491687233"
  by (rule powm_sq0 [where k = 149472362272689638280006096817, OF pw_P3_21140123_a_73]) (simp_all only: arith_simps rel_simps)

lemma pw_P3_21140123_b_2: "(141540809207981568127491687233::int) ^ 2 mod 276809062572392527871141621363 = 243978883605972277906580975015"
  by (rule powm_start0 [where k = 72374077947722168265301127998]) (simp_all only: arith_simps rel_simps)

lemma pw_P3_21140123_b_3: "(141540809207981568127491687233::int) ^ 5 mod 276809062572392527871141621363 = 59657846007285517918081408429"
  by (rule powm_sq1 [where k = 30437280673009620930380844731826176882495795299811494237292, OF pw_P3_21140123_b_2]) (simp_all only: arith_simps rel_simps)

lemma pw_P3_21140123_b_4: "(141540809207981568127491687233::int) ^ 10 mod 276809062572392527871141621363 = 179736259485334432477194233225"
  by (rule powm_sq0 [where k = 12857449670016527469865222432, OF pw_P3_21140123_b_3]) (simp_all only: arith_simps rel_simps)

lemma pw_P3_21140123_b_5: "(141540809207981568127491687233::int) ^ 20 mod 276809062572392527871141621363 = 49053517257981007268930433462"
  by (rule powm_sq0 [where k = 116705438303093382483302956601, OF pw_P3_21140123_b_4]) (simp_all only: arith_simps rel_simps)

lemma pw_P3_21140123_b_6: "(141540809207981568127491687233::int) ^ 40 mod 276809062572392527871141621363 = 34424768102548561712961340831"
  by (rule powm_sq0 [where k = 8692806272373204174593067751, OF pw_P3_21140123_b_5]) (simp_all only: arith_simps rel_simps)

lemma pw_P3_21140123_b_7: "(141540809207981568127491687233::int) ^ 80 mod 276809062572392527871141621363 = 148094956625741448412080150148"
  by (rule powm_sq0 [where k = 4281162791064041500620894351, OF pw_P3_21140123_b_6]) (simp_all only: arith_simps rel_simps)

lemma pw_P3_21140123_b_8: "(141540809207981568127491687233::int) ^ 161 mod 276809062572392527871141621363 = 249215579011161055365968380729"
  by (rule powm_sq1 [where k = 11214551440717145865745029674561293107242241049915340493581, OF pw_P3_21140123_b_7]) (simp_all only: arith_simps rel_simps)

lemma pw_P3_21140123_b_9: "(141540809207981568127491687233::int) ^ 322 mod 276809062572392527871141621363 = 193430545302275064259646985821"
  by (rule powm_sq0 [where k = 224372729146558739211870779740, OF pw_P3_21140123_b_8]) (simp_all only: arith_simps rel_simps)

lemma pw_P3_21140123_b_10: "(141540809207981568127491687233::int) ^ 645 mod 276809062572392527871141621363 = 266070251505820712955446761444"
  by (rule powm_sq1 [where k = 19131608359408027624293997968880652473829624726432891009543, OF pw_P3_21140123_b_9]) (simp_all only: arith_simps rel_simps)

lemma pw_P3_21140123_b_11: "(141540809207981568127491687233::int) ^ 1290 mod 276809062572392527871141621363 = 194099368458179945828135265922"
  by (rule powm_sq0 [where k = 255748052749741317928447848378, OF pw_P3_21140123_b_10]) (simp_all only: arith_simps rel_simps)

lemma pw_P3_21140123_b_12: "(141540809207981568127491687233::int) ^ 2580 mod 276809062572392527871141621363 = 266293510490707740448505962850"
  by (rule powm_sq0 [where k = 136103075837740877179654072918, OF pw_P3_21140123_b_11]) (simp_all only: arith_simps rel_simps)

lemma pw_P3_21140123_b_13: "(141540809207981568127491687233::int) ^ 5161 mod 276809062572392527871141621363 = 99752016844218419987112584538"
  by (rule powm_sq1 [where k = 36259560476597594562030426611997294727084226836679707321774, OF pw_P3_21140123_b_12]) (simp_all only: arith_simps rel_simps)

lemma pw_P3_21140123_b_14: "(141540809207981568127491687233::int) ^ 10322 mod 276809062572392527871141621363 = 76468462527245393195487858456"
  by (rule powm_sq0 [where k = 35947034291505317702415927876, OF pw_P3_21140123_b_13]) (simp_all only: arith_simps rel_simps)

lemma pw_P3_21140123_b_15: "(141540809207981568127491687233::int) ^ 20644 mod 276809062572392527871141621363 = 191105893763328357349070350437"
  by (rule powm_sq0 [where k = 21124401444593180854175438073, OF pw_P3_21140123_b_14]) (simp_all only: arith_simps rel_simps)

lemma pw_P3_21140123_b_16: "(141540809207981568127491687233::int) ^ 41289 mod 276809062572392527871141621363 = 31967406921979203805016641907"
  by (rule powm_sq1 [where k = 18674523609248898376830183003360274250861940635696164903490, OF pw_P3_21140123_b_15]) (simp_all only: arith_simps rel_simps)

lemma pw_P3_21140123_b_17: "(141540809207981568127491687233::int) ^ 82578 mod 276809062572392527871141621363 = 159296255432619806577934363725"
  by (rule powm_sq0 [where k = 3691768960953536070841002548, OF pw_P3_21140123_b_16]) (simp_all only: arith_simps rel_simps)

lemma pw_P3_21140123_b_18: "(141540809207981568127491687233::int) ^ 165157 mod 276809062572392527871141621363 = 161943160412495253790782762022"
  by (rule powm_sq1 [where k = 12975153476433808351255456543735928488622612381691726666481, OF pw_P3_21140123_b_17]) (simp_all only: arith_simps rel_simps)

lemma pw_P3_21140123_b_19: "(141540809207981568127491687233::int) ^ 330314 mod 276809062572392527871141621363 = 39484574120724553601915851927"
  by (rule powm_sq0 [where k = 94742516594912855010791731839, OF pw_P3_21140123_b_18]) (simp_all only: arith_simps rel_simps)

lemma pw_P3_21140123_b_20: "(141540809207981568127491687233::int) ^ 660628 mod 276809062572392527871141621363 = 255636764891326057747874993530"
  by (rule powm_sq0 [where k = 5632155172258008008374948173, OF pw_P3_21140123_b_19]) (simp_all only: arith_simps rel_simps)

lemma pw_P3_21140123_b_21: "(141540809207981568127491687233::int) ^ 1321257 mod 276809062572392527871141621363 = 133758400027962540111723601122"
  by (rule powm_sq1 [where k = 33415502420523538274591505000824707045881702369036887690806, OF pw_P3_21140123_b_20]) (simp_all only: arith_simps rel_simps)

lemma pw_P3_21140123_b_22: "(141540809207981568127491687233::int) ^ 2642515 mod 276809062572392527871141621363 = 157513820819552457899689806102"
  by (rule powm_sq1 [where k = 9148365345892832357595590440109980760847082580502311558490, OF pw_P3_21140123_b_21]) (simp_all only: arith_simps rel_simps)

lemma pw_P3_21140123_b_23: "(141540809207981568127491687233::int) ^ 5285030 mod 276809062572392527871141621363 = 162235021513777677988889354225"
  by (rule powm_sq0 [where k = 89630749508735758274107810433, OF pw_P3_21140123_b_22]) (simp_all only: arith_simps rel_simps)

lemma pw_P3_21140123_b_24: "(141540809207981568127491687233::int) ^ 10570061 mod 276809062572392527871141621363 = 254614996495722994843924552353"
  by (rule powm_sq1 [where k = 13458311964481414885378885707696249018027604698805230934144, OF pw_P3_21140123_b_23]) (simp_all only: arith_simps rel_simps)

lemma pw_P3_21140123_b_25: "(141540809207981568127491687233::int) ^ 21140123 mod 276809062572392527871141621363 = 1"
  by (rule powm_sq1 [where k = 33148915801015590498282615081778966056681946587105509982592, OF pw_P3_21140123_b_24]) (simp_all only: arith_simps rel_simps)

lemma bz_P3_21140123: "64631971512620140846418789055 * (141540809207981568127491687233 - 1) + (- 33048273288418868823477193093) * 276809062572392527871141621363 = (1::int)"
  by simp

lemma pk_P3_21140123:
  assumes "prime_int r" "r dvd 276809062572392527871141621363"
  shows "21140123 dvd r - 1"
proof -
  have "int 21140123 dvd r - 1"
    by (rule pock_step [OF _ _ pock_cert1 [OF pw_P3_21140123_a_74 pw_P3_21140123_b_25] pock_cert2 [OF pw_P3_21140123_a_74 bz_P3_21140123] assms])
      (simp_all add: prime_21140123)
  then show ?thesis by simp
qed

lemma pw_P3_9925517689_a_2: "(2::int) ^ 3 mod 276809062572392527871141621363 = 8"
  by (rule powm_start1 [where k = 0]) (simp_all only: arith_simps rel_simps)

lemma pw_P3_9925517689_a_3: "(2::int) ^ 6 mod 276809062572392527871141621363 = 64"
  by (rule powm_sq0 [where k = 0, OF pw_P3_9925517689_a_2]) (simp_all only: arith_simps rel_simps)

lemma pw_P3_9925517689_a_4: "(2::int) ^ 12 mod 276809062572392527871141621363 = 4096"
  by (rule powm_sq0 [where k = 0, OF pw_P3_9925517689_a_3]) (simp_all only: arith_simps rel_simps)

lemma pw_P3_9925517689_a_5: "(2::int) ^ 24 mod 276809062572392527871141621363 = 16777216"
  by (rule powm_sq0 [where k = 0, OF pw_P3_9925517689_a_4]) (simp_all only: arith_simps rel_simps)

lemma pw_P3_9925517689_a_6: "(2::int) ^ 48 mod 276809062572392527871141621363 = 281474976710656"
  by (rule powm_sq0 [where k = 0, OF pw_P3_9925517689_a_5]) (simp_all only: arith_simps rel_simps)

lemma pw_P3_9925517689_a_7: "(2::int) ^ 96 mod 276809062572392527871141621363 = 79228162514264337593543950336"
  by (rule powm_sq0 [where k = 0, OF pw_P3_9925517689_a_6]) (simp_all only: arith_simps rel_simps)

lemma pw_P3_9925517689_a_8: "(2::int) ^ 193 mod 276809062572392527871141621363 = 64454405702779054176868031397"
  by (rule powm_sq1 [where k = 45353296435119864442458476665, OF pw_P3_9925517689_a_7]) (simp_all only: arith_simps rel_simps)

lemma pw_P3_9925517689_a_9: "(2::int) ^ 387 mod 276809062572392527871141621363 = 89189374123431346551083593189"
  by (rule powm_sq1 [where k = 30016144528591543285031336383, OF pw_P3_9925517689_a_8]) (simp_all only: arith_simps rel_simps)

lemma pw_P3_9925517689_a_10: "(2::int) ^ 774 mod 276809062572392527871141621363 = 40258026047018475900665877349"
  by (rule powm_sq0 [where k = 28737297769826591017872614844, OF pw_P3_9925517689_a_9]) (simp_all only: arith_simps rel_simps)

lemma pw_P3_9925517689_a_11: "(2::int) ^ 1548 mod 276809062572392527871141621363 = 53464820555223072619462898373"
  by (rule powm_sq0 [where k = 5854969653598541409592313756, OF pw_P3_9925517689_a_10]) (simp_all only: arith_simps rel_simps)

lemma pw_P3_9925517689_a_12: "(2::int) ^ 3096 mod 276809062572392527871141621363 = 276538862592052017033707814657"
  by (rule powm_sq0 [where k = 10326565938406143659608097544, OF pw_P3_9925517689_a_11]) (simp_all only: arith_simps rel_simps)

lemma pw_P3_9925517689_a_13: "(2::int) ^ 6192 mod 276809062572392527871141621363 = 271115236615367388602786550131"
  by (rule powm_sq0 [where k = 276268926360407800845255008186, OF pw_P3_9925517689_a_12]) (simp_all only: arith_simps rel_simps)

lemma pw_P3_9925517689_a_14: "(2::int) ^ 12385 mod 276809062572392527871141621363 = 237230680084991632932146396337"
  by (rule powm_sq1 [where k = 531077059702722995429723229595, OF pw_P3_9925517689_a_13]) (simp_all only: arith_simps rel_simps)

lemma pw_P3_9925517689_a_15: "(2::int) ^ 24770 mod 276809062572392527871141621363 = 224637909965324008082217343884"
  by (rule powm_sq0 [where k = 203311246570438533503445273495, OF pw_P3_9925517689_a_14]) (simp_all only: arith_simps rel_simps)

lemma pw_P3_9925517689_a_16: "(2::int) ^ 49540 mod 276809062572392527871141621363 = 30144387323392350977984394993"
  by (rule powm_sq0 [where k = 182299633272996197569987345701, OF pw_P3_9925517689_a_15]) (simp_all only: arith_simps rel_simps)

lemma pw_P3_9925517689_a_17: "(2::int) ^ 99080 mod 276809062572392527871141621363 = 115928977005219284350109183597"
  by (rule powm_sq0 [where k = 3282710756137378038757027004, OF pw_P3_9925517689_a_16]) (simp_all only: arith_simps rel_simps)

lemma pw_P3_9925517689_a_18: "(2::int) ^ 198160 mod 276809062572392527871141621363 = 63773152775456231388353624492"
  by (rule powm_sq0 [where k = 48551617438326779030923884559, OF pw_P3_9925517689_a_17]) (simp_all only: arith_simps rel_simps)

lemma pw_P3_9925517689_a_19: "(2::int) ^ 396321 mod 276809062572392527871141621363 = 111766929760028424745623635659"
  by (rule powm_sq1 [where k = 29384984560308997627547274263, OF pw_P3_9925517689_a_18]) (simp_all only: arith_simps rel_simps)

lemma pw_P3_9925517689_a_20: "(2::int) ^ 792642 mod 276809062572392527871141621363 = 116319251910310924022474645849"
  by (rule powm_sq0 [where k = 45128026054841306601912362464, OF pw_P3_9925517689_a_19]) (simp_all only: arith_simps rel_simps)

lemma pw_P3_9925517689_a_21: "(2::int) ^ 1585284 mod 276809062572392527871141621363 = 110729942161834311063338500257"
  by (rule powm_sq0 [where k = 48879065733029937988741106288, OF pw_P3_9925517689_a_20]) (simp_all only: arith_simps rel_simps)

lemma pw_P3_9925517689_a_22: "(2::int) ^ 3170569 mod 276809062572392527871141621363 = 163199773683722089248613948342"
  by (rule powm_sq1 [where k = 88589007724099211355302999812, OF pw_P3_9925517689_a_21]) (simp_all only: arith_simps rel_simps)

lemma pw_P3_9925517689_a_23: "(2::int) ^ 6341139 mod 276809062572392527871141621363 = 45653465853666962894915559244"
  by (rule powm_sq1 [where k = 192437096407944411544099122068, OF pw_P3_9925517689_a_22]) (simp_all only: arith_simps rel_simps)

lemma pw_P3_9925517689_a_24: "(2::int) ^ 12682279 mod 276809062572392527871141621363 = 188613516689425106592523306124"
  by (rule powm_sq1 [where k = 15059036904955772383201184796, OF pw_P3_9925517689_a_23]) (simp_all only: arith_simps rel_simps)

lemma pw_P3_9925517689_a_25: "(2::int) ^ 25364558 mod 276809062572392527871141621363 = 178323570227301797883139856183"
  by (rule powm_sq0 [where k = 128518403073050656154249809411, OF pw_P3_9925517689_a_24]) (simp_all only: arith_simps rel_simps)

lemma pw_P3_9925517689_a_26: "(2::int) ^ 50729117 mod 276809062572392527871141621363 = 86697123775001417142491876083"
  by (rule powm_sq1 [where k = 229756174910603738168107166165, OF pw_P3_9925517689_a_25]) (simp_all only: arith_simps rel_simps)

lemma pw_P3_9925517689_a_27: "(2::int) ^ 101458234 mod 276809062572392527871141621363 = 263268534766529717522712321065"
  by (rule powm_sq0 [where k = 27153703715506751958135422848, OF pw_P3_9925517689_a_26]) (simp_all only: arith_simps rel_simps)

lemma pw_P3_9925517689_a_28: "(2::int) ^ 202916469 mod 276809062572392527871141621363 = 226948926053230885246235399584"
  by (rule powm_sq1 [where k = 500780724113677277621501601782, OF pw_P3_9925517689_a_27]) (simp_all only: arith_simps rel_simps)

lemma pw_P3_9925517689_a_29: "(2::int) ^ 405832938 mod 276809062572392527871141621363 = 245197053005555162761618470722"
  by (rule powm_sq0 [where k = 186069829354827554349346300618, OF pw_P3_9925517689_a_28]) (simp_all only: arith_simps rel_simps)

lemma pw_P3_9925517689_a_30: "(2::int) ^ 811665877 mod 276809062572392527871141621363 = 191416181290626506828449027593"
  by (rule powm_sq1 [where k = 434390364563195757287758464325, OF pw_P3_9925517689_a_29]) (simp_all only: arith_simps rel_simps)

lemma pw_P3_9925517689_a_31: "(2::int) ^ 1623331755 mod 276809062572392527871141621363 = 144922540302256923789663174261"
  by (rule powm_sq1 [where k = 264732332961849265735232408799, OF pw_P3_9925517689_a_30]) (simp_all only: arith_simps rel_simps)

lemma pw_P3_9925517689_a_32: "(2::int) ^ 3246663510 mod 276809062572392527871141621363 = 104859259981392489890995981840"
  by (rule powm_sq0 [where k = 75873753888265813207194583987, OF pw_P3_9925517689_a_31]) (simp_all only: arith_simps rel_simps)

lemma pw_P3_9925517689_a_33: "(2::int) ^ 6493327021 mod 276809062572392527871141621363 = 902341114389465060729590701"
  by (rule powm_sq1 [where k = 79444396087788276009968167073, OF pw_P3_9925517689_a_32]) (simp_all only: arith_simps rel_simps)

lemma pw_P3_9925517689_a_34: "(2::int) ^ 12986654042 mod 276809062572392527871141621363 = 13399354297568852057124040892"
  by (rule powm_sq0 [where k = 2941448083928548427781343, OF pw_P3_9925517689_a_33]) (simp_all only: arith_simps rel_simps)

lemma pw_P3_9925517689_a_35: "(2::int) ^ 25973308084 mod 276809062572392527871141621363 = 244560703761593550314929309840"
  by (rule powm_sq0 [where k = 648615670033642546478110848, OF pw_P3_9925517689_a_34]) (simp_all only: arith_simps rel_simps)

lemma pw_P3_9925517689_a_36: "(2::int) ^ 51946616168 mod 276809062572392527871141621363 = 267962959816638013662217908168"
  by (rule powm_sq0 [where k = 216069290754250921815718335464, OF pw_P3_9925517689_a_35]) (simp_all only: arith_simps rel_simps)

lemma pw_P3_9925517689_a_37: "(2::int) ^ 103893232336 mod 276809062572392527871141621363 = 132500303518748836971831589777"
  by (rule powm_sq0 [where k = 259399555659109135018671974869, OF pw_P3_9925517689_a_36]) (simp_all only: arith_simps rel_simps)

lemma pw_P3_9925517689_a_38: "(2::int) ^ 207786464673 mod 276809062572392527871141621363 = 175821119246773251404810783511"
  by (rule powm_sq1 [where k = 126847945435089530103643531369, OF pw_P3_9925517689_a_37]) (simp_all only: arith_simps rel_simps)

lemma pw_P3_9925517689_a_39: "(2::int) ^ 415572929347 mod 276809062572392527871141621363 = 51200360595057641237964524295"
  by (rule powm_sq1 [where k = 223352990584284180836265309369, OF pw_P3_9925517689_a_38]) (simp_all only: arith_simps rel_simps)

lemma pw_P3_9925517689_a_40: "(2::int) ^ 831145858695 mod 276809062572392527871141621363 = 162514265030415304340425138725"
  by (rule powm_sq1 [where k = 18940687134319160144751173775, OF pw_P3_9925517689_a_39]) (simp_all only: arith_simps rel_simps)

lemma pw_P3_9925517689_a_41: "(2::int) ^ 1662291717390 mod 276809062572392527871141621363 = 273347940425122626767230028504"
  by (rule powm_sq0 [where k = 95411927965577196395832196667, OF pw_P3_9925517689_a_40]) (simp_all only: arith_simps rel_simps)

lemma pw_P3_9925517689_a_42: "(2::int) ^ 3324583434780 mod 276809062572392527871141621363 = 100630070315283079133645951679"
  by (rule powm_sq0 [where k = 269930094919184471460195267899, OF pw_P3_9925517689_a_41]) (simp_all only: arith_simps rel_simps)

lemma pw_P3_9925517689_a_43: "(2::int) ^ 6649166869561 mod 276809062572392527871141621363 = 205046228619054652178893033833"
  by (rule powm_sq1 [where k = 73165314441325458504631408323, OF pw_P3_9925517689_a_42]) (simp_all only: arith_simps rel_simps)

lemma pw_P3_9925517689_a_44: "(2::int) ^ 13298333739122 mod 276809062572392527871141621363 = 230326850599512889695611983194"
  by (rule powm_sq0 [where k = 151887931269960049793333742765, OF pw_P3_9925517689_a_43]) (simp_all only: arith_simps rel_simps)

lemma pw_P3_9925517689_a_45: "(2::int) ^ 26596667478245 mod 276809062572392527871141621363 = 19525283904774879763354481247"
  by (rule powm_sq1 [where k = 383300009140533850101340314675, OF pw_P3_9925517689_a_44]) (simp_all only: arith_simps rel_simps)

lemma pw_P3_9925517689_a_46: "(2::int) ^ 53193334956491 mod 276809062572392527871141621363 = 262548762903715201816631390546"
  by (rule powm_sq1 [where k = 2754510333001528755453526544, OF pw_P3_9925517689_a_45]) (simp_all only: arith_simps rel_simps)

lemma pw_P3_9925517689_a_47: "(2::int) ^ 106386669912983 mod 276809062572392527871141621363 = 58176754913590999059882489208"
  by (rule powm_sq1 [where k = 498046214684491028561919363248, OF pw_P3_9925517689_a_46]) (simp_all only: arith_simps rel_simps)

lemma pw_P3_9925517689_a_48: "(2::int) ^ 212773339825967 mod 276809062572392527871141621363 = 202097236404260276744645483207"
  by (rule powm_sq1 [where k = 24453930668479421794596140067, OF pw_P3_9925517689_a_47]) (simp_all only: arith_simps rel_simps)

lemma pw_P3_9925517689_a_49: "(2::int) ^ 425546679651935 mod 276809062572392527871141621363 = 265134817015259403457347187810"
  by (rule powm_sq1 [where k = 295100836531014352220624274176, OF pw_P3_9925517689_a_48]) (simp_all only: arith_simps rel_simps)

lemma pw_P3_9925517689_a_50: "(2::int) ^ 851093359303870 mod 276809062572392527871141621363 = 2436297971430392244479951735"
  by (rule powm_sq0 [where k = 253952925314108142911177833855, OF pw_P3_9925517689_a_49]) (simp_all only: arith_simps rel_simps)

lemma pw_P3_9925517689_a_51: "(2::int) ^ 1702186718607741 mod 276809062572392527871141621363 = 173816007366618874510213075648"
  by (rule powm_sq1 [where k = 42885502016709076460242454, OF pw_P3_9925517689_a_50]) (simp_all only: arith_simps rel_simps)

lemma pw_P3_9925517689_a_52: "(2::int) ^ 3404373437215483 mod 276809062572392527871141621363 = 272633190097501886186706734373"
  by (rule powm_sq1 [where k = 218287682752231482825993930745, OF pw_P3_9925517689_a_51]) (simp_all only: arith_simps rel_simps)

lemma pw_P3_9925517689_a_53: "(2::int) ^ 6808746874430966 mod 276809062572392527871141621363 = 225403737495694399661323546160"
  by (rule powm_sq0 [where k = 268520313793200814129639339763, OF pw_P3_9925517689_a_52]) (simp_all only: arith_simps rel_simps)

lemma pw_P3_9925517689_a_54: "(2::int) ^ 13617493748861932 mod 276809062572392527871141621363 = 115586972481706849095472637071"
  by (rule powm_sq0 [where k = 183544730815092596153162015883, OF pw_P3_9925517689_a_53]) (simp_all only: arith_simps rel_simps)

lemma pw_P3_9925517689_a_55: "(2::int) ^ 27234987497723865 mod 276809062572392527871141621363 = 100845778330849317262990593905"
  by (rule powm_sq1 [where k = 96531147378838360833845985579, OF pw_P3_9925517689_a_54]) (simp_all only: arith_simps rel_simps)

lemma pw_P3_9925517689_a_56: "(2::int) ^ 54469974995447731 mod 276809062572392527871141621363 = 72455558529124509259408599908"
  by (rule powm_sq1 [where k = 73479321180065199682768958634, OF pw_P3_9925517689_a_55]) (simp_all only: arith_simps rel_simps)

lemma pw_P3_9925517689_a_57: "(2::int) ^ 108939949990895463 mod 276809062572392527871141621363 = 4205411984844360180176556630"
  by (rule powm_sq1 [where k = 37930896575284132367986735246, OF pw_P3_9925517689_a_56]) (simp_all only: arith_simps rel_simps)

lemma pw_P3_9925517689_a_58: "(2::int) ^ 217879899981790927 mod 276809062572392527871141621363 = 267915306484374382135747835013"
  by (rule powm_sq1 [where k = 127781148477733679123864049, OF pw_P3_9925517689_a_57]) (simp_all only: arith_simps rel_simps)

lemma pw_P3_9925517689_a_59: "(2::int) ^ 435759799963581854 mod 276809062572392527871141621363 = 127998119952242520443837511517"
  by (rule powm_sq0 [where k = 259307302953075630229111736404, OF pw_P3_9925517689_a_58]) (simp_all only: arith_simps rel_simps)

lemma pw_P3_9925517689_a_60: "(2::int) ^ 871519599927163708 mod 276809062572392527871141621363 = 76138564673231854448091146556"
  by (rule powm_sq0 [where k = 59187074870512820861316148991, OF pw_P3_9925517689_a_59]) (simp_all only: arith_simps rel_simps)

lemma pw_P3_9925517689_a_61: "(2::int) ^ 1743039199854327416 mod 276809062572392527871141621363 = 196487603464767643376934053117"
  by (rule powm_sq0 [where k = 20942526146461795552523238113, OF pw_P3_9925517689_a_60]) (simp_all only: arith_simps rel_simps)

lemma pw_P3_9925517689_a_62: "(2::int) ^ 3486078399708654832 mod 276809062572392527871141621363 = 5138674883321386653672271603"
  by (rule powm_sq0 [where k = 139472956400157490258200040722, OF pw_P3_9925517689_a_61]) (simp_all only: arith_simps rel_simps)

lemma pw_P3_9925517689_a_63: "(2::int) ^ 6972156799417309664 mod 276809062572392527871141621363 = 234511585249651982617592904005"
  by (rule powm_sq0 [where k = 95394201732727732970576908, OF pw_P3_9925517689_a_62]) (simp_all only: arith_simps rel_simps)

lemma pw_P3_9925517689_a_64: "(2::int) ^ 13944313598834619329 mod 276809062572392527871141621363 = 212150571548831630161495411482"
  by (rule powm_sq1 [where k = 397354646594506172876866886536, OF pw_P3_9925517689_a_63]) (simp_all only: arith_simps rel_simps)

lemma pw_P3_9925517689_a_65: "(2::int) ^ 27888627197669238658 mod 276809062572392527871141621363 = 146854800002370998466742520948"
  by (rule powm_sq0 [where k = 162595344929233452047665121552, OF pw_P3_9925517689_a_64]) (simp_all only: arith_simps rel_simps)

lemma pw_P3_9925517689_b_2: "(146854800002370998466742520948::int) ^ 2 mod 276809062572392527871141621363 = 249592721915012722226692603336"
  by (rule powm_start0 [where k = 77910499328743064606718170136]) (simp_all only: arith_simps rel_simps)

lemma pw_P3_9925517689_b_3: "(146854800002370998466742520948::int) ^ 4 mod 276809062572392527871141621363 = 171958001541511405661675236624"
  by (rule powm_sq0 [where k = 225052338438712657157722032144, OF pw_P3_9925517689_b_2]) (simp_all only: arith_simps rel_simps)

lemma pw_P3_9925517689_b_4: "(146854800002370998466742520948::int) ^ 9 mod 276809062572392527871141621363 = 64910683777721293147024279733"
  by (rule powm_sq1 [where k = 15687459585580072534119673798508743158598576728693997519305, OF pw_P3_9925517689_b_3]) (simp_all only: arith_simps rel_simps)

lemma pw_P3_9925517689_b_5: "(146854800002370998466742520948::int) ^ 18 mod 276809062572392527871141621363 = 109767742401545195724902642589"
  by (rule powm_sq0 [where k = 15221311142547657945127214900, OF pw_P3_9925517689_b_4]) (simp_all only: arith_simps rel_simps)

lemma pw_P3_9925517689_b_6: "(146854800002370998466742520948::int) ^ 36 mod 276809062572392527871141621363 = 147689659910744067598348404559"
  by (rule powm_sq0 [where k = 43528044782785526963972412574, OF pw_P3_9925517689_b_5]) (simp_all only: arith_simps rel_simps)

lemma pw_P3_9925517689_b_7: "(146854800002370998466742520948::int) ^ 73 mod 276809062572392527871141621363 = 240620381836164139996418574224"
  by (rule powm_sq1 [where k = 11571989274547090230688028840901129436241030494769762601228, OF pw_P3_9925517689_b_6]) (simp_all only: arith_simps rel_simps)

lemma pw_P3_9925517689_b_8: "(146854800002370998466742520948::int) ^ 147 mod 276809062572392527871141621363 = 200660451204521790398178042378"
  by (rule powm_sq1 [where k = 30716566234820413210063670608039166132922263963713868800690, OF pw_P3_9925517689_b_7]) (simp_all only: arith_simps rel_simps)

lemma pw_P3_9925517689_b_9: "(146854800002370998466742520948::int) ^ 295 mod 276809062572392527871141621363 = 267962107104414161282982639466"
  by (rule powm_sq1 [where k = 21361483523737599662258249205533251332127042934261008167682, OF pw_P3_9925517689_b_8]) (simp_all only: arith_simps rel_simps)

lemma pw_P3_9925517689_b_10: "(146854800002370998466742520948::int) ^ 591 mod 276809062572392527871141621363 = 32308075811552408912944853690"
  by (rule powm_sq1 [where k = 38093827421369663931493563660156973292291515342056393990546, OF pw_P3_9925517689_b_9]) (simp_all only: arith_simps rel_simps)

lemma pw_P3_9925517689_b_11: "(146854800002370998466742520948::int) ^ 1183 mod 276809062572392527871141621363 = 191670445498877747994323093045"
  by (rule powm_sq1 [where k = 553770769709779920768967522803598974121832647542580115385, OF pw_P3_9925517689_b_10]) (simp_all only: arith_simps rel_simps)

lemma pw_P3_9925517689_b_12: "(146854800002370998466742520948::int) ^ 2366 mod 276809062572392527871141621363 = 152661331908455791333242119863"
  by (rule powm_sq0 [where k = 132718052423339535197328645174, OF pw_P3_9925517689_b_11]) (simp_all only: arith_simps rel_simps)

lemma pw_P3_9925517689_b_13: "(146854800002370998466742520948::int) ^ 4732 mod 276809062572392527871141621363 = 149308937664193113745547789545"
  by (rule powm_sq0 [where k = 84193349897887584209517462648, OF pw_P3_9925517689_b_12]) (simp_all only: arith_simps rel_simps)

lemma pw_P3_9925517689_b_14: "(146854800002370998466742520948::int) ^ 9465 mod 276809062572392527871141621363 = 166146608403490921806186486621"
  by (rule powm_sq1 [where k = 11827132234485691238446194586069630673465631799030161678733, OF pw_P3_9925517689_b_13]) (simp_all only: arith_simps rel_simps)

lemma pw_P3_9925517689_b_15: "(146854800002370998466742520948::int) ^ 18931 mod 276809062572392527871141621363 = 184574171981440150910715012061"
  by (rule powm_sq1 [where k = 14645048094718645497287708410020480500457080785305423718189, OF pw_P3_9925517689_b_14]) (simp_all only: arith_simps rel_simps)

lemma pw_P3_9925517689_b_16: "(146854800002370998466742520948::int) ^ 37862 mod 276809062572392527871141621363 = 74522266839686053284430343541"
  by (rule powm_sq0 [where k = 123072650317309268643883104860, OF pw_P3_9925517689_b_15]) (simp_all only: arith_simps rel_simps)

lemma pw_P3_9925517689_b_17: "(146854800002370998466742520948::int) ^ 75725 mod 276809062572392527871141621363 = 133671750533870172531401965068"
  by (rule powm_sq1 [where k = 2946320282282269503557554975886392440828196543064971670040, OF pw_P3_9925517689_b_16]) (simp_all only: arith_simps rel_simps)

lemma pw_P3_9925517689_b_18: "(146854800002370998466742520948::int) ^ 151451 mod 276809062572392527871141621363 = 173801234460566437156748670696"
  by (rule powm_sq1 [where k = 9479536707096035036979439520797411392425085004567222525512, OF pw_P3_9925517689_b_17]) (simp_all only: arith_simps rel_simps)

lemma pw_P3_9925517689_b_19: "(146854800002370998466742520948::int) ^ 302902 mod 276809062572392527871141621363 = 216488814842916043078839525806"
  by (rule powm_sq0 [where k = 109125289538224316197855266470, OF pw_P3_9925517689_b_18]) (simp_all only: arith_simps rel_simps)

lemma pw_P3_9925517689_b_20: "(146854800002370998466742520948::int) ^ 605805 mod 276809062572392527871141621363 = 68424069624570914590492476049"
  by (rule powm_sq1 [where k = 24864444865416809458900062357152328080702115748692893795333, OF pw_P3_9925517689_b_19]) (simp_all only: arith_simps rel_simps)

lemma pw_P3_9925517689_b_21: "(146854800002370998466742520948::int) ^ 1211611 mod 276809062572392527871141621363 = 99027576491266538942616900531"
  by (rule powm_sq1 [where k = 2483851591447820195750718554224195039248735755381551438459, OF pw_P3_9925517689_b_20]) (simp_all only: arith_simps rel_simps)

lemma pw_P3_9925517689_b_22: "(146854800002370998466742520948::int) ^ 2423222 mod 276809062572392527871141621363 = 226402292425347074612594811342"
  by (rule powm_sq0 [where k = 35426805808314203070113768313, OF pw_P3_9925517689_b_21]) (simp_all only: arith_simps rel_simps)

lemma pw_P3_9925517689_b_23: "(146854800002370998466742520948::int) ^ 4846444 mod 276809062572392527871141621363 = 8148296707116736849913330963"
  by (rule powm_sq0 [where k = 185174565959332037509630276427, OF pw_P3_9925517689_b_22]) (simp_all only: arith_simps rel_simps)

lemma pw_P3_9925517689_b_24: "(146854800002370998466742520948::int) ^ 9692888 mod 276809062572392527871141621363 = 61793063634312197560526338370"
  by (rule powm_sq0 [where k = 239857534324207913495656573, OF pw_P3_9925517689_b_23]) (simp_all only: arith_simps rel_simps)

lemma pw_P3_9925517689_b_25: "(146854800002370998466742520948::int) ^ 19385776 mod 276809062572392527871141621363 = 239855235158629889705456231941"
  by (rule powm_sq0 [where k = 13794283604119910319519911493, OF pw_P3_9925517689_b_24]) (simp_all only: arith_simps rel_simps)

lemma pw_P3_9925517689_b_26: "(146854800002370998466742520948::int) ^ 38771553 mod 276809062572392527871141621363 = 79508759941005359365856613171"
  by (rule powm_sq1 [where k = 30521526143550896931506300749873754572569395467555634616859, OF pw_P3_9925517689_b_25]) (simp_all only: arith_simps rel_simps)

lemma pw_P3_9925517689_b_27: "(146854800002370998466742520948::int) ^ 77543106 mod 276809062572392527871141621363 = 24298032050478472680408343978"
  by (rule powm_sq0 [where k = 22837557587924528418772527301, OF pw_P3_9925517689_b_26]) (simp_all only: arith_simps rel_simps)

lemma pw_P3_9925517689_b_28: "(146854800002370998466742520948::int) ^ 155086213 mod 276809062572392527871141621363 = 226909968784872804250284822985"
  by (rule powm_sq1 [where k = 313220402102135103363335375706177429362608613446124192669, OF pw_P3_9925517689_b_27]) (simp_all only: arith_simps rel_simps)

lemma pw_P3_9925517689_b_29: "(146854800002370998466742520948::int) ^ 310172427 mod 276809062572392527871141621363 = 136165784891461560171470099961"
  by (rule powm_sq1 [where k = 27315867266406209121614836381167761191104763308771401689753, OF pw_P3_9925517689_b_28]) (simp_all only: arith_simps rel_simps)

lemma pw_P3_9925517689_b_30: "(146854800002370998466742520948::int) ^ 620344855 mod 276809062572392527871141621363 = 64995116883900526950062722672"
  by (rule powm_sq1 [where k = 9836573222407141268094228359489207003198096529349450569772, OF pw_P3_9925517689_b_29]) (simp_all only: arith_simps rel_simps)

lemma pw_P3_9925517689_b_31: "(146854800002370998466742520948::int) ^ 1240689711 mod 276809062572392527871141621363 = 27500845135276816927783276095"
  by (rule powm_sq1 [where k = 2241141614265390280321330475176419248009685717311332514299, OF pw_P3_9925517689_b_30]) (simp_all only: arith_simps rel_simps)

lemma pw_P3_9925517689_b_32: "(146854800002370998466742520948::int) ^ 2481379422 mod 276809062572392527871141621363 = 167317326303028131139926319476"
  by (rule powm_sq0 [where k = 2732195529027117839265111423, OF pw_P3_9925517689_b_31]) (simp_all only: arith_simps rel_simps)

lemma pw_P3_9925517689_b_33: "(146854800002370998466742520948::int) ^ 4962758844 mod 276809062572392527871141621363 = 95775953594055286028164930075"
  by (rule powm_sq0 [where k = 101135011336099482563540887927, OF pw_P3_9925517689_b_32]) (simp_all only: arith_simps rel_simps)

lemma pw_P3_9925517689_b_34: "(146854800002370998466742520948::int) ^ 9925517689 mod 276809062572392527871141621363 = 1"
  by (rule powm_sq1 [where k = 4866545756258395048059769357589374538247960484060402471073, OF pw_P3_9925517689_b_33]) (simp_all only: arith_simps rel_simps)

lemma bz_P3_9925517689: "(- 122567467693679773301618902273) * (146854800002370998466742520948 - 1) + 65025403387019015402365343164 * 276809062572392527871141621363 = (1::int)"
  by simp

lemma pk_P3_9925517689:
  assumes "prime_int r" "r dvd 276809062572392527871141621363"
  shows "9925517689 dvd r - 1"
proof -
  have "int 9925517689 dvd r - 1"
    by (rule pock_step [OF _ _ pock_cert1 [OF pw_P3_9925517689_a_65 pw_P3_9925517689_b_34] pock_cert2 [OF pw_P3_9925517689_a_65 bz_P3_9925517689] assms])
      (simp_all add: prime_9925517689)
  then show ?thesis by simp
qed

lemma prime_276809062572392527871141621363: "prime_int 276809062572392527871141621363"
proof (rule pock_prime [where F = "21140123 * 9925517689"])
  fix r assume r: "prime_int r" "r dvd 276809062572392527871141621363"
  have "2777187825 * 21140123 + (- 5915066) * 9925517689 = (1::int)" by simp
  then have "coprime (21140123::int) 9925517689" by (rule bezout_coprime)
  with pk_P3_21140123 [OF r] pk_P3_9925517689 [OF r] show "21140123 * 9925517689 dvd r - 1" by (rule divides_mult)
qed simp_all

lemma pw_P2_276809062572392527871141621363_a_2: "(2::int) ^ 3 mod 558319083762744625875131593280451492009301263247217 = 8"
  by (rule powm_start1 [where k = 0]) (simp_all only: arith_simps rel_simps)

lemma pw_P2_276809062572392527871141621363_a_3: "(2::int) ^ 6 mod 558319083762744625875131593280451492009301263247217 = 64"
  by (rule powm_sq0 [where k = 0, OF pw_P2_276809062572392527871141621363_a_2]) (simp_all only: arith_simps rel_simps)

lemma pw_P2_276809062572392527871141621363_a_4: "(2::int) ^ 13 mod 558319083762744625875131593280451492009301263247217 = 8192"
  by (rule powm_sq1 [where k = 0, OF pw_P2_276809062572392527871141621363_a_3]) (simp_all only: arith_simps rel_simps)

lemma pw_P2_276809062572392527871141621363_a_5: "(2::int) ^ 27 mod 558319083762744625875131593280451492009301263247217 = 134217728"
  by (rule powm_sq1 [where k = 0, OF pw_P2_276809062572392527871141621363_a_4]) (simp_all only: arith_simps rel_simps)

lemma pw_P2_276809062572392527871141621363_a_6: "(2::int) ^ 54 mod 558319083762744625875131593280451492009301263247217 = 18014398509481984"
  by (rule powm_sq0 [where k = 0, OF pw_P2_276809062572392527871141621363_a_5]) (simp_all only: arith_simps rel_simps)

lemma pw_P2_276809062572392527871141621363_a_7: "(2::int) ^ 109 mod 558319083762744625875131593280451492009301263247217 = 649037107316853453566312041152512"
  by (rule powm_sq1 [where k = 0, OF pw_P2_276809062572392527871141621363_a_6]) (simp_all only: arith_simps rel_simps)

lemma pw_P2_276809062572392527871141621363_a_8: "(2::int) ^ 218 mod 558319083762744625875131593280451492009301263247217 = 434236438066071519750877411060313737198415501565191"
  by (rule powm_sq0 [where k = 754495375360009, OF pw_P2_276809062572392527871141621363_a_7]) (simp_all only: arith_simps rel_simps)

lemma pw_P2_276809062572392527871141621363_a_9: "(2::int) ^ 437 mod 558319083762744625875131593280451492009301263247217 = 401455510012536600178076534356679793735533612255118"
  by (rule powm_sq1 [where k = 675460644739263473828238855858919136454777847795732, OF pw_P2_276809062572392527871141621363_a_8]) (simp_all only: arith_simps rel_simps)

lemma pw_P2_276809062572392527871141621363_a_10: "(2::int) ^ 874 mod 558319083762744625875131593280451492009301263247217 = 1073557402305806857139255444936466017785915903274"
  by (rule powm_sq0 [where k = 288663832576270883892391367938569522524423574779450, OF pw_P2_276809062572392527871141621363_a_9]) (simp_all only: arith_simps rel_simps)

lemma pw_P2_276809062572392527871141621363_a_11: "(2::int) ^ 1749 mod 558319083762744625875131593280451492009301263247217 = 76336470718184855649710106096807548278536680865972"
  by (rule powm_sq1 [where k = 4128554905478935602957677454512971973926675540, OF pw_P2_276809062572392527871141621363_a_10]) (simp_all only: arith_simps rel_simps)

lemma pw_P2_276809062572392527871141621363_a_12: "(2::int) ^ 3498 mod 558319083762744625875131593280451492009301263247217 = 31212690758864410173180584310867861911586733837124"
  by (rule powm_sq0 [where k = 10437144154980313072356625072948743074894316435980, OF pw_P2_276809062572392527871141621363_a_11]) (simp_all only: arith_simps rel_simps)

lemma pw_P2_276809062572392527871141621363_a_13: "(2::int) ^ 6997 mod 558319083762744625875131593280451492009301263247217 = 424021865941835923183881720562761161055940895273378"
  by (rule powm_sq1 [where k = 3489875566648177177547568887630229900137142441822, OF pw_P2_276809062572392527871141621363_a_12]) (simp_all only: arith_simps rel_simps)

lemma pw_P2_276809062572392527871141621363_a_14: "(2::int) ^ 13995 mod 558319083762744625875131593280451492009301263247217 = 38000151319780845125961933305071516660322097475525"
  by (rule powm_sq1 [where k = 644056590668855657172093820417247615889425065723379, OF pw_P2_276809062572392527871141621363_a_13]) (simp_all only: arith_simps rel_simps)

lemma pw_P2_276809062572392527871141621363_a_15: "(2::int) ^ 27991 mod 558319083762744625875131593280451492009301263247217 = 125294732768096216985815003748970315315496950618165"
  by (rule powm_sq1 [where k = 5172710524578338042345558921443120795538650941005, OF pw_P2_276809062572392527871141621363_a_14]) (simp_all only: arith_simps rel_simps)

lemma pw_P2_276809062572392527871141621363_a_16: "(2::int) ^ 55982 mod 558319083762744625875131593280451492009301263247217 = 436224787062834527657024257618726999188180566443039"
  by (rule powm_sq0 [where k = 28117917721221528213847615747773589176070666836858, OF pw_P2_276809062572392527871141621363_a_15]) (simp_all only: arith_simps rel_simps)

lemma pw_P2_276809062572392527871141621363_a_17: "(2::int) ^ 111965 mod 558319083762744625875131593280451492009301263247217 = 8258510112144426545233065519590255573148773350869"
  by (rule powm_sq1 [where k = 681660614448490347302519709321475717361175410716669, OF pw_P2_276809062572392527871141621363_a_16]) (simp_all only: arith_simps rel_simps)

lemma pw_P2_276809062572392527871141621363_a_18: "(2::int) ^ 223930 mod 558319083762744625875131593280451492009301263247217 = 253912096351196008965989546682928984208680804927590"
  by (rule powm_sq0 [where k = 122157725314964024289670440345384893787354053763, OF pw_P2_276809062572392527871141621363_a_17]) (simp_all only: arith_simps rel_simps)

lemma pw_P2_276809062572392527871141621363_a_19: "(2::int) ^ 447860 mod 558319083762744625875131593280451492009301263247217 = 342158215613162035508981028122286307271468879449255"
  by (rule powm_sq0 [where k = 115474026499255180338601483264844590635800515006285, OF pw_P2_276809062572392527871141621363_a_18]) (simp_all only: arith_simps rel_simps)

lemma pw_P2_276809062572392527871141621363_a_20: "(2::int) ^ 895720 mod 558319083762744625875131593280451492009301263247217 = 540456064696571534980762862184545093759437923699099"
  by (rule powm_sq0 [where k = 209686983512339413870621002605238752874864320369078, OF pw_P2_276809062572392527871141621363_a_19]) (simp_all only: arith_simps rel_simps)

lemma pw_P2_276809062572392527871141621363_a_21: "(2::int) ^ 1791440 mod 558319083762744625875131593280451492009301263247217 = 137624943175008120895112475844098152368645688743333"
  by (rule powm_sq0 [where k = 523164560127105238099515318825440917776460312018804, OF pw_P2_276809062572392527871141621363_a_20]) (simp_all only: arith_simps rel_simps)

lemma pw_P2_276809062572392527871141621363_a_22: "(2::int) ^ 3582880 mod 558319083762744625875131593280451492009301263247217 = 253419147880684023865020584741108774638677963288514"
  by (rule powm_sq0 [where k = 33924373238821537794344939526458050983025655562375, OF pw_P2_276809062572392527871141621363_a_21]) (simp_all only: arith_simps rel_simps)

lemma pw_P2_276809062572392527871141621363_a_23: "(2::int) ^ 7165761 mod 558319083762744625875131593280451492009301263247217 = 526526574857210850502902164374549955796504781040025"
  by (rule powm_sq1 [where k = 230052191946433833233095317968681328752872691689951, OF pw_P2_276809062572392527871141621363_a_22]) (simp_all only: arith_simps rel_simps)

lemma pw_P2_276809062572392527871141621363_a_24: "(2::int) ^ 14331523 mod 558319083762744625875131593280451492009301263247217 = 364421644367196794323092084523260496794509316605989"
  by (rule powm_sq1 [where k = 993088870122425896037322101989636210058032141816333, OF pw_P2_276809062572392527871141621363_a_23]) (simp_all only: arith_simps rel_simps)

lemma pw_P2_276809062572392527871141621363_a_25: "(2::int) ^ 28663047 mod 558319083762744625875131593280451492009301263247217 = 103758993769157575818118618530813473544332008613885"
  by (rule powm_sq1 [where k = 475724863238691641270977855870022156399669369132421, OF pw_P2_276809062572392527871141621363_a_24]) (simp_all only: arith_simps rel_simps)

lemma pw_P2_276809062572392527871141621363_a_26: "(2::int) ^ 57326095 mod 558319083762744625875131593280451492009301263247217 = 383364827577332393372857774894248271822719767666040"
  by (rule powm_sq1 [where k = 38565505285730184119810265747321407845962856956730, OF pw_P2_276809062572392527871141621363_a_25]) (simp_all only: arith_simps rel_simps)

lemma pw_P2_276809062572392527871141621363_a_27: "(2::int) ^ 114652191 mod 558319083762744625875131593280451492009301263247217 = 218053803434833960537127990954805166545772981242825"
  by (rule powm_sq1 [where k = 526468090730179975229264542093833005267536144542375, OF pw_P2_276809062572392527871141621363_a_26]) (simp_all only: arith_simps rel_simps)

lemma pw_P2_276809062572392527871141621363_a_28: "(2::int) ^ 229304382 mod 558319083762744625875131593280451492009301263247217 = 499834367956958491554996451869440379555068031337299"
  by (rule powm_sq0 [where k = 85161805453532200487083791488744970877687343101278, OF pw_P2_276809062572392527871141621363_a_27]) (simp_all only: arith_simps rel_simps)

lemma pw_P2_276809062572392527871141621363_a_29: "(2::int) ^ 458608764 mod 558319083762744625875131593280451492009301263247217 = 412929048878080635675937708747108579896849441823040"
  by (rule powm_sq0 [where k = 447476009072077968954758882563297676122252279112633, OF pw_P2_276809062572392527871141621363_a_28]) (simp_all only: arith_simps rel_simps)

lemma pw_P2_276809062572392527871141621363_a_30: "(2::int) ^ 917217528 mod 558319083762744625875131593280451492009301263247217 = 111951389000928098240977975497685632905330432034079"
  by (rule powm_sq0 [where k = 305399554423638494555155942242104616572354641216113, OF pw_P2_276809062572392527871141621363_a_29]) (simp_all only: arith_simps rel_simps)

lemma pw_P2_276809062572392527871141621363_a_31: "(2::int) ^ 1834435057 mod 558319083762744625875131593280451492009301263247217 = 417037810391549881025759285303897741960752347799472"
  by (rule powm_sq1 [where k = 44895880738201738649565870331218032116752604396530, OF pw_P2_276809062572392527871141621363_a_30]) (simp_all only: arith_simps rel_simps)

lemma pw_P2_276809062572392527871141621363_a_32: "(2::int) ^ 3668870114 mod 558319083762744625875131593280451492009301263247217 = 545276171516495259195709630486138866866261957727444"
  by (rule powm_sq0 [where k = 311507416375695870975609718428721692394213265271020, OF pw_P2_276809062572392527871141621363_a_31]) (simp_all only: arith_simps rel_simps)

lemma pw_P2_276809062572392527871141621363_a_33: "(2::int) ^ 7337740229 mod 558319083762744625875131593280451492009301263247217 = 65107213127671614559320207666153991134300769924021"
  by (rule powm_sq1 [where k = 1065075910426998220302341210543452269279161150171803, OF pw_P2_276809062572392527871141621363_a_32]) (simp_all only: arith_simps rel_simps)

lemma pw_P2_276809062572392527871141621363_a_34: "(2::int) ^ 14675480458 mod 558319083762744625875131593280451492009301263247217 = 265560486405304951719579356507377267386483201540941"
  by (rule powm_sq0 [where k = 7592341591987170668745903254329388162571478427500, OF pw_P2_276809062572392527871141621363_a_33]) (simp_all only: arith_simps rel_simps)

lemma pw_P2_276809062572392527871141621363_a_35: "(2::int) ^ 29350960917 mod 558319083762744625875131593280451492009301263247217 = 521517482054778965054960134027294699403972164154280"
  by (rule powm_sq1 [where k = 252623899095630214654803163451356297884351456899146, OF pw_P2_276809062572392527871141621363_a_34]) (simp_all only: arith_simps rel_simps)

lemma pw_P2_276809062572392527871141621363_a_36: "(2::int) ^ 58701921835 mod 558319083762744625875131593280451492009301263247217 = 86625578995287993287655809528816630615728778310238"
  by (rule powm_sq1 [where k = 974283315754736680785075979349988810788322927742786, OF pw_P2_276809062572392527871141621363_a_35]) (simp_all only: arith_simps rel_simps)

lemma pw_P2_276809062572392527871141621363_a_37: "(2::int) ^ 117403843671 mod 558319083762744625875131593280451492009301263247217 = 290220444284144558414598062019340946232993993144908"
  by (rule powm_sq1 [where k = 26880653570701409663523772728686377868255349334140, OF pw_P2_276809062572392527871141621363_a_36]) (simp_all only: arith_simps rel_simps)

lemma pw_P2_276809062572392527871141621363_a_38: "(2::int) ^ 234807687343 mod 558319083762744625875131593280451492009301263247217 = 297713662627197220290191439041680160258625918068104"
  by (rule powm_sq1 [where k = 301719603467033036570765810755198229810372112827672, OF pw_P2_276809062572392527871141621363_a_37]) (simp_all only: arith_simps rel_simps)

lemma pw_P2_276809062572392527871141621363_a_39: "(2::int) ^ 469615374687 mod 558319083762744625875131593280451492009301263247217 = 309693029789687580115552175853338932887165888387540"
  by (rule powm_sq1 [where k = 317500968505547313245339074277458621209454382080876, OF pw_P2_276809062572392527871141621363_a_38]) (simp_all only: arith_simps rel_simps)

lemma pw_P2_276809062572392527871141621363_a_40: "(2::int) ^ 939230749374 mod 558319083762744625875131593280451492009301263247217 = 399049558081235173170482101201911555329927022668601"
  by (rule powm_sq0 [where k = 171783081556052950906907644608436182502143700581447, OF pw_P2_276809062572392527871141621363_a_39]) (simp_all only: arith_simps rel_simps)

lemma pw_P2_276809062572392527871141621363_a_41: "(2::int) ^ 1878461498748 mod 558319083762744625875131593280451492009301263247217 = 240552748769600838332265929182102776142094918486615"
  by (rule powm_sq0 [where k = 285214234003324331461083128766806032163441937016058, OF pw_P2_276809062572392527871141621363_a_40]) (simp_all only: arith_simps rel_simps)

lemma pw_P2_276809062572392527871141621363_a_42: "(2::int) ^ 3756922997496 mod 558319083762744625875131593280451492009301263247217 = 386469798174409156237951445364363062035456948867150"
  by (rule powm_sq0 [where k = 103642570392955535179216152536861955301284474239475, OF pw_P2_276809062572392527871141621363_a_41]) (simp_all only: arith_simps rel_simps)

lemma pw_P2_276809062572392527871141621363_a_43: "(2::int) ^ 7513845994993 mod 558319083762744625875131593280451492009301263247217 = 421723635621759196370661528495254112555521863530753"
  by (rule powm_sq1 [where k = 535030627627401654981518743810689659563773904777591, OF pw_P2_276809062572392527871141621363_a_42]) (simp_all only: arith_simps rel_simps)

lemma pw_P2_276809062572392527871141621363_a_44: "(2::int) ^ 15027691989987 mod 558319083762744625875131593280451492009301263247217 = 99660963523401992998908877466163679225930988857540"
  by (rule powm_sq1 [where k = 637093841189964737028047435971773574798715478498334, OF pw_P2_276809062572392527871141621363_a_43]) (simp_all only: arith_simps rel_simps)

lemma pw_P2_276809062572392527871141621363_a_45: "(2::int) ^ 30055383979974 mod 558319083762744625875131593280451492009301263247217 = 56580552080861658877322150435410656804455877624664"
  by (rule powm_sq0 [where k = 17789661753051513900079723803774631867077877207608, OF pw_P2_276809062572392527871141621363_a_44]) (simp_all only: arith_simps rel_simps)

lemma pw_P2_276809062572392527871141621363_a_46: "(2::int) ^ 60110767959948 mod 558319083762744625875131593280451492009301263247217 = 160151540386011234487622850464863437532045806271408"
  by (rule powm_sq0 [where k = 5733923426367246913046396052485828103123895038864, OF pw_P2_276809062572392527871141621363_a_45]) (simp_all only: arith_simps rel_simps)

lemma pw_P2_276809062572392527871141621363_a_47: "(2::int) ^ 120221535919897 mod 558319083762744625875131593280451492009301263247217 = 260408740676279192440808699346737914517954151057813"
  by (rule powm_sq1 [where k = 91877625658632932184221296381694433480379300509595, OF pw_P2_276809062572392527871141621363_a_46]) (simp_all only: arith_simps rel_simps)

lemma pw_P2_276809062572392527871141621363_a_48: "(2::int) ^ 240443071839794 mod 558319083762744625875131593280451492009301263247217 = 397832436030751002998516910244107334752630561334885"
  by (rule powm_sq0 [where k = 121458703799962452029657380746480730010265876098452, OF pw_P2_276809062572392527871141621363_a_47]) (simp_all only: arith_simps rel_simps)

lemma pw_P2_276809062572392527871141621363_a_49: "(2::int) ^ 480886143679588 mod 558319083762744625875131593280451492009301263247217 = 313708461943556628846241687156988530488680730851669"
  by (rule powm_sq0 [where k = 283477050598933212466182418258801885429629877942468, OF pw_P2_276809062572392527871141621363_a_48]) (simp_all only: arith_simps rel_simps)

lemma pw_P2_276809062572392527871141621363_a_50: "(2::int) ^ 961772287359177 mod 558319083762744625875131593280451492009301263247217 = 365963285053147398754945681201212455856617504541224"
  by (rule powm_sq1 [where k = 352533173079973431927189952668445835357120301999594, OF pw_P2_276809062572392527871141621363_a_49]) (simp_all only: arith_simps rel_simps)

lemma pw_P2_276809062572392527871141621363_a_51: "(2::int) ^ 1923544574718355 mod 558319083762744625875131593280451492009301263247217 = 521657636452376255320042237384785844871798706376315"
  by (rule powm_sq1 [where k = 479758367220002974965882461177782612740969004629461, OF pw_P2_276809062572392527871141621363_a_50]) (simp_all only: arith_simps rel_simps)

lemma pw_P2_276809062572392527871141621363_a_52: "(2::int) ^ 3847089149436710 mod 558319083762744625875131593280451492009301263247217 = 473794228792406321682916657096335067456137688595662"
  by (rule powm_sq0 [where k = 487403525301525709293879048005114703618802767081339, OF pw_P2_276809062572392527871141621363_a_51]) (simp_all only: arith_simps rel_simps)

lemma pw_P2_276809062572392527871141621363_a_53: "(2::int) ^ 7694178298873420 mod 558319083762744625875131593280451492009301263247217 = 116492077252529466936480865088873267456393789863821"
  by (rule powm_sq0 [where k = 402065732240639876178053542087059797011460526586919, OF pw_P2_276809062572392527871141621363_a_52]) (simp_all only: arith_simps rel_simps)

lemma pw_P2_276809062572392527871141621363_a_54: "(2::int) ^ 15388356597746840 mod 558319083762744625875131593280451492009301263247217 = 23097657915515505545169046011685378507965394528587"
  by (rule powm_sq0 [where k = 24305821630084169005937178660157420897516789792062, OF pw_P2_276809062572392527871141621363_a_53]) (simp_all only: arith_simps rel_simps)

lemma pw_P2_276809062572392527871141621363_a_55: "(2::int) ^ 30776713195493680 mod 558319083762744625875131593280451492009301263247217 = 277886882245631150583523944745198271201723367029447"
  by (rule powm_sq0 [where k = 955550001240662340920157354168498223690679152466, OF pw_P2_276809062572392527871141621363_a_54]) (simp_all only: arith_simps rel_simps)

lemma pw_P2_276809062572392527871141621363_a_56: "(2::int) ^ 61553426390987361 mod 558319083762744625875131593280451492009301263247217 = 422514162776492081850752546254822518738568055975517"
  by (rule powm_sq1 [where k = 276620024534257427895634400672353294221438193200853, OF pw_P2_276809062572392527871141621363_a_55]) (simp_all only: arith_simps rel_simps)

lemma pw_P2_276809062572392527871141621363_a_57: "(2::int) ^ 123106852781974722 mod 558319083762744625875131593280451492009301263247217 = 342163218749753008820154236300338254467121088494633"
  by (rule powm_sq0 [where k = 319742281678088979297054179039629327458406326180768, OF pw_P2_276809062572392527871141621363_a_56]) (simp_all only: arith_simps rel_simps)

lemma pw_P2_276809062572392527871141621363_a_58: "(2::int) ^ 246213705563949445 mod 558319083762744625875131593280451492009301263247217 = 406222394432449060614013046108927638210926330875612"
  by (rule powm_sq1 [where k = 419386231529718398809034077044952503251591620594598, OF pw_P2_276809062572392527871141621363_a_57]) (simp_all only: arith_simps rel_simps)

lemma pw_P2_276809062572392527871141621363_a_59: "(2::int) ^ 492427411127898890 mod 558319083762744625875131593280451492009301263247217 = 302972418427581812855138548890332246602686099979892"
  by (rule powm_sq0 [where k = 295559722992659434534444561806894856082269084926556, OF pw_P2_276809062572392527871141621363_a_58]) (simp_all only: arith_simps rel_simps)

lemma pw_P2_276809062572392527871141621363_a_60: "(2::int) ^ 984854822255797781 mod 558319083762744625875131593280451492009301263247217 = 316505431740672017495984428690478448843903667402317"
  by (rule powm_sq1 [where k = 328816581762641186064826452168196537894492947326083, OF pw_P2_276809062572392527871141621363_a_59]) (simp_all only: arith_simps rel_simps)

lemma pw_P2_276809062572392527871141621363_a_61: "(2::int) ^ 1969709644511595563 mod 558319083762744625875131593280451492009301263247217 = 115433436492552372305300141827937172429958131528108"
  by (rule powm_sq1 [where k = 358847444891990961207438967456023115885329678895110, OF pw_P2_276809062572392527871141621363_a_60]) (simp_all only: arith_simps rel_simps)

lemma pw_P2_276809062572392527871141621363_a_62: "(2::int) ^ 3939419289023191127 mod 558319083762744625875131593280451492009301263247217 = 452158653774790659201682232896253731142440676372151"
  by (rule powm_sq1 [where k = 47732125402836752640984404026344537470962727797881, OF pw_P2_276809062572392527871141621363_a_61]) (simp_all only: arith_simps rel_simps)

lemma pw_P2_276809062572392527871141621363_a_63: "(2::int) ^ 7878838578046382254 mod 558319083762744625875131593280451492009301263247217 = 240542241277954928526037667907295106668778733107690"
  by (rule powm_sq0 [where k = 366183879665324326639034012806942055126879415975383, OF pw_P2_276809062572392527871141621363_a_62]) (simp_all only: arith_simps rel_simps)

lemma pw_P2_276809062572392527871141621363_a_64: "(2::int) ^ 15757677156092764509 mod 558319083762744625875131593280451492009301263247217 = 190491022408746878108218844915358651570285674018370"
  by (rule powm_sq1 [where k = 207267032497171429504597159895408682830090839477990, OF pw_P2_276809062572392527871141621363_a_63]) (simp_all only: arith_simps rel_simps)

lemma pw_P2_276809062572392527871141621363_a_65: "(2::int) ^ 31515354312185529019 mod 558319083762744625875131593280451492009301263247217 = 427186091013947633423607553404598810840672868189525"
  by (rule powm_sq1 [where k = 129985990712614232244723194777747826749009011199075, OF pw_P2_276809062572392527871141621363_a_64]) (simp_all only: arith_simps rel_simps)

lemma pw_P2_276809062572392527871141621363_a_66: "(2::int) ^ 63030708624371058038 mod 558319083762744625875131593280451492009301263247217 = 231235210917957130795513268162895878168541438637084"
  by (rule powm_sq0 [where k = 326852442739220874613304869629556981854515083960173, OF pw_P2_276809062572392527871141621363_a_65]) (simp_all only: arith_simps rel_simps)

lemma pw_P2_276809062572392527871141621363_a_67: "(2::int) ^ 126061417248742116077 mod 558319083762744625875131593280451492009301263247217 = 84843615951524081783957329914252456376373019693353"
  by (rule powm_sq1 [where k = 191538223654894293815214032457593653582516795178727, OF pw_P2_276809062572392527871141621363_a_66]) (simp_all only: arith_simps rel_simps)

lemma pw_P2_276809062572392527871141621363_a_68: "(2::int) ^ 252122834497484232154 mod 558319083762744625875131593280451492009301263247217 = 150672143797708694960623691605367199194546571450046"
  by (rule powm_sq0 [where k = 12893055919236066140527014446436652833338031678339, OF pw_P2_276809062572392527871141621363_a_67]) (simp_all only: arith_simps rel_simps)

lemma pw_P2_276809062572392527871141621363_a_69: "(2::int) ^ 504245668994968464308 mod 558319083762744625875131593280451492009301263247217 = 446831906358888818946322876149399262365670789032962"
  by (rule powm_sq0 [where k = 40661506254807811001146452796763210202723430960162, OF pw_P2_276809062572392527871141621363_a_68]) (simp_all only: arith_simps rel_simps)

lemma pw_P2_276809062572392527871141621363_a_70: "(2::int) ^ 1008491337989936928616 mod 558319083762744625875131593280451492009301263247217 = 484630804800126505914635273785923014416295815673652"
  by (rule powm_sq0 [where k = 357606892450702873001871092832542661604037689408976, OF pw_P2_276809062572392527871141621363_a_69]) (simp_all only: arith_simps rel_simps)

lemma pw_P2_276809062572392527871141621363_a_71: "(2::int) ^ 2016982675979873857232 mod 558319083762744625875131593280451492009301263247217 = 257042869196477482084742513461015812109368324244659"
  by (rule powm_sq0 [where k = 420668079941584234035199019220752308462447420727085, OF pw_P2_276809062572392527871141621363_a_70]) (simp_all only: arith_simps rel_simps)

lemma pw_P2_276809062572392527871141621363_b_2: "(257042869196477482084742513461015812109368324244659::int) ^ 3 mod 558319083762744625875131593280451492009301263247217 = 295681581339685595359945754107852298368803346088491"
  by (rule powm_start1 [where k = 30418248835802348099584460703270693499995766007145617590871986578017413150415195989789825624832558464]) (simp_all only: arith_simps rel_simps)

lemma pw_P2_276809062572392527871141621363_b_3: "(257042869196477482084742513461015812109368324244659::int) ^ 6 mod 558319083762744625875131593280451492009301263247217 = 261666519766131300800282121156598740798681642816843"
  by (rule powm_sq0 [where k = 156590738318178468492875576745622999747014338097614, OF pw_P2_276809062572392527871141621363_b_2]) (simp_all only: arith_simps rel_simps)

lemma pw_P2_276809062572392527871141621363_b_4: "(257042869196477482084742513461015812109368324244659::int) ^ 13 mod 558319083762744625875131593280451492009301263247217 = 315456729443652788087559614068214306068302168185083"
  by (rule powm_sq1 [where k = 31522409323277205104756071291741230161135522238681691024223563278086463769473538209849448736753288224, OF pw_P2_276809062572392527871141621363_b_3]) (simp_all only: arith_simps rel_simps)

lemma pw_P2_276809062572392527871141621363_b_5: "(257042869196477482084742513461015812109368324244659::int) ^ 27 mod 558319083762744625875131593280451492009301263247217 = 140274455070753393807918141491240915882320344145049"
  by (rule powm_sq1 [where k = 45814471435614712369948206623086539218468538155231047501671187316098823529562595267366039409920277506, OF pw_P2_276809062572392527871141621363_b_4]) (simp_all only: arith_simps rel_simps)

lemma pw_P2_276809062572392527871141621363_b_6: "(257042869196477482084742513461015812109368324244659::int) ^ 55 mod 558319083762744625875131593280451492009301263247217 = 52843493107318621189318555601933512652037995262950"
  by (rule powm_sq1 [where k = 9059000178441906788648671956420852824408210773846503798284483580524245485183020094165899144314432877, OF pw_P2_276809062572392527871141621363_b_5]) (simp_all only: arith_simps rel_simps)

lemma pw_P2_276809062572392527871141621363_b_7: "(257042869196477482084742513461015812109368324244659::int) ^ 111 mod 558319083762744625875131593280451492009301263247217 = 185288371327878430097175110060770358119233219142399"
  by (rule powm_sq1 [where k = 1285600769526705157721089834326092229109119102996934510805255105114786353685063651588058791599737853, OF pw_P2_276809062572392527871141621363_b_6]) (simp_all only: arith_simps rel_simps)

lemma pw_P2_276809062572392527871141621363_b_8: "(257042869196477482084742513461015812109368324244659::int) ^ 223 mod 558319083762744625875131593280451492009301263247217 = 6249856544241539316151280150644616021708087900679"
  by (rule powm_sq1 [where k = 15805906754166462247317339910128231462648267752675705716633681250293170020653022086924897942670591340, OF pw_P2_276809062572392527871141621363_b_7]) (simp_all only: arith_simps rel_simps)

lemma pw_P2_276809062572392527871141621363_b_9: "(257042869196477482084742513461015812109368324244659::int) ^ 447 mod 558319083762744625875131593280451492009301263247217 = 524585633770004554641753931366975801015595098773505"
  by (rule powm_sq1 [where k = 17983043114189581236611259844758943329054315124570471326697499136883623316938624902715691239590242, OF pw_P2_276809062572392527871141621363_b_8]) (simp_all only: arith_simps rel_simps)

lemma pw_P2_276809062572392527871141621363_b_10: "(257042869196477482084742513461015812109368324244659::int) ^ 894 mod 558319083762744625875131593280451492009301263247217 = 161624532641028687036992363836967273218102576458008"
  by (rule powm_sq0 [where k = 492890347403597307069552011236148758386201801329401, OF pw_P2_276809062572392527871141621363_b_9]) (simp_all only: arith_simps rel_simps)

lemma pw_P2_276809062572392527871141621363_b_11: "(257042869196477482084742513461015812109368324244659::int) ^ 1788 mod 558319083762744625875131593280451492009301263247217 = 211306539781438282485744590292704479662890826604906"
  by (rule powm_sq0 [where k = 46787742549261652778749705625015947995183251992374, OF pw_P2_276809062572392527871141621363_b_10]) (simp_all only: arith_simps rel_simps)

lemma pw_P2_276809062572392527871141621363_b_12: "(257042869196477482084742513461015812109368324244659::int) ^ 3577 mod 558319083762744625875131593280451492009301263247217 = 424248438812227579110501153066734467501702124156188"
  by (rule powm_sq1 [where k = 20556490146473151601743749708812105187135713400479008490401268776365710940604576272002702931720189008, OF pw_P2_276809062572392527871141621363_b_11]) (simp_all only: arith_simps rel_simps)

lemma pw_P2_276809062572392527871141621363_b_13: "(257042869196477482084742513461015812109368324244659::int) ^ 7155 mod 558319083762744625875131593280451492009301263247217 = 33785728513754273624633394405822801150408845133757"
  by (rule powm_sq1 [where k = 82863561099378052315732450625658448298687027605106495355845895970426655779775296532791984437600223267, OF pw_P2_276809062572392527871141621363_b_12]) (simp_all only: arith_simps rel_simps)

lemma pw_P2_276809062572392527871141621363_b_14: "(257042869196477482084742513461015812109368324244659::int) ^ 14310 mod 558319083762744625875131593280451492009301263247217 = 31632480249288496148042847664232957253243515078628"
  by (rule powm_sq0 [where k = 2044485822537590005971343130633072755494258557813, OF pw_P2_276809062572392527871141621363_b_13]) (simp_all only: arith_simps rel_simps)

lemma pw_P2_276809062572392527871141621363_b_15: "(257042869196477482084742513461015812109368324244659::int) ^ 28621 mod 558319083762744625875131593280451492009301263247217 = 357625267220172128431214538213829013528050980917632"
  by (rule powm_sq1 [where k = 460669626594087302875155980127141899312724769139146409075229674195221798204308699980710609270359472, OF pw_P2_276809062572392527871141621363_b_14]) (simp_all only: arith_simps rel_simps)

lemma pw_P2_276809062572392527871141621363_b_16: "(257042869196477482084742513461015812109368324244659::int) ^ 57242 mod 558319083762744625875131593280451492009301263247217 = 175308319966865826507027506889667466098294075362650"
  by (rule powm_sq0 [where k = 229073007665000975707803678721179640937494094358022, OF pw_P2_276809062572392527871141621363_b_15]) (simp_all only: arith_simps rel_simps)

lemma pw_P2_276809062572392527871141621363_b_17: "(257042869196477482084742513461015812109368324244659::int) ^ 114485 mod 558319083762744625875131593280451492009301263247217 = 91712121910941901146098741614983422276069163840523"
  by (rule powm_sq1 [where k = 14149078082423177711825963345636455547294439862301542117965961340555443168580971231886722957219007281, OF pw_P2_276809062572392527871141621363_b_16]) (simp_all only: arith_simps rel_simps)

lemma pw_P2_276809062572392527871141621363_b_18: "(257042869196477482084742513461015812109368324244659::int) ^ 228971 mod 558319083762744625875131593280451492009301263247217 = 31882008624178119425437642913066251422673146246652"
  by (rule powm_sq1 [where k = 3872367540417700573187601356662605185750631865335389128366768803577085052372132214831994648902765327, OF pw_P2_276809062572392527871141621363_b_17]) (simp_all only: arith_simps rel_simps)

lemma pw_P2_276809062572392527871141621363_b_19: "(257042869196477482084742513461015812109368324244659::int) ^ 457942 mod 558319083762744625875131593280451492009301263247217 = 247918519620921529127093225256910758423024054220173"
  by (rule powm_sq0 [where k = 1820576268075603675938427187102041196646965505843, OF pw_P2_276809062572392527871141621363_b_18]) (simp_all only: arith_simps rel_simps)

lemma pw_P2_276809062572392527871141621363_b_20: "(257042869196477482084742513461015812109368324244659::int) ^ 915884 mod 558319083762744625875131593280451492009301263247217 = 172871422611276366917120234670322547485846138565403"
  by (rule powm_sq0 [where k = 110086855632446823790925125661650727289460837984878, OF pw_P2_276809062572392527871141621363_b_19]) (simp_all only: arith_simps rel_simps)

lemma pw_P2_276809062572392527871141621363_b_21: "(257042869196477482084742513461015812109368324244659::int) ^ 1831768 mod 558319083762744625875131593280451492009301263247217 = 262605121958943739046816398038737054411284595859254"
  by (rule powm_sq0 [where k = 53525895182092361056329705274495857021621546949715, OF pw_P2_276809062572392527871141621363_b_20]) (simp_all only: arith_simps rel_simps)

lemma pw_P2_276809062572392527871141621363_b_22: "(257042869196477482084742513461015812109368324244659::int) ^ 3663537 mod 558319083762744625875131593280451492009301263247217 = 507697800255935318386945644180843561356112357043762"
  by (rule powm_sq1 [where k = 31748957733651199071933473162402683839577584450184779463195368772183675102452641219099027653887321946, OF pw_P2_276809062572392527871141621363_b_21]) (simp_all only: arith_simps rel_simps)

lemma pw_P2_276809062572392527871141621363_b_23: "(257042869196477482084742513461015812109368324244659::int) ^ 7327074 mod 558319083762744625875131593280451492009301263247217 = 215334881235640798467198711222924101682857091053782"
  by (rule powm_sq0 [where k = 461666211814906162235290700433655422339946726804686, OF pw_P2_276809062572392527871141621363_b_22]) (simp_all only: arith_simps rel_simps)

lemma pw_P2_276809062572392527871141621363_b_24: "(257042869196477482084742513461015812109368324244659::int) ^ 14654149 mod 558319083762744625875131593280451492009301263247217 = 179440369555064649569444866493882913411531446980059"
  by (rule powm_sq1 [where k = 21347737700342258475605892266442804840647067861996995782909536056346454753410769379900068354862105121, OF pw_P2_276809062572392527871141621363_b_23]) (simp_all only: arith_simps rel_simps)

lemma pw_P2_276809062572392527871141621363_b_25: "(257042869196477482084742513461015812109368324244659::int) ^ 29308299 mod 558319083762744625875131593280451492009301263247217 = 481814421550043684227876506444585475377312979960570"
  by (rule powm_sq1 [where k = 14823931438960486656729176039317173408629363217063240190633994621025722616460886943844506997554100177, OF pw_P2_276809062572392527871141621363_b_24]) (simp_all only: arith_simps rel_simps)

lemma pw_P2_276809062572392527871141621363_b_26: "(257042869196477482084742513461015812109368324244659::int) ^ 58616599 mod 558319083762744625875131593280451492009301263247217 = 505815170607036723043861962331698344443896972193550"
  by (rule powm_sq1 [where k = 106876611908781586987901717637661812755451058419143159789456191190103020511605082451439967138119249150, OF pw_P2_276809062572392527871141621363_b_25]) (simp_all only: arith_simps rel_simps)

lemma pw_P2_276809062572392527871141621363_b_27: "(257042869196477482084742513461015812109368324244659::int) ^ 117233198 mod 558319083762744625875131593280451492009301263247217 = 521517925303332838263169777679470047413822324505269"
  by (rule powm_sq0 [where k = 458248686561012538246147577400367036999419716495743, OF pw_P2_276809062572392527871141621363_b_26]) (simp_all only: arith_simps rel_simps)

lemma pw_P2_276809062572392527871141621363_b_28: "(257042869196477482084742513461015812109368324244659::int) ^ 234466396 mod 558319083762744625875131593280451492009301263247217 = 91931060830376105474439219946642268737586839700727"
  by (rule powm_sq0 [where k = 487142485941372232651261730327664576273656342061602, OF pw_P2_276809062572392527871141621363_b_27]) (simp_all only: arith_simps rel_simps)

lemma pw_P2_276809062572392527871141621363_b_29: "(257042869196477482084742513461015812109368324244659::int) ^ 468932792 mod 558319083762744625875131593280451492009301263247217 = 459627242296060374599528937388039707173832615507321"
  by (rule powm_sq0 [where k = 15137078762275776201660010988862740624698457064024, OF pw_P2_276809062572392527871141621363_b_28]) (simp_all only: arith_simps rel_simps)

lemma pw_P2_276809062572392527871141621363_b_30: "(257042869196477482084742513461015812109368324244659::int) ^ 937865584 mod 558319083762744625875131593280451492009301263247217 = 119776903547479546314247323623032160390714468813009"
  by (rule powm_sq0 [where k = 378380764699875924111365838140972013264689250713696, OF pw_P2_276809062572392527871141621363_b_29]) (simp_all only: arith_simps rel_simps)

lemma pw_P2_276809062572392527871141621363_b_31: "(257042869196477482084742513461015812109368324244659::int) ^ 1875731168 mod 558319083762744625875131593280451492009301263247217 = 140880233227398624683177836413548499485686678449351"
  by (rule powm_sq0 [where k = 25695891544195732145626018091549790105402283565690, OF pw_P2_276809062572392527871141621363_b_30]) (simp_all only: arith_simps rel_simps)

lemma pw_P2_276809062572392527871141621363_b_32: "(257042869196477482084742513461015812109368324244659::int) ^ 3751462337 mod 558319083762744625875131593280451492009301263247217 = 144607921181686915097160123007034098882421367322181"
  by (rule powm_sq1 [where k = 9137412087377069296729710137703373614590944324462085373004462823008112560763209991530885965274608734, OF pw_P2_276809062572392527871141621363_b_31]) (simp_all only: arith_simps rel_simps)

lemma pw_P2_276809062572392527871141621363_b_33: "(257042869196477482084742513461015812109368324244659::int) ^ 7502924675 mod 558319083762744625875131593280451492009301263247217 = 333218328194356150250066669712317610090256647975359"
  by (rule powm_sq1 [where k = 9627360924280568210217386453990644266668684317643414672508821171686271449075623690186327808483079420, OF pw_P2_276809062572392527871141621363_b_32]) (simp_all only: arith_simps rel_simps)

lemma pw_P2_276809062572392527871141621363_b_34: "(257042869196477482084742513461015812109368324244659::int) ^ 15005849350 mod 558319083762744625875131593280451492009301263247217 = 342000314144762292469242472500091496176218882480241"
  by (rule powm_sq0 [where k = 198872754798804757901658883472361566126843699227920, OF pw_P2_276809062572392527871141621363_b_33]) (simp_all only: arith_simps rel_simps)

lemma pw_P2_276809062572392527871141621363_b_35: "(257042869196477482084742513461015812109368324244659::int) ^ 30011698700 mod 558319083762744625875131593280451492009301263247217 = 539150424513969863122591925014237854841751277664457"
  by (rule powm_sq0 [where k = 209493492658079285640101130553167023627113164562072, OF pw_P2_276809062572392527871141621363_b_34]) (simp_all only: arith_simps rel_simps)

lemma pw_P2_276809062572392527871141621363_b_36: "(257042869196477482084742513461015812109368324244659::int) ^ 60023397400 mod 558319083762744625875131593280451492009301263247217 = 238515564819670969898262006015681527730616655234927"
  by (rule powm_sq0 [where k = 520639879071585747208947531337683224885350000340866, OF pw_P2_276809062572392527871141621363_b_35]) (simp_all only: arith_simps rel_simps)

lemma pw_P2_276809062572392527871141621363_b_37: "(257042869196477482084742513461015812109368324244659::int) ^ 120046794801 mod 558319083762744625875131593280451492009301263247217 = 228353887773186857049979265610501636644022248749283"
  by (rule powm_sq1 [where k = 26191268806414299377258423249687225951532560633012396889686440221979740390710867160380337563058311984, OF pw_P2_276809062572392527871141621363_b_36]) (simp_all only: arith_simps rel_simps)

lemma pw_P2_276809062572392527871141621363_b_38: "(257042869196477482084742513461015812109368324244659::int) ^ 240093589603 mod 558319083762744625875131593280451492009301263247217 = 262451785927042070522372399731228306849217773645305"
  by (rule powm_sq1 [where k = 24007111394042593612229493513950556663122620128961808790633446008881381567212370937900422255026188338, OF pw_P2_276809062572392527871141621363_b_37]) (simp_all only: arith_simps rel_simps)

lemma pw_P2_276809062572392527871141621363_b_39: "(257042869196477482084742513461015812109368324244659::int) ^ 480187179207 mod 558319083762744625875131593280451492009301263247217 = 467661061647923419081799472174686378038371854326378"
  by (rule powm_sq1 [where k = 31711891907493952663686608690317517498285531184062231055305427920931819119783268877492878043502033641, OF pw_P2_276809062572392527871141621363_b_38]) (simp_all only: arith_simps rel_simps)

lemma pw_P2_276809062572392527871141621363_b_40: "(257042869196477482084742513461015812109368324244659::int) ^ 960374358414 mod 558319083762744625875131593280451492009301263247217 = 481787672313946962096444584591841626839155202694170"
  by (rule powm_sq0 [where k = 391723791899976328678977613289185994133397346644842, OF pw_P2_276809062572392527871141621363_b_39]) (simp_all only: arith_simps rel_simps)

lemma pw_P2_276809062572392527871141621363_b_41: "(257042869196477482084742513461015812109368324244659::int) ^ 1920748716829 mod 558319083762744625875131593280451492009301263247217 = 484565000710344352912284553066830572150290093320706"
  by (rule powm_sq1 [where k = 106864745147479316762493571533750876998655617312166863267716521077020128832786789530623673898153207882, OF pw_P2_276809062572392527871141621363_b_40]) (simp_all only: arith_simps rel_simps)

lemma pw_P2_276809062572392527871141621363_b_42: "(257042869196477482084742513461015812109368324244659::int) ^ 3841497433659 mod 558319083762744625875131593280451492009301263247217 = 400862857121195088822841437530612148363399478855544"
  by (rule powm_sq1 [where k = 108100368121431988970001925173358607492831945330314897677594191468441952769889371924331447164128712340, OF pw_P2_276809062572392527871141621363_b_41]) (simp_all only: arith_simps rel_simps)

lemma pw_P2_276809062572392527871141621363_b_43: "(257042869196477482084742513461015812109368324244659::int) ^ 7682994867319 mod 558319083762744625875131593280451492009301263247217 = 155835537264115094595326809853932815798846352602849"
  by (rule powm_sq1 [where k = 73980067425523112459210218686650696686573680048949250321233870802955143389637271936747208132492100175, OF pw_P2_276809062572392527871141621363_b_42]) (simp_all only: arith_simps rel_simps)

lemma pw_P2_276809062572392527871141621363_b_44: "(257042869196477482084742513461015812109368324244659::int) ^ 15365989734638 mod 558319083762744625875131593280451492009301263247217 = 227764997322408334559021996043946835167586995808357"
  by (rule powm_sq0 [where k = 43496121448564156243589351206194603160438225717532, OF pw_P2_276809062572392527871141621363_b_43]) (simp_all only: arith_simps rel_simps)

lemma pw_P2_276809062572392527871141621363_b_45: "(257042869196477482084742513461015812109368324244659::int) ^ 30731979469277 mod 558319083762744625875131593280451492009301263247217 = 512942515865770428057711721250912174188988462967209"
  by (rule powm_sq1 [where k = 23883449568391139151103301758847318727763780736395550860607305870191937298346906419393464687343076146, OF pw_P2_276809062572392527871141621363_b_44]) (simp_all only: arith_simps rel_simps)

lemma pw_P2_276809062572392527871141621363_b_46: "(257042869196477482084742513461015812109368324244659::int) ^ 61463958938555 mod 558319083762744625875131593280451492009301263247217 = 209538514717371148995303738975159216229938467818361"
  by (rule powm_sq1 [where k = 121132444868808809257793370695131273546519236442613249516300626139351820842611774829355885541797142154, OF pw_P2_276809062572392527871141621363_b_45]) (simp_all only: arith_simps rel_simps)

lemma pw_P2_276809062572392527871141621363_b_47: "(257042869196477482084742513461015812109368324244659::int) ^ 122927917877110 mod 558319083762744625875131593280451492009301263247217 = 254782132825362015595913702531980417393913975404083"
  by (rule powm_sq0 [where k = 78640315953484053200230853831838355759440407643614, OF pw_P2_276809062572392527871141621363_b_46]) (simp_all only: arith_simps rel_simps)

lemma pw_P2_276809062572392527871141621363_b_48: "(257042869196477482084742513461015812109368324244659::int) ^ 245855835754220 mod 558319083762744625875131593280451492009301263247217 = 493097846473944426496942411969072621790076382157531"
  by (rule powm_sq0 [where k = 116266731865152077909006526813333526727193820572974, OF pw_P2_276809062572392527871141621363_b_47]) (simp_all only: arith_simps rel_simps)

lemma pw_P2_276809062572392527871141621363_b_49: "(257042869196477482084742513461015812109368324244659::int) ^ 491711671508441 mod 558319083762744625875131593280451492009301263247217 = 449072940525894274094423600383823974813964821251918"
  by (rule powm_sq1 [where k = 111941030177772182514414008393730407011851862397222404889800560865912959511420160348972466467631237693, OF pw_P2_276809062572392527871141621363_b_48]) (simp_all only: arith_simps rel_simps)

lemma pw_P2_276809062572392527871141621363_b_50: "(257042869196477482084742513461015812109368324244659::int) ^ 983423343016882 mod 558319083762744625875131593280451492009301263247217 = 228890022022791549015479279523061678602032651610090"
  by (rule powm_sq0 [where k = 361202960417291985990714799850760351084801158932602, OF pw_P2_276809062572392527871141621363_b_49]) (simp_all only: arith_simps rel_simps)

lemma pw_P2_276809062572392527871141621363_b_51: "(257042869196477482084742513461015812109368324244659::int) ^ 1966846686033765 mod 558319083762744625875131593280451492009301263247217 = 514914225880318301462395463835176412780608048123440"
  by (rule powm_sq1 [where k = 24119972569530715539363919323498428029849543665777412872287639553908399101384207585403764979387216380, OF pw_P2_276809062572392527871141621363_b_50]) (simp_all only: arith_simps rel_simps)

lemma pw_P2_276809062572392527871141621363_b_52: "(257042869196477482084742513461015812109368324244659::int) ^ 3933693372067530 mod 558319083762744625875131593280451492009301263247217 = 234182768193588942238059939485790964853703814744476"
  by (rule powm_sq0 [where k = 474883749677802844676251898115751962086872737393572, OF pw_P2_276809062572392527871141621363_b_51]) (simp_all only: arith_simps rel_simps)

lemma pw_P2_276809062572392527871141621363_b_53: "(257042869196477482084742513461015812109368324244659::int) ^ 7867386744135061 mod 558319083762744625875131593280451492009301263247217 = 9021732886290148631816919236094755160376580108492"
  by (rule powm_sq1 [where k = 25248347470275901822540472143648572752335789809871960156401158561208227133689857201634564148530387876, OF pw_P2_276809062572392527871141621363_b_52]) (simp_all only: arith_simps rel_simps)

lemma pw_P2_276809062572392527871141621363_b_54: "(257042869196477482084742513461015812109368324244659::int) ^ 15734773488270123 mod 558319083762744625875131593280451492009301263247217 = 346812325077399224380604953501974400612416085316436"
  by (rule powm_sq1 [where k = 37471667226640814219048694671196260936231966093807557644598212618783241522606241234194738984040220, OF pw_P2_276809062572392527871141621363_b_53]) (simp_all only: arith_simps rel_simps)

lemma pw_P2_276809062572392527871141621363_b_55: "(257042869196477482084742513461015812109368324244659::int) ^ 31469546976540246 mod 558319083762744625875131593280451492009301263247217 = 453621836988188723664275290196328710238664388852364"
  by (rule powm_sq0 [where k = 215430194531383072566789940437199140729515697065796, OF pw_P2_276809062572392527871141621363_b_54]) (simp_all only: arith_simps rel_simps)

lemma pw_P2_276809062572392527871141621363_b_56: "(257042869196477482084742513461015812109368324244659::int) ^ 62939093953080493 mod 558319083762744625875131593280451492009301263247217 = 513876038375057933279915166284528612883199294209275"
  by (rule powm_sq1 [where k = 94735116525066333657998076488804315944593101691136156708208158427770585655236603125734516819869187717, OF pw_P2_276809062572392527871141621363_b_55]) (simp_all only: arith_simps rel_simps)

lemma pw_P2_276809062572392527871141621363_b_57: "(257042869196477482084742513461015812109368324244659::int) ^ 125878187906160986 mod 558319083762744625875131593280451492009301263247217 = 442300958382710488682348442048918121233437577738482"
  by (rule powm_sq0 [where k = 472970726768599692750186893495697561103180800621079, OF pw_P2_276809062572392527871141621363_b_56]) (simp_all only: arith_simps rel_simps)

lemma pw_P2_276809062572392527871141621363_b_58: "(257042869196477482084742513461015812109368324244659::int) ^ 251756375812321973 mod 558319083762744625875131593280451492009301263247217 = 49919891636331705036422589366598143620252743084701"
  by (rule powm_sq1 [where k = 90065579666361749061147072788107353634600792746535162063287597130471862081548958732003167380352585695, OF pw_P2_276809062572392527871141621363_b_57]) (simp_all only: arith_simps rel_simps)

lemma pw_P2_276809062572392527871141621363_b_59: "(257042869196477482084742513461015812109368324244659::int) ^ 503512751624643947 mod 558319083762744625875131593280451492009301263247217 = 418409301030621945183950278278624758293830769767824"
  by (rule powm_sq1 [where k = 1147282464077545021812517486362795502602602586138985191117199938499833339298766442493043972691248555, OF pw_P2_276809062572392527871141621363_b_58]) (simp_all only: arith_simps rel_simps)

lemma pw_P2_276809062572392527871141621363_b_60: "(257042869196477482084742513461015812109368324244659::int) ^ 1007025503249287895 mod 558319083762744625875131593280451492009301263247217 = 368833336990570405230055642948429219567748158035489"
  by (rule powm_sq1 [where k = 80598275182979547812861350576759437284239023032857799168938740129321718961867485112119321974499840335, OF pw_P2_276809062572392527871141621363_b_59]) (simp_all only: arith_simps rel_simps)

lemma pw_P2_276809062572392527871141621363_b_61: "(257042869196477482084742513461015812109368324244659::int) ^ 2014051006498575791 mod 558319083762744625875131593280451492009301263247217 = 163494033482328741108160965581457905515097269069154"
  by (rule powm_sq1 [where k = 62630145897261363127315613014463777019863715422292107474122295906972125423076638409584483554755833505, OF pw_P2_276809062572392527871141621363_b_60]) (simp_all only: arith_simps rel_simps)

lemma pw_P2_276809062572392527871141621363_b_62: "(257042869196477482084742513461015812109368324244659::int) ^ 4028102012997151583 mod 558319083762744625875131593280451492009301263247217 = 271617355177568692987972287210675454174348535437384"
  by (rule powm_sq1 [where k = 12306283172525849383145806085207983714960609634196859210840064321623416434592301166143059535549613380, OF pw_P2_276809062572392527871141621363_b_61]) (simp_all only: arith_simps rel_simps)

lemma pw_P2_276809062572392527871141621363_b_63: "(257042869196477482084742513461015812109368324244659::int) ^ 8056204025994303166 mod 558319083762744625875131593280451492009301263247217 = 210252052670369256755434596881398818486205938537624"
  by (rule powm_sq0 [where k = 132139469667507016085727919433926873792875675629096, OF pw_P2_276809062572392527871141621363_b_62]) (simp_all only: arith_simps rel_simps)

lemma pw_P2_276809062572392527871141621363_b_64: "(257042869196477482084742513461015812109368324244659::int) ^ 16112408051988606333 mod 558319083762744625875131593280451492009301263247217 = 295566062214108182617369416471686604015887408280068"
  by (rule powm_sq1 [where k = 20351835170175715132627196499283468185801747517850463246043341453629831134221966650574381753217805948, OF pw_P2_276809062572392527871141621363_b_63]) (simp_all only: arith_simps rel_simps)

lemma pw_P2_276809062572392527871141621363_b_65: "(257042869196477482084742513461015812109368324244659::int) ^ 32224816103977212667 mod 558319083762744625875131593280451492009301263247217 = 214071898690295469210747084238323828651855171736886"
  by (rule powm_sq1 [where k = 40219088043089190256495968505376620226713417571079531026314464742475560098644444164011124780535950490, OF pw_P2_276809062572392527871141621363_b_64]) (simp_all only: arith_simps rel_simps)

lemma pw_P2_276809062572392527871141621363_b_66: "(257042869196477482084742513461015812109368324244659::int) ^ 64449632207954425334 mod 558319083762744625875131593280451492009301263247217 = 232749996702819758631375123588174332512168885717384"
  by (rule powm_sq0 [where k = 82079905813038670531642916885545101803453805569436, OF pw_P2_276809062572392527871141621363_b_65]) (simp_all only: arith_simps rel_simps)

lemma pw_P2_276809062572392527871141621363_b_67: "(257042869196477482084742513461015812109368324244659::int) ^ 128899264415908850669 mod 558319083762744625875131593280451492009301263247217 = 325222995093976188858014052982971703024912011901560"
  by (rule powm_sq1 [where k = 24940344880139768204481345185770699487630268383641308610244500042747567043818039564046358378359737032, OF pw_P2_276809062572392527871141621363_b_66]) (simp_all only: arith_simps rel_simps)

lemma pw_P2_276809062572392527871141621363_b_68: "(257042869196477482084742513461015812109368324244659::int) ^ 257798528831817701338 mod 558319083762744625875131593280451492009301263247217 = 513795834873971138208516219843326425301562350008231"
  by (rule powm_sq0 [where k = 189443634677626352868899209625119447514028637702057, OF pw_P2_276809062572392527871141621363_b_67]) (simp_all only: arith_simps rel_simps)

lemma pw_P2_276809062572392527871141621363_b_69: "(257042869196477482084742513461015812109368324244659::int) ^ 515597057663635402677 mod 558319083762744625875131593280451492009301263247217 = 246208350305060608693101687464862509195221897633044"
  by (rule powm_sq1 [where k = 121535806227948504525405368839752115735375248260579535379631414370521355903925090382104946218837294815, OF pw_P2_276809062572392527871141621363_b_68]) (simp_all only: arith_simps rel_simps)

lemma pw_P2_276809062572392527871141621363_b_70: "(257042869196477482084742513461015812109368324244659::int) ^ 1031194115327270805355 mod 558319083762744625875131593280451492009301263247217 = 434566487482986173028388287668614170985432569651"
  by (rule powm_sq1 [where k = 27907995488707555663016081992676020174300050580492208790216983281987833571920261613241434458854814669, OF pw_P2_276809062572392527871141621363_b_69]) (simp_all only: arith_simps rel_simps)

lemma pw_P2_276809062572392527871141621363_b_71: "(257042869196477482084742513461015812109368324244659::int) ^ 2062388230654541610711 mod 558319083762744625875131593280451492009301263247217 = 122528357113207631626399246598122478987332700299893"
  by (rule powm_sq1 [where k = 86943186092392259006796822802722816714394823137923006342173027896628898419140938869864611266198, OF pw_P2_276809062572392527871141621363_b_70]) (simp_all only: arith_simps rel_simps)

lemma pw_P2_276809062572392527871141621363_b_72: "(257042869196477482084742513461015812109368324244659::int) ^ 4124776461309083221422 mod 558319083762744625875131593280451492009301263247217 = 515378473022641119874361805984513677598498095104347"
  by (rule powm_sq0 [where k = 26889996658687625007597334325909678840240101361406, OF pw_P2_276809062572392527871141621363_b_71]) (simp_all only: arith_simps rel_simps)

lemma pw_P2_276809062572392527871141621363_b_73: "(257042869196477482084742513461015812109368324244659::int) ^ 8249552922618166442845 mod 558319083762744625875131593280451492009301263247217 = 542711202685644425871882027066136417793665705517679"
  by (rule powm_sq1 [where k = 122285689479212014695483414740758042516512992488533053578406571681487715013955989393961868479332438156, OF pw_P2_276809062572392527871141621363_b_72]) (simp_all only: arith_simps rel_simps)

lemma pw_P2_276809062572392527871141621363_b_74: "(257042869196477482084742513461015812109368324244659::int) ^ 16499105845236332885691 mod 558319083762744625875131593280451492009301263247217 = 39771477160502251729991016127760488111654482022050"
  by (rule powm_sq1 [where k = 135600303171788276492525167329745775242810708500252079570685211385263360475231194994023424616578201857, OF pw_P2_276809062572392527871141621363_b_73]) (simp_all only: arith_simps rel_simps)

lemma pw_P2_276809062572392527871141621363_b_75: "(257042869196477482084742513461015812109368324244659::int) ^ 32998211690472665771382 mod 558319083762744625875131593280451492009301263247217 = 394012191520555176452449558776846427038178242683707"
  by (rule powm_sq0 [where k = 2833093909074616205210088449793523084987111773529, OF pw_P2_276809062572392527871141621363_b_74]) (simp_all only: arith_simps rel_simps)

lemma pw_P2_276809062572392527871141621363_b_76: "(257042869196477482084742513461015812109368324244659::int) ^ 65996423380945331542764 mod 558319083762744625875131593280451492009301263247217 = 52062733200751927291200728278671105277939713765960"
  by (rule powm_sq0 [where k = 278058930066595445219513453898968442099585568539617, OF pw_P2_276809062572392527871141621363_b_75]) (simp_all only: arith_simps rel_simps)

lemma pw_P2_276809062572392527871141621363_b_77: "(257042869196477482084742513461015812109368324244659::int) ^ 131992846761890663085528 mod 558319083762744625875131593280451492009301263247217 = 367281916362791316249247900096460986729962012184328"
  by (rule powm_sq0 [where k = 4854801254625401104619522389940744616961642335416, OF pw_P2_276809062572392527871141621363_b_76]) (simp_all only: arith_simps rel_simps)

lemma pw_P2_276809062572392527871141621363_b_78: "(257042869196477482084742513461015812109368324244659::int) ^ 263985693523781326171056 mod 558319083762744625875131593280451492009301263247217 = 60577987244637538433800314651487065772382896585696"
  by (rule powm_sq0 [where k = 241610953324403886462237615284403556153829803412064, OF pw_P2_276809062572392527871141621363_b_77]) (simp_all only: arith_simps rel_simps)

lemma pw_P2_276809062572392527871141621363_b_79: "(257042869196477482084742513461015812109368324244659::int) ^ 527971387047562652342112 mod 558319083762744625875131593280451492009301263247217 = 164613912972931976014090175842340893094154014069307"
  by (rule powm_sq0 [where k = 6572751398501164072403770046277974371656207568277, OF pw_P2_276809062572392527871141621363_b_78]) (simp_all only: arith_simps rel_simps)

lemma pw_P2_276809062572392527871141621363_b_80: "(257042869196477482084742513461015812109368324244659::int) ^ 1055942774095125304684225 mod 558319083762744625875131593280451492009301263247217 = 361701234805537514849144070954936826516319874612033"
  by (rule powm_sq1 [where k = 12475448411843301401196972137229418265546084264211305826124383271258357173782906208880458739801162074, OF pw_P2_276809062572392527871141621363_b_79]) (simp_all only: arith_simps rel_simps)

lemma pw_P2_276809062572392527871141621363_b_81: "(257042869196477482084742513461015812109368324244659::int) ^ 2111885548190250609368451 mod 558319083762744625875131593280451492009301263247217 = 17661217484483101438491709549076353426574144629934"
  by (rule powm_sq1 [where k = 60231415614690159582717933375381091992846022989791642207971266825869860570074822793342685292361628501, OF pw_P2_276809062572392527871141621363_b_80]) (simp_all only: arith_simps rel_simps)

lemma pw_P2_276809062572392527871141621363_b_82: "(257042869196477482084742513461015812109368324244659::int) ^ 4223771096380501218736902 mod 558319083762744625875131593280451492009301263247217 = 484230862643639481524002623484108081963133078573925"
  by (rule powm_sq0 [where k = 558674442815141392058188755982360940640445675343, OF pw_P2_276809062572392527871141621363_b_81]) (simp_all only: arith_simps rel_simps)

lemma pw_P2_276809062572392527871141621363_b_83: "(257042869196477482084742513461015812109368324244659::int) ^ 8447542192761002437473804 mod 558319083762744625875131593280451492009301263247217 = 462703983189545351131678296609042842266112530500807"
  by (rule powm_sq0 [where k = 419974052751964228637898401888094156108599479170354, OF pw_P2_276809062572392527871141621363_b_82]) (simp_all only: arith_simps rel_simps)

lemma pw_P2_276809062572392527871141621363_b_84: "(257042869196477482084742513461015812109368324244659::int) ^ 16895084385522004874947608 mod 558319083762744625875131593280451492009301263247217 = 518129264661659474089740822185546891118383652439630"
  by (rule powm_sq0 [where k = 383463475073422059728871012718836958880173520748307, OF pw_P2_276809062572392527871141621363_b_83]) (simp_all only: arith_simps rel_simps)

lemma pw_P2_276809062572392527871141621363_b_85: "(257042869196477482084742513461015812109368324244659::int) ^ 33790168771044009749895217 mod 558319083762744625875131593280451492009301263247217 = 257549742221119891236485261809677429364237476060745"
  by (rule powm_sq1 [where k = 123594553458395495577096517648007358301075054232942722740996523488066276312923780623243517139490099315, OF pw_P2_276809062572392527871141621363_b_84]) (simp_all only: arith_simps rel_simps)

lemma pw_P2_276809062572392527871141621363_b_86: "(257042869196477482084742513461015812109368324244659::int) ^ 67580337542088019499790434 mod 558319083762744625875131593280451492009301263247217 = 526058550840585929008982916713212785878725649663981"
  by (rule powm_sq0 [where k = 118806380880136202313804508913624408063218519895332, OF pw_P2_276809062572392527871141621363_b_85]) (simp_all only: arith_simps rel_simps)

lemma pw_P2_276809062572392527871141621363_b_87: "(257042869196477482084742513461015812109368324244659::int) ^ 135160675084176038999580869 mod 558319083762744625875131593280451492009301263247217 = 289385907406747779197328998120923920888495761028330"
  by (rule powm_sq1 [where k = 127406403448749307609631191322244030833725570532320280690837629990402798106127466998199891759243152657, OF pw_P2_276809062572392527871141621363_b_86]) (simp_all only: arith_simps rel_simps)

lemma pw_P2_276809062572392527871141621363_b_88: "(257042869196477482084742513461015812109368324244659::int) ^ 270321350168352077999161739 mod 558319083762744625875131593280451492009301263247217 = 264306105655313758318676179758794680343324762061687"
  by (rule powm_sq1 [where k = 38554745750197308415895061591922986194686201912741601530699752596259139812137736140740437879520168389, OF pw_P2_276809062572392527871141621363_b_87]) (simp_all only: arith_simps rel_simps)

lemma pw_P2_276809062572392527871141621363_b_89: "(257042869196477482084742513461015812109368324244659::int) ^ 540642700336704155998323479 mod 558319083762744625875131593280451492009301263247217 = 210506545255975421928643110822680734946689366833528"
  by (rule powm_sq1 [where k = 32161587630637267194620756068393072935765104577222148297217403644844131994385974618991512440783122779, OF pw_P2_276809062572392527871141621363_b_88]) (simp_all only: arith_simps rel_simps)

lemma pw_P2_276809062572392527871141621363_b_90: "(257042869196477482084742513461015812109368324244659::int) ^ 1081285400673408311996646958 mod 558319083762744625875131593280451492009301263247217 = 46250094188747753587402008523324433922341784258185"
  by (rule powm_sq0 [where k = 79368602801398520648040569111159090939649711118247, OF pw_P2_276809062572392527871141621363_b_89]) (simp_all only: arith_simps rel_simps)

lemma pw_P2_276809062572392527871141621363_b_91: "(257042869196477482084742513461015812109368324244659::int) ^ 2162570801346816623993293916 mod 558319083762744625875131593280451492009301263247217 = 241914860968467565639203279389080560972708331717062"
  by (rule powm_sq0 [where k = 3831270101053948835173708163220501669235714942139, OF pw_P2_276809062572392527871141621363_b_90]) (simp_all only: arith_simps rel_simps)

lemma pw_P2_276809062572392527871141621363_b_92: "(257042869196477482084742513461015812109368324244659::int) ^ 4325141602693633247986587833 mod 558319083762744625875131593280451492009301263247217 = 140947042944381162197788588395063211762585120190375"
  by (rule powm_sq1 [where k = 26943138524084892695324826891774736361830917313423442298257791178255161894877055710526695058849661013, OF pw_P2_276809062572392527871141621363_b_91]) (simp_all only: arith_simps rel_simps)

lemma pw_P2_276809062572392527871141621363_b_93: "(257042869196477482084742513461015812109368324244659::int) ^ 8650283205387266495973175667 mod 558319083762744625875131593280451492009301263247217 = 200028901607104714051646470869110368588695207938930"
  by (rule powm_sq1 [where k = 9146080623094306645360908040270097517727174251744675843305997855368612552006266273232047367013383585, OF pw_P2_276809062572392527871141621363_b_92]) (simp_all only: arith_simps rel_simps)

lemma pw_P2_276809062572392527871141621363_b_94: "(257042869196477482084742513461015812109368324244659::int) ^ 17300566410774532991946351335 mod 558319083762744625875131593280451492009301263247217 = 185907965892851045567895281952390308467529166891676"
  by (rule powm_sq1 [where k = 18420804272103334403054164281887764144051669656598417547198646216132051233989104637986124275526383472, OF pw_P2_276809062572392527871141621363_b_93]) (simp_all only: arith_simps rel_simps)

lemma pw_P2_276809062572392527871141621363_b_95: "(257042869196477482084742513461015812109368324244659::int) ^ 34601132821549065983892702670 mod 558319083762744625875131593280451492009301263247217 = 17013872861608887708279649132386996217236652100780"
  by (rule powm_sq0 [where k = 61903260675761441333177475629748183451527071604388, OF pw_P2_276809062572392527871141621363_b_94]) (simp_all only: arith_simps rel_simps)

lemma pw_P2_276809062572392527871141621363_b_96: "(257042869196477482084742513461015812109368324244659::int) ^ 69202265643098131967785405340 mod 558319083762744625875131593280451492009301263247217 = 226198953175259114659896097357496374998616629388095"
  by (rule powm_sq0 [where k = 518470312352785829835362645099741931788822013665, OF pw_P2_276809062572392527871141621363_b_95]) (simp_all only: arith_simps rel_simps)

lemma pw_P2_276809062572392527871141621363_b_97: "(257042869196477482084742513461015812109368324244659::int) ^ 138404531286196263935570810681 mod 558319083762744625875131593280451492009301263247217 = 558062477840569935938876538292721448719904272978599"
  by (rule powm_sq1 [where k = 23556147722106139032643315888142308295405284464651476284277042286232909946052308183219969641225220428, OF pw_P2_276809062572392527871141621363_b_96]) (simp_all only: arith_simps rel_simps)

lemma pw_P2_276809062572392527871141621363_b_98: "(257042869196477482084742513461015812109368324244659::int) ^ 276809062572392527871141621363 mod 558319083762744625875131593280451492009301263247217 = 1"
  by (rule powm_sq1 [where k = 143380052087467948732603201677419003031843418798385828876490394927787500501708879717760584909527277474, OF pw_P2_276809062572392527871141621363_b_97]) (simp_all only: arith_simps rel_simps)

lemma bz_P2_276809062572392527871141621363: "205261531881207970721130534967812864000888823140128 * (257042869196477482084742513461015812109368324244659 - 1) + (- 94499748664923848737555917810353702754401364422319) * 558319083762744625875131593280451492009301263247217 = (1::int)"
  by simp

lemma pk_P2_276809062572392527871141621363:
  assumes "prime_int r" "r dvd 558319083762744625875131593280451492009301263247217"
  shows "276809062572392527871141621363 dvd r - 1"
proof -
  have "int 276809062572392527871141621363 dvd r - 1"
    by (rule pock_step [OF _ _ pock_cert1 [OF pw_P2_276809062572392527871141621363_a_71 pw_P2_276809062572392527871141621363_b_98] pock_cert2 [OF pw_P2_276809062572392527871141621363_a_71 bz_P2_276809062572392527871141621363] assms])
      (simp_all add: prime_276809062572392527871141621363)
  then show ?thesis by simp
qed

lemma prime_558319083762744625875131593280451492009301263247217: "prime_int 558319083762744625875131593280451492009301263247217"
  by (rule pock_prime [where F = 276809062572392527871141621363, OF _ _ _ pk_P2_276809062572392527871141621363]) simp_all

lemma pw_P1_558319083762744625875131593280451492009301263247217_a_2: "(2::int) ^ 3 mod 17177841506151983327561938694476422631186404443649683138308841 = 8"
  by (rule powm_start1 [where k = 0]) (simp_all only: arith_simps rel_simps)

lemma pw_P1_558319083762744625875131593280451492009301263247217_a_3: "(2::int) ^ 7 mod 17177841506151983327561938694476422631186404443649683138308841 = 128"
  by (rule powm_sq1 [where k = 0, OF pw_P1_558319083762744625875131593280451492009301263247217_a_2]) (simp_all only: arith_simps rel_simps)

lemma pw_P1_558319083762744625875131593280451492009301263247217_a_4: "(2::int) ^ 14 mod 17177841506151983327561938694476422631186404443649683138308841 = 16384"
  by (rule powm_sq0 [where k = 0, OF pw_P1_558319083762744625875131593280451492009301263247217_a_3]) (simp_all only: arith_simps rel_simps)

lemma pw_P1_558319083762744625875131593280451492009301263247217_a_5: "(2::int) ^ 28 mod 17177841506151983327561938694476422631186404443649683138308841 = 268435456"
  by (rule powm_sq0 [where k = 0, OF pw_P1_558319083762744625875131593280451492009301263247217_a_4]) (simp_all only: arith_simps rel_simps)

lemma pw_P1_558319083762744625875131593280451492009301263247217_a_6: "(2::int) ^ 57 mod 17177841506151983327561938694476422631186404443649683138308841 = 144115188075855872"
  by (rule powm_sq1 [where k = 0, OF pw_P1_558319083762744625875131593280451492009301263247217_a_5]) (simp_all only: arith_simps rel_simps)

lemma pw_P1_558319083762744625875131593280451492009301263247217_a_7: "(2::int) ^ 114 mod 17177841506151983327561938694476422631186404443649683138308841 = 20769187434139310514121985316880384"
  by (rule powm_sq0 [where k = 0, OF pw_P1_558319083762744625875131593280451492009301263247217_a_6]) (simp_all only: arith_simps rel_simps)

lemma pw_P1_558319083762744625875131593280451492009301263247217_a_8: "(2::int) ^ 229 mod 17177841506151983327561938694476422631186404443649683138308841 = 8446299508132883074274060677143775308426631188407963428421731"
  by (rule powm_sq1 [where k = 50222741, OF pw_P1_558319083762744625875131593280451492009301263247217_a_7]) (simp_all only: arith_simps rel_simps)

lemma pw_P1_558319083762744625875131593280451492009301263247217_a_9: "(2::int) ^ 458 mod 17177841506151983327561938694476422631186404443649683138308841 = 12555469280109669159875273277011811853208695830938467815318538"
  by (rule powm_sq0 [where k = 4153023262878310565476952451869901926570106637998775363779303, OF pw_P1_558319083762744625875131593280451492009301263247217_a_8]) (simp_all only: arith_simps rel_simps)

lemma pw_P1_558319083762744625875131593280451492009301263247217_a_10: "(2::int) ^ 916 mod 17177841506151983327561938694476422631186404443649683138308841 = 18522754285425016499246149418855032588748507030209779728384"
  by (rule powm_sq0 [where k = 9176927659235958602697853872739841860218762136052998590334660, OF pw_P1_558319083762744625875131593280451492009301263247217_a_9]) (simp_all only: arith_simps rel_simps)

lemma pw_P1_558319083762744625875131593280451492009301263247217_a_11: "(2::int) ^ 1833 mod 17177841506151983327561938694476422631186404443649683138308841 = 221063804197267255299241576650313333020295168"
  by (rule powm_sq1 [where k = 39945929899907094406046542249678947071509545026462941184, OF pw_P1_558319083762744625875131593280451492009301263247217_a_10]) (simp_all only: arith_simps rel_simps)

lemma pw_P1_558319083762744625875131593280451492009301263247217_a_12: "(2::int) ^ 3667 mod 17177841506151983327561938694476422631186404443649683138308841 = 16172318861178119110249384013688288523181495695266748169736467"
  by (rule powm_sq1 [where k = 5689795834787036683819997541, OF pw_P1_558319083762744625875131593280451492009301263247217_a_11]) (simp_all only: arith_simps rel_simps)

lemma pw_P1_558319083762744625875131593280451492009301263247217_a_13: "(2::int) ^ 7335 mod 17177841506151983327561938694476422631186404443649683138308841 = 15884171182741808964525893663574417286464177544133307385149276"
  by (rule powm_sq1 [where k = 30451311039742630819356820220114155228534366100453503006844422, OF pw_P1_558319083762744625875131593280451492009301263247217_a_12]) (simp_all only: arith_simps rel_simps)

lemma pw_P1_558319083762744625875131593280451492009301263247217_a_14: "(2::int) ^ 14670 mod 17177841506151983327561938694476422631186404443649683138308841 = 16578132088196984664655914005900624957191089804891946510324898"
  by (rule powm_sq0 [where k = 14687927704553883089644447803752312278900832778192226654826558, OF pw_P1_558319083762744625875131593280451492009301263247217_a_13]) (simp_all only: arith_simps rel_simps)

lemma pw_P1_558319083762744625875131593280451492009301263247217_a_15: "(2::int) ^ 29341 mod 17177841506151983327561938694476422631186404443649683138308841 = 1673607483577824036589980116274142447724991225757789513716924"
  by (rule powm_sq1 [where k = 31998719214550759682858290891350232018288632009136902622383724, OF pw_P1_558319083762744625875131593280451492009301263247217_a_14]) (simp_all only: arith_simps rel_simps)

lemma pw_P1_558319083762744625875131593280451492009301263247217_a_16: "(2::int) ^ 58683 mod 17177841506151983327561938694476422631186404443649683138308841 = 11411666157184706185766974790461308163104571988261816669698068"
  by (rule powm_sq1 [where k = 326113383696615724696749474748998414703356814148081951841324, OF pw_P1_558319083762744625875131593280451492009301263247217_a_15]) (simp_all only: arith_simps rel_simps)

lemma pw_P1_558319083762744625875131593280451492009301263247217_a_17: "(2::int) ^ 117367 mod 17177841506151983327561938694476422631186404443649683138308841 = 12798802944550704789634939640208517784412857807298477906640841"
  by (rule powm_sq1 [where k = 15162105720488368518903522229415621823405176661058351042417727, OF pw_P1_558319083762744625875131593280451492009301263247217_a_16]) (simp_all only: arith_simps rel_simps)

lemma pw_P1_558319083762744625875131593280451492009301263247217_a_18: "(2::int) ^ 234734 mod 17177841506151983327561938694476422631186404443649683138308841 = 9487357570791376263728507310196206708361921959478341196890037"
  by (rule powm_sq0 [where k = 9536085005486513269903321657255031312300486727454737847050684, OF pw_P1_558319083762744625875131593280451492009301263247217_a_17]) (simp_all only: arith_simps rel_simps)

lemma pw_P1_558319083762744625875131593280451492009301263247217_a_19: "(2::int) ^ 469468 mod 17177841506151983327561938694476422631186404443649683138308841 = 8747570703121653642847389583212605684497746061730697568239752"
  by (rule powm_sq0 [where k = 5239887307367269905255870054676253031117426875420138066014537, OF pw_P1_558319083762744625875131593280451492009301263247217_a_18]) (simp_all only: arith_simps rel_simps)

lemma pw_P1_558319083762744625875131593280451492009301263247217_a_20: "(2::int) ^ 938936 mod 17177841506151983327561938694476422631186404443649683138308841 = 8631004567393523327782952805547302892034392394035177269398624"
  by (rule powm_sq0 [where k = 4454575575092352972511250059554451260557735913000459789971680, OF pw_P1_558319083762744625875131593280451492009301263247217_a_19]) (simp_all only: arith_simps rel_simps)

lemma pw_P1_558319083762744625875131593280451492009301263247217_a_21: "(2::int) ^ 1877872 mod 17177841506151983327561938694476422631186404443649683138308841 = 16731108899082454701999290891823182775635934383052806213959157"
  by (rule powm_sq0 [where k = 4336647291552252297393719339421931677169998782380361731688659, OF pw_P1_558319083762744625875131593280451492009301263247217_a_20]) (simp_all only: arith_simps rel_simps)

lemma pw_P1_558319083762744625875131593280451492009301263247217_a_22: "(2::int) ^ 3755745 mod 17177841506151983327561938694476422631186404443649683138308841 = 12740128688448791412959404329777880610511203871325027816225381"
  by (rule powm_sq1 [where k = 32591988334821161899045321403058638575190766037982573897336837, OF pw_P1_558319083762744625875131593280451492009301263247217_a_21]) (simp_all only: arith_simps rel_simps)

lemma pw_P1_558319083762744625875131593280451492009301263247217_a_23: "(2::int) ^ 7511491 mod 17177841506151983327561938694476422631186404443649683138308841 = 11556114057234355410616499097520874687867872253828276229077212"
  by (rule powm_sq1 [where k = 18897703642230805679100079905414916949575853989068916376196710, OF pw_P1_558319083762744625875131593280451492009301263247217_a_22]) (simp_all only: arith_simps rel_simps)

lemma pw_P1_558319083762744625875131593280451492009301263247217_a_24: "(2::int) ^ 15022982 mod 17177841506151983327561938694476422631186404443649683138308841 = 6250855570526867665824671966994032773167306097902955122681384"
  by (rule powm_sq0 [where k = 7774188163046142845978893303060464681420872889408014183317160, OF pw_P1_558319083762744625875131593280451492009301263247217_a_23]) (simp_all only: arith_simps rel_simps)

lemma pw_P1_558319083762744625875131593280451492009301263247217_a_25: "(2::int) ^ 30045965 mod 17177841506151983327561938694476422631186404443649683138308841 = 16702406849928200411469602471100801642834753232442289553107452"
  by (rule powm_sq1 [where k = 4549255545243364846956557335217278027797699769733727416153060, OF pw_P1_558319083762744625875131593280451492009301263247217_a_24]) (simp_all only: arith_simps rel_simps)

lemma pw_P1_558319083762744625875131593280451492009301263247217_a_26: "(2::int) ^ 60091930 mod 17177841506151983327561938694476422631186404443649683138308841 = 11580739542167777101610079879316826135052975926983038091610718"
  by (rule powm_sq0 [where k = 16240130896575070628533696452861130777213070403233945742238946, OF pw_P1_558319083762744625875131593280451492009301263247217_a_25]) (simp_all only: arith_simps rel_simps)

lemma pw_P1_558319083762744625875131593280451492009301263247217_a_27: "(2::int) ^ 120183861 mod 17177841506151983327561938694476422631186404443649683138308841 = 6937267549184109861301042637522527220713831607581774914516050"
  by (rule powm_sq1 [where k = 15614712511522196787758866724688677106950289234934517001649478, OF pw_P1_558319083762744625875131593280451492009301263247217_a_26]) (simp_all only: arith_simps rel_simps)

lemma pw_P1_558319083762744625875131593280451492009301263247217_a_28: "(2::int) ^ 240367722 mod 17177841506151983327561938694476422631186404443649683138308841 = 119610568034366420824406124806076355132056769534519743541445"
  by (rule powm_sq0 [where k = 2801613988097830777429222278294888364706175341666921695522855, OF pw_P1_558319083762744625875131593280451492009301263247217_a_27]) (simp_all only: arith_simps rel_simps)

lemma pw_P1_558319083762744625875131593280451492009301263247217_a_29: "(2::int) ^ 480735445 mod 17177841506151983327561938694476422631186404443649683138308841 = 3121113552657123922940215470683690367192340535648843398628153"
  by (rule powm_sq1 [where k = 1665714284344756001871851932606366519401360208910632873617, OF pw_P1_558319083762744625875131593280451492009301263247217_a_28]) (simp_all only: arith_simps rel_simps)

lemma pw_P1_558319083762744625875131593280451492009301263247217_a_30: "(2::int) ^ 961470891 mod 17177841506151983327561938694476422631186404443649683138308841 = 6726932426222025326456469045428067563940294253507793905558990"
  by (rule powm_sq1 [where k = 1134176235715209832455092459831475021885229572648690389909108, OF pw_P1_558319083762744625875131593280451492009301263247217_a_29]) (simp_all only: arith_simps rel_simps)

lemma pw_P1_558319083762744625875131593280451492009301263247217_a_31: "(2::int) ^ 1922941782 mod 17177841506151983327561938694476422631186404443649683138308841 = 14804300527904269560960402220862350198653949693133494206486517"
  by (rule powm_sq0 [where k = 2634301862125760275314728203989067819748369667665954363292663, OF pw_P1_558319083762744625875131593280451492009301263247217_a_30]) (simp_all only: arith_simps rel_simps)

lemma pw_P1_558319083762744625875131593280451492009301263247217_a_32: "(2::int) ^ 3845883565 mod 17177841506151983327561938694476422631186404443649683138308841 = 15937679527717126740069255473058054461215137148627785148672402"
  by (rule powm_sq1 [where k = 25517445139078176484138277448172251030653076703041981494435936, OF pw_P1_558319083762744625875131593280451492009301263247217_a_31]) (simp_all only: arith_simps rel_simps)

lemma pw_P1_558319083762744625875131593280451492009301263247217_a_33: "(2::int) ^ 7691767130 mod 17177841506151983327561938694476422631186404443649683138308841 = 2802933464081334259548941636022309036563877126988005399337711"
  by (rule powm_sq0 [where k = 14787051600007132511346338189775278314815634174749220769106573, OF pw_P1_558319083762744625875131593280451492009301263247217_a_32]) (simp_all only: arith_simps rel_simps)

lemma pw_P1_558319083762744625875131593280451492009301263247217_a_34: "(2::int) ^ 15383534260 mod 17177841506151983327561938694476422631186404443649683138308841 = 11209909708033248196793484756330925240833351288262769950066017"
  by (rule powm_sq0 [where k = 457358743312035156929063221218246921003163594356893734084544, OF pw_P1_558319083762744625875131593280451492009301263247217_a_33]) (simp_all only: arith_simps rel_simps)

lemma pw_P1_558319083762744625875131593280451492009301263247217_a_35: "(2::int) ^ 30767068520 mod 17177841506151983327561938694476422631186404443649683138308841 = 9518045869596203341493856665776622898730638844578809353535072"
  by (rule powm_sq0 [where k = 7315358895193793578410565854238727890027497747751623634878137, OF pw_P1_558319083762744625875131593280451492009301263247217_a_34]) (simp_all only: arith_simps rel_simps)

lemma pw_P1_558319083762744625875131593280451492009301263247217_b_2: "(9518045869596203341493856665776622898730638844578809353535072::int) ^ 2 mod 17177841506151983327561938694476422631186404443649683138308841 = 2893127865813331779210820270638676709217094422572749430362208"
  by (rule powm_start0 [where k = 5273840554605930407518253319490016234259147294603514466136736]) (simp_all only: arith_simps rel_simps)

lemma pw_P1_558319083762744625875131593280451492009301263247217_b_3: "(9518045869596203341493856665776622898730638844578809353535072::int) ^ 5 mod 17177841506151983327561938694476422631186404443649683138308841 = 12552624702391948306226072527575214523375961340284853319219837"
  by (rule powm_sq1 [where k = 4637826083294401691555102944189802050583276382677427110210544422134852993796845864005953789449400012785030067123955061131, OF pw_P1_558319083762744625875131593280451492009301263247217_b_2]) (simp_all only: arith_simps rel_simps)

lemma pw_P1_558319083762744625875131593280451492009301263247217_b_4: "(9518045869596203341493856665776622898730638844578809353535072::int) ^ 11 mod 17177841506151983327561938694476422631186404443649683138308841 = 3723351883370961296108842386594089711130014999458537066961683"
  by (rule powm_sq1 [where k = 87306844329491057631468322756300255408272547037802003095427113078532803536699365624632570630467349609068556031943368722885, OF pw_P1_558319083762744625875131593280451492009301263247217_b_3]) (simp_all only: arith_simps rel_simps)

lemma pw_P1_558319083762744625875131593280451492009301263247217_b_5: "(9518045869596203341493856665776622898730638844578809353535072::int) ^ 23 mod 17177841506151983327561938694476422631186404443649683138308841 = 11765732893553812527613741392423349097265825350723799758440860"
  by (rule powm_sq1 [where k = 7681523548563912431442176087923610296756229042800651167836585081572821860926287537726704610811702664964415046840088193828, OF pw_P1_558319083762744625875131593280451492009301263247217_b_4]) (simp_all only: arith_simps rel_simps)

lemma pw_P1_558319083762744625875131593280451492009301263247217_b_6: "(9518045869596203341493856665776622898730638844578809353535072::int) ^ 47 mod 17177841506151983327561938694476422631186404443649683138308841 = 9119347043701434353623452101675150039172645992094933273807306"
  by (rule powm_sq1 [where k = 76703851517221315044905716950585855649942240189300900221428115019996991448522896691124288147947837585969120968893769051334, OF pw_P1_558319083762744625875131593280451492009301263247217_b_5]) (simp_all only: arith_simps rel_simps)

lemma pw_P1_558319083762744625875131593280451492009301263247217_b_7: "(9518045869596203341493856665776622898730638844578809353535072::int) ^ 95 mod 17177841506151983327561938694476422631186404443649683138308841 = 12584667950262500864707441358255519938824964355615300744204457"
  by (rule powm_sq1 [where k = 46079386572426418601225502500577762864516443236417639917987244022207074707209883058693090174909894712533889451970790719935, OF pw_P1_558319083762744625875131593280451492009301263247217_b_6]) (simp_all only: arith_simps rel_simps)

lemma pw_P1_558319083762744625875131593280451492009301263247217_b_8: "(9518045869596203341493856665776622898730638844578809353535072::int) ^ 191 mod 17177841506151983327561938694476422631186404443649683138308841 = 2367770031255210828425087019327334350191917919059674592781694"
  by (rule powm_sq1 [where k = 87753151878452361530315159144612184456133658817177612866106480431713243747270361796969230783905378242508295420832122480274, OF pw_P1_558319083762744625875131593280451492009301263247217_b_7]) (simp_all only: arith_simps rel_simps)

lemma pw_P1_558319083762744625875131593280451492009301263247217_b_9: "(9518045869596203341493856665776622898730638844578809353535072::int) ^ 382 mod 17177841506151983327561938694476422631186404443649683138308841 = 9809396127389619719796750135989780130533051649955691921915459"
  by (rule powm_sq0 [where k = 326370162333985807590317817062050313266886650042361094652697, OF pw_P1_558319083762744625875131593280451492009301263247217_b_8]) (simp_all only: arith_simps rel_simps)

lemma pw_P1_558319083762744625875131593280451492009301263247217_b_10: "(9518045869596203341493856665776622898730638844578809353535072::int) ^ 764 mod 17177841506151983327561938694476422631186404443649683138308841 = 2218966325244966919416741380113495708731976201224083022542649"
  by (rule powm_sq0 [where k = 5601649796895914560194396312590843903577323043962173931686352, OF pw_P1_558319083762744625875131593280451492009301263247217_b_9]) (simp_all only: arith_simps rel_simps)

lemma pw_P1_558319083762744625875131593280451492009301263247217_b_11: "(9518045869596203341493856665776622898730638844578809353535072::int) ^ 1528 mod 17177841506151983327561938694476422631186404443649683138308841 = 17086965599223616463520457122662752194487674268628729808127168"
  by (rule powm_sq0 [where k = 286637384028008635852950817649124749086039081417228051271113, OF pw_P1_558319083762744625875131593280451492009301263247217_b_10]) (simp_all only: arith_simps rel_simps)

lemma pw_P1_558319083762744625875131593280451492009301263247217_b_12: "(9518045869596203341493856665776622898730638844578809353535072::int) ^ 3056 mod 17177841506151983327561938694476422631186404443649683138308841 = 3334447729953225653212059557403516988273580791929405628650951"
  by (rule powm_sq0 [where k = 16996570452957588669554974584787354872066990903919383562412753, OF pw_P1_558319083762744625875131593280451492009301263247217_b_11]) (simp_all only: arith_simps rel_simps)

lemma pw_P1_558319083762744625875131593280451492009301263247217_b_13: "(9518045869596203341493856665776622898730638844578809353535072::int) ^ 6112 mod 17177841506151983327561938694476422631186404443649683138308841 = 6780224868819287587215880249435504914753793741861670477411953"
  by (rule powm_sq0 [where k = 647260696858117048955561037070225513461248332245465004068928, OF pw_P1_558319083762744625875131593280451492009301263247217_b_12]) (simp_all only: arith_simps rel_simps)

lemma pw_P1_558319083762744625875131593280451492009301263247217_b_14: "(9518045869596203341493856665776622898730638844578809353535072::int) ^ 12224 mod 17177841506151983327561938694476422631186404443649683138308841 = 16800331256278148678442191037513518962805205502455702892745042"
  by (rule powm_sq0 [where k = 2676206393876177542690680280277483958403823267088501323260087, OF pw_P1_558319083762744625875131593280451492009301263247217_b_13]) (simp_all only: arith_simps rel_simps)

lemma pw_P1_558319083762744625875131593280451492009301263247217_b_15: "(9518045869596203341493856665776622898730638844578809353535072::int) ^ 24449 mod 17177841506151983327561938694476422631186404443649683138308841 = 6312832917784732438889591995434644952370989829142574880401320"
  by (rule powm_sq1 [where k = 156392129021300672063053763981945431995032297907773023436248850923694697156634990957023634316373461571991441015900516844568, OF pw_P1_558319083762744625875131593280451492009301263247217_b_14]) (simp_all only: arith_simps rel_simps)

lemma pw_P1_558319083762744625875131593280451492009301263247217_b_16: "(9518045869596203341493856665776622898730638844578809353535072::int) ^ 48898 mod 17177841506151983327561938694476422631186404443649683138308841 = 15775719771148600741658195635142818578893892614538241733003525"
  by (rule powm_sq0 [where k = 2319957337689613655476686861295017160846165158949623002783875, OF pw_P1_558319083762744625875131593280451492009301263247217_b_15]) (simp_all only: arith_simps rel_simps)

lemma pw_P1_558319083762744625875131593280451492009301263247217_b_17: "(9518045869596203341493856665776622898730638844578809353535072::int) ^ 97796 mod 17177841506151983327561938694476422631186404443649683138308841 = 2829796641512100281676416062507763787401870337121633255609573"
  by (rule powm_sq0 [where k = 14488044624738134344584832470396518385948820988359621882999572, OF pw_P1_558319083762744625875131593280451492009301263247217_b_16]) (simp_all only: arith_simps rel_simps)

lemma pw_P1_558319083762744625875131593280451492009301263247217_b_18: "(9518045869596203341493856665776622898730638844578809353535072::int) ^ 195592 mod 17177841506151983327561938694476422631186404443649683138308841 = 3900966071040489575677842905994456721638557684836836741612860"
  by (rule powm_sq0 [where k = 466167360401206890056973482231716920768985131414527419573909, OF pw_P1_558319083762744625875131593280451492009301263247217_b_17]) (simp_all only: arith_simps rel_simps)

lemma pw_P1_558319083762744625875131593280451492009301263247217_b_19: "(9518045869596203341493856665776622898730638844578809353535072::int) ^ 391185 mod 17177841506151983327561938694476422631186404443649683138308841 = 190288576617141639306329067233882480953763599547838567739060"
  by (rule powm_sq1 [where k = 8431863127502462853022589099045353570417915251840937840022309743390238035267624880876994207656010486361284020775080498540, OF pw_P1_558319083762744625875131593280451492009301263247217_b_18]) (simp_all only: arith_simps rel_simps)

lemma pw_P1_558319083762744625875131593280451492009301263247217_b_20: "(9518045869596203341493856665776622898730638844578809353535072::int) ^ 782371 mod 17177841506151983327561938694476422631186404443649683138308841 = 13054613865427881021148072309009911416092791677718036383213675"
  by (rule powm_sq1 [where k = 20063404874247961570684927311994388102275892358410918579518772977747793246251793128058265335763852153047942469372504525, OF pw_P1_558319083762744625875131593280451492009301263247217_b_19]) (simp_all only: arith_simps rel_simps)

lemma pw_P1_558319083762744625875131593280451492009301263247217_b_21: "(9518045869596203341493856665776622898730638844578809353535072::int) ^ 1564743 mod 17177841506151983327561938694476422631186404443649683138308841 = 4026486593686032416167192515225803263717404114775673081930216"
  by (rule powm_sq1 [where k = 94429407198472786503098220056408399292116274535636806872901373247842955826543194578306271885172158831977014894046809213624, OF pw_P1_558319083762744625875131593280451492009301263247217_b_20]) (simp_all only: arith_simps rel_simps)

lemma pw_P1_558319083762744625875131593280451492009301263247217_b_22: "(9518045869596203341493856665776622898730638844578809353535072::int) ^ 3129486 mod 17177841506151983327561938694476422631186404443649683138308841 = 9216927656275957565642300210062709571699650271870552973786577"
  by (rule powm_sq0 [where k = 943808585224578630608531685644239322410932751649833880948119, OF pw_P1_558319083762744625875131593280451492009301263247217_b_21]) (simp_all only: arith_simps rel_simps)

lemma pw_P1_558319083762744625875131593280451492009301263247217_b_23: "(9518045869596203341493856665776622898730638844578809353535072::int) ^ 6258973 mod 17177841506151983327561938694476422631186404443649683138308841 = 526085085280138758584317001605388360482423280434626104422011"
  by (rule powm_sq1 [where k = 47070797836296921278507436097628353101412564611386269088667632911493651621326756282692047630578314686306494935123844842397, OF pw_P1_558319083762744625875131593280451492009301263247217_b_22]) (simp_all only: arith_simps rel_simps)

lemma pw_P1_558319083762744625875131593280451492009301263247217_b_24: "(9518045869596203341493856665776622898730638844578809353535072::int) ^ 12517946 mod 17177841506151983327561938694476422631186404443649683138308841 = 6703651884434102804854832767625970400054216013147194309603903"
  by (rule powm_sq0 [where k = 16111774977961666445686887305275184493060805692542301501898, OF pw_P1_558319083762744625875131593280451492009301263247217_b_23]) (simp_all only: arith_simps rel_simps)

lemma pw_P1_558319083762744625875131593280451492009301263247217_b_25: "(9518045869596203341493856665776622898730638844578809353535072::int) ^ 25035893 mod 17177841506151983327561938694476422631186404443649683138308841 = 8041372428101358620371429664365497593697059356544550450014985"
  by (rule powm_sq1 [where k = 24900158371804098432482618774469389130105310877424812240934152959370216559737153743810977492523051631477710489585984353343, OF pw_P1_558319083762744625875131593280451492009301263247217_b_24]) (simp_all only: arith_simps rel_simps)

lemma pw_P1_558319083762744625875131593280451492009301263247217_b_26: "(9518045869596203341493856665776622898730638844578809353535072::int) ^ 50071787 mod 17177841506151983327561938694476422631186404443649683138308841 = 14642449201902924478561929235090120445545386707642348756166226"
  by (rule powm_sq1 [where k = 35829401613474020304881384184161664853556805711141025297825665447802479007682851245016386975754589583860192596595481813214, OF pw_P1_558319083762744625875131593280451492009301263247217_b_25]) (simp_all only: arith_simps rel_simps)

lemma pw_P1_558319083762744625875131593280451492009301263247217_b_27: "(9518045869596203341493856665776622898730638844578809353535072::int) ^ 100143574 mod 17177841506151983327561938694476422631186404443649683138308841 = 4945810496738473540275848354739359236887803123431106443634427"
  by (rule powm_sq0 [where k = 12481272373686939099507858689219076952117635426288177726529889, OF pw_P1_558319083762744625875131593280451492009301263247217_b_26]) (simp_all only: arith_simps rel_simps)

lemma pw_P1_558319083762744625875131593280451492009301263247217_b_28: "(9518045869596203341493856665776622898730638844578809353535072::int) ^ 200287148 mod 17177841506151983327561938694476422631186404443649683138308841 = 783996720082888786255118548006967049612762455393019189410835"
  by (rule powm_sq0 [where k = 1423988075619868508491828963010174563917526243555357259750934, OF pw_P1_558319083762744625875131593280451492009301263247217_b_27]) (simp_all only: arith_simps rel_simps)

lemma pw_P1_558319083762744625875131593280451492009301263247217_b_29: "(9518045869596203341493856665776622898730638844578809353535072::int) ^ 400574297 mod 17177841506151983327561938694476422631186404443649683138308841 = 4516233469288487084236312636371298330860711222435449764025782"
  by (rule powm_sq1 [where k = 340571022824733717729537741633102190266177445072031029207007883764714147661349767790241287036666069237409037926485763098, OF pw_P1_558319083762744625875131593280451492009301263247217_b_28]) (simp_all only: arith_simps rel_simps)

lemma pw_P1_558319083762744625875131593280451492009301263247217_b_30: "(9518045869596203341493856665776622898730638844578809353535072::int) ^ 801148594 mod 17177841506151983327561938694476422631186404443649683138308841 = 1030419261585045679108107664476681141408254759978491468337994"
  by (rule powm_sq0 [where k = 1187364823561614269942074251885382591884476838022266349016330, OF pw_P1_558319083762744625875131593280451492009301263247217_b_29]) (simp_all only: arith_simps rel_simps)

lemma pw_P1_558319083762744625875131593280451492009301263247217_b_31: "(9518045869596203341493856665776622898730638844578809353535072::int) ^ 1602297189 mod 17177841506151983327561938694476422631186404443649683138308841 = 15330659221731324330546322904561142172839587795612786028697394"
  by (rule powm_sq1 [where k = 588311230347281177771070259839903704204500740894885091674923068807209471527903746511820645671689404734359690788822779678, OF pw_P1_558319083762744625875131593280451492009301263247217_b_30]) (simp_all only: arith_simps rel_simps)

lemma pw_P1_558319083762744625875131593280451492009301263247217_b_32: "(9518045869596203341493856665776622898730638844578809353535072::int) ^ 3204594379 mod 17177841506151983327561938694476422631186404443649683138308841 = 9050800447759375984988730201591648706428118858981730448045064"
  by (rule powm_sq1 [where k = 130226947870636592606251518700453705396202590307440090736598337210032047494426185358723819809630453594498218605217665345208, OF pw_P1_558319083762744625875131593280451492009301263247217_b_31]) (simp_all only: arith_simps rel_simps)

lemma pw_P1_558319083762744625875131593280451492009301263247217_b_33: "(9518045869596203341493856665776622898730638844578809353535072::int) ^ 6409188758 mod 17177841506151983327561938694476422631186404443649683138308841 = 6652288092384528534178624148161841596488887126995188118042572"
  by (rule powm_sq0 [where k = 4768759143331482833590992510317381501725520247187390815687764, OF pw_P1_558319083762744625875131593280451492009301263247217_b_32]) (simp_all only: arith_simps rel_simps)

lemma pw_P1_558319083762744625875131593280451492009301263247217_b_34: "(9518045869596203341493856665776622898730638844578809353535072::int) ^ 12818377517 mod 17177841506151983327561938694476422631186404443649683138308841 = 3256496352028570374082707716079058231936392505544390504256432"
  by (rule powm_sq1 [where k = 24520047107537970109726134407158598195401992264743148875479662999053091402430123950278179152777873478518200260990096448976, OF pw_P1_558319083762744625875131593280451492009301263247217_b_33]) (simp_all only: arith_simps rel_simps)

lemma pw_P1_558319083762744625875131593280451492009301263247217_b_35: "(9518045869596203341493856665776622898730638844578809353535072::int) ^ 25636755035 mod 17177841506151983327561938694476422631186404443649683138308841 = 9404999897097216621090558869516071687913182808407019465876579"
  by (rule powm_sq1 [where k = 5875981152550493192576905629309887636249972483772997703321287061089171365335853185492818213132371801818670170404203901589, OF pw_P1_558319083762744625875131593280451492009301263247217_b_34]) (simp_all only: arith_simps rel_simps)

lemma pw_P1_558319083762744625875131593280451492009301263247217_b_36: "(9518045869596203341493856665776622898730638844578809353535072::int) ^ 51273510071 mod 17177841506151983327561938694476422631186404443649683138308841 = 9545113550697415493895396144320159271995809005743809081072948"
  by (rule powm_sq1 [where k = 49011364354232155952100911385366917557348963425472292388977904248525472629819355825254730013825481861780638582513780250444, OF pw_P1_558319083762744625875131593280451492009301263247217_b_35]) (simp_all only: arith_simps rel_simps)

lemma pw_P1_558319083762744625875131593280451492009301263247217_b_37: "(9518045869596203341493856665776622898730638844578809353535072::int) ^ 102547020143 mod 17177841506151983327561938694476422631186404443649683138308841 = 4803864487745914450541905182724435322021860817241088535118742"
  by (rule powm_sq1 [where k = 50482563534484511586046315873014311491094931915865232634157932030637944063435518491445139570948234071439140018202207602906, OF pw_P1_558319083762744625875131593280451492009301263247217_b_36]) (simp_all only: arith_simps rel_simps)

lemma pw_P1_558319083762744625875131593280451492009301263247217_b_38: "(9518045869596203341493856665776622898730638844578809353535072::int) ^ 205094040287 mod 17177841506151983327561938694476422631186404443649683138308841 = 6062143927988401587458485202739366141499806650111141614143234"
  by (rule powm_sq1 [where k = 12786765419245881335728903832378793092605050490340295055898303971812059995946158628614414626541434190301278295565191153614, OF pw_P1_558319083762744625875131593280451492009301263247217_b_37]) (simp_all only: arith_simps rel_simps)

lemma pw_P1_558319083762744625875131593280451492009301263247217_b_39: "(9518045869596203341493856665776622898730638844578809353535072::int) ^ 410188080574 mod 17177841506151983327561938694476422631186404443649683138308841 = 13687518577220360139004175087438530997649934366667448167948177"
  by (rule powm_sq0 [where k = 2139360116373488422517666079288018768333461078235602834938619, OF pw_P1_558319083762744625875131593280451492009301263247217_b_38]) (simp_all only: arith_simps rel_simps)

lemma pw_P1_558319083762744625875131593280451492009301263247217_b_40: "(9518045869596203341493856665776622898730638844578809353535072::int) ^ 820376161149 mod 17177841506151983327561938694476422631186404443649683138308841 = 1791876235247724142701854560191123233573444755705807797522663"
  by (rule powm_sq1 [where k = 103807479276667388008248307054645161631395808618971135825673678773237472813337882086828841726221051481457768744956058411025, OF pw_P1_558319083762744625875131593280451492009301263247217_b_39]) (simp_all only: arith_simps rel_simps)

lemma pw_P1_558319083762744625875131593280451492009301263247217_b_41: "(9518045869596203341493856665776622898730638844578809353535072::int) ^ 1640752322298 mod 17177841506151983327561938694476422631186404443649683138308841 = 13419435409188168874666098616288708666649096196921564023930507"
  by (rule powm_sq0 [where k = 186916408635837663525556649315349991552565280648913305192182, OF pw_P1_558319083762744625875131593280451492009301263247217_b_40]) (simp_all only: arith_simps rel_simps)

lemma pw_P1_558319083762744625875131593280451492009301263247217_b_42: "(9518045869596203341493856665776622898730638844578809353535072::int) ^ 3281504644596 mod 17177841506151983327561938694476422631186404443649683138308841 = 12741189097993286464139315615253886684032894470432628128594717"
  by (rule powm_sq0 [where k = 10483345456230916494156873969212731904750409574399573996998652, OF pw_P1_558319083762744625875131593280451492009301263247217_b_41]) (simp_all only: arith_simps rel_simps)

lemma pw_P1_558319083762744625875131593280451492009301263247217_b_43: "(9518045869596203341493856665776622898730638844578809353535072::int) ^ 6563009289193 mod 17177841506151983327561938694476422631186404443649683138308841 = 16879180950354969865599206489919288590514233829468025921275994"
  by (rule powm_sq1 [where k = 89949576872432392617001684401636160637540402734101758212320321574032745758632477360573298318413053805249334563526433868054, OF pw_P1_558319083762744625875131593280451492009301263247217_b_42]) (simp_all only: arith_simps rel_simps)

lemma pw_P1_558319083762744625875131593280451492009301263247217_b_44: "(9518045869596203341493856665776622898730638844578809353535072::int) ^ 13126018578387 mod 17177841506151983327561938694476422631186404443649683138308841 = 15416902810048447569927311791501220689910828679799452136665305"
  by (rule powm_sq1 [where k = 157863577321354283400290302387870906350500333117654169184269040552490248492643875811849833941399937993373534389736099035407, OF pw_P1_558319083762744625875131593280451492009301263247217_b_43]) (simp_all only: arith_simps rel_simps)

lemma pw_P1_558319083762744625875131593280451492009301263247217_b_45: "(9518045869596203341493856665776622898730638844578809353535072::int) ^ 26252037156775 mod 17177841506151983327561938694476422631186404443649683138308841 = 12289845506787080142303148821621682772078797170959516423453221"
  by (rule powm_sq1 [where k = 131696268940105057904684898286759740169084333661282769086290609459577095981283539939787791217843903212659457660836351967619, OF pw_P1_558319083762744625875131593280451492009301263247217_b_44]) (simp_all only: arith_simps rel_simps)

lemma pw_P1_558319083762744625875131593280451492009301263247217_b_46: "(9518045869596203341493856665776622898730638844578809353535072::int) ^ 52504074313550 mod 17177841506151983327561938694476422631186404443649683138308841 = 8046130291406296948091705889861221144842045107742097069160919"
  by (rule powm_sq0 [where k = 8792740492255781369514648420921876457600217862706233404718642, OF pw_P1_558319083762744625875131593280451492009301263247217_b_45]) (simp_all only: arith_simps rel_simps)

lemma pw_P1_558319083762744625875131593280451492009301263247217_b_47: "(9518045869596203341493856665776622898730638844578809353535072::int) ^ 105008148627101 mod 17177841506151983327561938694476422631186404443649683138308841 = 7945664860663408131131988925544970454822263566477825582533073"
  by (rule powm_sq1 [where k = 35871812738779799235324799040937786481396965765209036507383003059740974202587564613975756491283295307969523636540550360759, OF pw_P1_558319083762744625875131593280451492009301263247217_b_46]) (simp_all only: arith_simps rel_simps)

lemma pw_P1_558319083762744625875131593280451492009301263247217_b_48: "(9518045869596203341493856665776622898730638844578809353535072::int) ^ 210016297254202 mod 17177841506151983327561938694476422631186404443649683138308841 = 15323336652098139181930152587028188098007383285120542189622074"
  by (rule powm_sq0 [where k = 3675292384981600830049886110010022855266359400834184205615055, OF pw_P1_558319083762744625875131593280451492009301263247217_b_47]) (simp_all only: arith_simps rel_simps)

lemma pw_P1_558319083762744625875131593280451492009301263247217_b_49: "(9518045869596203341493856665776622898730638844578809353535072::int) ^ 420032594508404 mod 17177841506151983327561938694476422631186404443649683138308841 = 4202070069683203372981850739093217888413923098462654123215396"
  by (rule powm_sq0 [where k = 13669042531882861230909974670323475603556414020612372715226880, OF pw_P1_558319083762744625875131593280451492009301263247217_b_48]) (simp_all only: arith_simps rel_simps)

lemma pw_P1_558319083762744625875131593280451492009301263247217_b_50: "(9518045869596203341493856665776622898730638844578809353535072::int) ^ 840065189016808 mod 17177841506151983327561938694476422631186404443649683138308841 = 8206029722627076020421503455871737677013739140104930596466009"
  by (rule powm_sq0 [where k = 1027916858133990482878792620764077030753823917009164074228127, OF pw_P1_558319083762744625875131593280451492009301263247217_b_49]) (simp_all only: arith_simps rel_simps)

lemma pw_P1_558319083762744625875131593280451492009301263247217_b_51: "(9518045869596203341493856665776622898730638844578809353535072::int) ^ 1680130378033617 mod 17177841506151983327561938694476422631186404443649683138308841 = 15762481978028975445213161277079466645788751161524887554825341"
  by (rule powm_sq1 [where k = 37311728914853987721669125346296907714334534715046178982898227454006788773177341191830808144043476112441386512681447356651, OF pw_P1_558319083762744625875131593280451492009301263247217_b_50]) (simp_all only: arith_simps rel_simps)

lemma pw_P1_558319083762744625875131593280451492009301263247217_b_52: "(9518045869596203341493856665776622898730638844578809353535072::int) ^ 3360260756067235 mod 17177841506151983327561938694476422631186404443649683138308841 = 16457820489814082267239821861148718661373619446240862528773682"
  by (rule powm_sq1 [where k = 137666543426368369577179924010895625360966287654817745101130983303099089936684566670867455035190297698694974335823723831550, OF pw_P1_558319083762744625875131593280451492009301263247217_b_51]) (simp_all only: arith_simps rel_simps)

lemma pw_P1_558319083762744625875131593280451492009301263247217_b_53: "(9518045869596203341493856665776622898730638844578809353535072::int) ^ 6720521512134470 mod 17177841506151983327561938694476422631186404443649683138308841 = 8928375422866095069110195440827283721187109746984899637472968"
  by (rule powm_sq0 [where k = 15767979648545475917302952865254873607735541101172647055074716, OF pw_P1_558319083762744625875131593280451492009301263247217_b_52]) (simp_all only: arith_simps rel_simps)

lemma pw_P1_558319083762744625875131593280451492009301263247217_b_54: "(9518045869596203341493856665776622898730638844578809353535072::int) ^ 13441043024268940 mod 17177841506151983327561938694476422631186404443649683138308841 = 12795175352878599763615021113577152307699316125915383957151589"
  by (rule powm_sq0 [where k = 4640623076135047942268289599807628881660995542272723492448035, OF pw_P1_558319083762744625875131593280451492009301263247217_b_53]) (simp_all only: arith_simps rel_simps)

lemma pw_P1_558319083762744625875131593280451492009301263247217_b_55: "(9518045869596203341493856665776622898730638844578809353535072::int) ^ 26882086048537880 mod 17177841506151983327561938694476422631186404443649683138308841 = 1994431011758172564544299577672306387660483966119730967568553"
  by (rule powm_sq0 [where k = 9530680106244979316533248220638209951195724415195362775152048, OF pw_P1_558319083762744625875131593280451492009301263247217_b_54]) (simp_all only: arith_simps rel_simps)

lemma pw_P1_558319083762744625875131593280451492009301263247217_b_56: "(9518045869596203341493856665776622898730638844578809353535072::int) ^ 53764172097075761 mod 17177841506151983327561938694476422631186404443649683138308841 = 14721767664711807371279067031890373695105692551438375611074953"
  by (rule powm_sq1 [where k = 2204028667504419845302612515519779231435110544218702268006474102785517862259509785880137157310187758270037546293503938495, OF pw_P1_558319083762744625875131593280451492009301263247217_b_55]) (simp_all only: arith_simps rel_simps)

lemma pw_P1_558319083762744625875131593280451492009301263247217_b_57: "(9518045869596203341493856665776622898730638844578809353535072::int) ^ 107528344194151523 mod 17177841506151983327561938694476422631186404443649683138308841 = 5860629031388928628850209158264166236474420848747437069144706"
  by (rule powm_sq1 [where k = 120087864283002421439786434453947033712347334199539600602107566959971075641302349865291589944423388880455531044924701193262, OF pw_P1_558319083762744625875131593280451492009301263247217_b_56]) (simp_all only: arith_simps rel_simps)

lemma pw_P1_558319083762744625875131593280451492009301263247217_b_58: "(9518045869596203341493856665776622898730638844578809353535072::int) ^ 215056688388303046 mod 17177841506151983327561938694476422631186404443649683138308841 = 6608599094824394185975589982557435144559030536811601410017645"
  by (rule powm_sq0 [where k = 1999492929962002770773043465852688469633659405845603154861951, OF pw_P1_558319083762744625875131593280451492009301263247217_b_57]) (simp_all only: arith_simps rel_simps)

lemma pw_P1_558319083762744625875131593280451492009301263247217_b_59: "(9518045869596203341493856665776622898730638844578809353535072::int) ^ 430113376776606093 mod 17177841506151983327561938694476422631186404443649683138308841 = 751817655463106179034491973613017398359400027410363280032818"
  by (rule powm_sq1 [where k = 24199033189339302942631620701021510994200969596660172300459027385004921194126141187682787854413073796208001716658577346302, OF pw_P1_558319083762744625875131593280451492009301263247217_b_58]) (simp_all only: arith_simps rel_simps)

lemma pw_P1_558319083762744625875131593280451492009301263247217_b_60: "(9518045869596203341493856665776622898730638844578809353535072::int) ^ 860226753553212186 mod 17177841506151983327561938694476422631186404443649683138308841 = 3910123045306581501389512641172350479103505887238561902411001"
  by (rule powm_sq0 [where k = 32904587393218953338609127218603281431657852994303450419603, OF pw_P1_558319083762744625875131593280451492009301263247217_b_59]) (simp_all only: arith_simps rel_simps)

lemma pw_P1_558319083762744625875131593280451492009301263247217_b_61: "(9518045869596203341493856665776622898730638844578809353535072::int) ^ 1720453507106424373 mod 17177841506151983327561938694476422631186404443649683138308841 = 3334308916092153654513423153086540673931937255226893500283919"
  by (rule powm_sq1 [where k = 8471494835412325516148867919584805652592932601228846230846481923845851323325810824503177140859780298529486628678216027433, OF pw_P1_558319083762744625875131593280451492009301263247217_b_60]) (simp_all only: arith_simps rel_simps)

lemma pw_P1_558319083762744625875131593280451492009301263247217_b_62: "(9518045869596203341493856665776622898730638844578809353535072::int) ^ 3440907014212848746 mod 17177841506151983327561938694476422631186404443649683138308841 = 14095150396701552107744501381460213361791735742343776364443369"
  by (rule powm_sq0 [where k = 647206806742862720861289821253089431044848577992840308365112, OF pw_P1_558319083762744625875131593280451492009301263247217_b_61]) (simp_all only: arith_simps rel_simps)

lemma pw_P1_558319083762744625875131593280451492009301263247217_b_63: "(9518045869596203341493856665776622898730638844578809353535072::int) ^ 6881814028425697492 mod 17177841506151983327561938694476422631186404443649683138308841 = 15311558234782204200575459686738595446341756533161883318275624"
  by (rule powm_sq0 [where k = 11565671078900344150084924533422798211652535356893075006246657, OF pw_P1_558319083762744625875131593280451492009301263247217_b_62]) (simp_all only: arith_simps rel_simps)

lemma pw_P1_558319083762744625875131593280451492009301263247217_b_64: "(9518045869596203341493856665776622898730638844578809353535072::int) ^ 13763628056851394985 mod 17177841506151983327561938694476422631186404443649683138308841 = 13966694693917373129844962915859580250474711429536114958190054"
  by (rule powm_sq1 [where k = 129902641708918213907688704254961531191914258090526545705548821126547363487004847197975347188654181657895430931777174674698, OF pw_P1_558319083762744625875131593280451492009301263247217_b_63]) (simp_all only: arith_simps rel_simps)

lemma pw_P1_558319083762744625875131593280451492009301263247217_b_65: "(9518045869596203341493856665776622898730638844578809353535072::int) ^ 27527256113702789971 mod 17177841506151983327561938694476422631186404443649683138308841 = 1368877522197814100085736414247127242525514677724665785979186"
  by (rule powm_sq1 [where k = 108085262489919603835802854453465573283689063625497162242970464396798563247411085506262013135181056191411171925235827184926, OF pw_P1_558319083762744625875131593280451492009301263247217_b_64]) (simp_all only: arith_simps rel_simps)

lemma pw_P1_558319083762744625875131593280451492009301263247217_b_66: "(9518045869596203341493856665776622898730638844578809353535072::int) ^ 55054512227405579943 mod 17177841506151983327561938694476422631186404443649683138308841 = 15312761351537765701639681566088937839661228303885415314297331"
  by (rule powm_sq1 [where k = 1038265411850991352514293761268570517635860698088799841786974982539252032374790512952789890339839450347031301175385723141, OF pw_P1_558319083762744625875131593280451492009301263247217_b_65]) (simp_all only: arith_simps rel_simps)

lemma pw_P1_558319083762744625875131593280451492009301263247217_b_67: "(9518045869596203341493856665776622898730638844578809353535072::int) ^ 110109024454811159887 mod 17177841506151983327561938694476422631186404443649683138308841 = 16625381413696331152530947725292379183227490492626802437374621"
  by (rule powm_sq1 [where k = 129923056898888847116333356650602179184820807512996998198789650291674501043434820478526453084346228957052538645418224534731, OF pw_P1_558319083762744625875131593280451492009301263247217_b_66]) (simp_all only: arith_simps rel_simps)

lemma pw_P1_558319083762744625875131593280451492009301263247217_b_68: "(9518045869596203341493856665776622898730638844578809353535072::int) ^ 220218048909622319774 mod 17177841506151983327561938694476422631186404443649683138308841 = 17065611575152491186353040729693954280630766003875634038173151"
  by (rule powm_sq0 [where k = 16090689103860328870464624681546968163893901789796536553372890, OF pw_P1_558319083762744625875131593280451492009301263247217_b_67]) (simp_all only: arith_simps rel_simps)

lemma pw_P1_558319083762744625875131593280451492009301263247217_b_69: "(9518045869596203341493856665776622898730638844578809353535072::int) ^ 440436097819244639549 mod 17177841506151983327561938694476422631186404443649683138308841 = 9862379942747709887641855608931083839639703114541994921080510"
  by (rule powm_sq1 [where k = 161370043188384802355837594746179279463797971268431702106016279407048477573180990184120129180896399180652195257567484115282, OF pw_P1_558319083762744625875131593280451492009301263247217_b_68]) (simp_all only: arith_simps rel_simps)

lemma pw_P1_558319083762744625875131593280451492009301263247217_b_70: "(9518045869596203341493856665776622898730638844578809353535072::int) ^ 880872195638489279099 mod 17177841506151983327561938694476422631186404443649683138308841 = 8427318232690293454204687736438194785049642957688914780162985"
  by (rule powm_sq1 [where k = 53894278347793040667416658917240032778052335274088969889555754738700600275872425802154871833228936209927175015079799847615, OF pw_P1_558319083762744625875131593280451492009301263247217_b_69]) (simp_all only: arith_simps rel_simps)

lemma pw_P1_558319083762744625875131593280451492009301263247217_b_71: "(9518045869596203341493856665776622898730638844578809353535072::int) ^ 1761744391276978558199 mod 17177841506151983327561938694476422631186404443649683138308841 = 6020105383083371545278277167422655712974526098997548632993475"
  by (rule powm_sq1 [where k = 39351200878298352527038700731959471447421742620431257275532379109504667394757609311721927016556406032784716148410990488725, OF pw_P1_558319083762744625875131593280451492009301263247217_b_70]) (simp_all only: arith_simps rel_simps)

lemma pw_P1_558319083762744625875131593280451492009301263247217_b_72: "(9518045869596203341493856665776622898730638844578809353535072::int) ^ 3523488782553957116399 mod 17177841506151983327561938694476422631186404443649683138308841 = 16022119796645541743112875640028123960707583074242930108839223"
  by (rule powm_sq1 [where k = 20081094945984745314767892237146161701051059631401355049165916408459728708042004148238317687237745899954704717654197055297, OF pw_P1_558319083762744625875131593280451492009301263247217_b_71]) (simp_all only: arith_simps rel_simps)

lemma pw_P1_558319083762744625875131593280451492009301263247217_b_73: "(9518045869596203341493856665776622898730638844578809353535072::int) ^ 7046977565107914232799 mod 17177841506151983327561938694476422631186404443649683138308841 = 16915313630872828733089329367100949199001218282468140765655665"
  by (rule powm_sq1 [where k = 142239150968626608298431896342421839217060581828576268784271677961328249332087560313927486101478013875138154798472450369303, OF pw_P1_558319083762744625875131593280451492009301263247217_b_72]) (simp_all only: arith_simps rel_simps)

lemma pw_P1_558319083762744625875131593280451492009301263247217_b_74: "(9518045869596203341493856665776622898730638844578809353535072::int) ^ 14093955130215828465599 mod 17177841506151983327561938694476422631186404443649683138308841 = 15356251726693376177283639774978295474880858708623731743553599"
  by (rule powm_sq1 [where k = 158540166954015003053902065113961099905530156602144524637878431792580603294983479392036924431712724355323738479380484170361, OF pw_P1_558319083762744625875131593280451492009301263247217_b_73]) (simp_all only: arith_simps rel_simps)

lemma pw_P1_558319083762744625875131593280451492009301263247217_b_75: "(9518045869596203341493856665776622898730638844578809353535072::int) ^ 28187910260431656931198 mod 17177841506151983327561938694476422631186404443649683138308841 = 3310622420208652080533953953864912143925152658076763136762646"
  by (rule powm_sq0 [where k = 13727828785072904736339879867471584332037275315974261839867955, OF pw_P1_558319083762744625875131593280451492009301263247217_b_74]) (simp_all only: arith_simps rel_simps)

lemma pw_P1_558319083762744625875131593280451492009301263247217_b_76: "(9518045869596203341493856665776622898730638844578809353535072::int) ^ 56375820520863313862396 mod 17177841506151983327561938694476422631186404443649683138308841 = 7372765004574637941017016306752715370673795589258328678837336"
  by (rule powm_sq0 [where k = 638044122438954632812330093684019171990934116428188580068780, OF pw_P1_558319083762744625875131593280451492009301263247217_b_75]) (simp_all only: arith_simps rel_simps)

lemma pw_P1_558319083762744625875131593280451492009301263247217_b_77: "(9518045869596203341493856665776622898730638844578809353535072::int) ^ 112751641041726627724792 mod 17177841506151983327561938694476422631186404443649683138308841 = 14525142854493169364740328074868984477759568089608736616752989"
  by (rule powm_sq0 [where k = 3164405946650112494861628047714066521485375264888791283637227, OF pw_P1_558319083762744625875131593280451492009301263247217_b_76]) (simp_all only: arith_simps rel_simps)

lemma pw_P1_558319083762744625875131593280451492009301263247217_b_78: "(9518045869596203341493856665776622898730638844578809353535072::int) ^ 225503282083453255449584 mod 17177841506151983327561938694476422631186404443649683138308841 = 14289776398594852075974238293489324228450068369232880556831757"
  by (rule powm_sq0 [where k = 12282088810044892466690380063116123492810022750090072373287004, OF pw_P1_558319083762744625875131593280451492009301263247217_b_77]) (simp_all only: arith_simps rel_simps)

lemma pw_P1_558319083762744625875131593280451492009301263247217_b_79: "(9518045869596203341493856665776622898730638844578809353535072::int) ^ 451006564166906510899168 mod 17177841506151983327561938694476422631186404443649683138308841 = 2428041713967464674648362513026467309077907057744077151550872"
  by (rule powm_sq0 [where k = 11887274047132647542902873817802939218204716762488404378334697, OF pw_P1_558319083762744625875131593280451492009301263247217_b_78]) (simp_all only: arith_simps rel_simps)

lemma pw_P1_558319083762744625875131593280451492009301263247217_b_80: "(9518045869596203341493856665776622898730638844578809353535072::int) ^ 902013128333813021798336 mod 17177841506151983327561938694476422631186404443649683138308841 = 6260524029206609625210377150602755218219860171550824821445917"
  by (rule powm_sq0 [where k = 343197168436716585343230499466696027397103801458658927673387, OF pw_P1_558319083762744625875131593280451492009301263247217_b_79]) (simp_all only: arith_simps rel_simps)

lemma pw_P1_558319083762744625875131593280451492009301263247217_b_81: "(9518045869596203341493856665776622898730638844578809353535072::int) ^ 1804026256667626043596673 mod 17177841506151983327561938694476422631186404443649683138308841 = 11200456570445888810661844465478744361246790046603369568380759"
  by (rule powm_sq1 [where k = 21717037220858227338091590922684274623649306331670876234078059942514927523986528171300335489789191903128054133905698515489, OF pw_P1_558319083762744625875131593280451492009301263247217_b_80]) (simp_all only: arith_simps rel_simps)

lemma pw_P1_558319083762744625875131593280451492009301263247217_b_82: "(9518045869596203341493856665776622898730638844578809353535072::int) ^ 3608052513335252087193346 mod 17177841506151983327561938694476422631186404443649683138308841 = 12746372825101684852242420101001976711338041723113552297338738"
  by (rule powm_sq0 [where k = 7303026247012256208416293969242301014672995358465258191214023, OF pw_P1_558319083762744625875131593280451492009301263247217_b_81]) (simp_all only: arith_simps rel_simps)

lemma pw_P1_558319083762744625875131593280451492009301263247217_b_83: "(9518045869596203341493856665776622898730638844578809353535072::int) ^ 7216105026670504174386692 mod 17177841506151983327561938694476422631186404443649683138308841 = 810384311384290448508525213171134242322698274667476646688011"
  by (rule powm_sq0 [where k = 9458116151456196276219068611150673782019106997441563677701713, OF pw_P1_558319083762744625875131593280451492009301263247217_b_82]) (simp_all only: arith_simps rel_simps)

lemma pw_P1_558319083762744625875131593280451492009301263247217_b_84: "(9518045869596203341493856665776622898730638844578809353535072::int) ^ 14432210053341008348773384 mod 17177841506151983327561938694476422631186404443649683138308841 = 4256673665109577747304291463715815085270366922179816015580228"
  by (rule powm_sq0 [where k = 38230806350296999687552553144311211865135728794079072990573, OF pw_P1_558319083762744625875131593280451492009301263247217_b_83]) (simp_all only: arith_simps rel_simps)

lemma pw_P1_558319083762744625875131593280451492009301263247217_b_85: "(9518045869596203341493856665776622898730638844578809353535072::int) ^ 28864420106682016697546769 mod 17177841506151983327561938694476422631186404443649683138308841 = 10856244336444007628566307144327454554986483280388905118167771"
  by (rule powm_sq1 [where k = 10039681033327952334493583586806223516955635624777988501568169709764099650034577076473277629379667835319863265314834917597, OF pw_P1_558319083762744625875131593280451492009301263247217_b_84]) (simp_all only: arith_simps rel_simps)

lemma pw_P1_558319083762744625875131593280451492009301263247217_b_86: "(9518045869596203341493856665776622898730638844578809353535072::int) ^ 57728840213364033395093539 mod 17177841506151983327561938694476422631186404443649683138308841 = 8561246131842058393811532131169152919947641397057581862350380"
  by (rule powm_sq1 [where k = 65303795055863817385713512671718598252739696309817525417060572304655780010385106358562272187433357967323167351140738019092, OF pw_P1_558319083762744625875131593280451492009301263247217_b_85]) (simp_all only: arith_simps rel_simps)

lemma pw_P1_558319083762744625875131593280451492009301263247217_b_87: "(9518045869596203341493856665776622898730638844578809353535072::int) ^ 115457680426728066790187079 mod 17177841506151983327561938694476422631186404443649683138308841 = 4654439264417833935371265632773964888450884334593395430424050"
  by (rule powm_sq1 [where k = 40611886902670461084395747051165555938248299643829426498465243462434276880974820453960824004236178033461576259633458262750, OF pw_P1_558319083762744625875131593280451492009301263247217_b_86]) (simp_all only: arith_simps rel_simps)

lemma pw_P1_558319083762744625875131593280451492009301263247217_b_88: "(9518045869596203341493856665776622898730638844578809353535072::int) ^ 230915360853456133580374158 mod 17177841506151983327561938694476422631186404443649683138308841 = 3417561382401318150309194222799079027150801829474611721355631"
  by (rule powm_sq0 [where k = 1261148256513827071798574242240451259503174344114583247015309, OF pw_P1_558319083762744625875131593280451492009301263247217_b_87]) (simp_all only: arith_simps rel_simps)

lemma pw_P1_558319083762744625875131593280451492009301263247217_b_89: "(9518045869596203341493856665776622898730638844578809353535072::int) ^ 461830721706912267160748317 mod 17177841506151983327561938694476422631186404443649683138308841 = 8499000928079140388004662258418439199659832193207948086118750"
  by (rule powm_sq1 [where k = 6471602726833023295608624480981726764083032479619250312184167625779074983727872421926475357837929874379659215808925987762, OF pw_P1_558319083762744625875131593280451492009301263247217_b_88]) (simp_all only: arith_simps rel_simps)

lemma pw_P1_558319083762744625875131593280451492009301263247217_b_90: "(9518045869596203341493856665776622898730638844578809353535072::int) ^ 923661443413824534321496635 mod 17177841506151983327561938694476422631186404443649683138308841 = 212759934237150719415485773031634515048337067401867619911962"
  by (rule powm_sq1 [where k = 40023489954905153319857266399745974142710273185848077176928094444020930616498485357234899406281931097411990719116541292918, OF pw_P1_558319083762744625875131593280451492009301263247217_b_89]) (simp_all only: arith_simps rel_simps)

lemma pw_P1_558319083762744625875131593280451492009301263247217_b_91: "(9518045869596203341493856665776622898730638844578809353535072::int) ^ 1847322886827649068642993271 mod 17177841506151983327561938694476422631186404443649683138308841 = 10712406762770498917331347486156784896548772921332398939521501"
  by (rule powm_sq1 [where k = 25081811343167046314573376340581034671987177260410215251216591137918441832097916917152358148145342015792288694477257387, OF pw_P1_558319083762744625875131593280451492009301263247217_b_90]) (simp_all only: arith_simps rel_simps)

lemma pw_P1_558319083762744625875131593280451492009301263247217_b_92: "(9518045869596203341493856665776622898730638844578809353535072::int) ^ 3694645773655298137285986542 mod 17177841506151983327561938694476422631186404443649683138308841 = 15340438586757797442874889861831883603160844994497998045301394"
  by (rule powm_sq0 [where k = 6680446935661452115506490348709681898243572546880604824656927, OF pw_P1_558319083762744625875131593280451492009301263247217_b_91]) (simp_all only: arith_simps rel_simps)

lemma pw_P1_558319083762744625875131593280451492009301263247217_b_93: "(9518045869596203341493856665776622898730638844578809353535072::int) ^ 7389291547310596274571973084 mod 17177841506151983327561938694476422631186404443649683138308841 = 5692676974366748153228334302136397995558106608604691611567433"
  by (rule powm_sq0 [where k = 13699570807531786718371143576444616202968968702847025899062083, OF pw_P1_558319083762744625875131593280451492009301263247217_b_92]) (simp_all only: arith_simps rel_simps)

lemma pw_P1_558319083762744625875131593280451492009301263247217_b_94: "(9518045869596203341493856665776622898730638844578809353535072::int) ^ 14778583094621192549143946168 mod 17177841506151983327561938694476422631186404443649683138308841 = 7531016005763313716144242855875467614233494106639726635881783"
  by (rule powm_sq0 [where k = 1886533364676780397818523896191275746141565375762672405936266, OF pw_P1_558319083762744625875131593280451492009301263247217_b_93]) (simp_all only: arith_simps rel_simps)

lemma pw_P1_558319083762744625875131593280451492009301263247217_b_95: "(9518045869596203341493856665776622898730638844578809353535072::int) ^ 29557166189242385098287892336 mod 17177841506151983327561938694476422631186404443649683138308841 = 1067482381980163993394246125625058805288611054220444895370136"
  by (rule powm_sq0 [where k = 3301707147475494422745602738729179285139923319987144443969233, OF pw_P1_558319083762744625875131593280451492009301263247217_b_94]) (simp_all only: arith_simps rel_simps)

lemma pw_P1_558319083762744625875131593280451492009301263247217_b_96: "(9518045869596203341493856665776622898730638844578809353535072::int) ^ 59114332378484770196575784672 mod 17177841506151983327561938694476422631186404443649683138308841 = 1437217502878355083647587172679536778838326425576033540587865"
  by (rule powm_sq0 [where k = 66336543821873280018236945445138967045832352884853369402191, OF pw_P1_558319083762744625875131593280451492009301263247217_b_95]) (simp_all only: arith_simps rel_simps)

lemma pw_P1_558319083762744625875131593280451492009301263247217_b_97: "(9518045869596203341493856665776622898730638844578809353535072::int) ^ 118228664756969540393151569344 mod 17177841506151983327561938694476422631186404443649683138308841 = 1269778439794863934446779731055837783236867804944880454970506"
  by (rule powm_sq0 [where k = 120247596290845587065685717884158016641354797563160061502159, OF pw_P1_558319083762744625875131593280451492009301263247217_b_96]) (simp_all only: arith_simps rel_simps)

lemma pw_P1_558319083762744625875131593280451492009301263247217_b_98: "(9518045869596203341493856665776622898730638844578809353535072::int) ^ 236457329513939080786303138689 mod 17177841506151983327561938694476422631186404443649683138308841 = 12827237509280081920811365783043210849524303020730555048786677"
  by (rule powm_sq1 [where k = 893377683192040560365011312015940605456087106856087778352812008947628929145194153478490682760872850431606911950713983315, OF pw_P1_558319083762744625875131593280451492009301263247217_b_97]) (simp_all only: arith_simps rel_simps)

lemma pw_P1_558319083762744625875131593280451492009301263247217_b_99: "(9518045869596203341493856665776622898730638844578809353535072::int) ^ 472914659027878161572606277379 mod 17177841506151983327561938694476422631186404443649683138308841 = 6363904706354940986235393890630164087799325175249218309110797"
  by (rule powm_sq1 [where k = 91168639625938759378993162503496789117461978612465571074283219713078149776367817209166138134352080316800193701601034681051, OF pw_P1_558319083762744625875131593280451492009301263247217_b_98]) (simp_all only: arith_simps rel_simps)

lemma pw_P1_558319083762744625875131593280451492009301263247217_b_100: "(9518045869596203341493856665776622898730638844578809353535072::int) ^ 945829318055756323145212554758 mod 17177841506151983327561938694476422631186404443649683138308841 = 789284859747935017288283907313806737282531447769073251069533"
  by (rule powm_sq0 [where k = 2357646803124965603875952578402924124137594017081007831011436, OF pw_P1_558319083762744625875131593280451492009301263247217_b_99]) (simp_all only: arith_simps rel_simps)

lemma pw_P1_558319083762744625875131593280451492009301263247217_b_101: "(9518045869596203341493856665776622898730638844578809353535072::int) ^ 1891658636111512646290425109517 mod 17177841506151983327561938694476422631186404443649683138308841 = 8173563112139804478391799863677116712959822457205717771460766"
  by (rule powm_sq1 [where k = 345180891747211798584205639133227401698290399848390480279739901842121662825214619810067483371284722624064517245315208562, OF pw_P1_558319083762744625875131593280451492009301263247217_b_100]) (simp_all only: arith_simps rel_simps)

lemma pw_P1_558319083762744625875131593280451492009301263247217_b_102: "(9518045869596203341493856665776622898730638844578809353535072::int) ^ 3783317272223025292580850219035 mod 17177841506151983327561938694476422631186404443649683138308841 = 13985486905829976384567608718532879297087578046177265989588441"
  by (rule powm_sq1 [where k = 37017070224268554753497613248408757582013362965501596922590402355859852875315611120140419537269212577558312796205475803151, OF pw_P1_558319083762744625875131593280451492009301263247217_b_101]) (simp_all only: arith_simps rel_simps)

lemma pw_P1_558319083762744625875131593280451492009301263247217_b_103: "(9518045869596203341493856665776622898730638844578809353535072::int) ^ 7566634544446050585161700438071 mod 17177841506151983327561938694476422631186404443649683138308841 = 13343369882409940585654509984989096428111277396784875763935132"
  by (rule powm_sq1 [where k = 108376315980714893130805182971386280901746710116667538034059495898260039442185196495519448801418814808094569220732842174500, OF pw_P1_558319083762744625875131593280451492009301263247217_b_102]) (simp_all only: arith_simps rel_simps)

lemma pw_P1_558319083762744625875131593280451492009301263247217_b_104: "(9518045869596203341493856665776622898730638844578809353535072::int) ^ 15133269088892101170323400876142 mod 17177841506151983327561938694476422631186404443649683138308841 = 14409417811718920191312777288434647865710182589697323493476903"
  by (rule powm_sq0 [where k = 10364836568962425802279674015561672463741610774994105569108481, OF pw_P1_558319083762744625875131593280451492009301263247217_b_103]) (simp_all only: arith_simps rel_simps)

lemma pw_P1_558319083762744625875131593280451492009301263247217_b_105: "(9518045869596203341493856665776622898730638844578809353535072::int) ^ 30266538177784202340646801752285 mod 17177841506151983327561938694476422631186404443649683138308841 = 10430131732309780049061564904309619499015341866549997057513576"
  by (rule powm_sq1 [where k = 115046144938391364198217135326318552470764249320343777816814041370179633678654636888641188590663575408807215911744145249592, OF pw_P1_558319083762744625875131593280451492009301263247217_b_104]) (simp_all only: arith_simps rel_simps)

lemma pw_P1_558319083762744625875131593280451492009301263247217_b_106: "(9518045869596203341493856665776622898730638844578809353535072::int) ^ 60533076355568404681293603504570 mod 17177841506151983327561938694476422631186404443649683138308841 = 3823322409876475214626094949892273580419358504083508191072028"
  by (rule powm_sq0 [where k = 6333021987330292201396311670831990030592187351998946242020228, OF pw_P1_558319083762744625875131593280451492009301263247217_b_105]) (simp_all only: arith_simps rel_simps)

lemma pw_P1_558319083762744625875131593280451492009301263247217_b_107: "(9518045869596203341493856665776622898730638844578809353535072::int) ^ 121066152711136809362587207009141 mod 17177841506151983327561938694476422631186404443649683138308841 = 1824042329517233705911408270474583162447661266275172043163984"
  by (rule powm_sq1 [where k = 8099552911388407360293731274784872403459207209544979173056809528942420021251940354252688512624198802633000431165311437104, OF pw_P1_558319083762744625875131593280451492009301263247217_b_106]) (simp_all only: arith_simps rel_simps)

lemma pw_P1_558319083762744625875131593280451492009301263247217_b_108: "(9518045869596203341493856665776622898730638844578809353535072::int) ^ 242132305422273618725174414018282 mod 17177841506151983327561938694476422631186404443649683138308841 = 13988052091261217061826282243334803465811252081970575236568031"
  by (rule powm_sq0 [where k = 193687339511142613870959574476726022314031818173676706895225, OF pw_P1_558319083762744625875131593280451492009301263247217_b_107]) (simp_all only: arith_simps rel_simps)

lemma pw_P1_558319083762744625875131593280451492009301263247217_b_109: "(9518045869596203341493856665776622898730638844578809353535072::int) ^ 484264610844547237450348828036564 mod 17177841506151983327561938694476422631186404443649683138308841 = 15215695574998305701884765483712923942618999833059183867482386"
  by (rule powm_sq0 [where k = 11390581362493223690737871685601045290857169493199771462911575, OF pw_P1_558319083762744625875131593280451492009301263247217_b_108]) (simp_all only: arith_simps rel_simps)

lemma pw_P1_558319083762744625875131593280451492009301263247217_b_110: "(9518045869596203341493856665776622898730638844578809353535072::int) ^ 968529221689094474900697656073129 mod 17177841506151983327561938694476422631186404443649683138308841 = 16166956735088939007999275148630628522644462849217490110366028"
  by (rule powm_sq1 [where k = 128281143720401133876987301028685741771937533074170335630921719021476703109474822239948067701854332392347922260833005397524, OF pw_P1_558319083762744625875131593280451492009301263247217_b_109]) (simp_all only: arith_simps rel_simps)

lemma pw_P1_558319083762744625875131593280451492009301263247217_b_111: "(9518045869596203341493856665776622898730638844578809353535072::int) ^ 1937058443378188949801395312146258 mod 17177841506151983327561938694476422631186404443649683138308841 = 2531031023935042610822768126110237804106836683090799033665333"
  by (rule powm_sq0 [where k = 15215560696646999024207148232831220335594905456088300737826211, OF pw_P1_558319083762744625875131593280451492009301263247217_b_110]) (simp_all only: arith_simps rel_simps)

lemma pw_P1_558319083762744625875131593280451492009301263247217_b_112: "(9518045869596203341493856665776622898730638844578809353535072::int) ^ 3874116886756377899602790624292516 mod 17177841506151983327561938694476422631186404443649683138308841 = 8421692500037651821525930263894563410365806422461404221677488"
  by (rule powm_sq0 [where k = 372929162364632148473609553875918188206025131312225372600161, OF pw_P1_558319083762744625875131593280451492009301263247217_b_111]) (simp_all only: arith_simps rel_simps)

lemma pw_P1_558319083762744625875131593280451492009301263247217_b_113: "(9518045869596203341493856665776622898730638844578809353535072::int) ^ 7748233773512755799205581248585032 mod 17177841506151983327561938694476422631186404443649683138308841 = 15784547300376842873574363561311304322280881626681493175314562"
  by (rule powm_sq0 [where k = 4128860109681985106761802329403292880473654245855574284861902, OF pw_P1_558319083762744625875131593280451492009301263247217_b_112]) (simp_all only: arith_simps rel_simps)

lemma pw_P1_558319083762744625875131593280451492009301263247217_b_114: "(9518045869596203341493856665776622898730638844578809353535072::int) ^ 15496467547025511598411162497170065 mod 17177841506151983327561938694476422631186404443649683138308841 = 528495134471573218123583366999881384088540276723590280936041"
  by (rule powm_sq1 [where k = 138052241924068846094111290744956048527964716332250169713418862644740460942500245485851077667662932981909260831912751733247, OF pw_P1_558319083762744625875131593280451492009301263247217_b_113]) (simp_all only: arith_simps rel_simps)

lemma pw_P1_558319083762744625875131593280451492009301263247217_b_115: "(9518045869596203341493856665776622898730638844578809353535072::int) ^ 30992935094051023196822324994340130 mod 17177841506151983327561938694476422631186404443649683138308841 = 13816027185106656389655569022984696980220378131488372442636700"
  by (rule powm_sq0 [where k = 16259732461735466322310396980055533083452203733975818874541, OF pw_P1_558319083762744625875131593280451492009301263247217_b_114]) (simp_all only: arith_simps rel_simps)

lemma pw_P1_558319083762744625875131593280451492009301263247217_b_116: "(9518045869596203341493856665776622898730638844578809353535072::int) ^ 61985870188102046393644649988680261 mod 17177841506151983327561938694476422631186404443649683138308841 = 3986583826984210013253978664148907121849385491239662313279938"
  by (rule powm_sq1 [where k = 105765873447658432785033851621264028557180906111964356985472353280370489866126202493836035744999196169487138648271741751182, OF pw_P1_558319083762744625875131593280451492009301263247217_b_115]) (simp_all only: arith_simps rel_simps)

lemma pw_P1_558319083762744625875131593280451492009301263247217_b_117: "(9518045869596203341493856665776622898730638844578809353535072::int) ^ 123971740376204092787289299977360522 mod 17177841506151983327561938694476422631186404443649683138308841 = 7777735919971657839000960863789970633267240081641691377384170"
  by (rule powm_sq0 [where k = 925194856634361563102042409351186398512714552428241940059914, OF pw_P1_558319083762744625875131593280451492009301263247217_b_116]) (simp_all only: arith_simps rel_simps)

lemma pw_P1_558319083762744625875131593280451492009301263247217_b_118: "(9518045869596203341493856665776622898730638844578809353535072::int) ^ 247943480752408185574578599954721044 mod 17177841506151983327561938694476422631186404443649683138308841 = 16013179317633300954426252167937872802954101386938079955034068"
  by (rule powm_sq0 [where k = 3521581918144526916587673848020605987453682544226151944971152, OF pw_P1_558319083762744625875131593280451492009301263247217_b_117]) (simp_all only: arith_simps rel_simps)

lemma pw_P1_558319083762744625875131593280451492009301263247217_b_119: "(9518045869596203341493856665776622898730638844578809353535072::int) ^ 495886961504816371149157199909442088 mod 17177841506151983327561938694476422631186404443649683138308841 = 16577579327745708792926913610507386102477763712242767473744024"
  by (rule powm_sq0 [where k = 14927481532929809165257334270046974147780457976572719942380600, OF pw_P1_558319083762744625875131593280451492009301263247217_b_118]) (simp_all only: arith_simps rel_simps)

lemma pw_P1_558319083762744625875131593280451492009301263247217_b_120: "(9518045869596203341493856665776622898730638844578809353535072::int) ^ 991773923009632742298314399818884176 mod 17177841506151983327561938694476422631186404443649683138308841 = 11351603001895925448810018133964149227593507885328490243266753"
  by (rule powm_sq0 [where k = 15998292699887854728987037085574450241835073536464660987787303, OF pw_P1_558319083762744625875131593280451492009301263247217_b_119]) (simp_all only: arith_simps rel_simps)

lemma pw_P1_558319083762744625875131593280451492009301263247217_b_121: "(9518045869596203341493856665776622898730638844578809353535072::int) ^ 1983547846019265484596628799637768352 mod 17177841506151983327561938694476422631186404443649683138308841 = 12773929934850171609726987775504905621736636548300482220729465"
  by (rule powm_sq0 [where k = 7501459986489206415096810976161193209390582271951121212374984, OF pw_P1_558319083762744625875131593280451492009301263247217_b_120]) (simp_all only: arith_simps rel_simps)

lemma pw_P1_558319083762744625875131593280451492009301263247217_b_122: "(9518045869596203341493856665776622898730638844578809353535072::int) ^ 3967095692038530969193257599275536705 mod 17177841506151983327561938694476422631186404443649683138308841 = 8520693773271670207941593408858402723717078830628003743982850"
  by (rule powm_sq1 [where k = 90412454911669427429480375383165852601991692376611797411187062024293619277237092703937921060593857039808356198039613266350, OF pw_P1_558319083762744625875131593280451492009301263247217_b_121]) (simp_all only: arith_simps rel_simps)

lemma pw_P1_558319083762744625875131593280451492009301263247217_b_123: "(9518045869596203341493856665776622898730638844578809353535072::int) ^ 7934191384077061938386515198551073410 mod 17177841506151983327561938694476422631186404443649683138308841 = 3306910203735604504174424855373514316178303144183292897455246"
  by (rule powm_sq0 [where k = 4226504380766886709425251248883000465816368452598379929548294, OF pw_P1_558319083762744625875131593280451492009301263247217_b_122]) (simp_all only: arith_simps rel_simps)

lemma pw_P1_558319083762744625875131593280451492009301263247217_b_124: "(9518045869596203341493856665776622898730638844578809353535072::int) ^ 15868382768154123876773030397102146821 mod 17177841506151983327561938694476422631186404443649683138308841 = 8657318584297179389612617880262865124714539304200842623790853"
  by (rule powm_sq1 [where k = 6059321642736552389519303977180308690740381423602358028690653996746893635331634223121851040807365283746840474392335641539, OF pw_P1_558319083762744625875131593280451492009301263247217_b_123]) (simp_all only: arith_simps rel_simps)

lemma pw_P1_558319083762744625875131593280451492009301263247217_b_125: "(9518045869596203341493856665776622898730638844578809353535072::int) ^ 31736765536308247753546060794204293643 mod 17177841506151983327561938694476422631186404443649683138308841 = 3033729985070620737025267249776257443925529475612067343212978"
  by (rule powm_sq1 [where k = 41528476716290569980168671488745341979615701385871161305108594867728800817629838635360707778991943123019497050255215411070, OF pw_P1_558319083762744625875131593280451492009301263247217_b_124]) (simp_all only: arith_simps rel_simps)

lemma pw_P1_558319083762744625875131593280451492009301263247217_b_126: "(9518045869596203341493856665776622898730638844578809353535072::int) ^ 63473531072616495507092121588408587286 mod 17177841506151983327561938694476422631186404443649683138308841 = 8616333277708778138395002252008365914779845355865954247748341"
  by (rule powm_sq0 [where k = 535778468966574671888121930216409916071751684232884054744823, OF pw_P1_558319083762744625875131593280451492009301263247217_b_125]) (simp_all only: arith_simps rel_simps)

lemma pw_P1_558319083762744625875131593280451492009301263247217_b_127: "(9518045869596203341493856665776622898730638844578809353535072::int) ^ 126947062145232991014184243176817174573 mod 17177841506151983327561938694476422631186404443649683138308841 = 12569390596922369182096287192029022863190491165544623678933949"
  by (rule powm_sq1 [where k = 41136200883838903764768563455964792671775126289720318679882077651412972122068235131672304766678339038123168301823811016363, OF pw_P1_558319083762744625875131593280451492009301263247217_b_126]) (simp_all only: arith_simps rel_simps)

lemma pw_P1_558319083762744625875131593280451492009301263247217_b_128: "(9518045869596203341493856665776622898730638844578809353535072::int) ^ 253894124290465982028368486353634349147 mod 17177841506151983327561938694476422631186404443649683138308841 = 10373321831120768146391573753598362940677872940252924906741211"
  by (rule powm_sq1 [where k = 87540222594922675908943923335252422428783648279462656976235139346386735827658457885386232347758855517953827018949070543421, OF pw_P1_558319083762744625875131593280451492009301263247217_b_127]) (simp_all only: arith_simps rel_simps)

lemma pw_P1_558319083762744625875131593280451492009301263247217_b_129: "(9518045869596203341493856665776622898730638844578809353535072::int) ^ 507788248580931964056736972707268698294 mod 17177841506151983327561938694476422631186404443649683138308841 = 14917001078561720744101571016869077638067091816335445252239447"
  by (rule powm_sq0 [where k = 6264221600453662319202125715188972706159820320789849340091314, OF pw_P1_558319083762744625875131593280451492009301263247217_b_128]) (simp_all only: arith_simps rel_simps)

lemma pw_P1_558319083762744625875131593280451492009301263247217_b_130: "(9518045869596203341493856665776622898730638844578809353535072::int) ^ 1015576497161863928113473945414537396589 mod 17177841506151983327561938694476422631186404443649683138308841 = 1620550504719297849416155947513777804230203046915695307663607"
  by (rule powm_sq1 [where k = 123294085684352711890300202979569096744404931385033624409106778260819236328000397355150425485182345609014938370588236188801, OF pw_P1_558319083762744625875131593280451492009301263247217_b_129]) (simp_all only: arith_simps rel_simps)

lemma pw_P1_558319083762744625875131593280451492009301263247217_b_131: "(9518045869596203341493856665776622898730638844578809353535072::int) ^ 2031152994323727856226947890829074793179 mod 17177841506151983327561938694476422631186404443649683138308841 = 3971061322044613125664050477385457216548409856765693335384918"
  by (rule powm_sq1 [where k = 1455138538693686956648047102181366085719464702381438014750109314327690012886320962434444517809190963338808050783367014010, OF pw_P1_558319083762744625875131593280451492009301263247217_b_130]) (simp_all only: arith_simps rel_simps)

lemma pw_P1_558319083762744625875131593280451492009301263247217_b_132: "(9518045869596203341493856665776622898730638844578809353535072::int) ^ 4062305988647455712453895781658149586359 mod 17177841506151983327561938694476422631186404443649683138308841 = 10383775552667608425412243062775840574726071194975414643092044"
  by (rule powm_sq1 [where k = 8737604628966036428806840146681628758503312126709373950808946660572866181247566610390321267132338181976414323671134363924, OF pw_P1_558319083762744625875131593280451492009301263247217_b_131]) (simp_all only: arith_simps rel_simps)

lemma pw_P1_558319083762744625875131593280451492009301263247217_b_133: "(9518045869596203341493856665776622898730638844578809353535072::int) ^ 8124611977294911424907791563316299172719 mod 17177841506151983327561938694476422631186404443649683138308841 = 3675559483720369735690425353722751689442131121272947336651979"
  by (rule powm_sq1 [where k = 59743379611653119309967945246361953527079152346813748266414811699897541446339495732993469809351501623750232892694998109293, OF pw_P1_558319083762744625875131593280451492009301263247217_b_132]) (simp_all only: arith_simps rel_simps)

lemma pw_P1_558319083762744625875131593280451492009301263247217_b_134: "(9518045869596203341493856665776622898730638844578809353535072::int) ^ 16249223954589822849815583126632598345438 mod 17177841506151983327561938694476422631186404443649683138308841 = 15209749109065574095468387490866404936339156034120808378978962"
  by (rule powm_sq0 [where k = 786463043888747220210294717218641545425462643965512856589519, OF pw_P1_558319083762744625875131593280451492009301263247217_b_133]) (simp_all only: arith_simps rel_simps)

lemma pw_P1_558319083762744625875131593280451492009301263247217_b_135: "(9518045869596203341493856665776622898730638844578809353535072::int) ^ 32498447909179645699631166253265196690877 mod 17177841506151983327561938694476422631186404443649683138308841 = 10868337927571359127919448025274572750372012311574179666502946"
  by (rule powm_sq1 [where k = 128180895869364520961564011129210318589855342758617745971179369877803772137796334667628503626905542585296178964087446573742, OF pw_P1_558319083762744625875131593280451492009301263247217_b_134]) (simp_all only: arith_simps rel_simps)

lemma pw_P1_558319083762744625875131593280451492009301263247217_b_136: "(9518045869596203341493856665776622898730638844578809353535072::int) ^ 64996895818359291399262332506530393381754 mod 17177841506151983327561938694476422631186404443649683138308841 = 14367830565978580040536988904781891211770772131141632975204020"
  by (rule powm_sq0 [where k = 6876345276883765867276596060158790453659702107735631624427856, OF pw_P1_558319083762744625875131593280451492009301263247217_b_135]) (simp_all only: arith_simps rel_simps)

lemma pw_P1_558319083762744625875131593280451492009301263247217_b_137: "(9518045869596203341493856665776622898730638844578809353535072::int) ^ 129993791636718582798524665013060786763509 mod 17177841506151983327561938694476422631186404443649683138308841 = 10160473087651160319709849137680688715079634066599013766515831"
  by (rule powm_sq1 [where k = 114383030283488363585678036255469612862388312378217976815530626715492255624323626767602392608822049932427684581830007637409, OF pw_P1_558319083762744625875131593280451492009301263247217_b_136]) (simp_all only: arith_simps rel_simps)

lemma pw_P1_558319083762744625875131593280451492009301263247217_b_138: "(9518045869596203341493856665776622898730638844578809353535072::int) ^ 259987583273437165597049330026121573527018 mod 17177841506151983327561938694476422631186404443649683138308841 = 13238370830903521271649447336430409909794492130062397807502364"
  by (rule powm_sq0 [where k = 6009789607612305533771898881268641055708173014892739001271917, OF pw_P1_558319083762744625875131593280451492009301263247217_b_137]) (simp_all only: arith_simps rel_simps)

lemma pw_P1_558319083762744625875131593280451492009301263247217_b_139: "(9518045869596203341493856665776622898730638844578809353535072::int) ^ 519975166546874331194098660052243147054036 mod 17177841506151983327561938694476422631186404443649683138308841 = 10853206263785134901701430953882682116498936744428428290721028"
  by (rule powm_sq0 [where k = 10202356459846975614006626622931189758596803742579132053999148, OF pw_P1_558319083762744625875131593280451492009301263247217_b_138]) (simp_all only: arith_simps rel_simps)

lemma pw_P1_558319083762744625875131593280451492009301263247217_b_140: "(9518045869596203341493856665776622898730638844578809353535072::int) ^ 1039950333093748662388197320104486294108072 mod 17177841506151983327561938694476422631186404443649683138308841 = 16546101472986105105298838152510355536152685430115981938945512"
  by (rule powm_sq0 [where k = 6857211143907657932669614798576031237870847518537465038421992, OF pw_P1_558319083762744625875131593280451492009301263247217_b_139]) (simp_all only: arith_simps rel_simps)

lemma pw_P1_558319083762744625875131593280451492009301263247217_b_141: "(9518045869596203341493856665776622898730638844578809353535072::int) ^ 2079900666187497324776394640208972588216145 mod 17177841506151983327561938694476422631186404443649683138308841 = 7722324586281302602666394656209646687772630911574316530758397"
  by (rule powm_sq1 [where k = 151694756412964300846828496002872447068928607545265178569366419225129058584478158482138787275565759010668568665010083185931, OF pw_P1_558319083762744625875131593280451492009301263247217_b_140]) (simp_all only: arith_simps rel_simps)

lemma pw_P1_558319083762744625875131593280451492009301263247217_b_142: "(9518045869596203341493856665776622898730638844578809353535072::int) ^ 4159801332374994649552789280417945176432291 mod 17177841506151983327561938694476422631186404443649683138308841 = 10196479352516647444076681200872943305557365845834340087447153"
  by (rule powm_sq1 [where k = 33042683168024134208755185336534098672108625789796571177802781306325866939633210082462806020342788418393979643260812367895, OF pw_P1_558319083762744625875131593280451492009301263247217_b_141]) (simp_all only: arith_simps rel_simps)

lemma pw_P1_558319083762744625875131593280451492009301263247217_b_143: "(9518045869596203341493856665776622898730638844578809353535072::int) ^ 8319602664749989299105578560835890352864582 mod 17177841506151983327561938694476422631186404443649683138308841 = 11286537046645517933028597280914235335472385735923463716400752"
  by (rule powm_sq0 [where k = 6052459568279500049005087170859082324141343982874545274587977, OF pw_P1_558319083762744625875131593280451492009301263247217_b_142]) (simp_all only: arith_simps rel_simps)

lemma pw_P1_558319083762744625875131593280451492009301263247217_b_144: "(9518045869596203341493856665776622898730638844578809353535072::int) ^ 16639205329499978598211157121671780705729164 mod 17177841506151983327561938694476422631186404443649683138308841 = 14612156892028450472269589479833168016482873282305272686006476"
  by (rule powm_sq0 [where k = 7415711599136620053601597402051061780888702760539208680396308, OF pw_P1_558319083762744625875131593280451492009301263247217_b_143]) (simp_all only: arith_simps rel_simps)

lemma pw_P1_558319083762744625875131593280451492009301263247217_b_145: "(9518045869596203341493856665776622898730638844578809353535072::int) ^ 33278410658999957196422314243343561411458329 mod 17177841506151983327561938694476422631186404443649683138308841 = 4728845756716000108156612498121174583450500191490901318106628"
  by (rule powm_sq1 [where k = 118306295427252757417297189536566938947747198006196309266295088756456538091070613344786253571072299186082949503265371120284, OF pw_P1_558319083762744625875131593280451492009301263247217_b_144]) (simp_all only: arith_simps rel_simps)

lemma pw_P1_558319083762744625875131593280451492009301263247217_b_146: "(9518045869596203341493856665776622898730638844578809353535072::int) ^ 66556821317999914392844628486687122822916658 mod 17177841506151983327561938694476422631186404443649683138308841 = 581597142959814961397836793892079995055056111965335385014194"
  by (rule powm_sq0 [where k = 1301792322557075347196402477283416102149339482707484018300590, OF pw_P1_558319083762744625875131593280451492009301263247217_b_145]) (simp_all only: arith_simps rel_simps)

lemma pw_P1_558319083762744625875131593280451492009301263247217_b_147: "(9518045869596203341493856665776622898730638844578809353535072::int) ^ 133113642635999828785689256973374245645833316 mod 17177841506151983327561938694476422631186404443649683138308841 = 302060015394567261231749200726182470616278499819068033930164"
  by (rule powm_sq0 [where k = 19691370221216586520437686186540756800550285915042560162192, OF pw_P1_558319083762744625875131593280451492009301263247217_b_146]) (simp_all only: arith_simps rel_simps)

lemma pw_P1_558319083762744625875131593280451492009301263247217_b_148: "(9518045869596203341493856665776622898730638844578809353535072::int) ^ 266227285271999657571378513946748491291666633 mod 17177841506151983327561938694476422631186404443649683138308841 = 12661406358489992572266142664485658285804055184672592908290650"
  by (rule powm_sq1 [where k = 50555182497540530711413022704597644802167749868497189354455494233195470445434210437642404726821459975692884370789644982, OF pw_P1_558319083762744625875131593280451492009301263247217_b_147]) (simp_all only: arith_simps rel_simps)

lemma pw_P1_558319083762744625875131593280451492009301263247217_b_149: "(9518045869596203341493856665776622898730638844578809353535072::int) ^ 532454570543999315142757027893496982583333266 mod 17177841506151983327561938694476422631186404443649683138308841 = 12679181743981099316762697669775526544816568043485617525774686"
  by (rule powm_sq0 [where k = 9332442083447899213714239950624040176883426284024162057274454, OF pw_P1_558319083762744625875131593280451492009301263247217_b_148]) (simp_all only: arith_simps rel_simps)

lemma pw_P1_558319083762744625875131593280451492009301263247217_b_150: "(9518045869596203341493856665776622898730638844578809353535072::int) ^ 1064909141087998630285514055786993965166666532 mod 17177841506151983327561938694476422631186404443649683138308841 = 594579850306371422255133681806047996705689184307209792558091"
  by (rule powm_sq0 [where k = 9358664162742987542576349113227744631367053263368741959084305, OF pw_P1_558319083762744625875131593280451492009301263247217_b_149]) (simp_all only: arith_simps rel_simps)

lemma pw_P1_558319083762744625875131593280451492009301263247217_b_151: "(9518045869596203341493856665776622898730638844578809353535072::int) ^ 2129818282175997260571028111573987930333333065 mod 17177841506151983327561938694476422631186404443649683138308841 = 3298021006604896725578852101059904775698098835653430151676033"
  by (rule powm_sq1 [where k = 195884276446044998018971148572879170541123913305050171031902970208488845979707854530172310969269686023616695577711266439, OF pw_P1_558319083762744625875131593280451492009301263247217_b_150]) (simp_all only: arith_simps rel_simps)

lemma pw_P1_558319083762744625875131593280451492009301263247217_b_152: "(9518045869596203341493856665776622898730638844578809353535072::int) ^ 4259636564351994521142056223147975860666666131 mod 17177841506151983327561938694476422631186404443649683138308841 = 7471149982564805458350570726903234254510540230846570766770343"
  by (rule powm_sq1 [where k = 6026789697066115570607586891718309059021402023878601579121814545371967802894418498886814844482333552801333182617908304465, OF pw_P1_558319083762744625875131593280451492009301263247217_b_151]) (simp_all only: arith_simps rel_simps)

lemma pw_P1_558319083762744625875131593280451492009301263247217_b_153: "(9518045869596203341493856665776622898730638844578809353535072::int) ^ 8519273128703989042284112446295951721333332263 mod 17177841506151983327561938694476422631186404443649683138308841 = 1285494200131703228723682486845562422218592442592385817985332"
  by (rule powm_sq1 [where k = 30928162029468194768240027397693735004695483884734453038484705274028892138417178392014565058362933909068604045861802273356, OF pw_P1_558319083762744625875131593280451492009301263247217_b_152]) (simp_all only: arith_simps rel_simps)

lemma pw_P1_558319083762744625875131593280451492009301263247217_b_154: "(9518045869596203341493856665776622898730638844578809353535072::int) ^ 17038546257407978084568224892591903442666664527 mod 17177841506151983327561938694476422631186404443649683138308841 = 17022864822727522907784623258183256252393995822779694752660141"
  by (rule powm_sq1 [where k = 915628801569255749771569600576651799980591697631439214750710194364156824812126538325295522213424365175613639384686950107, OF pw_P1_558319083762744625875131593280451492009301263247217_b_153]) (simp_all only: arith_simps rel_simps)

lemma pw_P1_558319083762744625875131593280451492009301263247217_b_155: "(9518045869596203341493856665776622898730638844578809353535072::int) ^ 34077092514815956169136449785183806885333329055 mod 17177841506151983327561938694476422631186404443649683138308841 = 14339735452685354982545730313272734835064182996686195772029399"
  by (rule powm_sq1 [where k = 160562641006597757085349268867555409550184638623541336053933650182921967346069660824577572574095527459175174993456657758113, OF pw_P1_558319083762744625875131593280451492009301263247217_b_154]) (simp_all only: arith_simps rel_simps)

lemma pw_P1_558319083762744625875131593280451492009301263247217_b_156: "(9518045869596203341493856665776622898730638844578809353535072::int) ^ 68154185029631912338272899570367613770666658111 mod 17177841506151983327561938694476422631186404443649683138308841 = 16224620702228228740294448447073989998130113269407585941027234"
  by (rule powm_sq1 [where k = 113936134391963651590527053842163165160028908922844938989902260234153708834073769655002750986343812378906599579539558511118, OF pw_P1_558319083762744625875131593280451492009301263247217_b_155]) (simp_all only: arith_simps rel_simps)

lemma pw_P1_558319083762744625875131593280451492009301263247217_b_157: "(9518045869596203341493856665776622898730638844578809353535072::int) ^ 136308370059263824676545799140735227541333316222 mod 17177841506151983327561938694476422631186404443649683138308841 = 7297164305338245317148610050520626389692312733636321908316260"
  by (rule powm_sq0 [where k = 15324295362540049791250917459141236213691575428324864841223456, OF pw_P1_558319083762744625875131593280451492009301263247217_b_156]) (simp_all only: arith_simps rel_simps)

lemma pw_P1_558319083762744625875131593280451492009301263247217_b_158: "(9518045869596203341493856665776622898730638844578809353535072::int) ^ 272616740118527649353091598281470455082666632444 mod 17177841506151983327561938694476422631186404443649683138308841 = 4128295012026277011384354081857735421353743982020767301659325"
  by (rule powm_sq0 [where k = 3099842717726346212756598223195278118508569257413179653517275, OF pw_P1_558319083762744625875131593280451492009301263247217_b_157]) (simp_all only: arith_simps rel_simps)

lemma pw_P1_558319083762744625875131593280451492009301263247217_b_159: "(9518045869596203341493856665776622898730638844578809353535072::int) ^ 545233480237055298706183196562940910165333264889 mod 17177841506151983327561938694476422631186404443649683138308841 = 2955925803645645842654956436223216358420243488174945055378623"
  by (rule powm_sq1 [where k = 9443231831771595774653302604996197286658449595614166948793832677659574415513428002932229629238031990306500217167224731897, OF pw_P1_558319083762744625875131593280451492009301263247217_b_158]) (simp_all only: arith_simps rel_simps)

lemma pw_P1_558319083762744625875131593280451492009301263247217_b_160: "(9518045869596203341493856665776622898730638844578809353535072::int) ^ 1090466960474110597412366393125881820330666529779 mod 17177841506151983327561938694476422631186404443649683138308841 = 336946430847687559425811218799397704524731232847627863418844"
  by (rule powm_sq1 [where k = 4841347534634315306084964517159630736549402570603463609491077125873858728473419997012911359819707494910007633740831782884, OF pw_P1_558319083762744625875131593280451492009301263247217_b_159]) (simp_all only: arith_simps rel_simps)

lemma pw_P1_558319083762744625875131593280451492009301263247217_b_161: "(9518045869596203341493856665776622898730638844578809353535072::int) ^ 2180933920948221194824732786251763640661333059559 mod 17177841506151983327561938694476422631186404443649683138308841 = 16275995811388035478319057987786659882552009563641346556454265"
  by (rule powm_sq1 [where k = 62907282236321933854234639824549617734481750368045522073280209415231219837014846188998512388948217094554929325204990447, OF pw_P1_558319083762744625875131593280451492009301263247217_b_160]) (simp_all only: arith_simps rel_simps)

lemma pw_P1_558319083762744625875131593280451492009301263247217_b_162: "(9518045869596203341493856665776622898730638844578809353535072::int) ^ 4361867841896442389649465572503527281322666119118 mod 17177841506151983327561938694476422631186404443649683138308841 = 9991178203396378787785758487050511825833109861135860004947234"
  by (rule powm_sq0 [where k = 15421497488927702582568932204411098806097974126956477685188151, OF pw_P1_558319083762744625875131593280451492009301263247217_b_161]) (simp_all only: arith_simps rel_simps)

lemma pw_P1_558319083762744625875131593280451492009301263247217_b_163: "(9518045869596203341493856665776622898730638844578809353535072::int) ^ 8723735683792884779298931145007054562645332238237 mod 17177841506151983327561938694476422631186404443649683138308841 = 11994646769751794265370913696676662159513718288599871241387240"
  by (rule powm_sq1 [where k = 55311140346599763499645606328958812749909289979873951836416933119027643678241069853161794019918351417604682884457608657112, OF pw_P1_558319083762744625875131593280451492009301263247217_b_162]) (simp_all only: arith_simps rel_simps)

lemma pw_P1_558319083762744625875131593280451492009301263247217_b_164: "(9518045869596203341493856665776622898730638844578809353535072::int) ^ 17447471367585769558597862290014109125290664476475 mod 17177841506151983327561938694476422631186404443649683138308841 = 8892289420997227520403894770406956831437579063169198638222562"
  by (rule powm_sq1 [where k = 79717583987808208865184218965693364088481427465075260992857845292058924987359295051998330725918497014848663428461726065518, OF pw_P1_558319083762744625875131593280451492009301263247217_b_163]) (simp_all only: arith_simps rel_simps)

lemma pw_P1_558319083762744625875131593280451492009301263247217_b_165: "(9518045869596203341493856665776622898730638844578809353535072::int) ^ 34894942735171539117195724580028218250581328952951 mod 17177841506151983327561938694476422631186404443649683138308841 = 7735305094654079758872993449089921190284088598910785558803755"
  by (rule powm_sq1 [where k = 43813341930266588917183492273657407794988321514231523871124812086299083116230944600590862789594471141953407479326567178893, OF pw_P1_558319083762744625875131593280451492009301263247217_b_164]) (simp_all only: arith_simps rel_simps)

lemma pw_P1_558319083762744625875131593280451492009301263247217_b_166: "(9518045869596203341493856665776622898730638844578809353535072::int) ^ 69789885470343078234391449160056436501162657905902 mod 17177841506151983327561938694476422631186404443649683138308841 = 7986645597519982181160374986270275575977509177759672769580273"
  by (rule powm_sq0 [where k = 3483263300918941653120460036972412112298348388534257103915272, OF pw_P1_558319083762744625875131593280451492009301263247217_b_165]) (simp_all only: arith_simps rel_simps)

lemma pw_P1_558319083762744625875131593280451492009301263247217_b_167: "(9518045869596203341493856665776622898730638844578809353535072::int) ^ 139579770940686156468782898320112873002325315811804 mod 17177841506151983327561938694476422631186404443649683138308841 = 3057224082489288933946026159978390970415319674819688756166873"
  by (rule powm_sq0 [where k = 3713301690293343498119021362206686714815748800638369043158216, OF pw_P1_558319083762744625875131593280451492009301263247217_b_166]) (simp_all only: arith_simps rel_simps)

lemma pw_P1_558319083762744625875131593280451492009301263247217_b_168: "(9518045869596203341493856665776622898730638844578809353535072::int) ^ 279159541881372312937565796640225746004650631623608 mod 17177841506151983327561938694476422631186404443649683138308841 = 6679113235647246121437277532202681010949986090742475066482169"
  by (rule powm_sq0 [where k = 544109053934693990504538272867752479697722971344760888565560, OF pw_P1_558319083762744625875131593280451492009301263247217_b_167]) (simp_all only: arith_simps rel_simps)

lemma pw_P1_558319083762744625875131593280451492009301263247217_b_169: "(9518045869596203341493856665776622898730638844578809353535072::int) ^ 558319083762744625875131593280451492009301263247217 mod 17177841506151983327561938694476422631186404443649683138308841 = 1"
  by (rule powm_sq1 [where k = 24718198466306763545882939421449289346623291808869848186540299759052827011260266087196926183548725197901189689763763692551, OF pw_P1_558319083762744625875131593280451492009301263247217_b_168]) (simp_all only: arith_simps rel_simps)

lemma bz_P1_558319083762744625875131593280451492009301263247217: "(- 2745993660486327898261767284099435013075205846051096470578676) * (9518045869596203341493856665776622898730638844578809353535072 - 1) + 1521523737936973263541567901483721353185128864826899020627717 * 17177841506151983327561938694476422631186404443649683138308841 = (1::int)"
  by simp

lemma pk_P1_558319083762744625875131593280451492009301263247217:
  assumes "prime_int r" "r dvd 17177841506151983327561938694476422631186404443649683138308841"
  shows "558319083762744625875131593280451492009301263247217 dvd r - 1"
proof -
  have "int 558319083762744625875131593280451492009301263247217 dvd r - 1"
    by (rule pock_step [OF _ _ pock_cert1 [OF pw_P1_558319083762744625875131593280451492009301263247217_a_35 pw_P1_558319083762744625875131593280451492009301263247217_b_169] pock_cert2 [OF pw_P1_558319083762744625875131593280451492009301263247217_a_35 bz_P1_558319083762744625875131593280451492009301263247217] assms])
      (simp_all add: prime_558319083762744625875131593280451492009301263247217)
  then show ?thesis by simp
qed

lemma prime_17177841506151983327561938694476422631186404443649683138308841: "prime_int 17177841506151983327561938694476422631186404443649683138308841"
  by (rule pock_prime [where F = 558319083762744625875131593280451492009301263247217, OF _ _ _ pk_P1_558319083762744625875131593280451492009301263247217]) simp_all

lemma pw_q_7: "(2::int) ^ 95 mod modq = 39614081257132168796771975168"
  by (simp add: modq_def)

lemma pw_q_8: "(2::int) ^ 191 mod modq = 3138550867693340381917894711603833208051177722232017256448"
  by (rule pow_sq1 [where k = 0, OF pw_q_7]) (simp_all only: arith_simps rel_simps)

lemma pw_q_9: "(2::int) ^ 383 mod modq = 6346606425442423282055399803209908911865856"
  by (rule pow_sq1 [where k = 340282366920938463463374607431768211456, OF pw_q_8]) (simp_all only: arith_simps rel_simps)

lemma pw_q_10: "(2::int) ^ 766 mod modq = 12975866296902"
  by (rule pow_sq0 [where k = 695719602, OF pw_q_9]) (simp_all only: arith_simps rel_simps)

lemma pw_q_11: "(2::int) ^ 1532 mod modq = 168373106155077222414797604"
  by (rule pow_sq0 [where k = 0, OF pw_q_10]) (simp_all only: arith_simps rel_simps)

lemma pw_q_12: "(2::int) ^ 3065 mod modq = 56699005752617806479427061611129304826418456568281632"
  by (rule pow_sq1 [where k = 0, OF pw_q_11]) (simp_all only: arith_simps rel_simps)

lemma pw_q_13: "(2::int) ^ 6130 mod modq = 41526832882755126414103396594153685531676528860050239856759245300420479357354"
  by (rule pow_sq0 [where k = 55526716453775914953550023710, OF pw_q_12]) (simp_all only: arith_simps rel_simps)

lemma pw_q_14: "(2::int) ^ 12261 mod modq = 41531185887660486456554501763150661613583707933503382623312502865399122970220"
  by (rule pow_sq1 [where k = 59571525503368386271075146078444952267921827532920218951757328363831300085036, OF pw_q_13]) (simp_all only: arith_simps rel_simps)

lemma pw_q_15: "(2::int) ^ 24522 mod modq = 10672849367312256229353284714268809618541794710480657837641282284576191720406"
  by (rule pow_sq0 [where k = 29792007599074347810656361723892176403334214069916998016285277855999827260082, OF pw_q_14]) (simp_all only: arith_simps rel_simps)

lemma pw_q_16: "(2::int) ^ 49045 mod modq = 55511805984797891174974816484447053899643131701371973833947334031000986430799"
  by (rule pow_sq1 [where k = 3934973947447458746993056194951384230991878592170988429788490464247274864069, OF pw_q_15]) (simp_all only: arith_simps rel_simps)

lemma pw_q_17: "(2::int) ^ 98091 mod modq = 50397742608431399216712589891930019028248335345235269065237955364998378798700"
  by (rule pow_sq1 [where k = 106451507144954481312564006865178890863593320960817441126059633778951603480606, OF pw_q_16]) (simp_all only: arith_simps rel_simps)

lemma pw_q_18: "(2::int) ^ 196182 mod modq = 27810540344924513805603542742061864520267524906094281155732443535971607688530"
  by (rule pow_sq0 [where k = 43870569686675285571215892757042100427420972055558146229175109452994416359910, OF pw_q_17]) (simp_all only: arith_simps rel_simps)

lemma pw_q_19: "(2::int) ^ 392365 mod modq = 31972593090863764107499522368842478392953585914600674709648892460303613753873"
  by (rule pow_sq1 [where k = 26717754533007350141405821302085015233036654265369946814611714588681998196331, OF pw_q_18]) (simp_all only: arith_simps rel_simps)

lemma pw_q_20: "(2::int) ^ 784730 mod modq = 11959223772952769726200314056127693361144286548869668879574267784684072772714"
  by (rule pow_sq0 [where k = 17656589766833759272803732675903094942486905418906075631028511762064528301995, OF pw_q_19]) (simp_all only: arith_simps rel_simps)

lemma pw_q_21: "(2::int) ^ 1569460 mod modq = 30997020795306044633089006999624644878024738946491821144003241943712562210213"
  by (rule pow_sq0 [where k = 2470342044842676479635270071624097065143654282051475860227645626995520535699, OF pw_q_20]) (simp_all only: arith_simps rel_simps)

lemma pw_q_22: "(2::int) ^ 3138921 mod modq = 50158821907636039066063568573710755055569630741818573974761166161253692811733"
  by (rule pow_sq1 [where k = 33191051461743361827939302114641091615289849204512807664055749302755116050265, OF pw_q_21]) (simp_all only: arith_simps rel_simps)

lemma pw_q_23: "(2::int) ^ 6277842 mod modq = 29023702964362322538018987516249944087142864373622167465884194316976090952568"
  by (rule pow_sq0 [where k = 43455601012701137226069091664351517047810498703808191203276345059035350120813, OF pw_q_22]) (simp_all only: arith_simps rel_simps)

lemma pw_q_24: "(2::int) ^ 12555685 mod modq = 47743175074001356066625078948015538559631883787552858181536567717867290986434"
  by (rule pow_sq1 [where k = 29099581476143289120666815137115284257706777280521799464469471723590982717542, OF pw_q_23]) (simp_all only: arith_simps rel_simps)

lemma pw_q_25: "(2::int) ^ 25111370 mod modq = 37150579795821068298696809046855259902080852785252958440968072594966584513049"
  by (rule pow_sq0 [where k = 39370751165480501047849796601828246195340954913050952059742684827712125259471, OF pw_q_24]) (simp_all only: arith_simps rel_simps)

lemma pw_q_26: "(2::int) ^ 50222741 mod modq = 25743213293964198351652459114439146450529084893761644848118802764646126650638"
  by (rule pow_sq1 [where k = 47677370302457036999357428739053832848767406149727764046948620174568480193092, OF pw_q_25]) (simp_all only: arith_simps rel_simps)

lemma pw_q_27: "(2::int) ^ 100445482 mod modq = 53446681658363418443197384286918108156788544879154436327532998832939077738757"
  by (rule pow_sq0 [where k = 11446602873540055215000150096818382905372960321903431930164131441245196731411, OF pw_q_26]) (simp_all only: arith_simps rel_simps)

lemma pw_q_28: "(2::int) ^ 200890965 mod modq = 30273847132082921024876515630845740805620725893644617028087293236100632665985"
  by (rule pow_sq1 [where k = 98678512465076551527841149879036992053289899899261270628104171272877644965789, OF pw_q_27]) (simp_all only: arith_simps rel_simps)

lemma pw_q_29: "(2::int) ^ 401781931 mod modq = 18910530059884759217211887829144504971687302858889967913785084242905332115015"
  by (rule pow_sq1 [where k = 31660394979085114589314837114091123397094533594274213904405380173776232009055, OF pw_q_28]) (simp_all only: arith_simps rel_simps)

lemma pw_q_30: "(2::int) ^ 803563863 mod modq = 12030924546317303784338641627755612506510878805201612589210805725443499617017"
  by (rule pow_sq1 [where k = 12353456941704755826361829641354739755570061890839830090157129616000576341749, OF pw_q_29]) (simp_all only: arith_simps rel_simps)

lemma pw_q_31: "(2::int) ^ 1607127727 mod modq = 24211727566874898529929572560039525316110607444764585040137817943407976086912"
  by (rule pow_sq1 [where k = 5000104804829240437691024604542357952773820177376879518591201246852479411898, OF pw_q_30]) (simp_all only: arith_simps rel_simps)

lemma pw_q_32: "(2::int) ^ 3214255455 mod modq = 56862191489084840978686852186499747242197999006067071296197439680658016870255"
  by (rule pow_sq1 [where k = 20250355810443511208744087463261664702359050649588980298846571622369680625149, OF pw_q_31]) (simp_all only: arith_simps rel_simps)

lemma pw_q_33: "(2::int) ^ 6428510910 mod modq = 17297768730827543062817187221872197495452723166063382820283980054067349357189"
  by (rule pow_sq0 [where k = 55846799936646405633122208539974617574899929794907975998782843469405212236908, OF pw_q_32]) (simp_all only: arith_simps rel_simps)

lemma pw_q_34: "(2::int) ^ 12857021821 mod modq = 36856975148810656828620394927642215098446035688062644478684422777343878067616"
  by (rule pow_sq1 [where k = 10336208804453218657658942424394546476136148699049679241272450678027825694378, OF pw_q_33]) (simp_all only: arith_simps rel_simps)

lemma pw_q_35: "(2::int) ^ 25714043643 mod modq = 33677143232162206636182144632305960838979281705244526579628643859049972570873"
  by (rule pow_sq1 [where k = 46926750387444063564368071470470779104104547246926178874351836198177512833467, OF pw_q_34]) (simp_all only: arith_simps rel_simps)

lemma pw_q_36: "(2::int) ^ 51428087287 mod modq = 42422266942438896466815617248947724051648307825233526433297633446765608758758"
  by (rule pow_sq1 [where k = 39178841447626886486183665684514877785564520276244919255548967483087615191500, OF pw_q_35]) (simp_all only: arith_simps rel_simps)

lemma pw_q_37: "(2::int) ^ 102856174574 mod modq = 56440454292859848064115022910123606073097319316466777542154104582291527131761"
  by (rule pow_sq0 [where k = 31084139588278075283050098932778681647483772935797780896933431844277096394359, OF pw_q_36]) (simp_all only: arith_simps rel_simps)

lemma pw_q_38: "(2::int) ^ 205712349149 mod modq = 10226498150822645525936498195833038336464890061096982706496322376370198845239"
  by (rule pow_sq1 [where k = 110042919227604915941592703605741531042361552563768279916709676017163578942959, OF pw_q_37]) (simp_all only: arith_simps rel_simps)

lemma pw_q_39: "(2::int) ^ 411424698299 mod modq = 49759453671041090744940403418280040776292797111965815961561113322301253864471"
  by (rule pow_sq1 [where k = 3612725709247353099985665259398921128265810794983892284528427941658256180463, OF pw_q_38]) (simp_all only: arith_simps rel_simps)

lemma pw_q_40: "(2::int) ^ 822849396599 mod modq = 11070567582238278800357238366950282901308839061397717288950327568766801027580"
  by (rule pow_sq1 [where k = 85532724936533771862155160073253580069234562515152853890063500418506320882606, OF pw_q_39]) (simp_all only: arith_simps rel_simps)

lemma pw_q_41: "(2::int) ^ 1645698793199 mod modq = 2408122181037643017176637683103124123330448688592083091280378856075569372009"
  by (rule pow_sq1 [where k = 4233707756726739268312859172544083874285418442526280323191073102566636356523, OF pw_q_40]) (simp_all only: arith_simps rel_simps)

lemma pw_q_42: "(2::int) ^ 3291397586399 mod modq = 35407819336951522968346356063202894693151780310225609912195470951044867468804"
  by (rule pow_sq1 [where k = 200326377285423058743026903748597053402444363590265301507365443251712712774, OF pw_q_41]) (simp_all only: arith_simps rel_simps)

lemma pw_q_43: "(2::int) ^ 6582795172799 mod modq = 56441616768713700942762157716374632388577250592605691765149055333377722011175"
  by (rule pow_sq1 [where k = 43309130302630905293725752242438200669144481005846078635998641456878272926021, OF pw_q_42]) (simp_all only: arith_simps rel_simps)

lemma pw_q_44: "(2::int) ^ 13165590345599 mod modq = 42842275600842100149645267799322779202929598430564184505035748659713581204827"
  by (rule pow_sq1 [where k = 110047452272402926030128879363174869893458284931069473526877071643497185404219, OF pw_q_43]) (simp_all only: arith_simps rel_simps)

lemma pw_q_45: "(2::int) ^ 26331180691199 mod modq = 40439860656444392718021479946309920969154999369651203536125885152322447045742"
  by (rule pow_sq1 [where k = 63405387734104321644461178085242515516764138696021119707509659855852543157748, OF pw_q_44]) (simp_all only: arith_simps rel_simps)

lemma pw_q_46: "(2::int) ^ 52662361382398 mod modq = 51608707104555587003431255561743880261429201736139651618487545948878974061616"
  by (rule pow_sq0 [where k = 28246874906297245692473114046288381811335011035301519248549173449564022183044, OF pw_q_45]) (simp_all only: arith_simps rel_simps)

lemma pw_q_47: "(2::int) ^ 105324722764796 mod modq = 55319251487062233953397523659948062009844032619852010705067477483743801181385"
  by (rule pow_sq0 [where k = 46004155664642007152574520829308233786422629949322062392120536023587968216363, OF pw_q_46]) (simp_all only: arith_simps rel_simps)

lemma pw_q_48: "(2::int) ^ 210649445529592 mod modq = 42041986082304718635554859495578089545737192296179340478353796948228217169637"
  by (rule pow_sq0 [where k = 52857144304856767700519146305410089917592082227829098959393331796373505987964, OF pw_q_47]) (simp_all only: arith_simps rel_simps)

lemma pw_q_49: "(2::int) ^ 421298891059184 mod modq = 18467427652228875541393581820635209653530454792423948521100650233778139194593"
  by (rule pow_sq0 [where k = 30529349723056626113347263536362379199618970069953309504028135960884711435928, OF pw_q_48]) (simp_all only: arith_simps rel_simps)

lemma pw_q_50: "(2::int) ^ 842597782118369 mod modq = 36503140995887328519407439898179465291033748666565576569828245772961450525987"
  by (rule pow_sq1 [where k = 11781318960100400984644012321172910433934636414696770112477733534173948908083, OF pw_q_49]) (simp_all only: arith_simps rel_simps)

lemma pw_q_51: "(2::int) ^ 1685195564236738 mod modq = 4627508472901002013822020098408343305901419882999476676393509556985332236751"
  by (rule pow_sq0 [where k = 23015031706262942800692137861272734364199170265384021750492264616022509043954, OF pw_q_50]) (simp_all only: arith_simps rel_simps)

lemma pw_q_52: "(2::int) ^ 3370391128473476 mod modq = 43443993871598904088302054026690547509051720062620931988214966238146841164976"
  by (rule pow_sq0 [where k = 369866971186310534252911494628053006256627748867372267012120722661138279325, OF pw_q_51]) (simp_all only: arith_simps rel_simps)

lemma bz_q: "9322256011592694373428060177499684197202287756411973364751013848134299819682 * (43443993871598904088302054026690547509051720062620931988214966238146841164976 - 1) + (- 6995228010906144161727766563858239032416232410581683298046178885160230560697) * modq = (1::int)"
  by (simp add: modq_def)

lemma two_pow_q1: "(2::int) ^ (17177841506151983327561938694476422631186404443649683138308841 * 3370391128473476) mod modq = 1"
proof -
  have e: "(17177841506151983327561938694476422631186404443649683138308841 * 3370391128473476 :: nat) = 28948022309329048855892746252171976963317496166410141009864396001978282400658 + 28948022309329048855892746252171976963317496166410141009864396001978282400658"
    by simp
  have "(2::int) ^ (28948022309329048855892746252171976963317496166410141009864396001978282400658 + 28948022309329048855892746252171976963317496166410141009864396001978282400658) = 2 ^ 28948022309329048855892746252171976963317496166410141009864396001978282400658 * 2 ^ 28948022309329048855892746252171976963317496166410141009864396001978282400658"
    by (simp only: power_add)
  then have "(2::int) ^ (17177841506151983327561938694476422631186404443649683138308841 * 3370391128473476) mod modq = (2 ^ 28948022309329048855892746252171976963317496166410141009864396001978282400658 * 2 ^ 28948022309329048855892746252171976963317496166410141009864396001978282400658) mod modq"
    by (simp only: e)
  also have "\<dots> = ((2 ^ 28948022309329048855892746252171976963317496166410141009864396001978282400658 mod modq) * (2 ^ 28948022309329048855892746252171976963317496166410141009864396001978282400658 mod modq)) mod modq"
    by (simp only: mod_mult_eq)
  also have "\<dots> = (57896044618658097711785492504343953926634992332820282019728792003956564801316 * 57896044618658097711785492504343953926634992332820282019728792003956564801316) mod modq"
    by (simp only: two_pow_254)
  also have "\<dots> = 1"
    by (rule int_mod_unique [where k = 57896044618658097711785492504343953926634992332820282019728792003956564801315]) (simp_all add: modq_def)
  finally show ?thesis .
qed

lemma pk_q:
  assumes "prime_int r" "r dvd modq"
  shows "17177841506151983327561938694476422631186404443649683138308841 dvd r - 1"
proof -
  have "int 17177841506151983327561938694476422631186404443649683138308841 dvd r - 1"
    by (rule pock_step [OF _ _ two_pow_q1 pock_cert2 [OF pw_q_52 bz_q] assms])
      (simp_all add: prime_17177841506151983327561938694476422631186404443649683138308841 modq_def)
  then show ?thesis by simp
qed

lemma prime_modq: "prime_int modq"
  by (rule pock_prime [where F = 17177841506151983327561938694476422631186404443649683138308841, OF _ _ _ pk_q]) (simp_all add: modq_def)

lemma fermat_modq: "\<not> modq dvd y \<Longrightarrow> y ^ nat (modq - 1) mod modq = 1"
  using prime_modq by (rule fermat_little)


subsection \<open>C9: square roots\<close>

text \<open>The number 2 is not a square modulo \<open>q\<close>.\<close>

lemma two_nonsquare: "\<not> (\<exists>y::int. (y * y) mod modq = 2)"
proof
  assume "\<exists>y::int. (y * y) mod modq = 2"
  then obtain y :: int where y: "(y * y) mod modq = 2" by (rule exE)
  have "(2::int) mod modq = 2" by (simp add: modq_def)
  then have sq: "(y * y) mod modq = 2 mod modq" using y by simp
  have "(2::int) < modq" by (simp add: modq_def)
  then have nz: "\<not> modq dvd 2" by (intro zdvd_not_zless) simp_all
  have e: "(2::int) ^ 28948022309329048855892746252171976963317496166410141009864396001978282400658 mod modq = 1"
    using fermat_modq sq nz by (rule euler_square_aux)
  have "(57896044618658097711785492504343953926634992332820282019728792003956564801316::int) = 1"
    using e by (simp only: two_pow_254)
  then show False by simp
qed

text \<open>
  C9: for every 8-limb input \<open>a\<close>, if the field element of \<open>a\<close> is a square then \<^verbatim>\<open>gf_sqrt\<close>
  returns the all-ones mask and a partially reduced \<open>d\<close> with \<open>d * d = a\<close> in the field and
  \<^verbatim>\<open>gf_is_negative\<close> of \<open>d\<close> equal to 0; and if it is not a square then \<^verbatim>\<open>gf_sqrt\<close> returns the
  mask 0 and \<open>d = 0\<close>.
\<close>

theorem gf_sqrt_decides:
  assumes "length a = 8"
  shows "(gf_is_square a \<longrightarrow>
            fst (gf_sqrt a) = 0xFFFFFFFF \<and> gf_pr (snd (gf_sqrt a))
            \<and> (limbs_val (snd (gf_sqrt a)) * limbs_val (snd (gf_sqrt a))) mod modq = limbs_val a mod modq
            \<and> gf_is_negative (snd (gf_sqrt a)) = 0)
       \<and> (\<not> gf_is_square a \<longrightarrow> fst (gf_sqrt a) = 0 \<and> snd (gf_sqrt a) = gf_zero)"
proof -
  note s = gf_sqrt_sound [OF assms]
  have p: "fst (gf_sqrt a) = 0xFFFFFFFF \<and> gf_pr (snd (gf_sqrt a))
        \<and> (limbs_val (snd (gf_sqrt a)) * limbs_val (snd (gf_sqrt a))) mod modq = limbs_val a mod modq
        \<and> gf_is_negative (snd (gf_sqrt a)) = 0" if "gf_is_square a"
  proof -
    from that obtain y :: int where "(y * y) mod modq = limbs_val a mod modq"
      unfolding gf_is_square_def gfval_def by (rule exE)
    with fermat_modq two_pow_254 assms have "fst (gf_sqrt a) = - 1" by (rule gf_sqrt_square_aux)
    then have "fst (gf_sqrt a) \<noteq> 0" by simp
    with s show ?thesis by blast
  qed
  have n: "fst (gf_sqrt a) = 0 \<and> snd (gf_sqrt a) = gf_zero" if "\<not> gf_is_square a"
  proof -
    have "\<not> ((limbs_val (snd (gf_sqrt a)) * limbs_val (snd (gf_sqrt a))) mod modq = limbs_val a mod modq)"
    proof
      assume "(limbs_val (snd (gf_sqrt a)) * limbs_val (snd (gf_sqrt a))) mod modq = limbs_val a mod modq"
      then have "\<exists>y::int. (y * y) mod modq = gfval a" unfolding gfval_def by (rule exI)
      then have "gf_is_square a" by (simp only: gf_is_square_def)
      then show False using that by (rule notE [rotated])
    qed
    with s show ?thesis by blast
  qed
  from p n show ?thesis by blast
qed

theorem gf_sqrt_decides_witness:
  "length gf_one = 8 \<and> gf_is_square gf_one
   \<and> fst (gf_sqrt gf_one) = 0xFFFFFFFF \<and> gf_is_negative (snd (gf_sqrt gf_one)) = 0
   \<and> (limbs_val (snd (gf_sqrt gf_one)) * limbs_val (snd (gf_sqrt gf_one))) mod modq = 1
   \<and> length [2, 0, 0, 0, 0, 0, 0, 0 :: u32] = 8 \<and> \<not> gf_is_square [2, 0, 0, 0, 0, 0, 0, 0]
   \<and> fst (gf_sqrt [2, 0, 0, 0, 0, 0, 0, 0]) = 0 \<and> snd (gf_sqrt [2, 0, 0, 0, 0, 0, 0, 0]) = gf_zero"
proof -
  have "(1 * 1) mod modq = (1::int)" by (simp add: modq_def)
  then have "\<exists>y::int. (y * y) mod modq = 1" by (rule exI)
  then have s1: "gf_is_square gf_one" by (simp add: gf_is_square_def gfval_one)
  have "gfval [2, 0, 0, 0, 0, 0, 0, 0] = 2" by (simp add: gfval_def modq_def)
  then have s2: "\<not> gf_is_square [2, 0, 0, 0, 0, 0, 0, 0]" using two_nonsquare by (simp add: gf_is_square_def)
  have m1: "limbs_val gf_one mod modq = 1" by (simp add: modq_def)
  have a: "fst (gf_sqrt gf_one) = 0xFFFFFFFF \<and> gf_pr (snd (gf_sqrt gf_one))
        \<and> (limbs_val (snd (gf_sqrt gf_one)) * limbs_val (snd (gf_sqrt gf_one))) mod modq = limbs_val gf_one mod modq
        \<and> gf_is_negative (snd (gf_sqrt gf_one)) = 0"
    using gf_sqrt_decides [of gf_one] s1 by simp
  have b: "fst (gf_sqrt [2, 0, 0, 0, 0, 0, 0, 0]) = 0 \<and> snd (gf_sqrt [2, 0, 0, 0, 0, 0, 0, 0]) = gf_zero"
    using gf_sqrt_decides [of "[2, 0, 0, 0, 0, 0, 0, 0]"] s2 by simp
  show ?thesis using a b s1 s2 unfolding m1 by simp
qed


end
